(* ===== verification/Prelude.thy ===== *)
theory Prelude
  imports Main "HOL-Library.Sublist" "HOL-Library.List_Lexorder" "HOL-Library.Char_ord"
    "HOL-Library.Multiset"
begin

text \<open>
  Shared vocabulary of the development: the byte view of Go strings, results of fallible
  calls, first-match search in a list, association lists as ordered maps, and the theorem
  collections the component theories fill and use.

  A Go string (or byte slice) is a \<^typ>\<open>string\<close>: a list of \<^typ>\<open>char\<close>, and a
  \<^typ>\<open>char\<close> is one byte.
\<close>

named_theorems go_defs \<open>definitions of Go library functions, unfolded together\<close>
named_theorems handler_defs \<open>definitions of request handlers\<close>
named_theorems rt_simps \<open>round-trip equations of encoders and decoders\<close>
named_theorems reconcile_defs \<open>definitions of reconcile steps\<close>

section \<open>Bytes\<close>

definition byte :: "char \<Rightarrow> nat" where
  "byte c = of_char c"

lemma byte_lt_256 [simp]: "byte c < 256"
  by (simp add: byte_def)

lemma char_of_byte [simp]: "char_of (byte c) = c"
  by (simp add: byte_def)

lemma byte_char_of [simp]: "n < 256 \<Longrightarrow> byte (char_of n) = n"
  by (simp add: byte_def)

lemma byte_inject [simp]: "byte c = byte d \<longleftrightarrow> c = d"
  by (metis char_of_byte)

definition NL :: char where "NL = char_of (10 :: nat)"
definition CR :: char where "CR = char_of (13 :: nat)"
definition TAB :: char where "TAB = char_of (9 :: nat)"
definition NUL :: char where "NUL = char_of (0 :: nat)"
definition BACKSLASH :: char where "BACKSLASH = char_of (92 :: nat)"

lemma byte_specials [simp]:
  "byte NL = 10" "byte CR = 13" "byte TAB = 9" "byte NUL = 0" "byte BACKSLASH = 92"
  by (simp_all add: NL_def CR_def TAB_def NUL_def BACKSLASH_def)

section \<open>Results\<close>

text \<open>A fallible call returns \<open>Inl\<close> of its error or \<open>Inr\<close> of its value.\<close>

type_synonym ('e, 'a) result = "'e + 'a"

fun bind_result :: "('e, 'a) result \<Rightarrow> ('a \<Rightarrow> ('e, 'b) result) \<Rightarrow> ('e, 'b) result" where
  "bind_result (Inl e) f = Inl e"
| "bind_result (Inr x) f = f x"

lemma bind_result_Inr_iff [simp]:
  "bind_result m f = Inr y \<longleftrightarrow> (\<exists>x. m = Inr x \<and> f x = Inr y)"
  by (cases m) auto

text \<open>Stateful steps in sequence; an error ends the sequence.\<close>

definition and_then ::
  "('s \<Rightarrow> ('e, 'a) result \<times> 's) \<Rightarrow> ('a \<Rightarrow> 's \<Rightarrow> ('e, 'b) result \<times> 's) \<Rightarrow> 's \<Rightarrow> ('e, 'b) result \<times> 's" where
  "and_then f g s = (case f s of (Inl e, s') \<Rightarrow> (Inl e, s') | (Inr x, s') \<Rightarrow> g x s')"

lemma and_then_Inr:
  assumes "and_then f g s = (Inr y, s')"
  obtains x s1 where "f s = (Inr x, s1)" "g x s1 = (Inr y, s')"
  using assms by (auto simp: and_then_def split: prod.splits sum.splits)

section \<open>First match\<close>

lemma find_Some_split:
  assumes "find P xs = Some x"
  obtains ys zs where "xs = ys @ x # zs" "P x" "\<forall>y\<in>set ys. \<not> P y"
proof -
  have "\<exists>ys zs. xs = ys @ x # zs \<and> P x \<and> (\<forall>y\<in>set ys. \<not> P y)"
    using assms
  proof (induction xs)
    case Nil
    then show ?case by simp
  next
    case (Cons a xs)
    show ?case
    proof (cases "P a")
      case True
      with Cons.prems show ?thesis by fastforce
    next
      case False
      with Cons.prems Cons.IH obtain ys zs
        where "xs = ys @ x # zs" "P x" "\<forall>y\<in>set ys. \<not> P y" by auto
      with False have "a # xs = (a # ys) @ x # zs \<and> P x \<and> (\<forall>y\<in>set (a # ys). \<not> P y)" by simp
      then show ?thesis by blast
    qed
  qed
  with that show thesis by blast
qed

lemma find_first_of_sorted:
  assumes "sorted_wrt (\<lambda>x y. f y \<le> f x) xs" "find P xs = Some x" "y \<in> set xs" "P y"
  shows "f y \<le> (f x :: nat)"
  using assms(2)
  by (rule find_Some_split) (use assms in \<open>auto simp: sorted_wrt_append\<close>)

section \<open>Lists\<close>

lemma distinct_map_filter_inj:
  "distinct (map f xs) \<Longrightarrow> distinct (map f (filter P xs))"
  by (induction xs) auto

lemma not_in_image_iff: "x \<notin> f ` A \<longleftrightarrow> (\<forall>a\<in>A. f a \<noteq> x)"
  by auto

lemma map_of_distinct_mem:
  "distinct (map fst xs) \<Longrightarrow> (k, v) \<in> set xs \<Longrightarrow> map_of xs k = Some v"
  by simp

lemma takeWhile_dropWhile_split:
  "c \<notin> set xs \<Longrightarrow> takeWhile (\<lambda>x. x \<noteq> c) (xs @ c # ys) = xs \<and> dropWhile (\<lambda>x. x \<noteq> c) (xs @ c # ys) = c # ys"
  by (induction xs) auto

end
