(* ===== verification/Go_Strings.thy ===== *)
theory Go_Strings
  imports Prelude
begin

text \<open>
  The functions of Go's \<open>strings\<close>, \<open>unicode/utf8\<close>, \<open>strconv\<close>, \<open>encoding/hex\<close>
  and \<open>encoding/base64\<close> packages that the program calls, on byte strings.

  Unicode case mapping beyond ASCII is table data of the \<open>unicode\<close> package; it is the
  argument \<open>lo\<close> of \<open>ToLower\<close> (the value of \<open>unicode.ToLower\<close> on code points from
  128 up). Everything else is written out.
\<close>

section \<open>Bytewise string functions\<close>

definition HasPrefix :: "string \<Rightarrow> string \<Rightarrow> bool" where
  "HasPrefix s p = prefix p s"

definition HasSuffix :: "string \<Rightarrow> string \<Rightarrow> bool" where
  "HasSuffix s p = suffix p s"

definition Contains :: "string \<Rightarrow> string \<Rightarrow> bool" where
  "Contains s sub = (\<exists>i\<in>set [0..<Suc (length s)]. prefix sub (drop i s))"

text \<open>\<open>strings.Cut\<close> with a one-byte separator: the text before, the text after, found.\<close>

definition Cut :: "string \<Rightarrow> char \<Rightarrow> string \<times> string \<times> bool" where
  "Cut s c = (takeWhile (\<lambda>x. x \<noteq> c) s, drop 1 (dropWhile (\<lambda>x. x \<noteq> c) s), c \<in> set s)"

definition CutPrefix :: "string \<Rightarrow> string \<Rightarrow> string option" where
  "CutPrefix s p = (if prefix p s then Some (drop (length p) s) else None)"

definition TrimPrefix :: "string \<Rightarrow> string \<Rightarrow> string" where
  "TrimPrefix s p = (if prefix p s then drop (length p) s else s)"

definition TrimSuffix :: "string \<Rightarrow> string \<Rightarrow> string" where
  "TrimSuffix s p = (if suffix p s then take (length s - length p) s else s)"

text \<open>\<open>strings.Split\<close> and \<open>strings.ReplaceAll\<close> with a one-byte separator.\<close>

fun Split :: "string \<Rightarrow> char \<Rightarrow> string list" where
  "Split [] c = [[]]"
| "Split (x # xs) c =
     (if x = c then [] # Split xs c
      else case Split xs c of [] \<Rightarrow> [[x]] | w # ws \<Rightarrow> (x # w) # ws)"

definition ReplaceAll :: "string \<Rightarrow> char \<Rightarrow> string \<Rightarrow> string" where
  "ReplaceAll s c r = concat (map (\<lambda>x. if x = c then r else [x]) s)"

fun Join :: "string list \<Rightarrow> string \<Rightarrow> string" where
  "Join [] sep = []"
| "Join [x] sep = x"
| "Join (x # y # ys) sep = x @ sep @ Join (y # ys) sep"

text \<open>\<open>strings.LastIndex\<close>: the position of the last occurrence, if any.\<close>

definition LastIndex :: "string \<Rightarrow> string \<Rightarrow> nat option" where
  "LastIndex s sub = find (\<lambda>i. prefix sub (drop i s)) (rev [0..<Suc (length s)])"

lemma Split_not_Nil [simp]: "Split s c \<noteq> []"
  by (cases s) (auto split: list.splits)

lemma Split_append: "c \<notin> set a \<Longrightarrow> Split (a @ c # b) c = a # Split b c"
  by (induction a) auto

lemma Split_absent: "c \<notin> set a \<Longrightarrow> Split a c = [a]"
  by (induction a) auto

lemma HasPrefix_append [simp]: "HasPrefix (p @ s) p"
  by (simp add: HasPrefix_def)

lemma CutPrefix_append [simp]: "CutPrefix (p @ s) p = Some s"
  by (simp add: CutPrefix_def)

lemma Cut_append: "c \<notin> set a \<Longrightarrow> Cut (a @ c # b) c = (a, b, True)"
  by (simp add: Cut_def takeWhile_dropWhile_split)

lemma Cut_absent: "c \<notin> set a \<Longrightarrow> Cut a c = (a, [], False)"
  by (induction a) (auto simp: Cut_def)

section \<open>Runes\<close>

text \<open>
  \<open>utf8.DecodeRuneInString\<close>: the code point at the head of a non-empty string and its
  width in bytes. An invalid encoding yields \<open>RuneError\<close> with width one.
\<close>

definition RuneError :: nat where "RuneError = 0xFFFD"

definition in_range :: "nat \<Rightarrow> nat \<Rightarrow> char \<Rightarrow> bool" where
  "in_range l h c = (l \<le> byte c \<and> byte c \<le> h)"

text \<open>The accepted range of the second byte of a sequence, by its first byte.\<close>

definition second_range :: "nat \<Rightarrow> nat \<times> nat" where
  "second_range b =
     (if b = 0xE0 then (0xA0, 0xBF) else if b = 0xED then (0x80, 0x9F)
      else if b = 0xF0 then (0x90, 0xBF) else if b = 0xF4 then (0x80, 0x8F) else (0x80, 0xBF))"

definition DecodeRune :: "char \<Rightarrow> string \<Rightarrow> nat \<times> nat" where
  "DecodeRune c cs =
     (let b = byte c; (l, h) = second_range b in
      if b < 0x80 then (b, 1)
      else if b < 0xC2 \<or> b > 0xF4 then (RuneError, 1)
      else case cs of
        [] \<Rightarrow> (RuneError, 1)
      | c1 # cs1 \<Rightarrow>
          if \<not> in_range l h c1 then (RuneError, 1)
          else if b < 0xE0 then ((b - 0xC0) * 64 + (byte c1 - 0x80), 2)
          else case cs1 of
            [] \<Rightarrow> (RuneError, 1)
          | c2 # cs2 \<Rightarrow>
              if \<not> in_range 0x80 0xBF c2 then (RuneError, 1)
              else if b < 0xF0
              then ((b - 0xE0) * 4096 + (byte c1 - 0x80) * 64 + (byte c2 - 0x80), 3)
              else case cs2 of
                [] \<Rightarrow> (RuneError, 1)
              | c3 # _ \<Rightarrow>
                  if \<not> in_range 0x80 0xBF c3 then (RuneError, 1)
                  else ((b - 0xF0) * 262144 + (byte c1 - 0x80) * 4096
                         + (byte c2 - 0x80) * 64 + (byte c3 - 0x80), 4))"

text \<open>
  A string as the sequence of runes a \<open>range\<close> loop visits, each with the bytes it was
  decoded from.
\<close>

function runes :: "string \<Rightarrow> (nat \<times> string) list" where
  "runes [] = []"
| "runes (c # cs) =
     (let (r, w) = DecodeRune c cs in (r, c # take (w - 1) cs) # runes (drop (w - 1) cs))"
  by pat_completeness auto
termination
  by (relation "measure length") auto

definition EncodeRune :: "nat \<Rightarrow> string" where
  "EncodeRune r =
     (if r < 0x80 then [char_of r]
      else if r < 0x800 then [char_of (0xC0 + r div 64), char_of (0x80 + r mod 64)]
      else if r > 0x10FFFF \<or> (0xD800 \<le> r \<and> r \<le> 0xDFFF)
      then [char_of (0xEF :: nat), char_of (0xBF :: nat), char_of (0xBD :: nat)]
      else if r < 0x10000
      then [char_of (0xE0 + r div 4096), char_of (0x80 + (r div 64) mod 64), char_of (0x80 + r mod 64)]
      else [char_of (0xF0 + r div 262144), char_of (0x80 + (r div 4096) mod 64),
            char_of (0x80 + (r div 64) mod 64), char_of (0x80 + r mod 64)])"

definition RuneCountInString :: "string \<Rightarrow> nat" where
  "RuneCountInString s = length (runes s)"

text \<open>The conversions \<open>[]rune(s)\<close> and \<open>string(runes)\<close>.\<close>

definition to_runes :: "string \<Rightarrow> nat list" where
  "to_runes s = map fst (runes s)"

definition of_runes :: "nat list \<Rightarrow> string" where
  "of_runes rs = concat (map EncodeRune rs)"

definition ContainsFunc :: "string \<Rightarrow> (nat \<Rightarrow> bool) \<Rightarrow> bool" where
  "ContainsFunc s f = list_ex f (to_runes s)"

text \<open>\<open>unicode.IsSpace\<close>.\<close>

definition IsSpace :: "nat \<Rightarrow> bool" where
  "IsSpace r = (r \<in> {9, 10, 11, 12, 13, 32, 0x85, 0xA0, 0x1680, 0x2028, 0x2029, 0x202F, 0x205F, 0x3000}
                \<or> (0x2000 \<le> r \<and> r \<le> 0x200A))"

definition TrimSpace :: "string \<Rightarrow> string" where
  "TrimSpace s =
     concat (map snd (rev (dropWhile (IsSpace \<circ> fst) (rev (dropWhile (IsSpace \<circ> fst) (runes s))))))"

definition lower_ascii :: "nat \<Rightarrow> nat" where
  "lower_ascii r = (if 65 \<le> r \<and> r \<le> 90 then r + 32 else r)"

definition is_ascii :: "string \<Rightarrow> bool" where
  "is_ascii s = list_all (\<lambda>c. byte c < 128) s"

definition ToLower :: "(nat \<Rightarrow> nat) \<Rightarrow> string \<Rightarrow> string" where
  "ToLower lo s =
     (if is_ascii s then map (\<lambda>c. char_of (lower_ascii (byte c))) s
      else of_runes (map (\<lambda>r. if r < 128 then lower_ascii r else lo r) (to_runes s)))"

text \<open>
  \<open>strings.EqualFold(s, t)\<close> for an ASCII \<open>t\<close>: the only non-ASCII code points that fold
  to an ASCII letter are U+017F (s) and U+212A (k).
\<close>

definition fold_ascii :: "nat \<Rightarrow> nat" where
  "fold_ascii r = (if r = 0x17F then 115 else if r = 0x212A then 107 else lower_ascii r)"

definition EqualFoldASCII :: "string \<Rightarrow> string \<Rightarrow> bool" where
  "EqualFoldASCII s t = (map fold_ascii (to_runes s) = map (lower_ascii \<circ> byte) t)"

section \<open>Case mapping\<close>

lemma runes_ascii: "is_ascii s \<Longrightarrow> runes s = map (\<lambda>c. (byte c, [c])) s"
proof (induction s)
  case Nil
  then show ?case by simp
next
  case (Cons c cs)
  then have "byte c < 128" "runes cs = map (\<lambda>c. (byte c, [c])) cs"
    by (simp_all add: is_ascii_def)
  then show ?case by (simp add: DecodeRune_def)
qed

lemma to_runes_ascii: "is_ascii s \<Longrightarrow> to_runes s = map byte s"
  by (simp add: to_runes_def runes_ascii comp_def)

lemma TrimSpace_plain:
  assumes "is_ascii s" "list_all (\<lambda>c. \<not> IsSpace (byte c)) s"
  shows "TrimSpace s = s"
proof -
  have dw: "dropWhile (IsSpace \<circ> fst) xs = xs" if "list_all (\<lambda>x. \<not> IsSpace (fst x)) xs" for xs :: "(nat \<times> string) list"
    using that by (cases xs) simp_all
  have "list_all (\<lambda>x. \<not> IsSpace (fst x)) (runes s)" using assms by (simp add: runes_ascii list_all_iff)
  moreover from this have "list_all (\<lambda>x. \<not> IsSpace (fst x)) (rev (runes s))" by simp
  ultimately have "TrimSpace s = concat (map snd (runes s))" by (simp add: TrimSpace_def dw)
  with assms(1) show ?thesis by (simp add: runes_ascii comp_def)
qed

lemma lower_ascii_idem [simp]: "lower_ascii (lower_ascii r) = lower_ascii r"
  by (simp add: lower_ascii_def)

lemma lower_ascii_lt: "r < 128 \<Longrightarrow> lower_ascii r < 128"
  by (simp add: lower_ascii_def)

lemma byte_char_lower [simp]: "byte (char_of (lower_ascii (byte c))) = lower_ascii (byte c)"
  using byte_lt_256[of c] by (intro byte_char_of) (auto simp: lower_ascii_def simp del: byte_lt_256)

lemma is_ascii_ToLower: "is_ascii s \<Longrightarrow> is_ascii (ToLower lo s)"
  by (simp add: ToLower_def is_ascii_def list_all_iff lower_ascii_lt)

lemma ToLower_idem_ascii: "is_ascii s \<Longrightarrow> ToLower lo (ToLower lo s) = ToLower lo s"
  using is_ascii_ToLower[of s lo] by (simp add: ToLower_def)

lemma ToLower_Nil [simp]: "ToLower lo [] = []"
  by (simp add: ToLower_def is_ascii_def)

lemma runes_eq_Nil_iff [simp]: "runes s = [] \<longleftrightarrow> s = []"
  by (cases s) (auto simp: Let_def split: prod.splits)

lemma EncodeRune_not_Nil [simp]: "EncodeRune r \<noteq> []"
  by (simp add: EncodeRune_def)

lemma to_runes_Nil [simp]: "to_runes [] = []"
  by (simp add: to_runes_def)

lemma to_runes_Cons:
  "DecodeRune c cs = (r, w) \<Longrightarrow> to_runes (c # cs) = r # to_runes (drop (w - 1) cs)"
  by (simp add: to_runes_def)

lemma to_runes_eq_Nil_iff [simp]: "to_runes s = [] \<longleftrightarrow> s = []"
  by (simp add: to_runes_def)

lemma of_runes_eq_Nil_iff [simp]: "of_runes rs = [] \<longleftrightarrow> rs = []"
  by (cases rs) (simp_all add: of_runes_def)

lemma ToLower_eq_Nil_iff [simp]: "ToLower lo s = [] \<longleftrightarrow> s = []"
  by (simp add: ToLower_def)

section \<open>UTF-8 round trip\<close>

text \<open>The bytes a \<open>range\<close> loop visits are the string's bytes.\<close>

lemma runes_bytes: "concat (map snd (runes s)) = s"
proof (induction s rule: runes.induct)
  case 1
  then show ?case by simp
next
  case (2 c cs)
  obtain r w where "DecodeRune c cs = (r, w)" by fastforce
  with 2 show ?case by simp
qed

definition scalar :: "nat \<Rightarrow> bool" where
  "scalar r = (r \<le> 0x10FFFF \<and> \<not> (0xD800 \<le> r \<and> r \<le> 0xDFFF))"

lemma DecodeRune_scalar: "scalar (fst (DecodeRune c cs))"
  unfolding DecodeRune_def
  by (auto simp: Let_def scalar_def RuneError_def in_range_def second_range_def
      split: list.splits if_splits)

lemma to_runes_scalar: "r \<in> set (to_runes s) \<Longrightarrow> scalar r"
proof (induction s rule: runes.induct)
  case 1
  then show ?case by simp
next
  case (2 c cs)
  obtain q w where d: "DecodeRune c cs = (q, w)" by fastforce
  with DecodeRune_scalar[of c cs] have "scalar q" by simp
  with 2 d show ?case by (auto simp: to_runes_Cons)
qed

text \<open>ASCII bytes are exactly the runes below 128.\<close>

lemma DecodeRune_ascii: "fst (DecodeRune c cs) < 128 \<Longrightarrow> byte c < 128"
  unfolding DecodeRune_def
  by (auto simp: Let_def RuneError_def in_range_def second_range_def split: list.splits if_splits)

lemma DecodeRune_tail:
  "DecodeRune c cs = (r, w) \<Longrightarrow> d \<in> set (take (w - 1) cs) \<Longrightarrow> 128 \<le> byte d"
  unfolding DecodeRune_def
  by (auto simp: Let_def in_range_def second_range_def split: list.splits if_splits)

lemma to_runes_byte: "c \<in> set s \<Longrightarrow> byte c < 128 \<Longrightarrow> byte c \<in> set (to_runes s)"
proof (induction s rule: runes.induct)
  case 1
  then show ?case by simp
next
  case (2 d cs)
  obtain r w where d: "DecodeRune d cs = (r, w)" by fastforce
  have "c = d \<or> c \<in> set (take (w - 1) cs) \<or> c \<in> set (drop (w - 1) cs)"
    using "2.prems"(1) by (metis append_take_drop_id set_ConsD set_append Un_iff)
  moreover have "c = d \<Longrightarrow> r = byte c" using d "2.prems" by (simp add: DecodeRune_def split: prod.splits)
  moreover have "c \<notin> set (take (w - 1) cs)" using DecodeRune_tail[OF d] "2.prems" by fastforce
  ultimately show ?case using "2.IH"[OF d[symmetric] refl] "2.prems" d by (auto simp: to_runes_Cons)
qed

lemma is_ascii_to_runes: "list_all (\<lambda>r. r < 128) (to_runes s) \<Longrightarrow> is_ascii s"
proof (induction s rule: runes.induct)
  case 1
  then show ?case by (simp add: is_ascii_def)
next
  case (2 c cs)
  obtain r w where d: "DecodeRune c cs = (r, w)" by fastforce
  with 2 have r: "r < 128" by (simp add: to_runes_Cons)
  with d DecodeRune_ascii[of c cs] have "byte c < 128" by simp
  then have "w = 1" using d by (simp add: DecodeRune_def split: prod.splits)
  with 2 d \<open>byte c < 128\<close> show ?case by (simp add: to_runes_Cons is_ascii_def)
qed

lemma runes_EncodeRune:
  assumes "scalar r"
  shows "runes (EncodeRune r @ s) = (r, EncodeRune r) # runes s"
proof -
  consider "r < 0x80" | "0x80 \<le> r" "r < 0x800" | "0x800 \<le> r" "r < 0x10000" | "0x10000 \<le> r"
    by linarith
  then show ?thesis
  proof cases
    case 1
    then show ?thesis by (simp add: EncodeRune_def DecodeRune_def)
  next
    case 2
    then have "2 \<le> r div 64" "r div 64 < 32" "r mod 64 \<le> 63" by linarith+
    then show ?thesis using 2
      by (simp add: EncodeRune_def DecodeRune_def in_range_def second_range_def Let_def)
  next
    case 3
    define a b k where abk: "a = r div 4096" "b = r div 64 mod 64" "k = r mod 64"
    have "r div 4096 = r div 64 div 64" by (simp add: div_mult2_eq[symmetric])
    then have r: "r = a * 4096 + b * 64 + k" unfolding abk
      using div_mult_mod_eq[of r 64] div_mult_mod_eq[of "r div 64" 64] by linarith
    have bd: "b < 64" "k < 64" unfolding abk by simp_all
    have bd': "a < 16" "a = 0 \<Longrightarrow> 32 \<le> b" "a = 13 \<Longrightarrow> b < 32"
      using 3 assms r bd unfolding scalar_def by linarith+
    have "EncodeRune r = [char_of (0xE0 + a), char_of (0x80 + b), char_of (0x80 + k)]"
      using 3 assms by (auto simp: EncodeRune_def scalar_def abk)
    moreover have "DecodeRune (char_of (0xE0 + a)) (char_of (0x80 + b) # char_of (0x80 + k) # s)
        = (a * 4096 + b * 64 + k, 3)"
      using bd bd' by (auto simp: DecodeRune_def in_range_def second_range_def Let_def)
    ultimately show ?thesis by (simp add: r[symmetric])
  next
    case 4
    define q where "q = r div 64"
    define p where "p = q div 64"
    define a b k m where abk: "a = p div 64" "b = p mod 64" "k = q mod 64" "m = r mod 64"
    have "r = q * 64 + m" "q = p * 64 + k" "p = a * 64 + b"
      by (simp_all add: abk p_def q_def)
    then have r: "r = a * 262144 + b * 4096 + k * 64 + m" by simp
    have bd: "b < 64" "k < 64" "m < 64" unfolding abk by simp_all
    have qs: "r div 262144 = a" "r div 4096 = p" "r div 64 = q"
      by (simp_all add: abk p_def q_def div_mult2_eq[symmetric])
    have bd': "a < 5" "a = 0 \<Longrightarrow> 16 \<le> b" "a = 4 \<Longrightarrow> b < 16"
      using 4 assms r bd unfolding scalar_def by linarith+
    have "EncodeRune r = [char_of (0xF0 + a), char_of (0x80 + b), char_of (0x80 + k), char_of (0x80 + m)]"
      using 4 assms by (auto simp: EncodeRune_def scalar_def qs abk)
    moreover have "DecodeRune (char_of (0xF0 + a))
        (char_of (0x80 + b) # char_of (0x80 + k) # char_of (0x80 + m) # s)
        = (a * 262144 + b * 4096 + k * 64 + m, 4)"
      using bd bd' by (auto simp: DecodeRune_def in_range_def second_range_def Let_def)
    ultimately show ?thesis by (simp add: r[symmetric])
  qed
qed

lemma runes_of_runes:
  "(\<And>r. r \<in> set rs \<Longrightarrow> scalar r) \<Longrightarrow> runes (of_runes rs) = map (\<lambda>r. (r, EncodeRune r)) rs"
  by (induction rs) (simp_all add: of_runes_def runes_EncodeRune)

lemma to_runes_of_runes [rt_simps]:
  "(\<And>r. r \<in> set rs \<Longrightarrow> scalar r) \<Longrightarrow> to_runes (of_runes rs) = rs"
  by (simp add: to_runes_def runes_of_runes comp_def)

section \<open>Decimal, hexadecimal and base64 text\<close>

fun digits :: "nat \<Rightarrow> string" where
  "digits n = (if n < 10 then [char_of (48 + n)] else digits (n div 10) @ [char_of (48 + n mod 10)])"

declare digits.simps [simp del]

text \<open>\<open>strconv.Itoa\<close> and the verb \<open>%d\<close>.\<close>

definition Itoa :: "int \<Rightarrow> string" where
  "Itoa i = (if i < 0 then CHR ''-'' # digits (nat (- i)) else digits (nat i))"

definition is_digit :: "char \<Rightarrow> bool" where
  "is_digit c = (48 \<le> byte c \<and> byte c \<le> 57)"

fun digits_val :: "nat \<Rightarrow> string \<Rightarrow> nat option" where
  "digits_val acc [] = Some acc"
| "digits_val acc (c # cs) = (if is_digit c then digits_val (acc * 10 + (byte c - 48)) cs else None)"

text \<open>
  \<open>strconv.ParseInt(s, 10, bits)\<close>: an optional sign, at least one digit, and the value
  within the signed range of the width; \<open>None\<close> is either error (syntax or range).
\<close>

definition ParseInt :: "nat \<Rightarrow> string \<Rightarrow> int option" where
  "ParseInt bits s =
     (let (neg, ds) = (case s of [] \<Rightarrow> (False, [])
                       | c # cs \<Rightarrow> if c = CHR ''+'' then (False, cs)
                                  else if c = CHR ''-'' then (True, cs) else (False, c # cs))
      in if ds = [] then None
         else case digits_val 0 ds of None \<Rightarrow> None
         | Some n \<Rightarrow>
             let i = (if neg then - int n else int n) in
             if - (2 ^ (bits - 1)) \<le> i \<and> i < 2 ^ (bits - 1) then Some i else None)"

definition Atoi :: "string \<Rightarrow> int option" where
  "Atoi s = ParseInt 64 s"

definition hex_digit :: "nat \<Rightarrow> char" where
  "hex_digit n = (if n < 10 then char_of (48 + n) else char_of (87 + n))"

definition from_hex :: "char \<Rightarrow> nat option" where
  "from_hex c =
     (let b = byte c in
      if 48 \<le> b \<and> b \<le> 57 then Some (b - 48)
      else if 97 \<le> b \<and> b \<le> 102 then Some (b - 87)
      else if 65 \<le> b \<and> b \<le> 70 then Some (b - 55) else None)"

definition hex_EncodeToString :: "string \<Rightarrow> string" where
  "hex_EncodeToString s = concat (map (\<lambda>c. [hex_digit (byte c div 16), hex_digit (byte c mod 16)]) s)"

fun hex_DecodeString :: "string \<Rightarrow> string option" where
  "hex_DecodeString [] = Some []"
| "hex_DecodeString [c] = None"
| "hex_DecodeString (a # b # cs) =
     (case (from_hex a, from_hex b) of
        (Some x, Some y) \<Rightarrow> map_option (\<lambda>s. char_of (x * 16 + y) # s) (hex_DecodeString cs)
      | _ \<Rightarrow> None)"

definition b64_digit :: "nat \<Rightarrow> char" where
  "b64_digit n =
     (if n < 26 then char_of (65 + n) else if n < 52 then char_of (71 + n)
      else if n < 62 then char_of (n - 4) else if n = 62 then CHR ''-'' else CHR ''_'')"

definition from_b64 :: "char \<Rightarrow> nat option" where
  "from_b64 c =
     (let b = byte c in
      if 65 \<le> b \<and> b \<le> 90 then Some (b - 65)
      else if 97 \<le> b \<and> b \<le> 122 then Some (b - 71)
      else if 48 \<le> b \<and> b \<le> 57 then Some (b + 4)
      else if c = CHR ''-'' then Some 62 else if c = CHR ''_'' then Some 63 else None)"

text \<open>\<open>base64.RawURLEncoding\<close>: unpadded; the decoder skips line breaks.\<close>

fun b64_encode :: "nat list \<Rightarrow> nat list" where
  "b64_encode [] = []"
| "b64_encode [a] = [a div 4, (a mod 4) * 16]"
| "b64_encode [a, b] = [a div 4, (a mod 4) * 16 + b div 16, (b mod 16) * 4]"
| "b64_encode (a # b # c # cs) =
     [a div 4, (a mod 4) * 16 + b div 16, (b mod 16) * 4 + c div 64, c mod 64] @ b64_encode cs"

fun b64_decode :: "nat list \<Rightarrow> nat list option" where
  "b64_decode [] = Some []"
| "b64_decode [p] = None"
| "b64_decode [p, q] = Some [p * 4 + q div 16]"
| "b64_decode [p, q, r] = Some [p * 4 + q div 16, (q mod 16) * 16 + r div 4]"
| "b64_decode (p # q # r # t # ts) =
     map_option (\<lambda>xs. (p * 4 + q div 16) # ((q mod 16) * 16 + r div 4) # ((r mod 4) * 64 + t) # xs)
       (b64_decode ts)"

definition b64_EncodeToString :: "string \<Rightarrow> string" where
  "b64_EncodeToString s = map b64_digit (b64_encode (map byte s))"

definition b64_DecodeString :: "string \<Rightarrow> string option" where
  "b64_DecodeString s =
     (let ds = map from_b64 (filter (\<lambda>c. c \<noteq> CR \<and> c \<noteq> NL) s) in
      if None \<in> set ds then None
      else map_option (map char_of) (b64_decode (map the ds)))"

section \<open>Round trips of the text encodings\<close>

lemma from_hex_digit [rt_simps]: "n < 16 \<Longrightarrow> from_hex (hex_digit n) = Some n"
  by (auto simp: from_hex_def hex_digit_def)

lemma hex_roundtrip [rt_simps]: "hex_DecodeString (hex_EncodeToString s) = Some s"
  by (induction s)
    (simp_all add: hex_EncodeToString_def from_hex_digit less_mult_imp_div_less)

lemma byte_dash_underscore: "byte CHR ''-'' = 45" "byte CHR ''_'' = 95"
  by (simp_all add: byte_def)

lemma from_b64_digit [rt_simps]: "n < 64 \<Longrightarrow> from_b64 (b64_digit n) = Some n"
  by (auto simp: from_b64_def b64_digit_def byte_dash_underscore Let_def)

lemma b64_digit_not_break: "n < 64 \<Longrightarrow> b64_digit n \<noteq> CR \<and> b64_digit n \<noteq> NL"
proof -
  assume "n < 64"
  then have "45 \<le> byte (b64_digit n)" by (auto simp: b64_digit_def byte_dash_underscore)
  then show ?thesis by auto
qed

lemma b64_small:
  assumes "b < (256 :: nat)"
  shows "b div 4 < 64" "b div 16 < 16" "b div 64 < 4" "b div 16 div 16 = 0" "b div 64 div 4 = 0"
    "b div 16 mod 16 = b div 16" "b div 64 mod 4 = b div 64"
  using assms by (auto simp: div_mult2_eq[symmetric])

lemma b64_encode_lt:
  "list_all (\<lambda>x. x < 256) xs \<Longrightarrow> list_all (\<lambda>y. y < 64) (b64_encode xs)"
proof (induction xs rule: b64_encode.induct)
  case (4 a b c cs)
  have "a mod 4 < 4" "b mod 16 < 16" by simp_all
  with 4 b64_small(2)[of b] b64_small(3)[of c] show ?case by auto
next
  case (3 a b)
  have "a mod 4 < 4" by simp
  with 3 b64_small(2)[of b] show ?case by auto
qed auto

lemma b64_decode_encode:
  "list_all (\<lambda>x. x < 256) xs \<Longrightarrow> b64_decode (b64_encode xs) = Some xs"
  by (induction xs rule: b64_encode.induct) (auto simp: b64_small)

lemma map_the_Some [simp]: "map the (map Some xs) = xs"
  by (induction xs) auto

lemma b64_roundtrip [rt_simps]: "b64_DecodeString (b64_EncodeToString s) = Some s"
proof -
  let ?e = "b64_encode (map byte s)"
  have bytes: "list_all (\<lambda>x. x < 256) (map byte s)" by (simp add: list_all_iff)
  have lt: "y < 64" if "y \<in> set ?e" for y
    using b64_encode_lt[OF bytes] that by (simp add: list_all_iff)
  note dec = b64_decode_encode[OF bytes]
  have "filter (\<lambda>c. c \<noteq> CR \<and> c \<noteq> NL) (map b64_digit ?e) = map b64_digit ?e"
    by (auto simp: filter_id_conv dest: lt b64_digit_not_break)
  moreover have "map from_b64 (map b64_digit ?e) = map Some ?e"
    by (auto dest: lt from_b64_digit)
  ultimately show ?thesis
    unfolding b64_DecodeString_def b64_EncodeToString_def
    by (auto simp: Let_def dec simp del: map_map simp: map_idI[of s "\<lambda>c. char_of (byte c)"] intro!: trans[OF map_map] map_idI)
qed

lemma b64_length: "length (b64_EncodeToString s) = (4 * length s + 2) div 3"
proof -
  have "length (b64_encode xs) = (4 * length xs + 2) div 3" for xs
    by (induction xs rule: b64_encode.induct) auto
  then show ?thesis by (simp add: b64_EncodeToString_def)
qed

lemma hex_length [simp]: "length (hex_EncodeToString s) = 2 * length s"
  by (induction s) (simp_all add: hex_EncodeToString_def)

lemma digits_not_Nil [simp]: "digits n \<noteq> []"
  by (subst digits.simps) simp

lemma digits_all_digit: "c \<in> set (digits n) \<Longrightarrow> is_digit c"
proof (induction n arbitrary: c rule: digits.induct)
  case (1 n)
  show ?case
  proof (cases "n < 10")
    case True
    with "1.prems" show ?thesis by (subst (asm) digits.simps) (simp add: is_digit_def)
  next
    case False
    with "1.prems" have "c \<in> set (digits (n div 10)) \<or> c = char_of (48 + n mod 10)"
      by (subst (asm) digits.simps) auto
    then show ?thesis
    proof
      assume "c \<in> set (digits (n div 10))"
      then show ?thesis by (rule "1.IH"[OF False])
    next
      assume "c = char_of (48 + n mod 10)"
      then show ?thesis by (simp add: is_digit_def)
    qed
  qed
qed

lemma digits_val_append:
  "digits_val acc (xs @ ys) = (case digits_val acc xs of None \<Rightarrow> None | Some m \<Rightarrow> digits_val m ys)"
  by (induction acc xs rule: digits_val.induct) auto

lemma digits_val_digits: "digits_val 0 (digits n) = Some n"
proof (induction n rule: digits.induct)
  case (1 n)
  show ?case
  proof (cases "n < 10")
    case True
    then show ?thesis by (subst digits.simps) (simp add: is_digit_def)
  next
    case False
    then show ?thesis
      by (subst digits.simps) (simp add: "1.IH" digits_val_append is_digit_def)
  qed
qed

lemma is_digit_sign: "is_digit c \<Longrightarrow> c \<noteq> CHR ''+'' \<and> c \<noteq> CHR ''-''"
  by (auto simp: is_digit_def byte_def)

lemma ParseInt_digits:
  "ParseInt bits (digits n) = (if int n < 2 ^ (bits - 1) then Some (int n) else None)"
proof -
  obtain d ds where ds: "digits n = d # ds" by (meson digits_not_Nil list.exhaust)
  then have "is_digit d" using digits_all_digit[of d n] by simp
  moreover have "- (2 ^ (bits - 1)) \<le> int n" by (rule order_trans[of _ 0]) auto
  ultimately show ?thesis
    using digits_val_digits[of n]
    by (auto simp: ParseInt_def ds is_digit_sign Let_def dest!: is_digit_sign)
qed

lemma Itoa_inj: "Itoa i = Itoa j \<Longrightarrow> i = j"
proof -
  assume e: "Itoa i = Itoa j"
  have hd_digit: "is_digit (hd (digits n))" for n
    by (rule digits_all_digit[of _ n]) simp
  have inj: "digits m = digits n \<Longrightarrow> m = n" for m n
    by (metis digits_val_digits option.inject)
  show ?thesis
  proof (cases "i < 0"; cases "j < 0")
    assume "i < 0" "\<not> j < 0"
    then have "digits (nat j) = CHR ''-'' # digits (nat (- i))" using e by (simp add: Itoa_def)
    then have "hd (digits (nat j)) = CHR ''-''" by simp
    with hd_digit[of "nat j"] show ?thesis by (auto dest: is_digit_sign)
  next
    assume "\<not> i < 0" "j < 0"
    then have "digits (nat i) = CHR ''-'' # digits (nat (- j))" using e by (simp add: Itoa_def)
    then have "hd (digits (nat i)) = CHR ''-''" by simp
    with hd_digit[of "nat i"] show ?thesis by (auto dest: is_digit_sign)
  next
    assume "i < 0" "j < 0"
    with e inj[of "nat (- i)" "nat (- j)"] show ?thesis by (simp add: Itoa_def)
  next
    assume "\<not> i < 0" "\<not> j < 0"
    with e inj[of "nat i" "nat j"] show ?thesis by (simp add: Itoa_def)
  qed
qed

lemma Itoa_chars: "c \<in> set (Itoa i) \<Longrightarrow> is_digit c \<or> c = CHR ''-''"
  by (auto simp: Itoa_def dest: digits_all_digit split: if_splits)

end
