(* ===== verification/Go_Url.thy ===== *)
theory Go_Url
  imports Go_Strings
begin

text \<open>
  Go's \<open>net/url.Parse\<close> (as of Go 1.26, the version the module pins), \<open>url.QueryEscape\<close>,
  \<open>net.SplitHostPort\<close> and \<open>net.ParseIP(...).IsLoopback\<close>, to the extent the program
  observes them: whether parsing fails, and the scheme, opaque part, host, host name, port
  and path of the result.
\<close>

section \<open>IP addresses\<close>

definition ipv4_field :: "string \<Rightarrow> nat option" where
  "ipv4_field s =
     (if s = [] \<or> 3 < length s \<or> (1 < length s \<and> hd s = CHR ''0'') then None
      else case digits_val 0 s of Some n \<Rightarrow> if n \<le> 255 then Some n else None | None \<Rightarrow> None)"

definition parse_ipv4 :: "string \<Rightarrow> nat list option" where
  "parse_ipv4 s =
     (let fs = map ipv4_field (Split s CHR ''.'') in
      if length fs = 4 \<and> None \<notin> set fs then Some (map the fs) else None)"

fun hex_val :: "nat \<Rightarrow> string \<Rightarrow> nat option" where
  "hex_val acc [] = Some acc"
| "hex_val acc (c # cs) = (case from_hex c of None \<Rightarrow> None | Some d \<Rightarrow> hex_val (acc * 16 + d) cs)"

definition ipv6_field :: "string \<Rightarrow> nat option" where
  "ipv6_field s = (if s = [] \<or> 4 < length s then None else hex_val 0 s)"

text \<open>Colon-separated groups; the last may be a dotted quad when \<open>v4\<close> is set.\<close>

fun ipv6_groups :: "bool \<Rightarrow> string list \<Rightarrow> nat list option" where
  "ipv6_groups v4 [] = Some []"
| "ipv6_groups v4 [g] =
     (if v4 \<and> CHR ''.'' \<in> set g
      then map_option (\<lambda>q. [q ! 0 * 256 + q ! 1, q ! 2 * 256 + q ! 3]) (parse_ipv4 g)
      else map_option (\<lambda>n. [n]) (ipv6_field g))"
| "ipv6_groups v4 (g # gs) =
     (case (ipv6_field g, ipv6_groups v4 gs) of (Some n, Some ns) \<Rightarrow> Some (n # ns) | _ \<Rightarrow> None)"

fun cut_double_colon :: "string \<Rightarrow> (string \<times> string) option" where
  "cut_double_colon (a # b # cs) =
     (if a = CHR '':'' \<and> b = CHR '':'' then Some ([], cs)
      else map_option (\<lambda>(l, r). (a # l, r)) (cut_double_colon (b # cs)))"
| "cut_double_colon _ = None"

definition ipv6_side :: "bool \<Rightarrow> string \<Rightarrow> nat list option" where
  "ipv6_side v4 s = (if s = [] then Some [] else ipv6_groups v4 (Split s CHR '':''))"

definition parse_ipv6 :: "string \<Rightarrow> nat list option" where
  "parse_ipv6 s =
     (case cut_double_colon s of
        Some (l, r) \<Rightarrow>
          (case (ipv6_side False l, ipv6_side True r) of
             (Some ls, Some rs) \<Rightarrow>
               if length ls + length rs \<le> 7
               then Some (ls @ replicate (8 - (length ls + length rs)) 0 @ rs) else None
           | _ \<Rightarrow> None)
      | None \<Rightarrow>
          (case ipv6_side True s of
             Some gs \<Rightarrow> if length gs = 8 then Some gs else None
           | None \<Rightarrow> None))"

text \<open>\<open>ip := net.ParseIP(host); ip != nil \<and> ip.IsLoopback()\<close>.\<close>

definition is_loopback_ip :: "string \<Rightarrow> bool" where
  "is_loopback_ip host =
     (case parse_ipv4 host of
        Some q \<Rightarrow> q ! 0 = 127
      | None \<Rightarrow>
          (case parse_ipv6 host of
             Some gs \<Rightarrow> gs = [0, 0, 0, 0, 0, 0, 0, 1]
               \<or> (take 6 gs = [0, 0, 0, 0, 0, 0xFFFF] \<and> gs ! 6 div 256 = 127)
           | None \<Rightarrow> False))"

section \<open>URLs\<close>

record url =
  url_Scheme :: string
  url_Opaque :: string
  url_Host :: string
  url_Path :: string
  url_RawQuery :: string

definition is_letter :: "char \<Rightarrow> bool" where
  "is_letter c = ((97 \<le> byte c \<and> byte c \<le> 122) \<or> (65 \<le> byte c \<and> byte c \<le> 90))"

definition is_alnum :: "char \<Rightarrow> bool" where
  "is_alnum c = (is_letter c \<or> is_digit c)"

text \<open>\<open>getScheme\<close>: the scheme and the rest; \<open>None\<close> when the text starts with a colon.\<close>

fun scan_scheme :: "string \<Rightarrow> string \<Rightarrow> (string \<times> string) option" where
  "scan_scheme seen [] = Some ([], seen)"
| "scan_scheme seen (c # cs) =
     (if is_letter c then scan_scheme (seen @ [c]) cs
      else if is_digit c \<or> c \<in> set ''+-.''
      then if seen = [] then Some ([], c # cs) else scan_scheme (seen @ [c]) cs
      else if c = CHR '':'' then if seen = [] then None else Some (seen, cs)
      else Some ([], seen @ c # cs))"

definition getScheme :: "string \<Rightarrow> (string \<times> string) option" where
  "getScheme s = scan_scheme [] s"

datatype esc_mode = EscPath | EscHost | EscUser

definition host_char :: "char \<Rightarrow> bool" where
  "host_char c = (128 \<le> byte c \<or> is_alnum c \<or> c \<in> set ''-_.~!$&'()*+,;=:[]<>'' \<or> byte c = 34)"

text \<open>\<open>unescape\<close>: percent decoding; \<open>None\<close> on a bad escape or, in a host, a bad byte.\<close>

fun unescape :: "esc_mode \<Rightarrow> string \<Rightarrow> string option" where
  "unescape m [] = Some []"
| "unescape m (c # cs) =
     (if c = CHR ''%'' then
        (case cs of
           a # b # rest \<Rightarrow>
             (case (from_hex a, from_hex b) of
                (Some x, Some y) \<Rightarrow>
                  if m = EscHost \<and> x < 8 \<and> [a, b] \<noteq> ''25'' then None
                  else map_option (\<lambda>s. char_of (x * 16 + y) # s) (unescape m rest)
              | _ \<Rightarrow> None)
         | _ \<Rightarrow> None)
      else if m = EscHost \<and> \<not> host_char c then None
      else map_option (\<lambda>s. c # s) (unescape m cs))"

definition validOptionalPort :: "string \<Rightarrow> bool" where
  "validOptionalPort p = (case p of [] \<Rightarrow> True | c # cs \<Rightarrow> c = CHR '':'' \<and> list_all is_digit cs)"

definition from_first :: "char \<Rightarrow> string \<Rightarrow> string" where
  "from_first c s = dropWhile (\<lambda>x. x \<noteq> c) s"

text \<open>Text before and after the last occurrence of a byte.\<close>

definition cut_last :: "char \<Rightarrow> string \<Rightarrow> (string \<times> string) option" where
  "cut_last c s =
     (if c \<in> set s
      then Some (rev (drop 1 (dropWhile (\<lambda>x. x \<noteq> c) (rev s))), rev (takeWhile (\<lambda>x. x \<noteq> c) (rev s)))
      else None)"

text \<open>
  \<open>parseHost\<close>: a bracketed host must hold an IPv6 address (with an optional zone); in
  any other host a colon starts the port.
\<close>

definition parseHost :: "string \<Rightarrow> string option" where
  "parseHost h =
     (if CHR ''['' \<in> set h then
        (if hd h \<noteq> CHR ''['' then None
         else case cut_last CHR '']'' (tl h) of
           None \<Rightarrow> None
         | Some (name, port) \<Rightarrow>
             if \<not> validOptionalPort port then None
             else case unescape EscHost name of
               None \<Rightarrow> None
             | Some n \<Rightarrow>
                 if parse_ipv6 (fst (Cut n CHR ''%'')) = None then None
                 else Some (''['' @ n @ '']'' @ port))
      else if \<not> validOptionalPort (from_first CHR '':'' h) then None
      else unescape EscHost h)"

definition userinfo_char :: "char \<Rightarrow> bool" where
  "userinfo_char c = (is_alnum c \<or> c \<in> set ''-._:~!$&'()*+,;=%@'')"

definition parseAuthority :: "string \<Rightarrow> string option" where
  "parseAuthority a =
     (case cut_last CHR ''@'' a of
        None \<Rightarrow> parseHost a
      | Some (userinfo, host) \<Rightarrow>
          (case parseHost host of
             None \<Rightarrow> None
           | Some h \<Rightarrow>
               if list_all userinfo_char userinfo \<and> unescape EscUser userinfo \<noteq> None
               then Some h else None))"

definition ctl_byte :: "char \<Rightarrow> bool" where
  "ctl_byte c = (byte c < 32 \<or> byte c = 127)"

definition split_query :: "string \<Rightarrow> string \<times> string" where
  "split_query rest =
     (if HasSuffix rest ''?'' \<and> count_list rest CHR ''?'' = 1 then (butlast rest, [])
      else let (a, b, _) = Cut rest CHR ''?'' in (a, b))"

definition split_authority :: "string \<Rightarrow> string \<times> string" where
  "split_authority a = (takeWhile (\<lambda>x. x \<noteq> CHR ''/'') a, dropWhile (\<lambda>x. x \<noteq> CHR ''/'') a)"

definition url_parse0 :: "string \<Rightarrow> url option" where
  "url_parse0 raw =
     (if list_ex ctl_byte raw then None
      else if raw = ''*'' then
        Some \<lparr>url_Scheme = [], url_Opaque = [], url_Host = [], url_Path = ''*'', url_RawQuery = []\<rparr>
      else case getScheme raw of
        None \<Rightarrow> None
      | Some (sch, rest0) \<Rightarrow>
          let scheme = ToLower id sch; (rest, q) = split_query rest0 in
          if \<not> HasPrefix rest ''/'' \<and> scheme \<noteq> [] then
            Some \<lparr>url_Scheme = scheme, url_Opaque = rest, url_Host = [], url_Path = [], url_RawQuery = q\<rparr>
          else if \<not> HasPrefix rest ''/'' \<and> CHR '':'' \<in> set (fst (Cut rest CHR ''/'')) then None
          else if (scheme \<noteq> [] \<or> \<not> HasPrefix rest ''///'') \<and> HasPrefix rest ''//'' then
            (let (authority, path) = split_authority (drop 2 rest) in
             case (parseAuthority authority, unescape EscPath path) of
               (Some h, Some p) \<Rightarrow>
                 Some \<lparr>url_Scheme = scheme, url_Opaque = [], url_Host = h, url_Path = p, url_RawQuery = q\<rparr>
             | _ \<Rightarrow> None)
          else
            (case unescape EscPath rest of
               Some p \<Rightarrow>
                 Some \<lparr>url_Scheme = scheme, url_Opaque = [], url_Host = [], url_Path = p, url_RawQuery = q\<rparr>
             | None \<Rightarrow> None))"

definition url_Parse :: "string \<Rightarrow> url option" where
  "url_Parse raw =
     (let (u, frag, _) = Cut raw CHR ''#'' in
      case url_parse0 u of
        None \<Rightarrow> None
      | Some r \<Rightarrow> if unescape EscPath frag = None then None else Some r)"

text \<open>\<open>splitHostPort\<close> behind \<open>URL.Hostname\<close> and \<open>URL.Port\<close>.\<close>

definition url_splitHostPort :: "string \<Rightarrow> string \<times> string" where
  "url_splitHostPort hp =
     (let (host, port) =
        (case cut_last CHR '':'' hp of
           Some (h, p) \<Rightarrow> if list_all is_digit p then (h, p) else (hp, [])
         | None \<Rightarrow> (hp, []))
      in if HasPrefix host ''['' \<and> HasSuffix host '']'' then (butlast (tl host), port)
         else (host, port))"

definition url_Hostname :: "url \<Rightarrow> string" where
  "url_Hostname u = fst (url_splitHostPort (url_Host u))"

definition url_Port :: "url \<Rightarrow> string" where
  "url_Port u = snd (url_splitHostPort (url_Host u))"

text \<open>\<open>url.QueryEscape\<close>.\<close>

definition query_unreserved :: "char \<Rightarrow> bool" where
  "query_unreserved c = (is_alnum c \<or> c \<in> set ''-_.~'')"

definition upper_hex :: "nat \<Rightarrow> char" where
  "upper_hex n = (if n < 10 then char_of (48 + n) else char_of (55 + n))"

definition QueryEscape :: "string \<Rightarrow> string" where
  "QueryEscape s =
     concat (map (\<lambda>c. if query_unreserved c then [c] else if c = CHR '' '' then ''+''
                      else [CHR ''%'', upper_hex (byte c div 16), upper_hex (byte c mod 16)]) s)"

text \<open>\<open>net.SplitHostPort\<close>: the host part, or \<open>None\<close> on an error.\<close>

definition SplitHostPort :: "string \<Rightarrow> (string \<times> string) option" where
  "SplitHostPort hp =
     (case cut_last CHR '':'' hp of
        None \<Rightarrow> None
      | Some (h, p) \<Rightarrow>
          if h \<noteq> [] \<and> hd h = CHR ''['' then
            (if last h \<noteq> CHR '']'' \<or> length h < 2 then None
             else let host = butlast (tl h) in
               if CHR ''['' \<in> set host \<or> CHR '']'' \<in> set host \<or> CHR ''['' \<in> set p \<or> CHR '']'' \<in> set p
               then None else Some (host, p))
          else if CHR '':'' \<in> set h \<or> CHR ''['' \<in> set hp \<or> CHR '']'' \<in> set hp then None
          else Some (h, p))"

end
