(* ===== verification/Http.thy ===== *)
theory Http
  imports Go_Url
begin

text \<open>
  What the proxy uses of \<open>net/http\<close> and \<open>encoding/json\<close>, and the parameters that stand
  for code the repository does not contain.

  \<^item> \<open>golib\<close> collects those parameters: the cryptographic primitives, the text syntax of
    JSON, the case table of \<open>unicode\<close>, and bcrypt. Theorems name the documented
    behaviour they need of a primitive as a hypothesis.
  \<^item> A request is its parsed form: method, URL path, query and form values, canonical
    headers and cookies. A response is a status, the cookies set, a redirect target and a page.
\<close>

section \<open>JSON values and library parameters\<close>

datatype json =
    JNull | JBool bool | JInt int | JFloat string | JStr string
  | JArr "json list" | JObj "(string \<times> json) list"

record golib =
  unicode_ToLower :: "nat \<Rightarrow> nat"
  sha256_Sum256 :: "string \<Rightarrow> string"
  gcm_Seal :: "string \<Rightarrow> string \<Rightarrow> string \<Rightarrow> string"
  gcm_Open :: "string \<Rightarrow> string \<Rightarrow> string \<Rightarrow> string option"
  hmac_SHA256 :: "string \<Rightarrow> string \<Rightarrow> string"
  json_text :: "json \<Rightarrow> string"
  json_parse :: "string \<Rightarrow> json option"
  bcrypt_Compare :: "string \<Rightarrow> string \<Rightarrow> bool"
  bcrypt_CostOk :: "string \<Rightarrow> bool"

abbreviation lower :: "golib \<Rightarrow> string \<Rightarrow> string" where
  "lower G s \<equiv> ToLower (unicode_ToLower G) s"

text \<open>
  Decoding into a struct field: a JSON string into a Go string, an integer literal in
  range into an \<open>int64\<close>; \<open>null\<close> leaves the field; anything else is an error.
\<close>

definition json_string :: "string \<Rightarrow> json \<Rightarrow> string option" where
  "json_string old v = (case v of JStr s \<Rightarrow> Some s | JNull \<Rightarrow> Some old | _ \<Rightarrow> None)"

definition json_int64 :: "int \<Rightarrow> json \<Rightarrow> int option" where
  "json_int64 old v =
     (case v of JInt i \<Rightarrow> if - (2 ^ 63) \<le> i \<and> i < 2 ^ 63 then Some i else None
      | JNull \<Rightarrow> Some old | _ \<Rightarrow> None)"

text \<open>Keys match a field's tag exactly or up to ASCII case, as \<open>encoding/json\<close> does.\<close>

definition json_key :: "string \<Rightarrow> string \<Rightarrow> bool" where
  "json_key tag k = (k = tag \<or> EqualFoldASCII k tag)"

text \<open>Decoding an object runs over its members in order.\<close>

fun json_fields :: "('a \<Rightarrow> string \<Rightarrow> json \<Rightarrow> 'a option) \<Rightarrow> 'a \<Rightarrow> (string \<times> json) list \<Rightarrow> 'a option" where
  "json_fields f a [] = Some a"
| "json_fields f a ((k, v) # ms) = (case f a k v of None \<Rightarrow> None | Some a' \<Rightarrow> json_fields f a' ms)"

definition json_struct :: "('a \<Rightarrow> string \<Rightarrow> json \<Rightarrow> 'a option) \<Rightarrow> 'a \<Rightarrow> json \<Rightarrow> 'a option" where
  "json_struct f zero j = (case j of JObj ms \<Rightarrow> json_fields f zero ms | JNull \<Rightarrow> Some zero | _ \<Rightarrow> None)"

section \<open>Cookies\<close>

datatype same_site = SameSiteDefaultMode | SameSiteLaxMode | SameSiteStrictMode | SameSiteNoneMode

record cookie =
  ck_Name :: string
  ck_Value :: string
  ck_Path :: string
  ck_MaxAge :: int
  ck_HttpOnly :: bool
  ck_Secure :: bool
  ck_SameSite :: same_site

text \<open>The bytes of an HTTP token; \<open>http.SetCookie\<close> drops a cookie whose name is not one.\<close>

definition token_byte :: "char \<Rightarrow> bool" where
  "token_byte c = (is_alnum c \<or> c \<in> set ''!#$%&'*+-.^_|~'' \<or> byte c = 96)"

definition is_token :: "string \<Rightarrow> bool" where
  "is_token s = (s \<noteq> [] \<and> list_all token_byte s)"

section \<open>Headers\<close>

text \<open>
  Header values by canonical name. \<open>Get\<close>, \<open>Set\<close> and \<open>Del\<close> canonicalise the name they
  are given.
\<close>

type_synonym headers = "string \<Rightarrow> string list"

definition upper_ascii :: "char \<Rightarrow> char" where
  "upper_ascii c = (if 97 \<le> byte c \<and> byte c \<le> 122 then char_of (byte c - 32) else c)"

definition lower_char :: "char \<Rightarrow> char" where
  "lower_char c = char_of (lower_ascii (byte c))"

fun canon_words :: "bool \<Rightarrow> string \<Rightarrow> string" where
  "canon_words up [] = []"
| "canon_words up (c # cs) =
     (if up then upper_ascii c else lower_char c) # canon_words (c = CHR ''-'') cs"

definition CanonicalHeaderKey :: "string \<Rightarrow> string" where
  "CanonicalHeaderKey s = (if list_all token_byte s then canon_words True s else s)"

definition Header_Get :: "headers \<Rightarrow> string \<Rightarrow> string" where
  "Header_Get h k = (case h (CanonicalHeaderKey k) of [] \<Rightarrow> [] | v # _ \<Rightarrow> v)"

definition Header_Values :: "headers \<Rightarrow> string \<Rightarrow> string list" where
  "Header_Values h k = h (CanonicalHeaderKey k)"

definition Header_Set :: "headers \<Rightarrow> string \<Rightarrow> string \<Rightarrow> headers" where
  "Header_Set h k v = h(CanonicalHeaderKey k := [v])"

definition Header_Del :: "headers \<Rightarrow> string \<Rightarrow> headers" where
  "Header_Del h k = h(CanonicalHeaderKey k := [])"

section \<open>Requests and responses\<close>

record request =
  rq_Method :: string
  rq_Path :: string
  rq_EscapedPath :: string
  rq_RequestURI :: string
  rq_Query :: "(string \<times> string) list"
  rq_Header :: headers
  rq_Cookies :: "(string \<times> string) list"
  rq_Host :: string
  rq_TLS :: bool
  rq_RemoteAddr :: string
  rq_FormOk :: bool
  rq_PostForm :: "(string \<times> string) list"

text \<open>First value of a key in parsed query or form values, empty when absent.\<close>

definition value_Get :: "(string \<times> string) list \<Rightarrow> string \<Rightarrow> string" where
  "value_Get vs k = (case map_of vs k of Some v \<Rightarrow> v | None \<Rightarrow> [])"

text \<open>\<open>r.Cookie(name)\<close>: the first cookie of that name; an empty name finds none.\<close>

definition request_Cookie :: "request \<Rightarrow> string \<Rightarrow> string option" where
  "request_Cookie r name = (if name = [] then None else map_of (rq_Cookies r) name)"

text \<open>The pages of \<open>internal/proxy/pages\<close>, with the data each is rendered from.\<close>

record external_login =
  el_Label :: string
  el_Path :: string

datatype page =
    LoginPage (login_redirect: string) (login_error: string) (login_external: "external_login list")
  | DeniedUnknownPage (du_subject: string) (du_csrf: string) (du_form: bool) (du_console: string)
  | DeniedKnownPage (dk_subject: string) (dk_level: string) (dk_min: string) (dk_path: string)
  | ConfirmationPage (cf_subject: string)
  | ErrorPage (er_message: string)

record response =
  rs_Status :: nat
  rs_Cookies :: "cookie list"
  rs_Location :: "string option"
  rs_Page :: "page option"

definition empty_response :: response where
  "empty_response = \<lparr>rs_Status = 200, rs_Cookies = [], rs_Location = None, rs_Page = None\<rparr>"

text \<open>\<open>http.SetCookie\<close> appends a \<open>Set-Cookie\<close> header, unless the cookie has no valid name.\<close>

definition http_SetCookie :: "response \<Rightarrow> cookie \<Rightarrow> response" where
  "http_SetCookie w c =
     (if is_token (ck_Name c) then w\<lparr>rs_Cookies := rs_Cookies w @ [c]\<rparr> else w)"

definition http_Redirect :: "response \<Rightarrow> string \<Rightarrow> nat \<Rightarrow> response" where
  "http_Redirect w target status = w\<lparr>rs_Status := status, rs_Location := Some target\<rparr>"

definition show_page :: "response \<Rightarrow> nat \<Rightarrow> page \<Rightarrow> response" where
  "show_page w status p = w\<lparr>rs_Status := status, rs_Page := Some p\<rparr>"

definition pages_Error :: "response \<Rightarrow> nat \<Rightarrow> string \<Rightarrow> response" where
  "pages_Error w status msg = show_page w status (ErrorPage msg)"

lemma Header_Values_Set [simp]:
  "Header_Values (Header_Set h k v) k' =
     (if CanonicalHeaderKey k' = CanonicalHeaderKey k then [v] else Header_Values h k')"
  by (simp add: Header_Values_def Header_Set_def)

lemma Header_Values_Del [simp]:
  "Header_Values (Header_Del h k) k' =
     (if CanonicalHeaderKey k' = CanonicalHeaderKey k then [] else Header_Values h k')"
  by (simp add: Header_Values_def Header_Del_def)

section \<open>A sample library\<close>

text \<open>
  One instance of the library parameters, used where a theorem's hypotheses on them are
  shown to hold at a concrete input: a stream-free authenticated encryption that prefixes
  the key, a MAC that prefixes the key, and a JSON syntax with one document \<open>j\<close>.
\<close>

definition sample_lib :: "json \<Rightarrow> golib" where
  "sample_lib j =
     \<lparr>unicode_ToLower = (\<lambda>r. r),
      sha256_Sum256 = (\<lambda>s. take 32 (s @ replicate 32 CHR ''0'')),
      gcm_Seal = (\<lambda>k n p. k @ p),
      gcm_Open = (\<lambda>k n c. if take (length k) c = k then Some (drop (length k) c) else None),
      hmac_SHA256 = (\<lambda>k m. k @ m),
      json_text = (\<lambda>_. ''document''),
      json_parse = (\<lambda>_. Some j),
      bcrypt_Compare = (\<lambda>h p. h = ''$2a$10$'' @ p),
      bcrypt_CostOk = (\<lambda>h. take 7 h = ''$2a$10$'')\<rparr>"

lemma sample_lib_simps [simp]:
  "unicode_ToLower (sample_lib j) = (\<lambda>r. r)"
  "sha256_Sum256 (sample_lib j) s = take 32 (s @ replicate 32 CHR ''0'')"
  "gcm_Seal (sample_lib j) k n p = k @ p"
  "gcm_Open (sample_lib j) k n c = (if take (length k) c = k then Some (drop (length k) c) else None)"
  "hmac_SHA256 (sample_lib j) k m = k @ m"
  "json_text (sample_lib j) x = ''document''"
  "json_parse (sample_lib j) t = Some j"
  "bcrypt_Compare (sample_lib j) h p = (h = ''$2a$10$'' @ p)"
  "bcrypt_CostOk (sample_lib j) h = (take 7 h = ''$2a$10$'')"
  by (simp_all add: sample_lib_def)

definition sample_request :: request where
  "sample_request =
     \<lparr>rq_Method = ''GET'', rq_Path = ''/'', rq_EscapedPath = ''/'', rq_RequestURI = ''/'', rq_Query = [], rq_Header = (\<lambda>_. []),
      rq_Cookies = [], rq_Host = ''console.example'', rq_TLS = False, rq_RemoteAddr = ''10.0.0.7:4711'',
      rq_FormOk = True, rq_PostForm = []\<rparr>"

end
