(* ===== verification/Session.thy ===== *)
theory Session
  imports Http
begin

text \<open>
  The sealed session cookies of \<open>internal/proxy/session/session.go\<close>: the codec and its
  keys, sealing and opening of payloads, the session's validity, the cookie it travels in
  and the CSRF token bound to it.

  The clock is an argument \<open>now\<close> in nanoseconds since the Unix epoch; the random nonce is
  an argument, \<open>None\<close> when the random source fails.
\<close>

section \<open>Model\<close>

datatype session_error =
    NoSecrets | EmptySecret nat | BadKeySize nat | NonceFailed
  | NotBase64 | TooShort | BadPayload | NoKeyDecrypts | NoSessionCookie | ExpiredOrEmpty

record Data =
  d_Subject :: string
  d_Level :: string
  d_Expiry :: int
  d_ProviderMode :: string

record Codec =
  keys :: "string list"

definition zero_Data :: Data where
  "zero_Data = \<lparr>d_Subject = [], d_Level = [], d_Expiry = 0, d_ProviderMode = []\<rparr>"

text \<open>The JSON form of a session payload, by its struct tags.\<close>

definition Data_json :: "Data \<Rightarrow> json" where
  "Data_json d = JObj [(''sub'', JStr (d_Subject d)), (''lvl'', JStr (d_Level d)),
                       (''exp'', JInt (d_Expiry d)), (''prv'', JStr (d_ProviderMode d))]"

definition Data_member :: "Data \<Rightarrow> string \<Rightarrow> json \<Rightarrow> Data option" where
  "Data_member d k v =
     (if json_key ''sub'' k then map_option (\<lambda>s. d\<lparr>d_Subject := s\<rparr>) (json_string (d_Subject d) v)
      else if json_key ''lvl'' k then map_option (\<lambda>s. d\<lparr>d_Level := s\<rparr>) (json_string (d_Level d) v)
      else if json_key ''exp'' k then map_option (\<lambda>i. d\<lparr>d_Expiry := i\<rparr>) (json_int64 (d_Expiry d) v)
      else if json_key ''prv'' k
      then map_option (\<lambda>s. d\<lparr>d_ProviderMode := s\<rparr>) (json_string (d_ProviderMode d) v)
      else Some d)"

definition Data_unmarshal :: "golib \<Rightarrow> string \<Rightarrow> Data option" where
  "Data_unmarshal G text = Option.bind (json_parse G text) (json_struct Data_member zero_Data)"

fun derive_keys :: "golib \<Rightarrow> nat \<Rightarrow> string list \<Rightarrow> (session_error, string list) result" where
  "derive_keys G i [] = Inr []"
| "derive_keys G i (s # ss) =
     (if s = [] then Inl (EmptySecret i)
      else case derive_keys G (Suc i) ss of
        Inl e \<Rightarrow> Inl e
      | Inr ks \<Rightarrow> Inr (sha256_Sum256 G s # ks))"

definition NewCodec :: "golib \<Rightarrow> string list \<Rightarrow> (session_error, Codec) result" where
  "NewCodec G secrets =
     (if secrets = [] then Inl NoSecrets
      else case derive_keys G 0 secrets of Inl e \<Rightarrow> Inl e | Inr ks \<Rightarrow> Inr \<lparr>keys = ks\<rparr>)"

definition KeyCount :: "Codec \<Rightarrow> nat" where
  "KeyCount c = length (keys c)"

text \<open>\<open>aes.NewCipher\<close> accepts keys of 16, 24 and 32 bytes; a GCM nonce has 12.\<close>

definition aes_key_ok :: "string \<Rightarrow> bool" where
  "aes_key_ok k = (length k = 16 \<or> length k = 24 \<or> length k = 32)"

definition NonceSize :: nat where "NonceSize = 12"

text \<open>The primary key, \<open>c.keys[0]\<close>; a codec built by \<open>NewCodec\<close> has one.\<close>

definition primary_key :: "Codec \<Rightarrow> string" where
  "primary_key c = (case keys c of [] \<Rightarrow> [] | k # _ \<Rightarrow> k)"

definition Seal :: "golib \<Rightarrow> Codec \<Rightarrow> string option \<Rightarrow> json \<Rightarrow> (session_error, string) result" where
  "Seal G c rnd v =
     (let plain = json_text G v; key = primary_key c in
      if \<not> aes_key_ok key then Inl (BadKeySize (length key))
      else case rnd of
        None \<Rightarrow> Inl NonceFailed
      | Some nonce \<Rightarrow> Inr (b64_EncodeToString (nonce @ gcm_Seal G key nonce plain)))"

text \<open>The loop of \<open>Open\<close>: each key is tried in turn.\<close>

fun open_keys ::
  "golib \<Rightarrow> string list \<Rightarrow> string \<Rightarrow> (string \<Rightarrow> 'a option) \<Rightarrow> (session_error, 'a) result" where
  "open_keys G [] raw unmarshal = Inl NoKeyDecrypts"
| "open_keys G (k # ks) raw unmarshal =
     (if \<not> aes_key_ok k then Inl (BadKeySize (length k))
      else if length raw < NonceSize then Inl TooShort
      else case gcm_Open G k (take NonceSize raw) (drop NonceSize raw) of
        None \<Rightarrow> open_keys G ks raw unmarshal
      | Some plain \<Rightarrow>
          (case unmarshal plain of None \<Rightarrow> Inl BadPayload | Some v \<Rightarrow> Inr v))"

definition Open ::
  "golib \<Rightarrow> Codec \<Rightarrow> string \<Rightarrow> (string \<Rightarrow> 'a option) \<Rightarrow> (session_error, 'a) result" where
  "Open G c s unmarshal =
     (case b64_DecodeString s of
        None \<Rightarrow> Inl NotBase64
      | Some raw \<Rightarrow> open_keys G (keys c) raw unmarshal)"

text \<open>Seconds of an instant or a duration given in nanoseconds.\<close>

definition Unix :: "int \<Rightarrow> int" where
  "Unix ns = ns div 1000000000"

definition NewData :: "int \<Rightarrow> string \<Rightarrow> string \<Rightarrow> string \<Rightarrow> int \<Rightarrow> Data" where
  "NewData now subject level mode maxAge =
     \<lparr>d_Subject = subject, d_Level = level, d_Expiry = Unix (now + maxAge), d_ProviderMode = mode\<rparr>"

definition Valid :: "int \<Rightarrow> Data \<Rightarrow> bool" where
  "Valid now d = (d_Subject d \<noteq> [] \<and> Unix now < d_Expiry d)"

definition session_cookie :: "string \<Rightarrow> string \<Rightarrow> int \<Rightarrow> bool \<Rightarrow> cookie" where
  "session_cookie name val maxAge secure =
     \<lparr>ck_Name = name, ck_Value = val, ck_Path = ''/'', ck_MaxAge = maxAge,
      ck_HttpOnly = True, ck_Secure = secure, ck_SameSite = SameSiteLaxMode\<rparr>"

definition SetCookie ::
  "golib \<Rightarrow> Codec \<Rightarrow> string option \<Rightarrow> response \<Rightarrow> string \<Rightarrow> bool \<Rightarrow> int \<Rightarrow> Data
     \<Rightarrow> (session_error, response) result" where
  "SetCookie G c rnd w name secure maxAge d =
     (case Seal G c rnd (Data_json d) of
        Inl e \<Rightarrow> Inl e
      | Inr v \<Rightarrow> Inr (http_SetCookie w (session_cookie name v (maxAge div 1000000000) secure)))"

definition ReadCookie :: "golib \<Rightarrow> Codec \<Rightarrow> int \<Rightarrow> request \<Rightarrow> string \<Rightarrow> (session_error, Data) result" where
  "ReadCookie G c now r name =
     (case request_Cookie r name of
        None \<Rightarrow> Inl NoSessionCookie
      | Some v \<Rightarrow>
          (case Open G c v (Data_unmarshal G) of
             Inl e \<Rightarrow> Inl e
           | Inr d \<Rightarrow> if Valid now d then Inr d else Inl ExpiredOrEmpty))"

definition ClearCookie :: "response \<Rightarrow> string \<Rightarrow> bool \<Rightarrow> response" where
  "ClearCookie w name secure = http_SetCookie w (session_cookie name [] (- 1) secure)"

definition csrf_message :: "Data \<Rightarrow> string" where
  "csrf_message d = d_Subject d @ ''|'' @ Itoa (d_Expiry d)"

definition CSRFToken :: "golib \<Rightarrow> Codec \<Rightarrow> Data \<Rightarrow> string" where
  "CSRFToken G c d = hex_EncodeToString (hmac_SHA256 G (primary_key c) (csrf_message d))"

definition ValidCSRF :: "golib \<Rightarrow> Codec \<Rightarrow> Data \<Rightarrow> string \<Rightarrow> bool" where
  "ValidCSRF G c d token =
     (case hex_DecodeString (CSRFToken G c d) of
        None \<Rightarrow> False
      | Some want \<Rightarrow>
          (case hex_DecodeString token of None \<Rightarrow> False | Some got \<Rightarrow> want = got))"

section \<open>Keys\<close>

lemma derive_keys_ok: "[] \<notin> set ss \<Longrightarrow> derive_keys G i ss = Inr (map (sha256_Sum256 G) ss)"
  by (induction ss arbitrary: i) auto

lemma derive_keys_err: "[] \<in> set ss \<Longrightarrow> \<exists>e. derive_keys G i ss = Inl e"
proof (induction ss arbitrary: i)
  case (Cons s ss)
  show ?case
  proof (cases "s = []")
    case False
    with Cons.prems Cons.IH[of "Suc i"] obtain e where "derive_keys G (Suc i) ss = Inl e" by auto
    with False show ?thesis by simp
  qed simp
qed simp

lemma NewCodec_Inr:
  "NewCodec G ss = Inr c \<longleftrightarrow> ss \<noteq> [] \<and> [] \<notin> set ss \<and> c = \<lparr>keys = map (sha256_Sum256 G) ss\<rparr>"
proof (cases "[] \<in> set ss")
  case True
  then obtain e where "derive_keys G 0 ss = Inl e" using derive_keys_err by blast
  with True show ?thesis by (auto simp: NewCodec_def)
next
  case False
  then show ?thesis by (auto simp: NewCodec_def derive_keys_ok)
qed

lemma derive_keys_Inl:
  "derive_keys G i ss = Inl e \<Longrightarrow>
     \<exists>j < length ss. e = EmptySecret (i + j) \<and> ss ! j = [] \<and> (\<forall>k<j. ss ! k \<noteq> [])"
proof (induction ss arbitrary: i)
  case Nil
  then show ?case by simp
next
  case (Cons s ss)
  show ?case
  proof (cases "s = []")
    case True
    with Cons.prems show ?thesis by auto
  next
    case False
    with Cons.prems have "derive_keys G (Suc i) ss = Inl e" by (auto split: sum.splits)
    then obtain j where "j < length ss" "e = EmptySecret (Suc i + j)" "ss ! j = []" "\<forall>k<j. ss ! k \<noteq> []"
      using Cons.IH by blast
    with False show ?thesis
      by (intro exI[of _ "Suc j"]) (auto simp: less_Suc_eq_0_disj)
  qed
qed

section \<open>Opening what was sealed\<close>

text \<open>
  The documented behaviour of AES-GCM the codec relies on, at one key, nonce and
  plaintext: opening inverts sealing.
\<close>

definition gcm_inverts :: "golib \<Rightarrow> string \<Rightarrow> string \<Rightarrow> string \<Rightarrow> bool" where
  "gcm_inverts G k n p = (gcm_Open G k n (gcm_Seal G k n p) = Some p)"

lemma open_keys_skip:
  assumes "\<forall>k\<in>set ks. aes_key_ok k \<and> gcm_Open G k (take NonceSize raw) (drop NonceSize raw) = None"
    and "NonceSize \<le> length raw"
  shows "open_keys G (ks @ ks') raw u = open_keys G ks' raw u"
  using assms by (induction ks) auto

lemma open_keys_sealed:
  assumes "length n = NonceSize" "aes_key_ok k" "gcm_inverts G k n p"
    and "\<forall>k'\<in>set ks. aes_key_ok k' \<and> gcm_Open G k' n (gcm_Seal G k n p) = None"
  shows "open_keys G (ks @ k # ks') (n @ gcm_Seal G k n p) u =
    (case u p of None \<Rightarrow> Inl BadPayload | Some v \<Rightarrow> Inr v)"
proof -
  let ?raw = "n @ gcm_Seal G k n p"
  have "open_keys G (ks @ k # ks') ?raw u = open_keys G (k # ks') ?raw u"
    by (rule open_keys_skip) (use assms in auto)
  with assms show ?thesis by (simp add: gcm_inverts_def)
qed

lemma Data_json_roundtrip:
  assumes "json_parse G (json_text G (Data_json d)) = Some (Data_json d)"
    and "- (2 ^ 63) \<le> d_Expiry d" "d_Expiry d < 2 ^ 63"
  shows "Data_unmarshal G (json_text G (Data_json d)) = Some d"
proof -
  have k: "json_key ''sub'' ''sub''" "\<not> json_key ''sub'' ''lvl''" "\<not> json_key ''sub'' ''exp''"
    "\<not> json_key ''sub'' ''prv''" "json_key ''lvl'' ''lvl''" "\<not> json_key ''lvl'' ''exp''"
    "\<not> json_key ''lvl'' ''prv''" "json_key ''exp'' ''exp''" "\<not> json_key ''exp'' ''prv''"
    "json_key ''prv'' ''prv''"
    by (simp_all add: json_key_def EqualFoldASCII_def to_runes_ascii is_ascii_def byte_def
        fold_ascii_def lower_ascii_def)
  show ?thesis using assms
    by (simp add: Data_unmarshal_def json_struct_def Data_json_def Data_member_def k json_string_def
        json_int64_def zero_Data_def)
qed

lemma open_keys_Inr:
  "open_keys G ks raw u = Inr v \<Longrightarrow>
     \<exists>k\<in>set ks. \<exists>p. gcm_Open G k (take NonceSize raw) (drop NonceSize raw) = Some p \<and> u p = Some v"
  by (induction ks) (auto split: if_splits option.splits)

lemma NewCodec_keys_ok:
  "NewCodec G ss = Inr c \<Longrightarrow> \<forall>s\<in>set ss. length (sha256_Sum256 G s) = 32 \<Longrightarrow> \<forall>k\<in>set (keys c). aes_key_ok k"
  by (auto simp: NewCodec_Inr aes_key_ok_def)

lemma primary_key_NewCodec: "NewCodec G (s # ss) = Inr c \<Longrightarrow> primary_key c = sha256_Sum256 G s"
  by (simp add: NewCodec_Inr primary_key_def)

lemma Open_sealed:
  assumes codec: "NewCodec G (s # ss) = Inr c" and sha: "length (sha256_Sum256 G s) = 32"
    and nonce: "length n = NonceSize" and gcm: "gcm_inverts G (primary_key c) n (json_text G j)"
    and seal: "Seal G c (Some n) j = Inr v"
  shows "Open G c v u = (case u (json_text G j) of None \<Rightarrow> Inl BadPayload | Some x \<Rightarrow> Inr x)"
proof -
  have k: "primary_key c = sha256_Sum256 G s" using codec by (rule primary_key_NewCodec)
  have ok: "aes_key_ok (sha256_Sum256 G s)" using sha by (simp add: aes_key_ok_def)
  have v: "v = b64_EncodeToString (n @ gcm_Seal G (sha256_Sum256 G s) n (json_text G j))"
    using seal ok by (simp add: Seal_def k)
  have keys: "keys c = [] @ sha256_Sum256 G s # map (sha256_Sum256 G) ss"
    using codec by (auto simp: NewCodec_Inr)
  show ?thesis unfolding Open_def v keys b64_roundtrip option.case
    by (rule open_keys_sealed[OF nonce ok]) (use gcm k in simp_all)
qed

lemma csrf_message_inj:
  assumes "csrf_message d = csrf_message d'"
  shows "d_Subject d = d_Subject d' \<and> d_Expiry d = d_Expiry d'"
proof -
  have nobar: "CHR ''|'' \<notin> set (rev (Itoa i))" for i
    using Itoa_chars[of "CHR ''|''" i] by (auto simp: is_digit_def byte_def)
  have "rev (Itoa (d_Expiry d)) @ CHR ''|'' # rev (d_Subject d)
      = rev (Itoa (d_Expiry d')) @ CHR ''|'' # rev (d_Subject d')"
    using arg_cong[OF assms, of rev] by (simp add: csrf_message_def)
  then have "rev (Itoa (d_Expiry d)) = rev (Itoa (d_Expiry d')) \<and> rev (d_Subject d) = rev (d_Subject d')"
    using takeWhile_dropWhile_split[OF nobar] by (metis list.inject)
  then show ?thesis by (auto dest: Itoa_inj)
qed

section \<open>Properties\<close>

text \<open>
  C7: sessions survive key rotation. A session sealed by a codec is read back unchanged,
  while it is still valid, by any codec whose secrets are the old ones with new ones
  prepended, provided the new keys do not authenticate the old ciphertext.
\<close>

theorem session_survives_rotation:
  assumes codec: "NewCodec G (s # ss) = Inr c" and codec': "NewCodec G (new @ s # ss) = Inr c'"
    and sha: "\<forall>x. length (sha256_Sum256 G x) = 32"
    and nonce: "length n = NonceSize"
    and gcm: "gcm_inverts G (primary_key c) n (json_text G (Data_json d))"
    and auth: "\<forall>x\<in>set new. gcm_Open G (sha256_Sum256 G x) n
                (gcm_Seal G (primary_key c) n (json_text G (Data_json d))) = None"
    and js: "json_parse G (json_text G (Data_json d)) = Some (Data_json d)"
    and range: "- (2 ^ 63) \<le> d_Expiry d" "d_Expiry d < 2 ^ 63"
    and sealed: "Seal G c (Some n) (Data_json d) = Inr v"
    and carried: "request_Cookie r name = Some v"
    and valid: "Valid now d"
  shows "ReadCookie G c' now r name = Inr d"
proof -
  let ?p = "json_text G (Data_json d)"
  let ?k = "sha256_Sum256 G s"
  have k: "primary_key c = ?k" using codec by (rule primary_key_NewCodec)
  have ok: "aes_key_ok (sha256_Sum256 G x)" for x using sha by (simp add: aes_key_ok_def)
  have v: "v = b64_EncodeToString (n @ gcm_Seal G ?k n ?p)"
    using sealed ok by (simp add: Seal_def k)
  have "keys c' = map (sha256_Sum256 G) new @ ?k # map (sha256_Sum256 G) ss"
    using codec' by (auto simp: NewCodec_Inr)
  then have "open_keys G (keys c') (n @ gcm_Seal G ?k n ?p) (Data_unmarshal G)
      = (case Data_unmarshal G ?p of None \<Rightarrow> Inl BadPayload | Some v \<Rightarrow> Inr v)"
    using nonce ok gcm auth k by (auto intro!: open_keys_sealed)
  also have "Data_unmarshal G ?p = Some d" using js range by (rule Data_json_roundtrip)
  finally show ?thesis using carried valid
    by (simp add: ReadCookie_def Open_def v b64_roundtrip)
qed

text \<open>
  only authenticated, live sessions are read. A session \<open>ReadCookie\<close> returns was the
  plaintext of the request's cookie under one of the codec's keys, names a subject and has
  not expired.
\<close>

theorem ReadCookie_sound:
  assumes "ReadCookie G c now r name = Inr d"
  shows "d_Subject d \<noteq> [] \<and> Unix now < d_Expiry d \<and>
    (\<exists>v raw k p. request_Cookie r name = Some v \<and> b64_DecodeString v = Some raw \<and> k \<in> set (keys c) \<and>
       gcm_Open G k (take NonceSize raw) (drop NonceSize raw) = Some p \<and> Data_unmarshal G p = Some d)"
  using assms
  by (auto simp: ReadCookie_def Open_def Valid_def split: option.splits sum.splits if_splits
      dest!: open_keys_Inr)

text \<open>
  C8: the CSRF token is bound to one session. A session accepts its own token; it accepts
  the token of another session only if both have the same subject and the same expiry,
  provided the MAC does not collide on their two messages.
\<close>

theorem csrf_binds_session:
  assumes "hmac_SHA256 G (primary_key c) (csrf_message d') = hmac_SHA256 G (primary_key c) (csrf_message d)
      \<Longrightarrow> csrf_message d' = csrf_message d"
  shows "ValidCSRF G c d (CSRFToken G c d) \<and>
    (ValidCSRF G c d' (CSRFToken G c d) \<longleftrightarrow> d_Subject d' = d_Subject d \<and> d_Expiry d' = d_Expiry d)"
proof -
  have valid: "ValidCSRF G c x (CSRFToken G c d) \<longleftrightarrow>
      hmac_SHA256 G (primary_key c) (csrf_message x) = hmac_SHA256 G (primary_key c) (csrf_message d)" for x
    by (simp add: ValidCSRF_def CSRFToken_def hex_roundtrip)
  have msg: "csrf_message d' = csrf_message d \<longleftrightarrow> d_Subject d' = d_Subject d \<and> d_Expiry d' = d_Expiry d"
    using csrf_message_inj[of d' d] by (auto simp: csrf_message_def)
  have "ValidCSRF G c d' (CSRFToken G c d) \<longleftrightarrow> csrf_message d' = csrf_message d"
    unfolding valid[of d'] using assms by metis
  then show ?thesis unfolding msg using valid[of d] by simp
qed

section \<open>Witnesses\<close>

definition sample_session :: Data where
  "sample_session = \<lparr>d_Subject = ''jane'', d_Level = ''dba'', d_Expiry = 100, d_ProviderMode = ''local''\<rparr>"

abbreviation session_lib :: golib where
  "session_lib \<equiv> sample_lib (Data_json sample_session)"

definition sample_nonce :: string where
  "sample_nonce = replicate 12 CHR ''n''"

definition sample_cookie :: string where
  "sample_cookie = b64_EncodeToString (sample_nonce @ sha256_Sum256 session_lib ''old'' @ ''document'')"

theorem session_survives_rotation_witness:
  "ReadCookie session_lib \<lparr>keys = [sha256_Sum256 session_lib ''new'', sha256_Sum256 session_lib ''old'']\<rparr> 0
     (sample_request\<lparr>rq_Cookies := [(''s'', sample_cookie)]\<rparr>) ''s'' = Inr sample_session"
proof (rule session_survives_rotation[where s = "''old''" and ss = "[]" and new = "[''new'']"
      and c = "\<lparr>keys = [sha256_Sum256 session_lib ''old'']\<rparr>" and n = sample_nonce and v = sample_cookie])
  show "request_Cookie (sample_request\<lparr>rq_Cookies := [(''s'', sample_cookie)]\<rparr>) ''s'' = Some sample_cookie"
    by (simp add: request_Cookie_def)
  show "\<forall>x. length (sha256_Sum256 session_lib x) = 32" by (auto simp: min_def)
qed (simp_all add: NewCodec_Inr sample_nonce_def NonceSize_def gcm_inverts_def primary_key_def
    sample_session_def Seal_def aes_key_ok_def sample_cookie_def Valid_def Unix_def)

theorem ReadCookie_sound_witness:
  "d_Subject sample_session \<noteq> [] \<and> Unix 0 < d_Expiry sample_session"
proof -
  have "ReadCookie session_lib \<lparr>keys = [sha256_Sum256 session_lib ''old'']\<rparr> 0
      (sample_request\<lparr>rq_Cookies := [(''s'', sample_cookie)]\<rparr>) ''s'' = Inr sample_session"
    using Data_json_roundtrip[of session_lib sample_session]
    by (simp add: ReadCookie_def request_Cookie_def Open_def sample_cookie_def b64_roundtrip
        sample_nonce_def NonceSize_def aes_key_ok_def Valid_def Unix_def sample_session_def)
  from ReadCookie_sound[OF this] show ?thesis by blast
qed

theorem csrf_binds_session_witness:
  "ValidCSRF session_lib \<lparr>keys = [''k'']\<rparr> sample_session (CSRFToken session_lib \<lparr>keys = [''k'']\<rparr> sample_session)"
  by (rule csrf_binds_session[where d' = sample_session, THEN conjunct1]) simp

end
