(* ===== verification/Proxy_Config.thy ===== *)
theory Proxy_Config
  imports Session
begin

text \<open>
  The proxy's configuration file (\<open>internal/proxy/config/config.go\<close>, \<open>validate.go\<close>):
  its schema, defaults, validation and warnings. Durations are nanoseconds.

  \<open>Validate\<close> accumulates every problem, as the code does; \<open>config_ok\<close> states what a
  configuration without problems looks like, and \<open>Validate_iff\<close> that the two agree.
\<close>

section \<open>Model\<close>

type_synonym level = string

definition LevelNone :: level where "LevelNone = ''''"
definition LevelView :: level where "LevelView = ''view''"
definition LevelPowerUser :: level where "LevelPowerUser = ''poweruser''"
definition LevelDBA :: level where "LevelDBA = ''dba''"

lemmas level_defs = LevelNone_def LevelView_def LevelPowerUser_def LevelDBA_def

definition Rank :: "level \<Rightarrow> int" where
  "Rank l =
     (if l = LevelView then 1 else if l = LevelPowerUser then 2 else if l = LevelDBA then 3
      else if l = LevelNone then 0 else - 1)"

definition Level_Valid :: "level \<Rightarrow> bool" where
  "Level_Valid l = (0 < Rank l)"

definition ModeOIDC :: string where "ModeOIDC = ''oidc''"
definition ModeLocal :: string where "ModeLocal = ''local''"
definition ModeOpenShift :: string where "ModeOpenShift = ''openshift''"

lemmas mode_defs = ModeOIDC_def ModeLocal_def ModeOpenShift_def

record SessionConfig =
  sc_CookieName :: string
  sc_CookieSecrets :: "string list"
  sc_MaxAge :: int
  sc_Secure :: "bool option"

definition CookieSecure :: "SessionConfig \<Rightarrow> bool" where
  "CookieSecure s = (case sc_Secure s of None \<Rightarrow> True | Some b \<Rightarrow> b)"

record ServerConfig =
  sv_Listen :: string
  sv_UpstreamDialTimeout :: int
  sv_UpstreamResponseHeaderTimeout :: int

record OIDCConfig =
  oc_IssuerURL :: string
  oc_ClientID :: string
  oc_ClientSecretFile :: string
  oc_RedirectURL :: string
  oc_Scopes :: "string list"
  oc_SubjectClaim :: string

record OpenShiftConfig =
  os_ClientID :: string
  os_ClientSecretFile :: string
  os_RedirectURL :: string
  os_DiscoveryURL :: string
  os_APIURL :: string
  os_CAFile :: string
  os_Scopes :: "string list"
  os_UserInfoPath :: string

record ProviderConfig =
  pc_Modes :: "string list"
  pc_OIDC :: "OIDCConfig option"
  pc_OpenShift :: "OpenShiftConfig option"

record User =
  us_Subject :: string
  us_Level :: level
  us_LocalPasswordBcrypt :: string

record RouteConfig =
  rc_PathPrefix :: string
  rc_Upstream :: string
  rc_MinLevel :: level

record AccessRequestConfig =
  ar_Enabled :: bool
  ar_ConsoleName :: string
  ar_Namespace :: string

record Config =
  cf_Session :: SessionConfig
  cf_Server :: ServerConfig
  cf_Provider :: ProviderConfig
  cf_Users :: "User list"
  cf_Routes :: "RouteConfig list"
  cf_AccessRequest :: AccessRequestConfig

definition ReservedPrefixes :: "string list" where
  "ReservedPrefixes = [''/auth'', ''/logout'', ''/healthz'']"

subsection \<open>Defaults\<close>

definition second :: int where "second = 1000000000"

definition default_string :: "string \<Rightarrow> string \<Rightarrow> string" where
  "default_string d s = (if s = [] then d else s)"

definition default_int :: "int \<Rightarrow> int \<Rightarrow> int" where
  "default_int d i = (if i = 0 then d else i)"

definition default_list :: "'a list \<Rightarrow> 'a list \<Rightarrow> 'a list" where
  "default_list d xs = (if xs = [] then d else xs)"

definition setDefaults :: "Config \<Rightarrow> Config" where
  "setDefaults c =
     c\<lparr>cf_Session := (cf_Session c)
          \<lparr>sc_CookieName := default_string ''pgtoolbox_session'' (sc_CookieName (cf_Session c)),
           sc_MaxAge := default_int (8 * 3600 * second) (sc_MaxAge (cf_Session c))\<rparr>,
       cf_Server := (cf_Server c)
          \<lparr>sv_Listen := default_string '':8080'' (sv_Listen (cf_Server c)),
           sv_UpstreamDialTimeout := default_int (10 * second) (sv_UpstreamDialTimeout (cf_Server c)),
           sv_UpstreamResponseHeaderTimeout :=
             default_int (30 * second) (sv_UpstreamResponseHeaderTimeout (cf_Server c))\<rparr>,
       cf_Provider := (cf_Provider c)
          \<lparr>pc_OIDC := map_option (\<lambda>o'. o'\<lparr>oc_Scopes := default_list [''openid'', ''email''] (oc_Scopes o'),
                                          oc_SubjectClaim := default_string ''email'' (oc_SubjectClaim o')\<rparr>)
                       (pc_OIDC (cf_Provider c)),
           pc_OpenShift := map_option (\<lambda>o'. o'\<lparr>os_Scopes := default_list [''user:info''] (os_Scopes o'),
                                 os_UserInfoPath :=
                                   default_string ''/apis/user.openshift.io/v1/users/~'' (os_UserInfoPath o')\<rparr>)
                       (pc_OpenShift (cf_Provider c))\<rparr>,
       cf_Routes := map (\<lambda>r. r\<lparr>rc_MinLevel := default_string LevelView (rc_MinLevel r)\<rparr>) (cf_Routes c)\<rparr>"

subsection \<open>Validation\<close>

datatype config_error =
    CookieNameRequired | CookieNameInvalid string | NoCookieSecrets | SecretTooShort nat
  | MaxAgeNotPositive | ListenRequired | DialTimeoutNotPositive | HeaderTimeoutNotPositive
  | NoModes | ModeInvalid string | ModeTwice string | OidcRequired | OidcNotEnabled
  | OpenshiftRequired | OpenshiftNotEnabled
  | OidcIssuerRequired | OidcIssuerNotHttps | OidcClientIDRequired | OidcSecretFileRequired
  | OidcRedirectNotAbsolute | OidcScopesEmpty | OidcSubjectClaimEmpty
  | OsClientIDRequired | OsSecretFileRequired | OsRedirectRequired | OsRedirectNotAbsolute
  | OsDiscoveryNotAbsolute | OsApiNotAbsolute | OsScopesEmpty | OsUserInfoPathNotRooted
  | UserSubjectRequired nat | UserDuplicate nat string | UserLevelInvalid nat string
  | UserHashNotLocal nat | UserHashInvalid nat
  | NoRoutes | RoutePrefixNotRooted nat string | RoutePrefixDots nat string
  | RouteDuplicate nat string | RouteReserved nat string string | RouteUpstreamRequired nat
  | RouteUpstreamInvalid nat | RouteLevelInvalid nat string
  | ConsoleNameRequired | NamespaceRequired
  | ParseFailed | ReadFailed

definition minSecretLength :: nat where "minSecretLength = 16"

definition cookie_rune_ok :: "nat \<Rightarrow> bool" where
  "cookie_rune_ok r =
     (r = 33 \<or> (35 \<le> r \<and> r \<le> 43) \<or> (45 \<le> r \<and> r \<le> 46) \<or> (48 \<le> r \<and> r \<le> 57) \<or> (65 \<le> r \<and> r \<le> 90)
      \<or> (94 \<le> r \<and> r \<le> 122) \<or> r = 124 \<or> r = 126)"

definition isCookieNameValid :: "string \<Rightarrow> bool" where
  "isCookieNameValid name = list_all cookie_rune_ok (to_runes name)"

fun short_secrets :: "nat \<Rightarrow> string list \<Rightarrow> config_error list" where
  "short_secrets i [] = []"
| "short_secrets i (s # ss) =
     (if length s < minSecretLength then [SecretTooShort i] else []) @ short_secrets (Suc i) ss"

definition validateSession :: "Config \<Rightarrow> config_error list" where
  "validateSession c =
     (let s = cf_Session c in
      (if sc_CookieName s = [] then [CookieNameRequired]
       else if \<not> isCookieNameValid (sc_CookieName s) then [CookieNameInvalid (sc_CookieName s)] else [])
      @ (if sc_CookieSecrets s = [] then [NoCookieSecrets] else [])
      @ short_secrets 0 (sc_CookieSecrets s)
      @ (if sc_MaxAge s \<le> 0 then [MaxAgeNotPositive] else []))"

definition validateServer :: "Config \<Rightarrow> config_error list" where
  "validateServer c =
     (let s = cf_Server c in
      (if sv_Listen s = [] then [ListenRequired] else [])
      @ (if sv_UpstreamDialTimeout s \<le> 0 then [DialTimeoutNotPositive] else [])
      @ (if sv_UpstreamResponseHeaderTimeout s \<le> 0 then [HeaderTimeoutNotPositive] else []))"

text \<open>\<open>u, err := url.Parse(s); err != nil \<or> scheme not in schemes \<or> u.Host == \"\"\<close>, negated.\<close>

definition absolute_url :: "string list \<Rightarrow> string \<Rightarrow> bool" where
  "absolute_url schemes s =
     (case url_Parse s of None \<Rightarrow> False | Some u \<Rightarrow> url_Scheme u \<in> set schemes \<and> url_Host u \<noteq> [])"

definition OIDC_validate :: "OIDCConfig \<Rightarrow> config_error list" where
  "OIDC_validate o' =
     (if oc_IssuerURL o' = [] then [OidcIssuerRequired]
      else if \<not> absolute_url [''https''] (oc_IssuerURL o') then [OidcIssuerNotHttps] else [])
     @ (if oc_ClientID o' = [] then [OidcClientIDRequired] else [])
     @ (if oc_ClientSecretFile o' = [] then [OidcSecretFileRequired] else [])
     @ (if oc_RedirectURL o' \<noteq> [] \<and> \<not> absolute_url [''https'', ''http''] (oc_RedirectURL o')
        then [OidcRedirectNotAbsolute] else [])
     @ (if oc_Scopes o' = [] then [OidcScopesEmpty] else [])
     @ (if oc_SubjectClaim o' = [] then [OidcSubjectClaimEmpty] else [])"

definition OpenShift_validate :: "OpenShiftConfig \<Rightarrow> config_error list" where
  "OpenShift_validate o' =
     (if os_ClientID o' = [] then [OsClientIDRequired] else [])
     @ (if os_ClientSecretFile o' = [] then [OsSecretFileRequired] else [])
     @ (if os_RedirectURL o' = [] then [OsRedirectRequired]
        else if \<not> absolute_url [''https'', ''http''] (os_RedirectURL o') then [OsRedirectNotAbsolute] else [])
     @ (if os_DiscoveryURL o' \<noteq> [] \<and> \<not> absolute_url [''https'', ''http''] (os_DiscoveryURL o')
        then [OsDiscoveryNotAbsolute] else [])
     @ (if os_APIURL o' \<noteq> [] \<and> \<not> absolute_url [''https'', ''http''] (os_APIURL o')
        then [OsApiNotAbsolute] else [])
     @ (if os_Scopes o' = [] then [OsScopesEmpty] else [])
     @ (if os_UserInfoPath o' \<noteq> [] \<and> \<not> HasPrefix (os_UserInfoPath o') ''/''
        then [OsUserInfoPathNotRooted] else [])"

text \<open>The loop over the modes: problems found, and the modes seen.\<close>

fun scan_modes :: "string list \<Rightarrow> string list \<Rightarrow> config_error list \<times> string list" where
  "scan_modes seen [] = ([], seen)"
| "scan_modes seen (m # ms) =
     (if m \<noteq> ModeOIDC \<and> m \<noteq> ModeLocal \<and> m \<noteq> ModeOpenShift
      then (let (es, s) = scan_modes seen ms in (ModeInvalid m # es, s))
      else (let (es, s) = scan_modes (m # seen) ms in
            ((if m \<in> set seen then [ModeTwice m] else []) @ es, s)))"

definition validateProvider :: "Config \<Rightarrow> config_error list" where
  "validateProvider c =
     (let p = cf_Provider c in
      if pc_Modes p = [] then [NoModes]
      else let (errs, seen) = scan_modes [] (pc_Modes p) in
        errs
        @ (if ModeOIDC \<in> set seen
           then (case pc_OIDC p of None \<Rightarrow> [OidcRequired] | Some o' \<Rightarrow> OIDC_validate o')
           else if pc_OIDC p \<noteq> None then [OidcNotEnabled] else [])
        @ (if ModeOpenShift \<in> set seen
           then (case pc_OpenShift p of None \<Rightarrow> [OpenshiftRequired] | Some o' \<Rightarrow> OpenShift_validate o')
           else if pc_OpenShift p \<noteq> None then [OpenshiftNotEnabled] else []))"

definition LocalEnabled :: "Config \<Rightarrow> bool" where
  "LocalEnabled c = list_ex (\<lambda>m. m = ModeLocal) (pc_Modes (cf_Provider c))"

definition user_problems :: "golib \<Rightarrow> bool \<Rightarrow> nat \<Rightarrow> User \<Rightarrow> config_error list" where
  "user_problems G loc i u =
     (if \<not> Level_Valid (us_Level u) then [UserLevelInvalid i (us_Level u)] else [])
     @ (if us_LocalPasswordBcrypt u \<noteq> []
        then if \<not> loc then [UserHashNotLocal i]
             else if \<not> bcrypt_CostOk G (us_LocalPasswordBcrypt u) then [UserHashInvalid i] else []
        else [])"

fun scan_users :: "golib \<Rightarrow> bool \<Rightarrow> nat \<Rightarrow> string list \<Rightarrow> User list \<Rightarrow> config_error list" where
  "scan_users G loc i seen [] = []"
| "scan_users G loc i seen (u # us) =
     (if us_Subject u = [] then [UserSubjectRequired i]
      else if lower G (us_Subject u) \<in> set seen then [UserDuplicate i (us_Subject u)] else [])
     @ user_problems G loc i u
     @ scan_users G loc (Suc i)
         (if us_Subject u = [] then seen else lower G (us_Subject u) # seen) us"

definition validateUsers :: "golib \<Rightarrow> Config \<Rightarrow> config_error list" where
  "validateUsers G c = scan_users G (LocalEnabled c) 0 [] (cf_Users c)"

definition reserved_clash :: "string \<Rightarrow> string \<Rightarrow> bool" where
  "reserved_clash p res = (p = res \<or> HasPrefix p (res @ ''/''))"

definition rooted :: "string \<Rightarrow> bool" where
  "rooted p = (p \<noteq> [] \<and> HasPrefix p ''/'')"

definition route_problems :: "nat \<Rightarrow> RouteConfig \<Rightarrow> config_error list" where
  "route_problems i r =
     (if rc_Upstream r = [] then [RouteUpstreamRequired i]
      else if \<not> absolute_url [''http'', ''https''] (rc_Upstream r) then [RouteUpstreamInvalid i] else [])
     @ (if \<not> Level_Valid (rc_MinLevel r) then [RouteLevelInvalid i (rc_MinLevel r)] else [])"

fun scan_routes :: "nat \<Rightarrow> string list \<Rightarrow> RouteConfig list \<Rightarrow> config_error list" where
  "scan_routes i seen [] = []"
| "scan_routes i seen (r # rs) =
     (let p = rc_PathPrefix r in
      (if \<not> rooted p then [RoutePrefixNotRooted i p]
       else (if Contains p ''..'' then [RoutePrefixDots i p] else [])
          @ (if p \<in> set seen then [RouteDuplicate i p] else [])
          @ map (RouteReserved i p) (filter (reserved_clash p) ReservedPrefixes))
      @ route_problems i r
      @ scan_routes (Suc i) (if rooted p then p # seen else seen) rs)"

definition validateRoutes :: "Config \<Rightarrow> config_error list" where
  "validateRoutes c = (if cf_Routes c = [] then [NoRoutes] else scan_routes 0 [] (cf_Routes c))"

definition validateAccessRequest :: "Config \<Rightarrow> config_error list" where
  "validateAccessRequest c =
     (let a = cf_AccessRequest c in
      if \<not> ar_Enabled a then []
      else (if ar_ConsoleName a = [] then [ConsoleNameRequired] else [])
         @ (if ar_Namespace a = [] then [NamespaceRequired] else []))"

definition Validate :: "golib \<Rightarrow> Config \<Rightarrow> config_error list" where
  "Validate G c =
     validateSession c @ validateServer c @ validateProvider c @ validateUsers G c
     @ validateRoutes c @ validateAccessRequest c"

subsection \<open>Warnings and parsing\<close>

datatype config_warning = NoUsersConfigured | RedirectNotHttps | UpstreamNotLoopback string string

definition isLoopbackHost :: "string \<Rightarrow> bool" where
  "isLoopbackHost host = (EqualFoldASCII host ''localhost'' \<or> is_loopback_ip host)"

definition warnings :: "Config \<Rightarrow> config_warning list" where
  "warnings c =
     (if cf_Users c = [] then [NoUsersConfigured] else [])
     @ (case pc_OIDC (cf_Provider c) of
          Some o' \<Rightarrow> if HasPrefix (oc_RedirectURL o') ''http://'' then [RedirectNotHttps] else []
        | None \<Rightarrow> [])
     @ concat (map (\<lambda>r. case url_Parse (rc_Upstream r) of
          Some u \<Rightarrow> if \<not> isLoopbackHost (url_Hostname u)
                    then [UpstreamNotLoopback (rc_PathPrefix r) (url_Hostname u)] else []
        | None \<Rightarrow> []) (cf_Routes c))"

text \<open>
  \<open>Parse\<close> and \<open>Load\<close>; the strict YAML decoder of \<open>sigs.k8s.io/yaml\<close> is the argument
  \<open>unmarshal\<close>, and the file's content the argument \<open>file\<close> (\<open>None\<close> when unreadable).
\<close>

definition Parse ::
  "golib \<Rightarrow> (string \<Rightarrow> Config option) \<Rightarrow> string \<Rightarrow> (config_error list, Config \<times> config_warning list) result" where
  "Parse G unmarshal raw =
     (case unmarshal raw of
        None \<Rightarrow> Inl [ParseFailed]
      | Some c0 \<Rightarrow>
          let c = setDefaults c0 in
          if Validate G c \<noteq> [] then Inl (Validate G c) else Inr (c, warnings c))"

definition Load ::
  "golib \<Rightarrow> (string \<Rightarrow> Config option) \<Rightarrow> string option \<Rightarrow> (config_error list, Config \<times> config_warning list) result" where
  "Load G unmarshal file =
     (case file of None \<Rightarrow> Inl [ReadFailed] | Some raw \<Rightarrow> Parse G unmarshal raw)"

section \<open>What validation accepts\<close>

definition known_mode :: "string \<Rightarrow> bool" where
  "known_mode m = (m \<in> {ModeOIDC, ModeLocal, ModeOpenShift})"

definition oidc_ok :: "OIDCConfig \<Rightarrow> bool" where
  "oidc_ok o' =
     (absolute_url [''https''] (oc_IssuerURL o') \<and> oc_ClientID o' \<noteq> [] \<and> oc_ClientSecretFile o' \<noteq> []
      \<and> (oc_RedirectURL o' = [] \<or> absolute_url [''https'', ''http''] (oc_RedirectURL o'))
      \<and> oc_Scopes o' \<noteq> [] \<and> oc_SubjectClaim o' \<noteq> [])"

definition openshift_ok :: "OpenShiftConfig \<Rightarrow> bool" where
  "openshift_ok o' =
     (os_ClientID o' \<noteq> [] \<and> os_ClientSecretFile o' \<noteq> []
      \<and> absolute_url [''https'', ''http''] (os_RedirectURL o')
      \<and> (os_DiscoveryURL o' = [] \<or> absolute_url [''https'', ''http''] (os_DiscoveryURL o'))
      \<and> (os_APIURL o' = [] \<or> absolute_url [''https'', ''http''] (os_APIURL o'))
      \<and> os_Scopes o' \<noteq> [] \<and> (os_UserInfoPath o' = [] \<or> rooted (os_UserInfoPath o')))"

definition session_ok :: "SessionConfig \<Rightarrow> bool" where
  "session_ok s =
     (sc_CookieName s \<noteq> [] \<and> isCookieNameValid (sc_CookieName s) \<and> sc_CookieSecrets s \<noteq> []
      \<and> list_all (\<lambda>x. minSecretLength \<le> length x) (sc_CookieSecrets s) \<and> 0 < sc_MaxAge s)"

definition server_ok :: "ServerConfig \<Rightarrow> bool" where
  "server_ok s =
     (sv_Listen s \<noteq> [] \<and> 0 < sv_UpstreamDialTimeout s \<and> 0 < sv_UpstreamResponseHeaderTimeout s)"

definition provider_ok :: "ProviderConfig \<Rightarrow> bool" where
  "provider_ok p =
     (pc_Modes p \<noteq> [] \<and> list_all known_mode (pc_Modes p) \<and> distinct (pc_Modes p)
      \<and> (ModeOIDC \<in> set (pc_Modes p) \<longleftrightarrow> pc_OIDC p \<noteq> None)
      \<and> (ModeOpenShift \<in> set (pc_Modes p) \<longleftrightarrow> pc_OpenShift p \<noteq> None)
      \<and> pred_option oidc_ok (pc_OIDC p) \<and> pred_option openshift_ok (pc_OpenShift p))"

definition user_ok :: "golib \<Rightarrow> bool \<Rightarrow> User \<Rightarrow> bool" where
  "user_ok G loc u =
     (us_Subject u \<noteq> [] \<and> Level_Valid (us_Level u)
      \<and> (us_LocalPasswordBcrypt u = [] \<or> loc \<and> bcrypt_CostOk G (us_LocalPasswordBcrypt u)))"

definition users_ok :: "golib \<Rightarrow> bool \<Rightarrow> User list \<Rightarrow> bool" where
  "users_ok G loc us =
     (list_all (user_ok G loc) us \<and> distinct (map (\<lambda>u. lower G (us_Subject u)) us))"

definition route_ok :: "RouteConfig \<Rightarrow> bool" where
  "route_ok r =
     (rooted (rc_PathPrefix r) \<and> \<not> Contains (rc_PathPrefix r) ''..''
      \<and> list_all (\<lambda>res. \<not> reserved_clash (rc_PathPrefix r) res) ReservedPrefixes
      \<and> absolute_url [''http'', ''https''] (rc_Upstream r) \<and> Level_Valid (rc_MinLevel r))"

definition routes_ok :: "RouteConfig list \<Rightarrow> bool" where
  "routes_ok rs = (rs \<noteq> [] \<and> list_all route_ok rs \<and> distinct (map rc_PathPrefix rs))"

definition access_ok :: "AccessRequestConfig \<Rightarrow> bool" where
  "access_ok a = (ar_Enabled a \<longrightarrow> ar_ConsoleName a \<noteq> [] \<and> ar_Namespace a \<noteq> [])"

definition config_ok :: "golib \<Rightarrow> Config \<Rightarrow> bool" where
  "config_ok G c =
     (session_ok (cf_Session c) \<and> server_ok (cf_Server c) \<and> provider_ok (cf_Provider c)
      \<and> users_ok G (ModeLocal \<in> set (pc_Modes (cf_Provider c))) (cf_Users c)
      \<and> routes_ok (cf_Routes c) \<and> access_ok (cf_AccessRequest c))"

lemma absolute_url_Nil [simp]: "\<not> absolute_url S []"
  by (simp add: absolute_url_def url_Parse_def url_parse0_def Cut_def getScheme_def split_query_def
      HasPrefix_def split: option.splits)

lemma short_secrets_Nil: "short_secrets i ss = [] \<longleftrightarrow> list_all (\<lambda>x. minSecretLength \<le> length x) ss"
  by (induction ss arbitrary: i) auto

lemma validateSession_Nil: "validateSession c = [] \<longleftrightarrow> session_ok (cf_Session c)"
  by (auto simp: validateSession_def session_ok_def short_secrets_Nil Let_def)

lemma validateServer_Nil: "validateServer c = [] \<longleftrightarrow> server_ok (cf_Server c)"
  by (auto simp: validateServer_def server_ok_def Let_def)

lemma OIDC_validate_Nil: "OIDC_validate o' = [] \<longleftrightarrow> oidc_ok o'"
  by (auto simp: OIDC_validate_def oidc_ok_def)

lemma OpenShift_validate_Nil: "OpenShift_validate o' = [] \<longleftrightarrow> openshift_ok o'"
  by (auto simp: OpenShift_validate_def openshift_ok_def rooted_def)

lemma scan_modes_Cons:
  "scan_modes seen (m # ms) =
     (if known_mode m
      then ((if m \<in> set seen then [ModeTwice m] else []) @ fst (scan_modes (m # seen) ms),
            snd (scan_modes (m # seen) ms))
      else (ModeInvalid m # fst (scan_modes seen ms), snd (scan_modes seen ms)))"
  by (simp add: known_mode_def case_prod_unfold Let_def)

lemma scan_modes_seen:
  "set (snd (scan_modes seen ms)) = set seen \<union> (set ms \<inter> Collect known_mode)"
proof (induction ms arbitrary: seen)
  case (Cons m ms)
  then show ?case by (simp only: scan_modes_Cons) auto
qed simp

lemma scan_modes_Nil:
  "fst (scan_modes seen ms) = [] \<longleftrightarrow>
     list_all known_mode ms \<and> distinct ms \<and> set ms \<inter> set seen = {}"
proof (induction ms arbitrary: seen)
  case (Cons m ms)
  then show ?case by (simp only: scan_modes_Cons) auto
qed simp

lemma validateProvider_Nil: "validateProvider c = [] \<longleftrightarrow> provider_ok (cf_Provider c)"
proof -
  obtain errs seen where sm: "scan_modes [] (pc_Modes (cf_Provider c)) = (errs, seen)" by fastforce
  have "ModeOIDC \<in> set seen \<longleftrightarrow> ModeOIDC \<in> set (pc_Modes (cf_Provider c))"
    "ModeOpenShift \<in> set seen \<longleftrightarrow> ModeOpenShift \<in> set (pc_Modes (cf_Provider c))"
    using scan_modes_seen[of "[]" "pc_Modes (cf_Provider c)"] by (auto simp: sm known_mode_def)
  moreover have "errs = [] \<longleftrightarrow> list_all known_mode (pc_Modes (cf_Provider c)) \<and> distinct (pc_Modes (cf_Provider c))"
    using scan_modes_Nil[of "[]" "pc_Modes (cf_Provider c)"] by (simp add: sm)
  ultimately show ?thesis
    by (cases "pc_OIDC (cf_Provider c)"; cases "pc_OpenShift (cf_Provider c)")
      (simp_all add: validateProvider_def provider_ok_def sm Let_def OIDC_validate_Nil OpenShift_validate_Nil)
qed

lemma user_problems_Nil:
  "us_Subject u \<noteq> [] \<Longrightarrow> user_problems G loc i u = [] \<longleftrightarrow> user_ok G loc u"
  by (auto simp: user_problems_def user_ok_def)

lemma scan_users_Nil:
  "scan_users G loc i seen us = [] \<longleftrightarrow>
     list_all (user_ok G loc) us \<and> distinct (map (\<lambda>u. lower G (us_Subject u)) us)
     \<and> (\<forall>u\<in>set us. lower G (us_Subject u) \<notin> set seen)"
proof (induction us arbitrary: i seen)
  case (Cons u us)
  show ?case
  proof (cases "us_Subject u = []")
    case True
    then show ?thesis by (simp add: user_ok_def)
  next
    case False
    then show ?thesis by (simp add: Cons.IH user_problems_Nil not_in_image_iff) blast
  qed
qed simp

lemma LocalEnabled_iff: "LocalEnabled c \<longleftrightarrow> ModeLocal \<in> set (pc_Modes (cf_Provider c))"
  by (auto simp: LocalEnabled_def list_ex_iff)

lemma validateUsers_Nil:
  "validateUsers G c = [] \<longleftrightarrow> users_ok G (ModeLocal \<in> set (pc_Modes (cf_Provider c))) (cf_Users c)"
  by (simp add: validateUsers_def users_ok_def scan_users_Nil LocalEnabled_iff)

lemma scan_routes_Nil:
  "scan_routes i seen rs = [] \<longleftrightarrow>
     list_all route_ok rs \<and> distinct (map rc_PathPrefix rs)
     \<and> (\<forall>r\<in>set rs. rc_PathPrefix r \<notin> set seen)"
proof (induction rs arbitrary: i seen)
  case (Cons r rs)
  show ?case
  proof (cases "rooted (rc_PathPrefix r)")
    case True
    moreover have "route_problems i r = [] \<longleftrightarrow>
        absolute_url [''http'', ''https''] (rc_Upstream r) \<and> Level_Valid (rc_MinLevel r)"
      by (auto simp: route_problems_def)
    ultimately show ?thesis
      by (auto simp: Let_def Cons.IH route_ok_def list_all_iff filter_empty_conv not_in_image_iff)
  next
    case False
    then show ?thesis by (simp add: route_ok_def Let_def)
  qed
qed simp

lemma validateRoutes_Nil: "validateRoutes c = [] \<longleftrightarrow> routes_ok (cf_Routes c)"
  by (simp add: validateRoutes_def routes_ok_def scan_routes_Nil)

lemma validateAccessRequest_Nil: "validateAccessRequest c = [] \<longleftrightarrow> access_ok (cf_AccessRequest c)"
  by (simp add: validateAccessRequest_def access_ok_def Let_def)

lemma Validate_Nil: "Validate G c = [] \<longleftrightarrow> config_ok G c"
  by (simp add: Validate_def config_ok_def validateSession_Nil validateServer_Nil validateProvider_Nil
      validateUsers_Nil validateRoutes_Nil validateAccessRequest_Nil)

lemma config_ok_cong:
  assumes "unicode_ToLower G = unicode_ToLower G'" "bcrypt_CostOk G = bcrypt_CostOk G'"
  shows "config_ok G c = config_ok G' c"
  by (simp add: config_ok_def users_ok_def user_ok_def[abs_def] assms)

section \<open>Defaults\<close>

lemma default_idem [simp]:
  "d \<noteq> [] \<Longrightarrow> default_string d (default_string d s) = default_string d s"
  "xs \<noteq> [] \<Longrightarrow> default_list xs (default_list xs ys) = default_list xs ys"
  "i \<noteq> 0 \<Longrightarrow> default_int i (default_int i j) = default_int i j"
  by (simp_all add: default_string_def default_list_def default_int_def)

lemma setDefaults_idem: "setDefaults (setDefaults c) = setDefaults c"
proof (rule Config.equality)
qed (simp_all add: setDefaults_def second_def level_defs option.map_comp comp_def)

lemma cookie_rune_token:
  assumes "cookie_rune_ok (byte c)" "byte c \<noteq> 40" "byte c \<noteq> 41"
  shows "token_byte c"
proof -
  let ?punct = "{33, 35, 36, 37, 38, 39, 42, 43, 45, 46, 94, 95, 96, 124, 126 :: nat}"
  have "is_alnum c \<or> byte c \<in> ?punct"
    using assms(1) unfolding cookie_rune_ok_def
  proof (elim disjE)
    assume "35 \<le> byte c \<and> byte c \<le> 43"
    with assms have "byte c \<in> {35, 36, 37, 38, 39, 42, 43}" by auto
    then show ?thesis by blast
  next
    assume "94 \<le> byte c \<and> byte c \<le> 122"
    then show ?thesis by (cases "97 \<le> byte c") (auto simp: is_alnum_def is_letter_def)
  qed (auto simp: is_alnum_def is_letter_def is_digit_def)
  moreover have "list_all (\<lambda>n. token_byte (char_of n)) [33, 35, 36, 37, 38, 39, 42, 43, 45, 46, 94, 95, 96, 124, 126 :: nat]"
    by code_simp
  then have "token_byte (char_of n)" if "n \<in> ?punct" for n
    using that by (simp only: list.pred_inject) blast
  ultimately show ?thesis by (metis char_of_byte token_byte_def)
qed

lemma cookie_name_token:
  assumes "isCookieNameValid name" "list_all (\<lambda>c. c \<noteq> CHR ''('' \<and> c \<noteq> CHR '')'') name"
  shows "list_all token_byte name"
proof -
  have "cookie_rune_ok r \<Longrightarrow> r < 128" for r by (auto simp: cookie_rune_ok_def)
  then have "list_all (\<lambda>r. r < 128) (to_runes name)"
    using assms(1) unfolding isCookieNameValid_def list_all_iff by blast
  then have "is_ascii name" by (rule is_ascii_to_runes)
  with assms(1) have ok: "list_all (\<lambda>c. cookie_rune_ok (byte c)) name"
    by (simp add: isCookieNameValid_def to_runes_ascii list_all_iff)
  have paren: "byte c = 40 \<longleftrightarrow> c = CHR ''(''" "byte c = 41 \<longleftrightarrow> c = CHR '')''" for c
    using byte_inject[of c "CHR ''(''"] byte_inject[of c "CHR '')''"] by (simp_all add: byte_def)
  show ?thesis unfolding list_all_iff
  proof
    fix c assume "c \<in> set name"
    then have "cookie_rune_ok (byte c)" "c \<noteq> CHR ''(''" "c \<noteq> CHR '')''"
      using ok assms(2) by (simp_all add: list_all_iff)
    then show "token_byte c" by (intro cookie_rune_token) (simp_all add: paren)
  qed
qed

section \<open>Properties\<close>


text \<open>
  an accepted configuration is stable. Filling in the defaults of a configuration that
  \<open>Load\<close> returned changes nothing and it passes validation again, so reloading what is
  already running cannot be refused.
\<close>

theorem Load_stable:
  assumes "Load G unmarshal file = Inr (c, ws)"
  shows "setDefaults c = c \<and> Validate G c = [] \<and> ws = warnings c"
  using assms by (auto simp: Load_def Parse_def Let_def setDefaults_idem split: option.splits if_splits)

text \<open>
  every byte of an accepted cookie name that is not a token byte is a parenthesis. The
  name rule of the validator admits \<open>(\<close> and \<open>)\<close>, which HTTP does not: a name with one of
  them passes validation and \<open>http.SetCookie\<close> drops the session cookie.
\<close>

theorem cookie_name_gap:
  "isCookieNameValid ''pg(1)'' \<and> http_SetCookie w (session_cookie ''pg(1)'' v m s) = w
   \<and> (isCookieNameValid name \<and> name \<noteq> [] \<and> list_all (\<lambda>c. c \<noteq> CHR ''('' \<and> c \<noteq> CHR '')'') name
      \<longrightarrow> http_SetCookie w (session_cookie name v m s)
          = w\<lparr>rs_Cookies := rs_Cookies w @ [session_cookie name v m s]\<rparr>)"
proof (intro conjI impI)
  show "isCookieNameValid ''pg(1)''"
    by (simp add: isCookieNameValid_def to_runes_ascii is_ascii_def byte_def cookie_rune_ok_def)
  show "http_SetCookie w (session_cookie ''pg(1)'' v m s) = w"
    by (simp add: http_SetCookie_def session_cookie_def is_token_def token_byte_def is_alnum_def
        is_letter_def is_digit_def byte_def)
  assume "isCookieNameValid name \<and> name \<noteq> [] \<and> list_all (\<lambda>c. c \<noteq> CHR ''('' \<and> c \<noteq> CHR '')'') name"
  then show "http_SetCookie w (session_cookie name v m s)
      = w\<lparr>rs_Cookies := rs_Cookies w @ [session_cookie name v m s]\<rparr>"
    by (simp add: http_SetCookie_def is_token_def cookie_name_token session_cookie_def)
qed

section \<open>Witnesses\<close>

text \<open>A console with local accounts, one administrator and two routes.\<close>

definition sample_config :: Config where
  "sample_config =
     \<lparr>cf_Session = \<lparr>sc_CookieName = ''pgtoolbox_session'', sc_CookieSecrets = [''0123456789abcdef''],
                    sc_MaxAge = 8 * 3600 * second, sc_Secure = None\<rparr>,
      cf_Server = \<lparr>sv_Listen = '':8080'', sv_UpstreamDialTimeout = 10 * second,
                   sv_UpstreamResponseHeaderTimeout = 30 * second\<rparr>,
      cf_Provider = \<lparr>pc_Modes = [ModeLocal], pc_OIDC = None, pc_OpenShift = None\<rparr>,
      cf_Users = [\<lparr>us_Subject = ''Jane'', us_Level = LevelDBA, us_LocalPasswordBcrypt = ''$2a$10$secret''\<rparr>,
                  \<lparr>us_Subject = ''joe'', us_Level = LevelView, us_LocalPasswordBcrypt = []\<rparr>],
      cf_Routes = [\<lparr>rc_PathPrefix = ''/'', rc_Upstream = ''http://127.0.0.1:8081'', rc_MinLevel = LevelView\<rparr>,
                   \<lparr>rc_PathPrefix = ''/pgadmin'', rc_Upstream = ''http://127.0.0.1:5050'', rc_MinLevel = LevelDBA\<rparr>],
      cf_AccessRequest = \<lparr>ar_Enabled = True, ar_ConsoleName = ''console'', ar_Namespace = ''db''\<rparr>\<rparr>"

lemma sample_config_ok: "config_ok (sample_lib j) sample_config"
proof -
  have "absolute_url [''http'', ''https''] ''http://127.0.0.1:8081''"
    "absolute_url [''http'', ''https''] ''http://127.0.0.1:5050''"
    by code_simp+
  moreover have "isCookieNameValid ''pgtoolbox_session''" by code_simp
  moreover have "\<not> Contains ''/pgadmin'' ''..''" "\<not> Contains ''/'' ''..''" by code_simp+
  ultimately show ?thesis
    by (simp add: config_ok_def sample_config_def session_ok_def server_ok_def provider_ok_def
        users_ok_def routes_ok_def access_ok_def user_ok_def route_ok_def known_mode_def second_def
        minSecretLength_def mode_defs level_defs Level_Valid_def Rank_def rooted_def HasPrefix_def
        ReservedPrefixes_def reserved_clash_def ToLower_def is_ascii_def byte_def lower_ascii_def)
qed

theorem Load_stable_witness:
  "setDefaults sample_config = sample_config \<and> Validate (sample_lib JNull) sample_config = []"
proof -
  have "setDefaults sample_config = sample_config"
    by (simp add: setDefaults_def sample_config_def default_string_def default_int_def second_def level_defs)
  then have "Load (sample_lib JNull) (\<lambda>_. Some sample_config) (Some []) = Inr (sample_config, warnings sample_config)"
    by (simp add: Load_def Parse_def Validate_Nil sample_config_ok)
  from Load_stable[OF this] show ?thesis by simp
qed

theorem cookie_name_gap_witness:
  "http_SetCookie empty_response (session_cookie ''pg'' [] 0 True)
     = empty_response\<lparr>rs_Cookies := [session_cookie ''pg'' [] 0 True]\<rparr>"
proof -
  have "isCookieNameValid ''pg''" by code_simp
  with cookie_name_gap[of empty_response "[]" 0 True "''pg''"] show ?thesis by (simp add: empty_response_def)
qed

end
