(* ===== verification/Server.thy ===== *)
theory Server
  imports Proxy_Config
begin

text \<open>
  The proxy's HTTP surface (\<open>internal/proxy/server/server.go\<close>, \<open>accessrequest.go\<close>): the
  runtime compiled from a configuration, the mux, authentication and authorization of
  proxied requests, the rewrite of a proxied request's headers, logout and the
  access-request form.

  \<^item> A handler returns its response; \<open>handleProxied\<close> replies or forwards an outbound
    request, \<open>handleAccessRequest\<close> also returns the calls it made to the Kubernetes API.
  \<^item> \<open>ServeMux\<close> and \<open>ReverseProxy\<close> are the standard library's: path cleaning, pattern
    matching, hop-by-hop headers and \<open>SetXForwarded\<close> are modelled as far as they decide
    which handler runs and which headers an upstream sees. Query strings, bodies and the
    transport are not modelled.
\<close>

section \<open>Runtime\<close>

definition HeaderUser :: string where "HeaderUser = ''X-Forwarded-User''"
definition HeaderLevel :: string where "HeaderLevel = ''X-PgToolBox-Level''"
definition HeaderGroups :: string where "HeaderGroups = ''X-Forwarded-Groups''"
definition accessReqPath :: string where "accessReqPath = ''/auth/access-request''"

definition strippedHeaders :: "string list" where
  "strippedHeaders = [HeaderUser, HeaderLevel, HeaderGroups]"

record Route =
  ro_Prefix :: string
  ro_MinLevel :: level
  ro_Target :: url

record Runtime =
  rt_Config :: Config
  rt_Codec :: Codec
  rt_Users :: "string \<rightharpoonup> User"
  rt_Routes :: "Route list"

datatype create_error = AlreadyExists | Conflict | OtherCreateError

text \<open>The environment; \<open>en_AccessRequests\<close> is \<open>None\<close> where the code has a nil creator.\<close>

record Env =
  en_Runtime :: Runtime
  en_AccessRequests :: "(string \<Rightarrow> string \<Rightarrow> string \<Rightarrow> string \<Rightarrow> create_error option) option"
  en_Available :: "string list"

definition NewEnv :: "Runtime \<Rightarrow> Env" where
  "NewEnv rt = \<lparr>en_Runtime = rt, en_AccessRequests = None, en_Available = []\<rparr>"

definition Swap :: "Env \<Rightarrow> Runtime \<Rightarrow> Env" where
  "Swap e rt = e\<lparr>en_Runtime := rt\<rparr>"

subsection \<open>Building a runtime\<close>

text \<open>The loop that fills the user map; a later entry overwrites an earlier one.\<close>

definition build_users :: "golib \<Rightarrow> User list \<Rightarrow> (string \<rightharpoonup> User)" where
  "build_users G us = fold (\<lambda>u m. m(lower G (us_Subject u) \<mapsto> u)) us Map.empty"

datatype runtime_error = CodecError session_error | RouteUpstreamError string

fun build_routes :: "RouteConfig list \<Rightarrow> (runtime_error, Route list) result" where
  "build_routes [] = Inr []"
| "build_routes (rc # rcs) =
     (case url_Parse (rc_Upstream rc) of
        None \<Rightarrow> Inl (RouteUpstreamError (rc_PathPrefix rc))
      | Some target \<Rightarrow>
          bind_result (build_routes rcs) (\<lambda>rs.
            Inr (\<lparr>ro_Prefix = rc_PathPrefix rc, ro_MinLevel = rc_MinLevel rc, ro_Target = target\<rparr> # rs)))"

text \<open>
  The two nested loops that put the longest prefix first, on indices as in the code:
  \<open>exchange\<close> is the body, swapping \<open>rs[i]\<close> and \<open>rs[j]\<close> when the later prefix is longer.
\<close>

definition exchange :: "('a \<Rightarrow> nat) \<Rightarrow> nat \<Rightarrow> nat \<Rightarrow> 'a list \<Rightarrow> 'a list" where
  "exchange key i j rs = (if key (rs ! j) > key (rs ! i) then rs[i := rs ! j, j := rs ! i] else rs)"

definition exchange_inner :: "('a \<Rightarrow> nat) \<Rightarrow> nat \<Rightarrow> 'a list \<Rightarrow> 'a list" where
  "exchange_inner key i rs = fold (exchange key i) [Suc i..<length rs] rs"

definition exchange_sort :: "('a \<Rightarrow> nat) \<Rightarrow> 'a list \<Rightarrow> 'a list" where
  "exchange_sort key rs = fold (exchange_inner key) [0..<length rs] rs"

abbreviation prefix_len :: "Route \<Rightarrow> nat" where
  "prefix_len r \<equiv> length (ro_Prefix r)"

definition BuildRuntime :: "golib \<Rightarrow> Config \<Rightarrow> (runtime_error, Runtime) result" where
  "BuildRuntime G cfg =
     (case NewCodec G (sc_CookieSecrets (cf_Session cfg)) of
        Inl e \<Rightarrow> Inl (CodecError e)
      | Inr codec \<Rightarrow>
          bind_result (build_routes (cf_Routes cfg)) (\<lambda>rs.
            Inr \<lparr>rt_Config = cfg, rt_Codec = codec, rt_Users = build_users G (cf_Users cfg),
                 rt_Routes = exchange_sort prefix_len rs\<rparr>))"

section \<open>Reverse proxying\<close>

definition forwardedProto :: "golib \<Rightarrow> string \<Rightarrow> string" where
  "forwardedProto G header =
     (let proto = lower G (TrimSpace (fst (Cut header CHR '',''))) in
      if proto = ''http'' then ''http'' else if proto = ''https'' then ''https'' else [])"

record outbound =
  ob_Scheme :: string
  ob_URLHost :: string
  ob_Path :: string
  ob_Host :: string
  ob_Header :: headers

text \<open>\<open>singleJoiningSlash\<close> of \<open>net/http/httputil\<close>.\<close>

definition singleJoiningSlash :: "string \<Rightarrow> string \<Rightarrow> string" where
  "singleJoiningSlash a b =
     (if HasSuffix a ''/'' \<and> HasPrefix b ''/'' then a @ tl b
      else if \<not> HasSuffix a ''/'' \<and> \<not> HasPrefix b ''/'' then a @ ''/'' @ b else a @ b)"

text \<open>
  What \<open>ReverseProxy\<close> does to the headers before it calls \<open>Rewrite\<close>: headers named in
  \<open>Connection\<close> and the hop-by-hop headers are dropped, \<open>Te: trailers\<close> and a protocol
  upgrade are put back, and client-supplied forwarding headers are dropped.
\<close>

definition header_tokens :: "string list \<Rightarrow> string list" where
  "header_tokens vs = concat (map (\<lambda>v. map TrimSpace (Split v CHR '','')) vs)"

definition hopHeaders :: "string list" where
  "hopHeaders = [''Connection'', ''Proxy-Connection'', ''Keep-Alive'', ''Proxy-Authenticate'',
     ''Proxy-Authorization'', ''Te'', ''Trailer'', ''Transfer-Encoding'', ''Upgrade'']"

definition removeHopByHopHeaders :: "headers \<Rightarrow> headers" where
  "removeHopByHopHeaders h =
     fold (\<lambda>k h. Header_Del h k)
       (filter (\<lambda>t. t \<noteq> []) (header_tokens (Header_Values h ''Connection'')) @ hopHeaders) h"

definition has_token :: "string list \<Rightarrow> string \<Rightarrow> bool" where
  "has_token vs t = list_ex (\<lambda>v. EqualFoldASCII v t) (header_tokens vs)"

definition upgradeType :: "headers \<Rightarrow> string" where
  "upgradeType h =
     (if has_token (Header_Values h ''Connection'') ''upgrade'' then Header_Get h ''Upgrade'' else [])"

definition prepare_headers :: "headers \<Rightarrow> headers" where
  "prepare_headers h =
     (let h1 = removeHopByHopHeaders h;
          h2 = (if has_token (Header_Values h ''Te'') ''trailers''
                then Header_Set h1 ''Te'' ''trailers'' else h1);
          h3 = (if upgradeType h \<noteq> []
                then Header_Set (Header_Set h2 ''Connection'' ''Upgrade'') ''Upgrade'' (upgradeType h) else h2)
      in fold (\<lambda>k h. Header_Del h k)
           [''Forwarded'', ''X-Forwarded-For'', ''X-Forwarded-Host'', ''X-Forwarded-Proto''] h3)"

definition SetXForwarded :: "request \<Rightarrow> headers \<Rightarrow> headers" where
  "SetXForwarded r h =
     (let prior = Header_Values h ''X-Forwarded-For'';
          h1 = (case SplitHostPort (rq_RemoteAddr r) of
                  Some (ip, _) \<Rightarrow>
                    Header_Set h ''X-Forwarded-For''
                      (if prior = [] then ip else Join prior '', '' @ '', '' @ ip)
                | None \<Rightarrow> Header_Del h ''X-Forwarded-For'');
          h2 = Header_Set h1 ''X-Forwarded-Host'' (rq_Host r)
      in Header_Set h2 ''X-Forwarded-Proto'' (if rq_TLS r then ''https'' else ''http''))"

text \<open>The \<open>Rewrite\<close> closure of one route, on the session \<open>handleProxied\<close> put in the context.\<close>

definition Rewrite :: "golib \<Rightarrow> url \<Rightarrow> request \<Rightarrow> Data option \<Rightarrow> outbound" where
  "Rewrite G target r sess =
     (let h1 = SetXForwarded r (prepare_headers (rq_Header r));
          proto = forwardedProto G (Header_Get (rq_Header r) ''X-Forwarded-Proto'');
          h2 = (if proto \<noteq> [] then Header_Set h1 ''X-Forwarded-Proto'' proto else h1);
          h3 = fold (\<lambda>k h. Header_Del h k) strippedHeaders h2;
          h4 = (case sess of
                  Some s \<Rightarrow> Header_Set (Header_Set h3 HeaderUser (d_Subject s)) HeaderLevel (d_Level s)
                | None \<Rightarrow> h3)
      in \<lparr>ob_Scheme = url_Scheme target, ob_URLHost = url_Host target,
          ob_Path = singleJoiningSlash (url_Path target) (rq_Path r),
          ob_Host = rq_Host r, ob_Header = h4\<rparr>)"

section \<open>Requests\<close>

definition available :: "Env \<Rightarrow> string list" where
  "available e = (if en_Available e \<noteq> [] then en_Available e
                  else pc_Modes (cf_Provider (rt_Config (en_Runtime e))))"

definition LoginPath :: "Env \<Rightarrow> string" where
  "LoginPath e =
     (if list_ex (\<lambda>m. m = ModeLocal) (available e) then ''/auth/local/login''
      else if list_ex (\<lambda>m. m = ModeOpenShift) (available e) then ''/auth/openshift/login''
      else ''/auth/oidc/login'')"

definition ExternalLogins :: "Env \<Rightarrow> external_login list" where
  "ExternalLogins e =
     concat (map (\<lambda>m.
       if m = ModeOIDC then [\<lparr>el_Label = ''Sign in with SSO'', el_Path = ''/auth/oidc/login''\<rparr>]
       else if m = ModeOpenShift
       then [\<lparr>el_Label = ''Sign in with OpenShift'', el_Path = ''/auth/openshift/login''\<rparr>]
       else []) (available e))"

definition SafeRedirect :: "string \<Rightarrow> string" where
  "SafeRedirect p =
     (if p = [] \<or> p ! 0 \<noteq> CHR ''/'' then ''/''
      else if length p > 1 \<and> (p ! 1 = CHR ''/'' \<or> p ! 1 = BACKSLASH) then ''/''
      else if ContainsFunc p (\<lambda>r. r = 92 \<or> r < 0x20 \<or> r = 0x7f) then ''/''
      else case url_Parse p of
        None \<Rightarrow> ''/''
      | Some u \<Rightarrow> if url_Scheme u \<noteq> [] \<or> url_Host u \<noteq> [] \<or> url_Opaque u \<noteq> [] then ''/'' else p)"

definition IssueSession ::
  "golib \<Rightarrow> Env \<Rightarrow> int \<Rightarrow> string option \<Rightarrow> response \<Rightarrow> string \<Rightarrow> level \<Rightarrow> string
     \<Rightarrow> (session_error, response) result" where
  "IssueSession G e now rnd w subject level mode =
     (let rt = en_Runtime e; s = cf_Session (rt_Config rt) in
      SetCookie G (rt_Codec rt) rnd w (sc_CookieName s) (CookieSecure s) (sc_MaxAge s)
        (NewData now subject level mode (sc_MaxAge s)))"

definition LookupUser :: "golib \<Rightarrow> Env \<Rightarrow> string \<Rightarrow> User option" where
  "LookupUser G e subject = rt_Users (en_Runtime e) (lower G subject)"

definition handleLogout :: "Env \<Rightarrow> response \<Rightarrow> response" where
  "handleLogout e w =
     (let s = cf_Session (rt_Config (en_Runtime e)) in
      http_Redirect (ClearCookie w (sc_CookieName s) (CookieSecure s)) (LoginPath e) 302)"

definition pathMatchesPrefix :: "string \<Rightarrow> string \<Rightarrow> bool" where
  "pathMatchesPrefix path pre =
     (if pre = ''/'' then True else path = pre \<or> HasPrefix path (pre @ ''/''))"

definition matchRoute :: "Runtime \<Rightarrow> string \<Rightarrow> Route option" where
  "matchRoute rt path = find (\<lambda>r. pathMatchesPrefix path (ro_Prefix r)) (rt_Routes rt)"

definition renderDeniedUnknown :: "golib \<Rightarrow> Env \<Rightarrow> response \<Rightarrow> Runtime \<Rightarrow> Data \<Rightarrow> response" where
  "renderDeniedUnknown G e w rt sess =
     (let arc = cf_AccessRequest (rt_Config rt) in
      show_page w 403 (DeniedUnknownPage (d_Subject sess) (CSRFToken G (rt_Codec rt) sess)
        (ar_Enabled arc \<and> en_AccessRequests e \<noteq> None) (ar_ConsoleName arc)))"

datatype served = Reply response | Forward outbound

definition handleProxied :: "golib \<Rightarrow> Env \<Rightarrow> int \<Rightarrow> response \<Rightarrow> request \<Rightarrow> served" where
  "handleProxied G e now w r =
     (let rt = en_Runtime e in
      case matchRoute rt (rq_Path r) of
        None \<Rightarrow> Reply (pages_Error w 404 ''This path is not served by the console.'')
      | Some route \<Rightarrow>
          (case ReadCookie G (rt_Codec rt) now r (sc_CookieName (cf_Session (rt_Config rt))) of
             Inl _ \<Rightarrow>
               if rq_Method r = ''GET''
               then Reply (http_Redirect w (LoginPath e @ ''?rd='' @ QueryEscape (rq_RequestURI r)) 302)
               else Reply (pages_Error w 401 ''Authentication is required.'')
           | Inr sess \<Rightarrow>
               if Rank (d_Level sess) < Rank (ro_MinLevel route)
               then if d_Level sess = LevelNone then Reply (renderDeniedUnknown G e w rt sess)
                    else Reply (show_page w 403 (DeniedKnownPage (d_Subject sess) (d_Level sess)
                                  (ro_MinLevel route) (rq_Path r)))
               else Forward (Rewrite G (ro_Target route) r (Some sess))))"

text \<open>A failure of the token endpoint: no response at all, or an OAuth error with its status.\<close>

datatype exchange_error = Unreachable | RetrieveError (re_ErrorCode: string) (re_Status: "int option")

definition ExchangeFailure :: "exchange_error \<Rightarrow> nat \<times> string" where
  "ExchangeFailure err =
     (case err of
        Unreachable \<Rightarrow> (502, ''The identity provider could not be reached.'')
      | RetrieveError code status \<Rightarrow>
          if code = ''invalid_client'' \<or> code = ''unauthorized_client''
          then (500, ''This console was rejected by the identity provider ('' @ code
                  @ ''). Its client ID or client secret is wrong; an administrator has to correct the PgConsole's oidc settings.'')
          else if code = ''invalid_grant''
          then (400, ''The login could not be completed; please try again.'')
          else if code = ''invalid_request'' \<or> code = ''unsupported_grant_type''
          then (500, ''The identity provider rejected this console's request ('' @ code
                  @ ''). The registered redirect URI most likely does not match the address this console is reached on.'')
          else if (case status of Some s \<Rightarrow> s \<ge> 500 | None \<Rightarrow> False)
          then (502, ''The identity provider failed to complete the login.'')
          else (500, ''The identity provider refused to complete the login.''))"

subsection \<open>Access requests\<close>

definition maxMessageRunes :: nat where "maxMessageRunes = 1024"

definition truncateRunes :: "string \<Rightarrow> nat \<Rightarrow> string" where
  "truncateRunes s mx =
     (if RuneCountInString s \<le> mx then s else of_runes (take mx (to_runes s)))"

text \<open>One call of \<open>CreateAccessRequest\<close>: console, namespace, subject and message.\<close>

type_synonym create_call = "string \<times> string \<times> string \<times> string"

definition handleAccessRequest ::
  "golib \<Rightarrow> Env \<Rightarrow> int \<Rightarrow> response \<Rightarrow> request \<Rightarrow> response \<times> create_call list" where
  "handleAccessRequest G e now w r =
     (let rt = en_Runtime e; arc = cf_AccessRequest (rt_Config rt) in
      case ReadCookie G (rt_Codec rt) now r (sc_CookieName (cf_Session (rt_Config rt))) of
        Inl _ \<Rightarrow> (pages_Error w 401 ''Authentication is required.'', [])
      | Inr sess \<Rightarrow>
          (case (ar_Enabled arc, en_AccessRequests e) of
             (True, Some create) \<Rightarrow>
               if \<not> rq_FormOk r then (pages_Error w 400 ''The form could not be parsed.'', [])
               else if \<not> ValidCSRF G (rt_Codec rt) sess (value_Get (rq_PostForm r) ''csrf'')
               then (pages_Error w 403 ''The form token is invalid; reload the page and try again.'', [])
               else
                 let message = truncateRunes (value_Get (rq_PostForm r) ''message'') maxMessageRunes;
                     call = (ar_ConsoleName arc, ar_Namespace arc, d_Subject sess, message)
                 in (case create (ar_ConsoleName arc) (ar_Namespace arc) (d_Subject sess) message of
                       Some OtherCreateError \<Rightarrow>
                         (pages_Error w 500
                            ''Your request could not be recorded; please contact your administrator.'', [call])
                     | _ \<Rightarrow> (show_page w 200 (ConfirmationPage (d_Subject sess)), [call]))
           | _ \<Rightarrow> (pages_Error w 403 ''Access requests are not enabled on this console.'', [])))"

subsection \<open>The mux\<close>

text \<open>
  A pattern is a method and the literal segments of a path; a \<open>GET\<close> pattern serves
  \<open>HEAD\<close> too. The pattern \<open>/\<close> serves what no other pattern matches.
\<close>

datatype endpoint =
    EpHealthz | EpLogout | EpAccessRequest
  | EpLocalForm | EpLocalSubmit | EpOIDCStart | EpOIDCCallback | EpOpenShiftStart | EpOpenShiftCallback

record pattern =
  pt_Method :: string
  pt_Path :: string
  pt_Handler :: endpoint

definition New :: "pattern list" where
  "New = [\<lparr>pt_Method = ''GET'', pt_Path = ''/healthz'', pt_Handler = EpHealthz\<rparr>,
          \<lparr>pt_Method = ''GET'', pt_Path = ''/logout'', pt_Handler = EpLogout\<rparr>,
          \<lparr>pt_Method = ''POST'', pt_Path = accessReqPath, pt_Handler = EpAccessRequest\<rparr>]"

definition pattern_matches :: "pattern \<Rightarrow> request \<Rightarrow> bool" where
  "pattern_matches p r =
     ((rq_Method r = pt_Method p \<or> rq_Method r = ''HEAD'' \<and> pt_Method p = ''GET'')
      \<and> map (unescape EscPath) (Split (rq_EscapedPath r) CHR ''/'') = map Some (Split (pt_Path p) CHR ''/''))"

text \<open>\<open>path.Clean\<close> of a rooted path, on its segments; \<open>cleanPath\<close> keeps a final slash.\<close>

fun clean_segments :: "string list \<Rightarrow> string list \<Rightarrow> string list" where
  "clean_segments out [] = rev out"
| "clean_segments out (s # ss) =
     (if s = [] \<or> s = ''.'' then clean_segments out ss
      else if s = ''..'' then clean_segments (tl out) ss
      else clean_segments (s # out) ss)"

definition cleanPath :: "string \<Rightarrow> string" where
  "cleanPath p =
     (if p = [] then ''/''
      else let q = (if hd p \<noteq> CHR ''/'' then CHR ''/'' # p else p);
               np = CHR ''/'' # Join (clean_segments [] (Split q CHR ''/'')) ''/''
           in if last q = CHR ''/'' \<and> np \<noteq> ''/'' then np @ ''/'' else np)"

datatype dispatch = BadRequestURI | RedirectTo string | To endpoint | ToProxied

definition ServeMux_Handler :: "pattern list \<Rightarrow> request \<Rightarrow> dispatch" where
  "ServeMux_Handler pats r =
     (if rq_RequestURI r = ''*'' then BadRequestURI
      else if rq_Method r \<noteq> ''CONNECT'' \<and> cleanPath (rq_EscapedPath r) \<noteq> rq_EscapedPath r
      then RedirectTo (cleanPath (rq_EscapedPath r))
      else case find (\<lambda>p. pattern_matches p r) pats of
        Some p \<Rightarrow> To (pt_Handler p)
      | None \<Rightarrow> ToProxied)"

section \<open>The exchange sort\<close>

text \<open>
  The loops as a function on the list: \<open>carry\<close> is one inner loop, which carries the
  longest element to the front and leaves what it displaces behind.
\<close>

fun carry :: "('a \<Rightarrow> nat) \<Rightarrow> 'a \<Rightarrow> 'a list \<Rightarrow> 'a \<times> 'a list" where
  "carry key x [] = (x, [])"
| "carry key x (y # ys) =
     (if key x < key y then (let (m, zs) = carry key y ys in (m, x # zs))
      else (let (m, zs) = carry key x ys in (m, y # zs)))"

lemma carry_mset: "carry key x ys = (m, zs) \<Longrightarrow> add_mset m (mset zs) = add_mset x (mset ys)"
  by (induction key x ys arbitrary: m zs rule: carry.induct) (auto split: if_splits prod.splits)

lemma carry_length: "carry key x ys = (m, zs) \<Longrightarrow> length zs = length ys"
  by (induction key x ys arbitrary: m zs rule: carry.induct) (auto split: if_splits prod.splits)

lemma carry_max: "carry key x ys = (m, zs) \<Longrightarrow> key x \<le> key m \<and> (\<forall>z\<in>set zs. key z \<le> key m)"
  by (induction key x ys arbitrary: m zs rule: carry.induct)
    (fastforce split: if_splits prod.splits)+

lemma exchange_at:
  "exchange key (length pre) (length (pre @ x # mid)) (pre @ x # mid @ y # ys) =
     (if key x < key y then pre @ y # mid @ x # ys else pre @ x # mid @ y # ys)"
proof -
  have "(pre @ x # mid @ y # ys) ! length (pre @ x # mid) = y"
    by (metis append.assoc append_Cons nth_append_length)
  moreover have "(pre @ y # mid @ y # ys)[length (pre @ x # mid) := x] = pre @ y # mid @ x # ys"
    by (metis append.assoc append_Cons length_append list.size(4) list_update_length)
  ultimately show ?thesis by (simp add: exchange_def)
qed

lemma exchange_inner_fold:
  "fold (exchange key (length pre)) [length (pre @ x # mid)..<length (pre @ x # mid @ ys)] (pre @ x # mid @ ys)
     = (let (m, zs) = carry key x ys in pre @ m # mid @ zs)"
proof (induction ys arbitrary: x mid)
  case (Cons y ys)
  let ?j = "length (pre @ x # mid)"
  have upt: "[?j..<length (pre @ x # mid @ y # ys)] = ?j # [Suc ?j..<length (pre @ x # mid @ y # ys)]"
    by (rule upt_conv_Cons) simp
  show ?case
  proof (cases "key x < key y")
    case True
    have "fold (exchange key (length pre)) [Suc ?j..<length (pre @ x # mid @ y # ys)] (pre @ y # mid @ x # ys)
        = (let (m, zs) = carry key y ys in pre @ m # (mid @ [x]) @ zs)"
      using Cons.IH[of y "mid @ [x]"] by simp
    with True show ?thesis
      by (simp only: upt fold_simps exchange_at carry.simps if_True) (simp split: prod.splits)
  next
    case False
    have "fold (exchange key (length pre)) [Suc ?j..<length (pre @ x # mid @ y # ys)] (pre @ x # mid @ y # ys)
        = (let (m, zs) = carry key x ys in pre @ m # (mid @ [y]) @ zs)"
      using Cons.IH[of x "mid @ [y]"] by simp
    with False show ?thesis
      by (simp only: upt fold_simps exchange_at carry.simps if_False) (simp split: prod.splits)
  qed
qed simp

lemma exchange_inner_carry:
  "exchange_inner key (length pre) (pre @ x # ys) = (let (m, zs) = carry key x ys in pre @ m # zs)"
  using exchange_inner_fold[of key pre x "[]" ys] by (simp add: exchange_inner_def)

text \<open>What the outer loop makes of a list whose front \<open>pre\<close> is already in place.\<close>

lemma exchange_outer:
  assumes "sorted_wrt (\<lambda>a b. key b \<le> key a) pre" "\<forall>a\<in>set pre. \<forall>y\<in>set ys. key y \<le> key a"
  shows "\<exists>zs. fold (exchange_inner key) [length pre..<length pre + length ys] (pre @ ys) = zs
    \<and> mset zs = mset (pre @ ys) \<and> sorted_wrt (\<lambda>a b. key b \<le> key a) zs"
  using assms
proof (induction "length ys" arbitrary: pre ys)
  case 0
  then show ?case by simp
next
  case (Suc n)
  then obtain y ys' where ys: "ys = y # ys'" by (cases ys) auto
  obtain m zs where c: "carry key y ys' = (m, zs)" by fastforce
  note facts = carry_mset[OF c] carry_length[OF c] carry_max[OF c]
  have in_ys: "set (m # zs) = set ys" using facts(1) ys by (metis mset.simps(2) set_mset_mset)
  have step: "exchange_inner key (length pre) (pre @ ys) = (pre @ [m]) @ zs"
    by (simp add: ys exchange_inner_carry c)
  have sorted: "sorted_wrt (\<lambda>a b. key b \<le> key a) (pre @ [m])"
    using Suc.prems in_ys by (auto simp: sorted_wrt_append)
  have below: "\<forall>a\<in>set (pre @ [m]). \<forall>z\<in>set zs. key z \<le> key a"
    using Suc.prems(2) facts(3) in_ys by (metis UnE list.set_intros(2) set_ConsD set_append empty_iff list.set(1))
  have n: "n = length zs" using Suc.hyps(2) facts(2) ys by simp
  from Suc.hyps(1)[OF n sorted below] obtain r where
    "fold (exchange_inner key) [Suc (length pre)..<Suc (length pre) + length zs] ((pre @ [m]) @ zs) = r"
    "mset r = mset ((pre @ [m]) @ zs)" "sorted_wrt (\<lambda>a b. key b \<le> key a) r"
    by auto
  moreover have "[length pre..<length pre + length ys] = length pre # [Suc (length pre)..<Suc (length pre) + length zs]"
    using facts(2) ys upt_conv_Cons[of "length pre" "length pre + length ys"] by (simp del: upt_Suc)
  ultimately show ?case using step facts(1) ys by simp
qed

lemma exchange_sort_mset [simp]: "mset (exchange_sort key rs) = mset rs"
  using exchange_outer[of key "[]" rs] by (auto simp: exchange_sort_def)

lemma exchange_sort_set [simp]: "set (exchange_sort key rs) = set rs"
  by (metis exchange_sort_mset set_mset_mset)

lemma exchange_sort_sorted: "sorted_wrt (\<lambda>a b. key b \<le> key a) (exchange_sort key rs)"
  using exchange_outer[of key "[]" rs] by (auto simp: exchange_sort_def)

section \<open>Runtimes of valid configurations\<close>

definition compiled :: "RouteConfig \<Rightarrow> Route" where
  "compiled rc = \<lparr>ro_Prefix = rc_PathPrefix rc, ro_MinLevel = rc_MinLevel rc,
                  ro_Target = the (url_Parse (rc_Upstream rc))\<rparr>"

lemma compiled_simps [simp]:
  "ro_Prefix (compiled rc) = rc_PathPrefix rc" "ro_MinLevel (compiled rc) = rc_MinLevel rc"
  "ro_Target (compiled rc) = the (url_Parse (rc_Upstream rc))"
  by (simp_all add: compiled_def)

lemma build_routes_Inr:
  "build_routes rcs = Inr rs \<longleftrightarrow>
     list_all (\<lambda>rc. url_Parse (rc_Upstream rc) \<noteq> None) rcs \<and> rs = map compiled rcs"
  by (induction rcs arbitrary: rs) (auto simp: compiled_def split: option.splits)

lemma BuildRuntime_Inr:
  "BuildRuntime G cfg = Inr rt \<Longrightarrow>
     NewCodec G (sc_CookieSecrets (cf_Session cfg)) = Inr (rt_Codec rt) \<and> rt_Config rt = cfg
     \<and> rt_Users rt = build_users G (cf_Users cfg)
     \<and> rt_Routes rt = exchange_sort prefix_len (map compiled (cf_Routes cfg))"
  by (auto simp: BuildRuntime_def build_routes_Inr split: sum.splits)

lemma build_users_fold:
  "fold (\<lambda>u m. m(k u \<mapsto> u)) us m = m ++ map_of (rev (map (\<lambda>u. (k u, u)) us))"
  by (induction us arbitrary: m) auto

lemma build_users_lookup:
  assumes "distinct (map (\<lambda>u. lower G (us_Subject u)) us)"
  shows "build_users G us k = Some u \<longleftrightarrow> u \<in> set us \<and> lower G (us_Subject u) = k"
proof -
  let ?ps = "map (\<lambda>u. (lower G (us_Subject u), u)) us"
  have "map fst ?ps = map (\<lambda>u. lower G (us_Subject u)) us" by simp
  then have d: "distinct (map fst ?ps)" using assms by (simp only:)
  then have d': "distinct (map fst (rev ?ps))" by (metis distinct_rev rev_map)
  have "build_users G us k = map_of (rev ?ps) k" by (simp add: build_users_def build_users_fold)
  then show ?thesis using map_of_eq_Some_iff[OF d', of k u] by auto
qed

lemma pathMatchesPrefix_same_length:
  assumes "pathMatchesPrefix path p" "pathMatchesPrefix path q" "length p = length q" "rooted p" "rooted q"
  shows "p = q"
proof -
  have one: "x = ''/''" if "rooted x" "length x = 1" for x
    using that by (cases x) (auto simp: rooted_def HasPrefix_def)
  have "take (length x) path = x" if "pathMatchesPrefix path x" "x \<noteq> ''/''" for x
    using that by (auto simp: pathMatchesPrefix_def HasPrefix_def prefix_def split: if_splits)
  with assms one show ?thesis by (metis length_Cons list.size(3) One_nat_def)
qed

lemma matchRoute_cases:
  assumes "BuildRuntime G cfg = Inr rt"
  shows "matchRoute rt path = Some r \<Longrightarrow> \<exists>rc\<in>set (cf_Routes cfg). r = compiled rc
      \<and> pathMatchesPrefix path (rc_PathPrefix rc)
      \<and> (\<forall>rc'\<in>set (cf_Routes cfg). pathMatchesPrefix path (rc_PathPrefix rc') \<longrightarrow>
           length (rc_PathPrefix rc') \<le> length (rc_PathPrefix rc))"
    and "matchRoute rt path = None \<longleftrightarrow>
      (\<forall>rc\<in>set (cf_Routes cfg). \<not> pathMatchesPrefix path (rc_PathPrefix rc))"
proof -
  let ?rs = "exchange_sort prefix_len (map compiled (cf_Routes cfg))"
  have rs: "rt_Routes rt = ?rs" using BuildRuntime_Inr[OF assms] by blast
  show "matchRoute rt path = None \<longleftrightarrow>
      (\<forall>rc\<in>set (cf_Routes cfg). \<not> pathMatchesPrefix path (rc_PathPrefix rc))"
    by (simp add: matchRoute_def rs find_None_iff)
  assume m: "matchRoute rt path = Some r"
  then have f: "find (\<lambda>r. pathMatchesPrefix path (ro_Prefix r)) ?rs = Some r"
    by (simp add: matchRoute_def rs)
  from find_Some_split[OF f] have r: "r \<in> set ?rs" "pathMatchesPrefix path (ro_Prefix r)"
    by (metis in_set_conv_decomp)+
  then obtain rc where rc: "rc \<in> set (cf_Routes cfg)" "r = compiled rc" by auto
  have "length (rc_PathPrefix rc') \<le> length (rc_PathPrefix rc)"
    if "rc' \<in> set (cf_Routes cfg)" "pathMatchesPrefix path (rc_PathPrefix rc')" for rc'
    using find_first_of_sorted[OF exchange_sort_sorted f, of "compiled rc'"] that rc by auto
  with rc r show "\<exists>rc\<in>set (cf_Routes cfg). r = compiled rc
      \<and> pathMatchesPrefix path (rc_PathPrefix rc)
      \<and> (\<forall>rc'\<in>set (cf_Routes cfg). pathMatchesPrefix path (rc_PathPrefix rc') \<longrightarrow>
           length (rc_PathPrefix rc') \<le> length (rc_PathPrefix rc))"
    by auto
qed

lemma route_ok_upstream: "route_ok rc \<Longrightarrow> \<exists>u. url_Parse (rc_Upstream rc) = Some u"
  by (auto simp: route_ok_def absolute_url_def split: option.splits)

lemma config_ok_BuildRuntime:
  assumes "config_ok G cfg"
  shows "\<exists>rt. BuildRuntime G cfg = Inr rt"
proof -
  let ?ss = "sc_CookieSecrets (cf_Session cfg)"
  have "?ss \<noteq> []" "[] \<notin> set ?ss"
    using assms by (auto simp: config_ok_def session_ok_def list_all_iff minSecretLength_def)
  then obtain c where c: "NewCodec G ?ss = Inr c" by (simp add: NewCodec_Inr)
  have "list_all (\<lambda>rc. url_Parse (rc_Upstream rc) \<noteq> None) (cf_Routes cfg)"
    using assms route_ok_upstream by (fastforce simp: config_ok_def routes_ok_def list_all_iff)
  then have "build_routes (cf_Routes cfg) = Inr (map compiled (cf_Routes cfg))"
    by (simp add: build_routes_Inr)
  with c show ?thesis by (simp add: BuildRuntime_def)
qed

section \<open>Headers\<close>

lemma lower_char_dash: "lower_char c = CHR ''-'' \<longleftrightarrow> c = CHR ''-''"
proof -
  have "byte CHR ''-'' = 45" by (simp add: byte_def)
  moreover have "lower_ascii (byte c) = 45 \<longleftrightarrow> byte c = 45" by (auto simp: lower_ascii_def)
  ultimately show ?thesis
    by (metis byte_char_lower byte_inject lower_char_def)
qed

lemma upper_ascii_lower: "upper_ascii (lower_char c) = upper_ascii c"
  by (auto simp: upper_ascii_def lower_char_def lower_ascii_def)

lemma canon_words_case:
  "map lower_char a = map lower_char b \<Longrightarrow> canon_words up a = canon_words up b"
proof (induction a arbitrary: b up)
  case (Cons c cs)
  then obtain d ds where b: "b = d # ds" "lower_char c = lower_char d" "map lower_char cs = map lower_char ds"
    by (cases b) auto
  have "upper_ascii c = upper_ascii d" "(c = CHR ''-'') = (d = CHR ''-'')"
    using b(2) by (metis upper_ascii_lower, metis lower_char_dash)
  with Cons.IH[OF b(3)] b show ?case by simp
qed simp

lemma token_byte_case: "lower_char c = lower_char d \<Longrightarrow> token_byte d \<Longrightarrow> token_byte c"
proof (cases "is_letter c")
  case False
  assume l: "lower_char c = lower_char d" and d: "token_byte d"
  have "lower_char c = c" using False by (auto simp: lower_char_def lower_ascii_def is_letter_def)
  moreover have "is_letter (lower_char d) \<or> lower_char d = d"
    by (auto simp: lower_char_def lower_ascii_def is_letter_def)
  ultimately show ?thesis using l d False by metis
qed (simp add: token_byte_def is_alnum_def)

lemma CanonicalHeaderKey_case:
  assumes "map lower_char k = map lower_char h" "list_all token_byte h"
  shows "CanonicalHeaderKey k = CanonicalHeaderKey h"
proof -
  have "list_all token_byte k" using assms
  proof (induction k arbitrary: h)
    case (Cons c cs)
    then obtain d ds where "h = d # ds" "lower_char c = lower_char d" "map lower_char cs = map lower_char ds"
      by (cases h) auto
    with Cons token_byte_case show ?case by auto
  qed simp
  with assms(2) canon_words_case[OF assms(1)] show ?thesis by (simp add: CanonicalHeaderKey_def)
qed

lemma canonical_names [simp]:
  "CanonicalHeaderKey HeaderUser = ''X-Forwarded-User''"
  "CanonicalHeaderKey HeaderLevel = ''X-Pgtoolbox-Level''"
  "CanonicalHeaderKey HeaderGroups = ''X-Forwarded-Groups''"
  "CanonicalHeaderKey ''X-Forwarded-For'' = ''X-Forwarded-For''"
  "CanonicalHeaderKey ''X-Forwarded-Host'' = ''X-Forwarded-Host''"
  "CanonicalHeaderKey ''X-Forwarded-Proto'' = ''X-Forwarded-Proto''"
  "CanonicalHeaderKey ''Forwarded'' = ''Forwarded''"
  by code_simp+

lemma identity_tokens: "list_all token_byte HeaderUser" "list_all token_byte HeaderLevel" "list_all token_byte HeaderGroups"
  by code_simp+

lemma Rewrite_header:
  "Header_Values (ob_Header (Rewrite G t r (Some s))) k =
     (if CanonicalHeaderKey k = ''X-Pgtoolbox-Level'' then [d_Level s]
      else if CanonicalHeaderKey k = ''X-Forwarded-User'' then [d_Subject s]
      else if CanonicalHeaderKey k = ''X-Forwarded-Groups'' then []
      else if CanonicalHeaderKey k = ''X-Forwarded-Proto'' \<and> forwardedProto G (Header_Get (rq_Header r) ''X-Forwarded-Proto'') \<noteq> []
      then [forwardedProto G (Header_Get (rq_Header r) ''X-Forwarded-Proto'')]
      else Header_Values (SetXForwarded r (prepare_headers (rq_Header r))) k)"
  by (simp add: Rewrite_def Let_def strippedHeaders_def)

lemma prepare_no_forwarded:
  "Header_Values (prepare_headers h) ''X-Forwarded-For'' = []"
  by (simp add: prepare_headers_def Let_def)

lemma SetXForwarded_header:
  "Header_Values (SetXForwarded r (prepare_headers h)) ''X-Forwarded-Proto'' = [if rq_TLS r then ''https'' else ''http'']"
  "Header_Values (SetXForwarded r (prepare_headers h)) ''X-Forwarded-Host'' = [rq_Host r]"
  "Header_Values (SetXForwarded r (prepare_headers h)) ''X-Forwarded-For'' =
     (case SplitHostPort (rq_RemoteAddr r) of Some (ip, _) \<Rightarrow> [ip] | None \<Rightarrow> [])"
  by (auto simp: SetXForwarded_def Let_def prepare_no_forwarded split: option.splits)

section \<open>Redirect targets\<close>

text \<open>
  What a browser does to a URL before it parses it: control characters and spaces around
  it are dropped, and TAB, CR and LF anywhere in it. A URL then stays on the origin when it is
  one slash not followed by another slash or a backslash.
\<close>

definition browser_strip :: "string \<Rightarrow> string" where
  "browser_strip p =
     filter (\<lambda>c. c \<noteq> TAB \<and> c \<noteq> CR \<and> c \<noteq> NL)
       (rev (dropWhile (\<lambda>c. byte c \<le> 32) (rev (dropWhile (\<lambda>c. byte c \<le> 32) p))))"

fun stays_on_origin :: "string \<Rightarrow> bool" where
  "stays_on_origin (c # d # _) = (c = CHR ''/'' \<and> d \<noteq> CHR ''/'' \<and> d \<noteq> BACKSLASH)"
| "stays_on_origin s = (s = ''/'')"

lemma stays_on_origin_Cons:
  "stays_on_origin (CHR ''/'' # s) \<longleftrightarrow> s = [] \<or> hd s \<noteq> CHR ''/'' \<and> hd s \<noteq> BACKSLASH"
  by (cases s) auto

lemma browser_strip_clean:
  assumes "list_all (\<lambda>c. 32 \<le> byte c) s"
  shows "browser_strip (CHR ''/'' # s) = CHR ''/'' # rev (dropWhile (\<lambda>c. byte c \<le> 32) (rev s))"
proof -
  have nb: "c \<noteq> TAB \<and> c \<noteq> CR \<and> c \<noteq> NL" if "32 \<le> byte c" for c using that by auto
  have slash: "byte CHR ''/'' = 47" by (simp add: byte_def)
  let ?t = "rev (dropWhile (\<lambda>c. byte c \<le> 32) (rev s))"
  have "rev (dropWhile (\<lambda>c. byte c \<le> 32) (rev (CHR ''/'' # s))) = CHR ''/'' # ?t"
    by (cases "\<forall>c\<in>set s. byte c \<le> 32") (auto simp: slash dropWhile_append dropWhile_eq_Nil_conv)
  moreover have "filter (\<lambda>c. c \<noteq> TAB \<and> c \<noteq> CR \<and> c \<noteq> NL) ?t = ?t"
    by (intro filter_True ballI nb) (use assms in \<open>auto simp: list_all_iff dest: set_dropWhileD\<close>)
  ultimately show ?thesis by (simp add: browser_strip_def slash nb)
qed

lemma rev_dropWhile_rev_hd:
  "rev (dropWhile P (rev s)) = [] \<or> hd (rev (dropWhile P (rev s))) = hd s"
proof -
  obtain t where "s = rev (dropWhile P (rev s)) @ t"
    by (metis rev_append rev_rev_ident takeWhile_dropWhile_id)
  then show ?thesis by (metis hd_append2)
qed

section \<open>Properties\<close>

definition longest_match :: "Config \<Rightarrow> string \<Rightarrow> RouteConfig \<Rightarrow> bool" where
  "longest_match cfg path rc =
     (rc \<in> set (cf_Routes cfg) \<and> pathMatchesPrefix path (rc_PathPrefix rc)
      \<and> list_all (\<lambda>rc'. pathMatchesPrefix path (rc_PathPrefix rc')
                         \<longrightarrow> length (rc_PathPrefix rc') \<le> length (rc_PathPrefix rc)) (cf_Routes cfg))"

lemma longest_match_unique:
  assumes "config_ok G cfg" "longest_match cfg path rc" "longest_match cfg path rc'"
  shows "rc = rc'"
proof -
  have "length (rc_PathPrefix rc) = length (rc_PathPrefix rc')"
    using assms(2,3) by (auto simp: longest_match_def list_all_iff intro: le_antisym)
  moreover have "rooted (rc_PathPrefix rc)" "rooted (rc_PathPrefix rc')"
    using assms by (auto simp: config_ok_def routes_ok_def route_ok_def longest_match_def list_all_iff)
  ultimately have "rc_PathPrefix rc = rc_PathPrefix rc'"
    using assms(2,3) pathMatchesPrefix_same_length unfolding longest_match_def by blast
  moreover have "inj_on rc_PathPrefix (set (cf_Routes cfg))"
    using assms(1) by (simp add: config_ok_def routes_ok_def distinct_map)
  ultimately show ?thesis using assms(2,3) by (auto simp: longest_match_def dest: inj_onD)
qed

lemma matchRoute_Some:
  "BuildRuntime G cfg = Inr rt \<Longrightarrow> matchRoute rt path = Some r \<Longrightarrow>
     \<exists>rc. r = compiled rc \<and> longest_match cfg path rc"
  using matchRoute_cases(1)[of G cfg rt path r] by (auto simp: longest_match_def list_all_iff)

lemma matchRoute_iff:
  assumes "config_ok G cfg" "BuildRuntime G cfg = Inr rt"
  shows "matchRoute rt path = Some r \<longleftrightarrow> (\<exists>rc. r = compiled rc \<and> longest_match cfg path rc)"
proof
  assume "\<exists>rc. r = compiled rc \<and> longest_match cfg path rc"
  then obtain rc where rc: "r = compiled rc" "longest_match cfg path rc" by blast
  then have "matchRoute rt path \<noteq> None"
    using matchRoute_cases(2)[OF assms(2)] by (auto simp: longest_match_def)
  then obtain r' where "matchRoute rt path = Some r'" by blast
  with matchRoute_Some[OF assms(2)] longest_match_unique[OF assms(1)] rc
  show "matchRoute rt path = Some r" by metis
qed (rule matchRoute_Some[OF assms(2)])

text \<open>
  C5: routing picks the longest matching prefix. For a valid configuration the runtime's
  route list, as the exchange loops leave it, resolves a path to the one configured route
  with the longest matching prefix, and to none exactly when no prefix matches.
\<close>

theorem matchRoute_longest:
  assumes "config_ok G cfg" "BuildRuntime G cfg = Inr rt"
  shows "(matchRoute rt path = Some r \<longleftrightarrow> (\<exists>rc. r = compiled rc \<and> longest_match cfg path rc))
    \<and> (matchRoute rt path = None \<longleftrightarrow> list_all (\<lambda>rc. \<not> pathMatchesPrefix path (rc_PathPrefix rc)) (cf_Routes cfg))"
  using matchRoute_iff[OF assms] matchRoute_cases(2)[OF assms(2)] by (simp add: list_all_iff)

text \<open>
  a valid configuration always builds, and its users are found by any spelling of
  their subject that lowercases alike, and by no other.
\<close>

theorem BuildRuntime_total:
  assumes "config_ok G cfg"
  shows "\<exists>rt. BuildRuntime G cfg = Inr rt \<and> rt_Config rt = cfg
    \<and> (LookupUser G (NewEnv rt) s = Some u \<longleftrightarrow> u \<in> set (cf_Users cfg) \<and> lower G (us_Subject u) = lower G s)"
proof -
  obtain rt where rt: "BuildRuntime G cfg = Inr rt" using config_ok_BuildRuntime[OF assms] by blast
  have "distinct (map (\<lambda>u. lower G (us_Subject u)) (cf_Users cfg))"
    using assms by (simp add: config_ok_def users_ok_def)
  from build_users_lookup[OF this] BuildRuntime_Inr[OF rt] rt show ?thesis
    by (simp add: LookupUser_def NewEnv_def)
qed

lemma proxied_authorized:
  assumes "config_ok G cfg" "BuildRuntime G cfg = Inr rt" "en_Runtime e = rt"
    and "handleProxied G e now w r = Forward out"
  shows "\<exists>rc sess up. longest_match cfg (rq_Path r) rc
    \<and> ReadCookie G (rt_Codec rt) now r (sc_CookieName (cf_Session cfg)) = Inr sess \<and> Valid now sess
    \<and> Level_Valid (d_Level sess) \<and> Rank (rc_MinLevel rc) \<le> Rank (d_Level sess)
    \<and> url_Parse (rc_Upstream rc) = Some up \<and> out = Rewrite G up r (Some sess)"
proof -
  have cfg: "rt_Config rt = cfg" using BuildRuntime_Inr[OF assms(2)] by simp
  obtain route sess where m: "matchRoute rt (rq_Path r) = Some route"
    and s: "ReadCookie G (rt_Codec rt) now r (sc_CookieName (cf_Session cfg)) = Inr sess"
    and rank: "Rank (ro_MinLevel route) \<le> Rank (d_Level sess)"
    and out: "out = Rewrite G (ro_Target route) r (Some sess)"
    using assms(3,4) by (auto simp: handleProxied_def Let_def cfg split: option.splits sum.splits if_splits)
  obtain rc where rc: "route = compiled rc" "longest_match cfg (rq_Path r) rc"
    using matchRoute_Some[OF assms(2) m] by blast
  then have "route_ok rc" using assms(1)
    by (auto simp: config_ok_def routes_ok_def longest_match_def list_all_iff)
  then obtain up where "url_Parse (rc_Upstream rc) = Some up" "Level_Valid (rc_MinLevel rc)"
    using route_ok_upstream by (auto simp: route_ok_def)
  moreover have "Valid now sess" using s by (auto simp: ReadCookie_def split: option.splits sum.splits if_splits)
  ultimately show ?thesis using rc s rank out by (auto simp: Level_Valid_def)
qed

text \<open>
  C2: nothing is proxied without authorization. A request that is forwarded matched a
  configured route, carried a session cookie that one of the configured keys
  authenticates, and that session is live and of a level at least the route's, never the
  empty level of an unknown identity; it goes to that route's upstream and nowhere else.
\<close>

theorem proxied_only_when_authorized:
  assumes "config_ok G cfg" "BuildRuntime G cfg = Inr rt" "en_Runtime e = rt"
    and "handleProxied G e now w r = Forward out"
  shows "\<exists>rc sess up. longest_match cfg (rq_Path r) rc
    \<and> ReadCookie G (rt_Codec rt) now r (sc_CookieName (cf_Session cfg)) = Inr sess \<and> Valid now sess
    \<and> Level_Valid (d_Level sess) \<and> Rank (rc_MinLevel rc) \<le> Rank (d_Level sess)
    \<and> url_Parse (rc_Upstream rc) = Some up \<and> out = Rewrite G up r (Some sess)"
  using assms by (rule proxied_authorized)

text \<open>
  C4: identity headers cannot be forged. Whatever headers the client sent, under any
  capitalisation of their names, the upstream sees exactly the session's subject and level
  and no groups.
\<close>

theorem identity_headers:
  assumes "map lower_char k = map lower_char h"
  shows "(h = HeaderUser \<longrightarrow> Header_Values (ob_Header (Rewrite G t r (Some s))) k = [d_Subject s])
    \<and> (h = HeaderLevel \<longrightarrow> Header_Values (ob_Header (Rewrite G t r (Some s))) k = [d_Level s])
    \<and> (h = HeaderGroups \<longrightarrow> Header_Values (ob_Header (Rewrite G t r (Some s))) k = [])"
  using CanonicalHeaderKey_case[OF assms] identity_tokens by (auto simp: Rewrite_header)

text \<open>
  forwarding headers state what the proxy knows. The upstream sees the client's host
  in \<open>Host\<close> and \<open>X-Forwarded-Host\<close>, only the peer's address in \<open>X-Forwarded-For\<close>, and in
  \<open>X-Forwarded-Proto\<close> one scheme, the edge's when that is a valid one and the listener's
  otherwise; \<open>Forwarded\<close> and anything else the client wrote there is gone.
\<close>

theorem forwarding_headers:
  "let out = Rewrite G t r (Some s) in
     ob_Host out = rq_Host r
   \<and> Header_Values (ob_Header out) ''X-Forwarded-Host'' = [rq_Host r]
   \<and> Header_Values (ob_Header out) ''X-Forwarded-For''
       = (case SplitHostPort (rq_RemoteAddr r) of Some (ip, _) \<Rightarrow> [ip] | None \<Rightarrow> [])
   \<and> Header_Values (ob_Header out) ''X-Forwarded-Proto'' \<in> {[''http''], [''https'']}
   \<and> Header_Values (ob_Header out) ''Forwarded'' = []"
proof -
  have "forwardedProto G x \<in> {[], ''http'', ''https''}" for x by (simp add: forwardedProto_def Let_def)
  then show ?thesis
    by (auto simp: Let_def Rewrite_header SetXForwarded_header)
      (auto simp: Rewrite_def SetXForwarded_def prepare_headers_def Let_def split: option.splits)
qed

text \<open>
  C9: redirects after login stay on the console's origin. Whatever target a login request
  names, what the browser makes of the accepted one, after it drops the characters it
  ignores, is a path on this origin.
\<close>

theorem SafeRedirect_same_origin:
  "stays_on_origin (browser_strip (SafeRedirect p)) \<and> SafeRedirect p \<in> {p, ''/''}
   \<and> SafeRedirect (SafeRedirect p) = SafeRedirect p"
proof (cases "SafeRedirect p = ''/''")
  case True
  have "browser_strip ''/'' = ''/''" "SafeRedirect ''/'' = ''/''" by code_simp+
  with True show ?thesis by simp
next
  case False
  then obtain s where p: "p = CHR ''/'' # s" and c: "\<not> ContainsFunc p (\<lambda>r. r = 92 \<or> r < 0x20 \<or> r = 0x7f)"
    and sec: "s \<noteq> [] \<Longrightarrow> hd s \<noteq> CHR ''/'' \<and> hd s \<noteq> BACKSLASH" and sr: "SafeRedirect p = p"
    by (cases p) (auto simp: SafeRedirect_def hd_conv_nth split: if_splits option.splits)
  have "32 \<le> byte c" if "c \<in> set s" for c
    using c to_runes_byte[of c p] that p by (fastforce simp: ContainsFunc_def list_ex_iff)
  then have strip: "browser_strip p = CHR ''/'' # rev (dropWhile (\<lambda>c. byte c \<le> 32) (rev s))"
    by (simp add: p browser_strip_clean list_all_iff)
  have "stays_on_origin (browser_strip p)"
    unfolding strip stays_on_origin_Cons
    using sec rev_dropWhile_rev_hd[of "\<lambda>c. byte c \<le> 32" s] by (cases "s = []") (simp, metis)
  with sr show ?thesis by simp
qed

text \<open>
  a truncated message is a prefix of the original in characters, never splits one, and
  has at most the permitted number of them.
\<close>

theorem truncateRunes_prefix:
  "to_runes (truncateRunes s n) = take n (to_runes s) \<and> RuneCountInString (truncateRunes s n) \<le> n"
proof (cases "RuneCountInString s \<le> n")
  case True
  then show ?thesis by (simp add: truncateRunes_def RuneCountInString_def to_runes_def)
next
  case False
  have sc: "\<forall>r\<in>set (take n (to_runes s)). scalar r" by (meson in_set_takeD to_runes_scalar)
  have len: "RuneCountInString x = length (to_runes x)" for x
    by (simp add: RuneCountInString_def to_runes_def)
  from sc False show ?thesis by (simp add: truncateRunes_def len to_runes_of_runes)
qed

text \<open>
  an access request is created at most once per form, only for a live session on an
  enabled console, only with that session's CSRF token, and for the session's own subject.
  The answer is the same whether the request is new, already exists or conflicts.
\<close>

theorem access_request_guarded:
  assumes "snd (handleAccessRequest G e now w r) \<noteq> []"
  shows "\<exists>sess create. ReadCookie G (rt_Codec (en_Runtime e)) now r
        (sc_CookieName (cf_Session (rt_Config (en_Runtime e)))) = Inr sess
    \<and> ar_Enabled (cf_AccessRequest (rt_Config (en_Runtime e))) \<and> en_AccessRequests e = Some create
    \<and> ValidCSRF G (rt_Codec (en_Runtime e)) sess (value_Get (rq_PostForm r) ''csrf'')
    \<and> (let arc = cf_AccessRequest (rt_Config (en_Runtime e));
           msg = truncateRunes (value_Get (rq_PostForm r) ''message'') maxMessageRunes;
           answer = create (ar_ConsoleName arc) (ar_Namespace arc) (d_Subject sess) msg
       in handleAccessRequest G e now w r =
            ((if answer = Some OtherCreateError
              then pages_Error w 500 ''Your request could not be recorded; please contact your administrator.''
              else show_page w 200 (ConfirmationPage (d_Subject sess))),
             [(ar_ConsoleName arc, ar_Namespace arc, d_Subject sess, msg)]))"
proof -
  let ?arc = "cf_AccessRequest (rt_Config (en_Runtime e))"
  let ?csrf = "value_Get (rq_PostForm r) ''csrf''"
  obtain sess where s: "ReadCookie G (rt_Codec (en_Runtime e)) now r
      (sc_CookieName (cf_Session (rt_Config (en_Runtime e)))) = Inr sess"
    using assms by (cases "ReadCookie G (rt_Codec (en_Runtime e)) now r
      (sc_CookieName (cf_Session (rt_Config (en_Runtime e))))") (simp_all add: handleAccessRequest_def)
  have en: "ar_Enabled ?arc"
    using assms s by (cases "ar_Enabled ?arc") (simp_all add: handleAccessRequest_def)
  obtain create where c: "en_AccessRequests e = Some create"
    using assms s en by (cases "en_AccessRequests e") (simp_all add: handleAccessRequest_def)
  have form: "rq_FormOk r" using assms s en c by (cases "rq_FormOk r") (simp_all add: handleAccessRequest_def)
  have csrf: "ValidCSRF G (rt_Codec (en_Runtime e)) sess ?csrf"
    using assms s en c form
    by (cases "ValidCSRF G (rt_Codec (en_Runtime e)) sess ?csrf") (simp_all add: handleAccessRequest_def)
  show ?thesis
    by (intro exI[of _ sess] exI[of _ create])
      (simp add: handleAccessRequest_def Let_def s en c form csrf split: option.split create_error.split)
qed

section \<open>Witnesses\<close>

definition console_cookie :: string where
  "console_cookie =
     b64_EncodeToString (sample_nonce @ sha256_Sum256 session_lib ''0123456789abcdef'' @ ''document'')"

definition console_codec :: Codec where
  "console_codec = \<lparr>keys = [sha256_Sum256 session_lib ''0123456789abcdef'']\<rparr>"

definition console_request :: request where
  "console_request = sample_request\<lparr>rq_Path := ''/pgadmin/browser'', rq_EscapedPath := ''/pgadmin/browser'',
     rq_Cookies := [(''pgtoolbox_session'', console_cookie)]\<rparr>"

lemma sample_runtime:
  obtains rt where "BuildRuntime session_lib sample_config = Inr rt" "rt_Config rt = sample_config"
    "rt_Codec rt = console_codec"
proof -
  obtain rt where rt: "BuildRuntime session_lib sample_config = Inr rt"
    using config_ok_BuildRuntime[OF sample_config_ok] by blast
  with BuildRuntime_Inr[OF rt] that show thesis by (simp add: NewCodec_Inr sample_config_def console_codec_def)
qed

lemma console_ReadCookie:
  "ReadCookie session_lib console_codec 0
     (console_request\<lparr>rq_PostForm := f\<rparr>) ''pgtoolbox_session'' = Inr sample_session"
  using Data_json_roundtrip[of session_lib sample_session]
  by (simp add: ReadCookie_def request_Cookie_def Open_def console_codec_def console_cookie_def console_request_def b64_roundtrip
      sample_nonce_def NonceSize_def aes_key_ok_def Valid_def Unix_def sample_session_def)

lemma sample_pgadmin_route:
  "longest_match sample_config ''/pgadmin/browser'' (cf_Routes sample_config ! 1)"
  by (simp add: longest_match_def sample_config_def pathMatchesPrefix_def HasPrefix_def)

theorem matchRoute_longest_witness:
  "\<exists>rt. BuildRuntime session_lib sample_config = Inr rt
     \<and> matchRoute rt ''/pgadmin/browser'' = Some (compiled (cf_Routes sample_config ! 1))"
proof -
  obtain rt where rt: "BuildRuntime session_lib sample_config = Inr rt" by (rule sample_runtime)
  with matchRoute_longest[OF sample_config_ok rt] sample_pgadmin_route show ?thesis by blast
qed

theorem BuildRuntime_total_witness:
  "\<exists>rt. BuildRuntime session_lib sample_config = Inr rt
     \<and> LookupUser session_lib (NewEnv rt) ''JANE'' = Some (cf_Users sample_config ! 0)"
  using BuildRuntime_total[OF sample_config_ok, where s = "''JANE''" and u = "cf_Users sample_config ! 0"]
  by (auto simp: sample_config_def ToLower_def is_ascii_def byte_def lower_ascii_def)

theorem proxied_only_when_authorized_witness:
  "\<exists>rc. longest_match sample_config ''/pgadmin/browser'' rc \<and> Rank (rc_MinLevel rc) \<le> Rank LevelDBA"
proof -
  obtain rt where rt: "BuildRuntime session_lib sample_config = Inr rt" "rt_Config rt = sample_config"
    "rt_Codec rt = console_codec" by (rule sample_runtime)
  have m: "matchRoute rt ''/pgadmin/browser'' = Some (compiled (cf_Routes sample_config ! 1))"
    using matchRoute_iff[OF sample_config_ok rt(1)] sample_pgadmin_route by blast
  have rd: "ReadCookie session_lib console_codec 0
      console_request ''pgtoolbox_session'' = Inr sample_session"
    using console_ReadCookie[of "[]"] by (simp add: console_request_def sample_request_def)
  have lvl: "d_Level sample_session = LevelDBA" by (simp add: sample_session_def level_defs)
  have path: "rq_Path console_request = ''/pgadmin/browser''" by (simp add: console_request_def)
  have name: "sc_CookieName (cf_Session sample_config) = ''pgtoolbox_session''"
    and min: "rc_MinLevel (cf_Routes sample_config ! 1) = LevelDBA" by (simp_all add: sample_config_def)
  have "\<exists>out. handleProxied session_lib (NewEnv rt) 0 empty_response console_request = Forward out"
    by (simp add: handleProxied_def NewEnv_def path m rt(2,3) name rd lvl min[simplified])
  then obtain out where "handleProxied session_lib (NewEnv rt) 0 empty_response console_request = Forward out" by blast
  from proxied_only_when_authorized[OF sample_config_ok rt(1) _ this] show ?thesis
    by (simp only: path rt(3) name rd) (auto simp: NewEnv_def lvl)
qed

theorem identity_headers_witness:
  "Header_Values (ob_Header (Rewrite session_lib
     \<lparr>url_Scheme = ''http'', url_Opaque = [], url_Host = ''127.0.0.1:5050'', url_Path = [], url_RawQuery = []\<rparr>
     (sample_request\<lparr>rq_Header := (\<lambda>_. [''root''])\<rparr>) (Some sample_session))) ''x-fOrwarded-user'' = [''jane'']"
proof -
  have "map lower_char ''x-fOrwarded-user'' = map lower_char HeaderUser" by code_simp
  from identity_headers[OF this] show ?thesis by (simp add: sample_session_def)
qed

theorem access_request_guarded_witness:
  "\<exists>e. snd (handleAccessRequest session_lib e 0 empty_response
      (console_request\<lparr>rq_PostForm := [(''csrf'', CSRFToken session_lib (rt_Codec (en_Runtime e)) sample_session)]\<rparr>))
    = [(''console'', ''db'', ''jane'', [])]"
proof -
  obtain rt where rt: "BuildRuntime session_lib sample_config = Inr rt" "rt_Config rt = sample_config"
    "rt_Codec rt = console_codec" by (rule sample_runtime)
  let ?e = "(NewEnv rt)\<lparr>en_AccessRequests := Some (\<lambda>_ _ _ _. None)\<rparr>"
  let ?r = "console_request\<lparr>rq_PostForm := [(''csrf'', CSRFToken session_lib (rt_Codec rt) sample_session)]\<rparr>"
  have e: "en_Runtime ?e = rt" "en_AccessRequests ?e = Some (\<lambda>_ _ _ _. None)" by (simp_all add: NewEnv_def)
  have c: "sc_CookieName (cf_Session sample_config) = ''pgtoolbox_session''"
    "ar_Enabled (cf_AccessRequest sample_config)" "ar_ConsoleName (cf_AccessRequest sample_config) = ''console''"
    "ar_Namespace (cf_AccessRequest sample_config) = ''db''" by (simp_all add: sample_config_def)
  have r: "rq_FormOk ?r" "value_Get (rq_PostForm ?r) ''csrf'' = CSRFToken session_lib (rt_Codec rt) sample_session"
    "value_Get (rq_PostForm ?r) ''message'' = []"
    by (simp_all add: console_request_def sample_request_def value_Get_def)
  have "ValidCSRF session_lib (rt_Codec rt) sample_session (CSRFToken session_lib (rt_Codec rt) sample_session)"
    by (simp add: ValidCSRF_def CSRFToken_def hex_roundtrip)
  then have ne: "snd (handleAccessRequest session_lib ?e 0 empty_response ?r) \<noteq> []"
    unfolding handleAccessRequest_def Let_def e rt(2) c r
    using console_ReadCookie rt(3) c r(1) by simp
  have sess: "ReadCookie session_lib (rt_Codec rt) 0 ?r ''pgtoolbox_session'' = Inr sample_session"
    using console_ReadCookie rt(3) by simp
  have "truncateRunes [] maxMessageRunes = []"
    by (simp add: truncateRunes_def RuneCountInString_def)
  with access_request_guarded[OF ne] have "snd (handleAccessRequest session_lib ?e 0 empty_response ?r) = [(''console'', ''db'', ''jane'', [])]"
    unfolding e rt(2) c r sess Let_def by (auto simp: sample_session_def)
  with e(1) show ?thesis by metis
qed

end
