(* ===== verification/Provider.thy ===== *)
theory Provider
  imports Server
begin

text \<open>
  The contract of the authentication providers (\<open>server.Provider\<close> and the obligations its
  comments state): a provider mints sessions only through \<open>Env.IssueSession\<close>, at the level
  the configuration gives the subject, and under its own mode.

  The locale \<open>login_provider\<close> states that contract; what it gives the proxy is proved once
  here and holds of the local, the OIDC and the OpenShift provider by interpretation.
\<close>

text \<open>The level the configuration gives a subject; unknown identities have none.\<close>

definition level_of :: "golib \<Rightarrow> Env \<Rightarrow> string \<Rightarrow> level" where
  "level_of G e subject = (case LookupUser G e subject of Some u \<Rightarrow> us_Level u | None \<Rightarrow> LevelNone)"

abbreviation env_session :: "Env \<Rightarrow> SessionConfig" where
  "env_session e \<equiv> cf_Session (rt_Config (en_Runtime e))"

text \<open>A cookie \<open>c\<close> seals the session \<open>d\<close> under the environment's codec, with nonce \<open>rnd\<close>.\<close>

definition seals_session :: "golib \<Rightarrow> Env \<Rightarrow> string option \<Rightarrow> cookie \<Rightarrow> Data \<Rightarrow> bool" where
  "seals_session G e rnd c d =
     (case Seal G (rt_Codec (en_Runtime e)) rnd (Data_json d) of
        Inl _ \<Rightarrow> False
      | Inr v \<Rightarrow> c = session_cookie (sc_CookieName (env_session e)) v
                       (sc_MaxAge (env_session e) div 1000000000) (CookieSecure (env_session e)))"

lemma IssueSession_cookies:
  assumes "IssueSession G e now rnd w subject level mode = Inr w'"
  shows "\<exists>c. seals_session G e rnd c (NewData now subject level mode (sc_MaxAge (env_session e)))
    \<and> w' = http_SetCookie w c"
  using assms by (auto simp: IssueSession_def SetCookie_def Let_def seals_session_def split: sum.splits)

lemma http_SetCookie_set: "set (rs_Cookies (http_SetCookie w c)) \<subseteq> insert c (set (rs_Cookies w))"
  by (auto simp: http_SetCookie_def)

lemma IssueSession_mints:
  assumes "IssueSession G e now rnd w subject level mode = Inr w'" "c \<in> set (rs_Cookies w')"
  shows "c \<in> set (rs_Cookies w)
    \<or> seals_session G e rnd c (NewData now subject level mode (sc_MaxAge (env_session e)))"
  using IssueSession_cookies[OF assms(1)] http_SetCookie_set assms(2) by (metis insertE subset_iff)

lemma http_simps [simp]:
  "rs_Cookies (http_Redirect w u n) = rs_Cookies w" "rs_Cookies (pages_Error w n m) = rs_Cookies w"
  "rs_Cookies (show_page w n p) = rs_Cookies w" "rs_Cookies empty_response = []"
  "rs_Status (http_Redirect w u n) = n" "rs_Status (pages_Error w n m) = n"
  "rs_Status (show_page w n p) = n"
  "rs_Location (http_Redirect w u n) = Some u" "rs_Location (pages_Error w n m) = rs_Location w"
  by (simp_all add: http_Redirect_def pages_Error_def show_page_def empty_response_def)

locale login_provider =
  fixes G :: golib and mode :: string
    and login :: "Env \<Rightarrow> int \<Rightarrow> string option \<Rightarrow> 'x \<Rightarrow> request \<Rightarrow> response"
  assumes mints: "c \<in> set (rs_Cookies (login e now rnd x r)) \<Longrightarrow> ck_Name c = sc_CookieName (env_session e)
      \<Longrightarrow> \<exists>subject. seals_session G e rnd c (NewData now subject (level_of G e subject) mode (sc_MaxAge (env_session e)))"
begin

text \<open>
  A session minted by a provider and presented later is read back as it was minted: with
  the subject it was minted for and the level the configuration gave that subject then.
\<close>

lemma minted_session_read:
  assumes c: "c \<in> set (rs_Cookies (login e now (Some n) x r))" "ck_Name c = sc_CookieName (env_session e)"
    and codec: "NewCodec G (s # ss) = Inr (rt_Codec (en_Runtime e))"
    and sha: "\<forall>x. length (sha256_Sum256 G x) = 32" and nonce: "length n = NonceSize"
    and gcm: "\<forall>p. gcm_inverts G (primary_key (rt_Codec (en_Runtime e))) n p"
    and js: "\<forall>d. d_Expiry d = Unix (now + sc_MaxAge (env_session e))
               \<longrightarrow> json_parse G (json_text G (Data_json d)) = Some (Data_json d)"
    and range: "- (2 ^ 63) \<le> Unix (now + sc_MaxAge (env_session e))" "Unix (now + sc_MaxAge (env_session e)) < 2 ^ 63"
    and carried: "request_Cookie r' (sc_CookieName (env_session e)) = Some (ck_Value c)"
    and read: "ReadCookie G (rt_Codec (en_Runtime e)) later r' (sc_CookieName (env_session e)) = Inr d"
  shows "d_Subject d \<noteq> [] \<and> d_Level d = level_of G e (d_Subject d) \<and> d_ProviderMode d = mode
    \<and> d_Expiry d = Unix (now + sc_MaxAge (env_session e))"
proof -
  obtain subject where
    seal: "seals_session G e (Some n) c (NewData now subject (level_of G e subject) mode (sc_MaxAge (env_session e)))"
    using mints[OF c] by blast
  let ?d = "NewData now subject (level_of G e subject) mode (sc_MaxAge (env_session e))"
  let ?c = "rt_Codec (en_Runtime e)"
  obtain v where v: "Seal G ?c (Some n) (Data_json ?d) = Inr v" "ck_Value c = v"
    using seal by (auto simp: seals_session_def session_cookie_def split: sum.splits)
  have "Data_unmarshal G (json_text G (Data_json ?d)) = Some ?d"
    using js range by (intro Data_json_roundtrip) (simp_all add: NewData_def)
  moreover have "length (sha256_Sum256 G s) = 32" "gcm_inverts G (primary_key ?c) n (json_text G (Data_json ?d))"
    using sha gcm by simp_all
  ultimately have "Open G ?c v (Data_unmarshal G) = Inr ?d"
    by (subst Open_sealed[OF codec _ nonce _ v(1)]) simp_all
  then have "d = ?d" using read carried by (simp add: ReadCookie_def v(2) split: if_splits)
  moreover have "d_Subject d \<noteq> []" using read
    by (auto simp: ReadCookie_def Valid_def split: option.splits sum.splits if_splits)
  ultimately show ?thesis by (simp add: NewData_def)
qed

end

end
