(* ===== verification/Local_Auth.thy ===== *)
theory Local_Auth
  imports Provider
begin

text \<open>
  The local login provider (\<open>internal/proxy/local/local.go\<close>): the form, the password check
  and the per-IP failure limiter.

  A submission is handled at two instants: \<open>t1\<close> when the limiter is asked and \<open>t2\<close> when the
  outcome is recorded. Submissions are handled one after the other, each as a whole.
\<close>

section \<open>Model\<close>

definition maxFailures :: nat where "maxFailures = 10"
definition window :: int where "window = 60 * second"

record rateEntry =
  re_windowStart :: int
  re_count :: nat

type_synonym rateLimiter = "string \<rightharpoonup> rateEntry"

definition newRateLimiter :: rateLimiter where "newRateLimiter = Map.empty"

definition allow :: "rateLimiter \<Rightarrow> int \<Rightarrow> string \<Rightarrow> bool" where
  "allow rl now ip =
     (case rl ip of
        None \<Rightarrow> True
      | Some e \<Rightarrow> if now - re_windowStart e \<ge> window then True else re_count e < maxFailures)"

definition fail :: "rateLimiter \<Rightarrow> int \<Rightarrow> string \<Rightarrow> rateLimiter" where
  "fail rl now ip =
     (case rl ip of
        None \<Rightarrow> rl(ip \<mapsto> \<lparr>re_windowStart = now, re_count = 1\<rparr>)
      | Some e \<Rightarrow>
          if now - re_windowStart e \<ge> window then rl(ip \<mapsto> \<lparr>re_windowStart = now, re_count = 1\<rparr>)
          else rl(ip \<mapsto> e\<lparr>re_count := re_count e + 1\<rparr>))"

definition reset :: "rateLimiter \<Rightarrow> string \<Rightarrow> rateLimiter" where
  "reset rl ip = rl(ip := None)"

record local_provider =
  lp_limiter :: rateLimiter
  lp_dummyHash :: string

definition dummyPassword :: string where "dummyPassword = ''pgtoolbox-dummy-password''"

text \<open>\<open>bcrypt.GenerateFromPassword\<close> is the argument \<open>gen\<close>.\<close>

definition local_New :: "(string \<Rightarrow> string option) \<Rightarrow> local_provider option" where
  "local_New gen =
     map_option (\<lambda>dummy. \<lparr>lp_limiter = newRateLimiter, lp_dummyHash = dummy\<rparr>) (gen dummyPassword)"

definition local_Register :: "pattern list \<Rightarrow> pattern list" where
  "local_Register mux =
     mux @ [\<lparr>pt_Method = ''GET'', pt_Path = ''/auth/local/login'', pt_Handler = EpLocalForm\<rparr>,
            \<lparr>pt_Method = ''POST'', pt_Path = ''/auth/local/login'', pt_Handler = EpLocalSubmit\<rparr>]"

definition handleForm :: "Env \<Rightarrow> response \<Rightarrow> request \<Rightarrow> response" where
  "handleForm e w r =
     show_page w 200 (LoginPage (SafeRedirect (value_Get (rq_Query r) ''rd'')) [] (ExternalLogins e))"

definition clientIP :: "request \<Rightarrow> string" where
  "clientIP r = (case SplitHostPort (rq_RemoteAddr r) of None \<Rightarrow> rq_RemoteAddr r | Some (host, _) \<Rightarrow> host)"

text \<open>The identity and the hash a submission is checked against.\<close>

definition submitted_subject :: "golib \<Rightarrow> request \<Rightarrow> string" where
  "submitted_subject G r = lower G (TrimSpace (value_Get (rq_PostForm r) ''username''))"

definition chosen_hash :: "local_provider \<Rightarrow> User option \<Rightarrow> string" where
  "chosen_hash p user =
     (case user of
        Some u \<Rightarrow> if us_LocalPasswordBcrypt u \<noteq> [] then us_LocalPasswordBcrypt u else lp_dummyHash p
      | None \<Rightarrow> lp_dummyHash p)"

definition handleSubmit ::
  "golib \<Rightarrow> local_provider \<Rightarrow> Env \<Rightarrow> int \<Rightarrow> int \<Rightarrow> string option \<Rightarrow> response \<Rightarrow> request
     \<Rightarrow> local_provider \<times> response" where
  "handleSubmit G p e t1 t2 rnd w r =
     (let ip = clientIP r in
      if \<not> allow (lp_limiter p) t1 ip
      then (p, pages_Error w 429 ''Too many failed attempts; try again later.'')
      else if \<not> rq_FormOk r then (p, pages_Error w 400 ''The form could not be parsed.'')
      else
        let rd = SafeRedirect (value_Get (rq_PostForm r) ''rd'');
            subject = submitted_subject G r;
            password = value_Get (rq_PostForm r) ''password'';
            user = LookupUser G e subject
        in (case (bcrypt_Compare G (chosen_hash p user) password, user) of
              (True, Some u) \<Rightarrow>
                (p\<lparr>lp_limiter := reset (lp_limiter p) ip\<rparr>,
                 (case IssueSession G e t2 rnd w subject (us_Level u) ModeLocal of
                    Inl _ \<Rightarrow> pages_Error w 500 ''The session could not be created.''
                  | Inr w' \<Rightarrow> http_Redirect w' rd 302))
            | _ \<Rightarrow>
                (p\<lparr>lp_limiter := fail (lp_limiter p) t2 ip\<rparr>,
                 show_page w 401 (LoginPage rd ''Invalid identity or password.'' (ExternalLogins e)))))"

section \<open>The limiter's contract\<close>

text \<open>
  What \<open>handleSubmit\<close> relies on: failures of an address are counted, an address at the limit
  is refused, a failure counts only against its own address, and a reset forgets it. The
  count never exceeds the limit as long as a failure is recorded only while it is allowed.
\<close>

locale failure_limiter =
  fixes allow :: "'s \<Rightarrow> int \<Rightarrow> string \<Rightarrow> bool" and fail :: "'s \<Rightarrow> int \<Rightarrow> string \<Rightarrow> 's"
    and reset :: "'s \<Rightarrow> string \<Rightarrow> 's" and failures :: "'s \<Rightarrow> int \<Rightarrow> string \<Rightarrow> nat" and limit :: nat
  assumes allow_iff: "allow s now ip \<longleftrightarrow> failures s now ip < limit"
    and fail_same: "failures (fail s now ip) now ip = Suc (failures s now ip)"
    and fail_other: "ip' \<noteq> ip \<Longrightarrow> failures (fail s now ip) t ip' = failures s t ip'"
    and reset_same: "failures (reset s ip) t ip = 0"
    and reset_other: "ip' \<noteq> ip \<Longrightarrow> failures (reset s ip) t ip' = failures s t ip'"
begin

text \<open>\<open>n\<close> attempts at one instant, each recorded as failed when it is allowed: how many were.\<close>

fun attempts :: "nat \<Rightarrow> 's \<Rightarrow> int \<Rightarrow> string \<Rightarrow> nat \<times> 's" where
  "attempts 0 s now ip = (0, s)"
| "attempts (Suc n) s now ip =
     (if allow s now ip then (let (k, s') = attempts n (fail s now ip) now ip in (Suc k, s'))
      else attempts n s now ip)"

lemma attempts_bounded:
  "failures s now ip \<le> limit \<Longrightarrow> fst (attempts n s now ip) = min n (limit - failures s now ip)"
proof (induction n arbitrary: s)
  case (Suc n)
  show ?case
  proof (cases "allow s now ip")
    case True
    then have lt: "failures s now ip < limit" using allow_iff[of s now ip] by blast
    then have "failures (fail s now ip) now ip \<le> limit" by (simp add: fail_same)
    from Suc.IH[OF this] True lt show ?thesis by (simp add: fail_same case_prod_unfold)
  next
    case False
    with Suc allow_iff[of s now ip] show ?thesis by simp
  qed
qed simp

lemma others_unaffected:
  "ip' \<noteq> ip \<Longrightarrow> allow (fail s now ip) t ip' = allow s t ip' \<and> allow (reset s ip) t ip' = allow s t ip'"
  by (simp add: allow_iff fail_other reset_other)

end

definition failures :: "rateLimiter \<Rightarrow> int \<Rightarrow> string \<Rightarrow> nat" where
  "failures rl now ip =
     (case rl ip of None \<Rightarrow> 0 | Some e \<Rightarrow> if now - re_windowStart e \<ge> window then 0 else re_count e)"

interpretation limiter: failure_limiter allow fail reset failures maxFailures
  by unfold_locales
    (auto simp: allow_def fail_def reset_def failures_def maxFailures_def window_def second_def split: option.splits)

section \<open>Submissions\<close>

text \<open>The outcomes of a submission, by what the handler checked.\<close>

lemma handleSubmit_cases:
  obtains (limited) "\<not> allow (lp_limiter p) t1 (clientIP r)"
      "handleSubmit G p e t1 t2 rnd w r = (p, pages_Error w 429 ''Too many failed attempts; try again later.'')"
  | (unparsable) "\<not> rq_FormOk r"
      "handleSubmit G p e t1 t2 rnd w r = (p, pages_Error w 400 ''The form could not be parsed.'')"
  | (refused) page where "allow (lp_limiter p) t1 (clientIP r)"
      "handleSubmit G p e t1 t2 rnd w r
         = (p\<lparr>lp_limiter := fail (lp_limiter p) t2 (clientIP r)\<rparr>, show_page w 401 page)"
  | (accepted) u where "allow (lp_limiter p) t1 (clientIP r)" "rq_FormOk r"
      "LookupUser G e (submitted_subject G r) = Some u"
      "bcrypt_Compare G (chosen_hash p (Some u)) (value_Get (rq_PostForm r) ''password'')"
      "handleSubmit G p e t1 t2 rnd w r
         = (p\<lparr>lp_limiter := reset (lp_limiter p) (clientIP r)\<rparr>,
            (case IssueSession G e t2 rnd w (submitted_subject G r) (us_Level u) ModeLocal of
               Inl _ \<Rightarrow> pages_Error w 500 ''The session could not be created.''
             | Inr w' \<Rightarrow> http_Redirect w' (SafeRedirect (value_Get (rq_PostForm r) ''rd'')) 302))"
proof -
  let ?u = "LookupUser G e (submitted_subject G r)"
  consider "\<not> allow (lp_limiter p) t1 (clientIP r)" | "allow (lp_limiter p) t1 (clientIP r)" "\<not> rq_FormOk r"
    | "allow (lp_limiter p) t1 (clientIP r)" "rq_FormOk r" by blast
  then show thesis
  proof cases
    case 1
    then show ?thesis by (intro limited) (simp_all add: handleSubmit_def)
  next
    case 2
    then show ?thesis by (intro unparsable) (simp_all add: handleSubmit_def)
  next
    case 3
    show ?thesis
    proof (cases "?u \<noteq> None \<and> bcrypt_Compare G (chosen_hash p ?u) (value_Get (rq_PostForm r) ''password'')")
      case True
      with 3 show ?thesis by (auto intro!: accepted simp: handleSubmit_def)
    next
      case False
      with 3 show ?thesis
        by (cases ?u) (auto intro!: refused simp: handleSubmit_def Let_def split: bool.split)
    qed
  qed
qed

text \<open>A session of submissions, one after the other: the status each was answered with.\<close>

fun submits ::
  "golib \<Rightarrow> Env \<Rightarrow> local_provider \<Rightarrow> (int \<times> int \<times> string option \<times> request) list \<Rightarrow> nat list" where
  "submits G e p [] = []"
| "submits G e p ((t1, t2, rnd, r) # xs) =
     (let (p', w) = handleSubmit G p e t1 t2 rnd empty_response r in rs_Status w # submits G e p' xs)"

definition in_window :: "int \<Rightarrow> string \<Rightarrow> int \<times> int \<times> string option \<times> request \<Rightarrow> bool" where
  "in_window t0 ip x =
     (case x of (t1, t2, _, r) \<Rightarrow> t0 \<le> t1 \<and> t1 < t0 + window \<and> t0 \<le> t2 \<and> t2 < t0 + window \<and> clientIP r = ip)"

text \<open>While the first window is open, the record of an address counts the failures so far.\<close>

definition counts :: "int \<Rightarrow> string \<Rightarrow> nat \<Rightarrow> local_provider \<Rightarrow> bool" where
  "counts t0 ip k p =
     (case lp_limiter p ip of None \<Rightarrow> k = 0
      | Some en \<Rightarrow> t0 \<le> re_windowStart en \<and> re_count en = k \<and> k \<le> maxFailures)"

lemma counts_fail:
  assumes "counts t0 ip k p" "allow (lp_limiter p) t1 ip" "t1 < t0 + window" "t0 \<le> t2" "t2 < t0 + window"
  shows "counts t0 ip (Suc k) (p\<lparr>lp_limiter := fail (lp_limiter p) t2 ip\<rparr>)"
  using assms by (auto simp: counts_def allow_def fail_def maxFailures_def split: option.splits if_splits)

lemma submits_bound:
  assumes "list_all (in_window t0 ip) xs" "counts t0 ip k p"
    and "list_all (\<lambda>s. s = 400 \<or> s = 401 \<or> s = 429) (submits G e p xs)"
  shows "k + length (filter (\<lambda>s. s = 401) (submits G e p xs)) \<le> maxFailures"
  using assms
proof (induction xs arbitrary: p k)
  case Nil
  then show ?case by (simp add: counts_def split: option.splits)
next
  case (Cons x xs)
  obtain t1 t2 rnd r where x: "x = (t1, t2, rnd, r)" by (cases x)
  have w: "t1 < t0 + window" "t0 \<le> t2" "t2 < t0 + window" "clientIP r = ip"
    using Cons.prems(1) x by (simp_all add: in_window_def)
  show ?case
  proof (rule handleSubmit_cases[of p t1 r G e t2 rnd empty_response])
    assume "handleSubmit G p e t1 t2 rnd empty_response r
      = (p, pages_Error empty_response 429 ''Too many failed attempts; try again later.'')"
    then show ?thesis using Cons x by simp
  next
    assume "handleSubmit G p e t1 t2 rnd empty_response r
      = (p, pages_Error empty_response 400 ''The form could not be parsed.'')"
    then show ?thesis using Cons x by simp
  next
    fix page assume a: "allow (lp_limiter p) t1 (clientIP r)"
      and h: "handleSubmit G p e t1 t2 rnd empty_response r
        = (p\<lparr>lp_limiter := fail (lp_limiter p) t2 (clientIP r)\<rparr>, show_page empty_response 401 page)"
    have "counts t0 ip (Suc k) (p\<lparr>lp_limiter := fail (lp_limiter p) t2 ip\<rparr>)"
      using counts_fail[OF Cons.prems(2) _ w(1-3)] a w(4) by simp
    from Cons.IH[OF _ this] Cons.prems x h w(4) show ?thesis by simp
  next
    fix u assume "handleSubmit G p e t1 t2 rnd empty_response r
         = (p\<lparr>lp_limiter := reset (lp_limiter p) (clientIP r)\<rparr>,
            (case IssueSession G e t2 rnd empty_response (submitted_subject G r) (us_Level u) ModeLocal of
               Inl _ \<Rightarrow> pages_Error empty_response 500 ''The session could not be created.''
             | Inr w' \<Rightarrow> http_Redirect w' (SafeRedirect (value_Get (rq_PostForm r) ''rd'')) 302))"
    then show ?thesis using Cons.prems(3) x by (simp split: sum.splits)
  qed
qed

lemma handleSubmit_mints:
  assumes "c \<in> set (rs_Cookies (snd (handleSubmit G p e t1 t2 rnd empty_response r)))"
  shows "\<exists>subject. seals_session G e rnd c
    (NewData t2 subject (level_of G e subject) ModeLocal (sc_MaxAge (env_session e)))"
proof (rule handleSubmit_cases[of p t1 r G e t2 rnd empty_response])
  fix u assume u: "LookupUser G e (submitted_subject G r) = Some u"
    and h: "handleSubmit G p e t1 t2 rnd empty_response r
       = (p\<lparr>lp_limiter := reset (lp_limiter p) (clientIP r)\<rparr>,
          (case IssueSession G e t2 rnd empty_response (submitted_subject G r) (us_Level u) ModeLocal of
             Inl _ \<Rightarrow> pages_Error empty_response 500 ''The session could not be created.''
           | Inr w' \<Rightarrow> http_Redirect w' (SafeRedirect (value_Get (rq_PostForm r) ''rd'')) 302))"
  then obtain w' where i: "IssueSession G e t2 rnd empty_response (submitted_subject G r) (us_Level u) ModeLocal = Inr w'"
    and c: "c \<in> set (rs_Cookies w')" using assms by (auto split: sum.splits)
  have "level_of G e (submitted_subject G r) = us_Level u" by (simp add: level_of_def u)
  with IssueSession_mints[OF i c] show ?thesis by (intro exI[of _ "submitted_subject G r"]) simp
qed (use assms in auto)

interpretation local_login: login_provider G ModeLocal
  "\<lambda>e now rnd (p, t1) r. snd (handleSubmit G p e t1 now rnd empty_response r)" for G
  by unfold_locales (auto intro: handleSubmit_mints)

section \<open>Properties\<close>

text \<open>
  a local login succeeds exactly when it should. A submission is answered with a
  redirect into the console precisely when its address is below the failure limit, the
  form parses, the identity is a configured user, the password matches the hash the
  handler chose and the session could be sealed; the redirect stays on the origin's path.
\<close>

theorem local_login_exact:
  "rs_Status (snd (handleSubmit G p e t1 t2 rnd empty_response r)) = 302 \<longleftrightarrow>
     failures (lp_limiter p) t1 (clientIP r) < maxFailures \<and> rq_FormOk r
     \<and> (\<exists>u w. LookupUser G e (submitted_subject G r) = Some u
         \<and> bcrypt_Compare G (chosen_hash p (Some u)) (value_Get (rq_PostForm r) ''password'')
         \<and> IssueSession G e t2 rnd empty_response (submitted_subject G r) (us_Level u) ModeLocal = Inr w
         \<and> handleSubmit G p e t1 t2 rnd empty_response r =
             (p\<lparr>lp_limiter := reset (lp_limiter p) (clientIP r)\<rparr>,
              http_Redirect w (SafeRedirect (value_Get (rq_PostForm r) ''rd'')) 302))"
  (is "?l \<longleftrightarrow> ?r")
proof
  assume ?l
  show ?r
    by (rule handleSubmit_cases[of p t1 r G e t2 rnd empty_response])
      (use \<open>?l\<close> in \<open>auto simp: limiter.allow_iff split: sum.splits\<close>)
qed auto


text \<open>
  the failure record of an address is its own. Whatever another address does, its
  failed and its successful logins, an address is allowed exactly as before.
\<close>

theorem limiter_isolated:
  assumes "clientIP r \<noteq> ip"
  shows "allow (lp_limiter (fst (handleSubmit G p e t1 t2 rnd w r))) t ip = allow (lp_limiter p) t ip"
  by (rule handleSubmit_cases[of p t1 r G e t2 rnd w])
    (use assms limiter.others_unaffected in auto)

text \<open>
  C16: a configured user without a local password is not locked out of the form. The handler
  compares their submission with the placeholder hash meant for unknown identities, so the
  placeholder's password, a constant of the program, logs in as that user at their level.
\<close>

theorem placeholder_password_logs_in:
  assumes "LookupUser G e (submitted_subject G r) = Some u" "us_LocalPasswordBcrypt u = []"
    and "bcrypt_Compare G (lp_dummyHash p) dummyPassword" "allow (lp_limiter p) t1 (clientIP r)" "rq_FormOk r"
    and "value_Get (rq_PostForm r) ''password'' = dummyPassword"
    and "IssueSession G e t2 rnd empty_response (submitted_subject G r) (us_Level u) ModeLocal = Inr w"
  shows "handleSubmit G p e t1 t2 rnd empty_response r =
    (p\<lparr>lp_limiter := reset (lp_limiter p) (clientIP r)\<rparr>,
     http_Redirect w (SafeRedirect (value_Get (rq_PostForm r) ''rd'')) 302)"
  using assms by (simp add: handleSubmit_def chosen_hash_def)

section \<open>Witnesses\<close>

definition sample_env :: Env where
  "sample_env = NewEnv \<lparr>rt_Config = sample_config, rt_Codec = console_codec,
     rt_Users = build_users session_lib (cf_Users sample_config), rt_Routes = []\<rparr>"

definition sample_local :: local_provider where
  "sample_local = \<lparr>lp_limiter = newRateLimiter, lp_dummyHash = ''$2a$10$'' @ dummyPassword\<rparr>"

definition login_form :: "string \<Rightarrow> string \<Rightarrow> request" where
  "login_form user password =
     sample_request\<lparr>rq_PostForm := [(''username'', user), (''password'', password), (''rd'', ''/pgadmin'')]\<rparr>"

lemma sample_env_users:
  "LookupUser session_lib sample_env ''joe'' = Some (cf_Users sample_config ! 1)"
  "LookupUser session_lib sample_env ''eve'' = None"
  by (simp_all add: LookupUser_def sample_env_def NewEnv_def build_users_def sample_config_def
      ToLower_def is_ascii_def byte_def lower_ascii_def)

lemma login_form_subject:
  "submitted_subject session_lib (login_form ''joe'' pw) = ''joe''"
  "submitted_subject session_lib (login_form ''eve'' pw) = ''eve''"
proof -
  have "TrimSpace ''joe'' = ''joe''" "TrimSpace ''eve'' = ''eve''"
    by (rule TrimSpace_plain; simp add: is_ascii_def byte_def IsSpace_def)+
  moreover have "ToLower (\<lambda>r. r) ''joe'' = ''joe''" "ToLower (\<lambda>r. r) ''eve'' = ''eve''" by code_simp+
  ultimately show "submitted_subject session_lib (login_form ''joe'' pw) = ''joe''"
    "submitted_subject session_lib (login_form ''eve'' pw) = ''eve''"
    by (simp_all add: submitted_subject_def login_form_def value_Get_def)
qed

lemma login_form_fields:
  "rq_FormOk (login_form u pw)" "value_Get (rq_PostForm (login_form u pw)) ''password'' = pw"
  "clientIP (login_form u pw) = clientIP sample_request"
  by (simp_all add: login_form_def sample_request_def value_Get_def)
    (simp add: clientIP_def split: option.split)


theorem limiter_isolated_witness:
  "allow (lp_limiter (fst (handleSubmit session_lib sample_local sample_env 0 0 None empty_response
      (sample_request\<lparr>rq_RemoteAddr := ''x''\<rparr>)))) 0 ''y'' = allow (lp_limiter sample_local) 0 ''y''"
proof (rule limiter_isolated)
  show "clientIP (sample_request\<lparr>rq_RemoteAddr := ''x''\<rparr>) \<noteq> ''y''" by code_simp
qed

theorem placeholder_password_logs_in_witness:
  "rs_Status (snd (handleSubmit session_lib sample_local sample_env 0 0 (Some sample_nonce) empty_response
      (login_form ''joe'' dummyPassword))) = 302"
proof -
  have "\<exists>w. IssueSession session_lib sample_env 0 (Some sample_nonce) empty_response ''joe'' LevelView ModeLocal = Inr w"
    by (simp add: IssueSession_def SetCookie_def Seal_def Let_def sample_env_def NewEnv_def console_codec_def
        primary_key_def aes_key_ok_def)
  then obtain w where i: "IssueSession session_lib sample_env 0 (Some sample_nonce) empty_response ''joe'' LevelView ModeLocal = Inr w"
    by blast
  have u: "us_Level (cf_Users sample_config ! 1) = LevelView" "us_LocalPasswordBcrypt (cf_Users sample_config ! 1) = []"
    by (simp_all add: sample_config_def)
  have "bcrypt_Compare session_lib (lp_dummyHash sample_local) dummyPassword"
    "allow (lp_limiter sample_local) 0 (clientIP (login_form ''joe'' dummyPassword))"
    by (simp_all add: sample_local_def allow_def newRateLimiter_def)
  with placeholder_password_logs_in[of session_lib sample_env "login_form ''joe'' dummyPassword"
      "cf_Users sample_config ! 1" sample_local 0 0 "Some sample_nonce" w] i
  show ?thesis by (simp only: login_form_fields login_form_subject sample_env_users u simp_thms) simp
qed

end
