(* ===== verification/Oidc.thy ===== *)
theory Oidc
  imports Provider
begin

text \<open>
  The OIDC provider (\<open>internal/proxy/oidc/oidc.go\<close>): an authorization-code flow whose state
  travels in a sealed transient cookie.

  The identity provider and the OAuth client library are the record \<open>oidc_idp\<close>: the
  authorization URL, the code exchange, the verification of an ID token, and the quoting
  of \<open>fmt\<close>'s \<open>%q\<close>. The random state, nonce and verifier of a login are arguments.
\<close>

section \<open>Model\<close>

definition transientMaxAge :: int where "transientMaxAge = 600 * second"

record transient =
  tr_State :: string
  tr_Nonce :: string
  tr_Verifier :: string
  tr_RedirectTo :: string
  tr_Expiry :: int

definition zero_transient :: transient where
  "zero_transient = \<lparr>tr_State = [], tr_Nonce = [], tr_Verifier = [], tr_RedirectTo = [], tr_Expiry = 0\<rparr>"

definition transient_json :: "transient \<Rightarrow> json" where
  "transient_json t = JObj [(''state'', JStr (tr_State t)), (''nonce'', JStr (tr_Nonce t)),
     (''verifier'', JStr (tr_Verifier t)), (''rd'', JStr (tr_RedirectTo t)), (''exp'', JInt (tr_Expiry t))]"

definition transient_member :: "transient \<Rightarrow> string \<Rightarrow> json \<Rightarrow> transient option" where
  "transient_member t k v =
     (if json_key ''state'' k then map_option (\<lambda>s. t\<lparr>tr_State := s\<rparr>) (json_string (tr_State t) v)
      else if json_key ''nonce'' k then map_option (\<lambda>s. t\<lparr>tr_Nonce := s\<rparr>) (json_string (tr_Nonce t) v)
      else if json_key ''verifier'' k then map_option (\<lambda>s. t\<lparr>tr_Verifier := s\<rparr>) (json_string (tr_Verifier t) v)
      else if json_key ''rd'' k then map_option (\<lambda>s. t\<lparr>tr_RedirectTo := s\<rparr>) (json_string (tr_RedirectTo t) v)
      else if json_key ''exp'' k then map_option (\<lambda>i. t\<lparr>tr_Expiry := i\<rparr>) (json_int64 (tr_Expiry t) v)
      else Some t)"

definition transient_unmarshal :: "golib \<Rightarrow> string \<Rightarrow> transient option" where
  "transient_unmarshal G text = Option.bind (json_parse G text) (json_struct transient_member zero_transient)"

record id_token =
  it_Nonce :: string
  it_Claims :: "(string \<times> json) list option"

record oidc_idp =
  ip_AuthCodeURL :: "string \<Rightarrow> string \<Rightarrow> string \<Rightarrow> string \<Rightarrow> string"
  ip_Exchange :: "string \<Rightarrow> string \<Rightarrow> string \<Rightarrow> (exchange_error, string option) result"
  ip_Verify :: "string \<Rightarrow> id_token option"
  ip_Quote :: "string \<Rightarrow> string"

record oidc_provider =
  op_RedirectURL :: string
  op_subjectClaim :: string

text \<open>\<open>New\<close> fails when the issuer cannot be discovered; \<open>discover\<close> is that library call.\<close>

definition oidc_New :: "(string \<Rightarrow> bool) \<Rightarrow> OIDCConfig \<Rightarrow> oidc_provider option" where
  "oidc_New discover cfg =
     (if discover (oc_IssuerURL cfg)
      then Some \<lparr>op_RedirectURL = oc_RedirectURL cfg, op_subjectClaim = oc_SubjectClaim cfg\<rparr> else None)"

definition oidc_callbackPath :: string where "oidc_callbackPath = ''/auth/oidc/callback''"

definition oidc_Register :: "pattern list \<Rightarrow> pattern list" where
  "oidc_Register mux =
     mux @ [\<lparr>pt_Method = ''GET'', pt_Path = ''/auth/oidc/login'', pt_Handler = EpOIDCStart\<rparr>,
            \<lparr>pt_Method = ''GET'', pt_Path = oidc_callbackPath, pt_Handler = EpOIDCCallback\<rparr>]"

definition transientCookieName :: "Runtime \<Rightarrow> string" where
  "transientCookieName rt = sc_CookieName (cf_Session (rt_Config rt)) @ ''_oauth''"

definition requestOrigin :: "request \<Rightarrow> string" where
  "requestOrigin r =
     (let fp = Header_Get (rq_Header r) ''X-Forwarded-Proto'';
          fh = Header_Get (rq_Header r) ''X-Forwarded-Host'';
          scheme = (if fp \<noteq> [] then fp else if rq_TLS r then ''https'' else ''http'');
          host = (if fh \<noteq> [] then fh else rq_Host r)
      in scheme @ ''://'' @ host)"

definition configFor :: "oidc_provider \<Rightarrow> request \<Rightarrow> string" where
  "configFor p r =
     (if op_RedirectURL p \<noteq> [] then op_RedirectURL p else requestOrigin r @ oidc_callbackPath)"

definition new_transient :: "int \<Rightarrow> string \<Rightarrow> string \<Rightarrow> string \<Rightarrow> request \<Rightarrow> transient" where
  "new_transient now state nonce verifier r =
     \<lparr>tr_State = state, tr_Nonce = nonce, tr_Verifier = verifier,
      tr_RedirectTo = SafeRedirect (value_Get (rq_Query r) ''rd''), tr_Expiry = Unix (now + transientMaxAge)\<rparr>"

definition oidc_handleLogin ::
  "golib \<Rightarrow> oidc_idp \<Rightarrow> oidc_provider \<Rightarrow> Env \<Rightarrow> int \<Rightarrow> string \<Rightarrow> string \<Rightarrow> string \<Rightarrow> string option
     \<Rightarrow> response \<Rightarrow> request \<Rightarrow> response" where
  "oidc_handleLogin G idp p e now state nonce verifier rnd w r =
     (let rt = en_Runtime e;
          t = new_transient now state nonce verifier r
      in case Seal G (rt_Codec rt) rnd (transient_json t) of
           Inl _ \<Rightarrow> pages_Error w 500 ''The login flow could not be started.''
         | Inr v \<Rightarrow>
             http_Redirect
               (http_SetCookie w (session_cookie (transientCookieName rt) v (transientMaxAge div second)
                  (CookieSecure (cf_Session (rt_Config rt)))))
               (ip_AuthCodeURL idp (configFor p r) state nonce verifier) 302)"

definition oidc_readTransient :: "golib \<Rightarrow> Env \<Rightarrow> int \<Rightarrow> request \<Rightarrow> transient option" where
  "oidc_readTransient G e now r =
     (let rt = en_Runtime e in
      case request_Cookie r (transientCookieName rt) of
        None \<Rightarrow> None
      | Some v \<Rightarrow>
          (case Open G (rt_Codec rt) v (transient_unmarshal G) of
             Inl _ \<Rightarrow> None
           | Inr t \<Rightarrow>
               if Unix now \<ge> tr_Expiry t \<or> tr_State t = [] \<or> tr_Nonce t = [] \<or> tr_Verifier t = []
               then None else Some t))"

text \<open>The closures \<open>clear\<close> and \<open>fail\<close> of the callback handlers.\<close>

definition clear_transient :: "Env \<Rightarrow> response \<Rightarrow> response" where
  "clear_transient e w =
     http_SetCookie w (session_cookie (transientCookieName (en_Runtime e)) [] (- 1)
       (CookieSecure (cf_Session (rt_Config (en_Runtime e)))))"

definition flow_fail :: "Env \<Rightarrow> response \<Rightarrow> nat \<Rightarrow> string \<Rightarrow> response" where
  "flow_fail e w status msg = pages_Error (clear_transient e w) status msg"

text \<open>The end of both callbacks: the level is looked up, the session minted, the flow closed.\<close>

definition finish_login ::
  "golib \<Rightarrow> Env \<Rightarrow> int \<Rightarrow> string option \<Rightarrow> response \<Rightarrow> string \<Rightarrow> string \<Rightarrow> string \<Rightarrow> response" where
  "finish_login G e now rnd w subject mode rd =
     (let level = (case LookupUser G e subject of Some u \<Rightarrow> us_Level u | None \<Rightarrow> LevelNone) in
      case IssueSession G e now rnd w subject level mode of
        Inl _ \<Rightarrow> flow_fail e w 500 ''The session could not be created.''
      | Inr w' \<Rightarrow> http_Redirect (clear_transient e w') (SafeRedirect rd) 302)"

definition string_claim :: "(string \<times> json) list \<Rightarrow> string \<Rightarrow> string" where
  "string_claim claims k = (case map_of claims k of Some (JStr s) \<Rightarrow> s | _ \<Rightarrow> [])"

definition oidc_handleCallback ::
  "golib \<Rightarrow> oidc_idp \<Rightarrow> oidc_provider \<Rightarrow> Env \<Rightarrow> int \<Rightarrow> string option \<Rightarrow> response \<Rightarrow> request \<Rightarrow> response" where
  "oidc_handleCallback G idp p e now rnd w r =
     (if value_Get (rq_Query r) ''error'' \<noteq> []
      then flow_fail e w 400 ''The identity provider returned an error.''
      else case oidc_readTransient G e now r of
        None \<Rightarrow> flow_fail e w 400 ''The login flow expired; please try again.''
      | Some t \<Rightarrow>
          if value_Get (rq_Query r) ''state'' \<noteq> tr_State t
          then flow_fail e w 400 ''Login state mismatch; please try again.''
          else case ip_Exchange idp (configFor p r) (value_Get (rq_Query r) ''code'') (tr_Verifier t) of
            Inl err \<Rightarrow> flow_fail e w (fst (ExchangeFailure err)) (snd (ExchangeFailure err))
          | Inr raw \<Rightarrow>
              if raw = None \<or> raw = Some []
              then flow_fail e w 502 ''The identity provider did not return an ID token.''
              else case ip_Verify idp (the raw) of
                None \<Rightarrow> flow_fail e w 400 ''The identity token could not be verified.''
              | Some idToken \<Rightarrow>
                  if it_Nonce idToken \<noteq> tr_Nonce t
                  then flow_fail e w 400 ''Login nonce mismatch; please try again.''
                  else case it_Claims idToken of
                    None \<Rightarrow> flow_fail e w 502 ''The identity token claims could not be read.''
                  | Some claims \<Rightarrow>
                      let subject = string_claim claims (op_subjectClaim p) in
                      if subject = []
                      then flow_fail e w 403 (''The identity token has no '' @ ip_Quote idp (op_subjectClaim p) @ '' claim.'')
                      else finish_login G e now rnd w (lower G subject) ModeOIDC (tr_RedirectTo t))"

section \<open>Cookies of the flow\<close>

lemma transientCookieName_neq [simp]: "transientCookieName (en_Runtime e) \<noteq> sc_CookieName (env_session e)"
  by (simp add: transientCookieName_def)

lemma clear_transient_cookies:
  "c \<in> set (rs_Cookies (clear_transient e w)) \<Longrightarrow> ck_Name c = sc_CookieName (env_session e)
     \<Longrightarrow> c \<in> set (rs_Cookies w)"
  using http_SetCookie_set[of w] transientCookieName_neq[of e]
  by (fastforce simp: clear_transient_def session_cookie_def)

lemma flow_fail_cookies:
  "c \<in> set (rs_Cookies (flow_fail e w n m)) \<Longrightarrow> ck_Name c = sc_CookieName (env_session e)
     \<Longrightarrow> c \<in> set (rs_Cookies w)"
  by (simp add: flow_fail_def clear_transient_cookies)

lemma flow_fail_status [simp]: "rs_Status (flow_fail e w n m) = n"
  by (simp add: flow_fail_def)

lemma finish_login_mints:
  assumes "c \<in> set (rs_Cookies (finish_login G e now rnd empty_response subject mode rd))"
    "ck_Name c = sc_CookieName (env_session e)"
  shows "seals_session G e rnd c (NewData now subject (level_of G e subject) mode (sc_MaxAge (env_session e)))"
proof (cases "IssueSession G e now rnd empty_response subject (level_of G e subject) mode")
  case (Inl x)
  with assms show ?thesis
    using flow_fail_cookies by (fastforce simp: finish_login_def level_of_def)
next
  case (Inr w')
  with assms have "c \<in> set (rs_Cookies (clear_transient e w'))"
    by (simp add: finish_login_def level_of_def)
  then have "c \<in> set (rs_Cookies w')" using assms(2) by (rule clear_transient_cookies)
  from IssueSession_mints[OF Inr this] show ?thesis by simp
qed

lemma finish_login_302:
  "rs_Status (finish_login G e now rnd w subject mode rd) = 302 \<longleftrightarrow>
     (\<exists>w'. IssueSession G e now rnd w subject (level_of G e subject) mode = Inr w'
       \<and> finish_login G e now rnd w subject mode rd = http_Redirect (clear_transient e w') (SafeRedirect rd) 302)"
  by (cases "IssueSession G e now rnd w subject (level_of G e subject) mode")
    (simp_all add: finish_login_def level_of_def)

lemma ExchangeFailure_status: "fst (ExchangeFailure err) \<in> {400, 500, 502}"
  by (auto simp: ExchangeFailure_def split: exchange_error.split)

text \<open>
  The callback either fails, with an error page and the flow's cookie cleared, or has
  passed every check and finishes the login.
\<close>

lemma oidc_handleCallback_cases:
  obtains (failed) n m where "oidc_handleCallback G idp p e now rnd w r = flow_fail e w n m" "n \<noteq> 302"
  | (passed) t raw tok claims where "value_Get (rq_Query r) ''error'' = []"
      "oidc_readTransient G e now r = Some t" "value_Get (rq_Query r) ''state'' = tr_State t"
      "ip_Exchange idp (configFor p r) (value_Get (rq_Query r) ''code'') (tr_Verifier t) = Inr (Some raw)" "raw \<noteq> []"
      "ip_Verify idp raw = Some tok" "it_Nonce tok = tr_Nonce t" "it_Claims tok = Some claims"
      "string_claim claims (op_subjectClaim p) \<noteq> []"
      "oidc_handleCallback G idp p e now rnd w r =
         finish_login G e now rnd w (lower G (string_claim claims (op_subjectClaim p))) ModeOIDC (tr_RedirectTo t)"
proof (cases "value_Get (rq_Query r) ''error'' \<noteq> []")
  case True
  then show ?thesis by (intro failed, simp add: oidc_handleCallback_def, simp)
next
  case ok: False
  show ?thesis
  proof (cases "oidc_readTransient G e now r")
    case None
    with ok show ?thesis by (intro failed, simp add: oidc_handleCallback_def, simp)
  next
    case t: (Some t)
    show ?thesis
    proof (cases "value_Get (rq_Query r) ''state'' = tr_State t")
      case False
      with ok t show ?thesis by (intro failed, simp add: oidc_handleCallback_def, simp)
    next
      case st: True
      let ?x = "ip_Exchange idp (configFor p r) (value_Get (rq_Query r) ''code'') (tr_Verifier t)"
      show ?thesis
      proof (cases ?x)
        case (Inl err)
        with ok t st ExchangeFailure_status[of err] show ?thesis
          by (intro failed[of "fst (ExchangeFailure err)"]) (auto simp: oidc_handleCallback_def)
      next
        case x: (Inr raw)
        show ?thesis
        proof (cases "raw = None \<or> raw = Some []")
          case True
          with ok t st x show ?thesis by (intro failed, simp add: oidc_handleCallback_def, simp)
        next
          case False
          then obtain raw' where raw: "raw = Some raw'" "raw' \<noteq> []" by auto
          note checked = ok t st x[unfolded raw(1)] raw(2)
          show ?thesis
          proof (cases "\<exists>tok claims. ip_Verify idp raw' = Some tok \<and> it_Nonce tok = tr_Nonce t
              \<and> it_Claims tok = Some claims \<and> string_claim claims (op_subjectClaim p) \<noteq> []")
            case True
            then obtain tok claims where "ip_Verify idp raw' = Some tok" "it_Nonce tok = tr_Nonce t"
              "it_Claims tok = Some claims" "string_claim claims (op_subjectClaim p) \<noteq> []" by blast
            with checked show ?thesis by (intro passed) (simp_all add: oidc_handleCallback_def)
          next
            case False
            with checked have "\<exists>n m. oidc_handleCallback G idp p e now rnd w r = flow_fail e w n m \<and> n \<noteq> 302"
              by (auto simp: oidc_handleCallback_def Let_def split: option.split)
            with failed show ?thesis by blast
          qed
        qed
      qed
    qed
  qed
qed

lemma oidc_handleCallback_mints:
  assumes "c \<in> set (rs_Cookies (oidc_handleCallback G idp p e now rnd empty_response r))"
    "ck_Name c = sc_CookieName (env_session e)"
  shows "\<exists>subject. seals_session G e rnd c
    (NewData now subject (level_of G e subject) ModeOIDC (sc_MaxAge (env_session e)))"
proof (rule oidc_handleCallback_cases[of G idp p e now rnd empty_response r])
  fix n m assume "oidc_handleCallback G idp p e now rnd empty_response r = flow_fail e empty_response n m"
  with assms flow_fail_cookies[of c e empty_response n m] show ?thesis by simp
next
  fix t :: transient and claims
  assume "oidc_handleCallback G idp p e now rnd empty_response r
    = finish_login G e now rnd empty_response (lower G (string_claim claims (op_subjectClaim p))) ModeOIDC (tr_RedirectTo t)"
  with assms finish_login_mints show ?thesis by metis
qed

interpretation oidc_login: login_provider G ModeOIDC
  "\<lambda>e now rnd (idp, p) r. oidc_handleCallback G idp p e now rnd empty_response r" for G
  by unfold_locales (auto intro: oidc_handleCallback_mints)

section \<open>Payloads are not interchangeable\<close>

lemma open_keys_bind:
  "open_keys G ks raw (json_parse G) = Inr j \<Longrightarrow>
     open_keys G ks raw (\<lambda>p. Option.bind (json_parse G p) f) =
       (case f j of None \<Rightarrow> Inl BadPayload | Some x \<Rightarrow> Inr x)"
  by (induction ks) (auto split: if_splits option.splits)

lemma Open_bind:
  "Open G c v (json_parse G) = Inr j \<Longrightarrow>
     Open G c v (\<lambda>p. Option.bind (json_parse G p) f) = (case f j of None \<Rightarrow> Inl BadPayload | Some x \<Rightarrow> Inr x)"
  by (auto simp: Open_def open_keys_bind split: option.splits)

lemma json_key_code: "json_key tag k \<longleftrightarrow> k = tag \<or> map fold_ascii (to_runes k) = map (lower_ascii \<circ> byte) tag"
  by (simp add: json_key_def EqualFoldASCII_def)

lemma transient_as_Data:
  "json_struct Data_member zero_Data (transient_json t) = Some d \<Longrightarrow> d_Subject d = []"
proof -
  have k: "\<not> json_key ''sub'' x" "\<not> json_key ''lvl'' x" "\<not> json_key ''prv'' x"
    if "x \<in> {''state'', ''nonce'', ''verifier'', ''rd'', ''exp''}" for x
    using that by (auto simp: json_key_code to_runes_ascii is_ascii_def byte_def fold_ascii_def lower_ascii_def)
  have e: "json_key ''exp'' ''exp''" "\<not> json_key ''exp'' ''state''" "\<not> json_key ''exp'' ''nonce''"
    "\<not> json_key ''exp'' ''verifier''" "\<not> json_key ''exp'' ''rd''"
    by (simp_all add: json_key_code to_runes_ascii is_ascii_def byte_def fold_ascii_def lower_ascii_def)
  assume "json_struct Data_member zero_Data (transient_json t) = Some d"
  then show ?thesis
    by (auto simp: json_struct_def transient_json_def Data_member_def k e zero_Data_def split: option.splits)
qed

lemma Data_as_transient:
  "json_struct transient_member zero_transient (Data_json d) = Some t \<Longrightarrow> tr_State t = []"
proof -
  have k: "\<not> json_key ''state'' x" "\<not> json_key ''nonce'' x" "\<not> json_key ''verifier'' x" "\<not> json_key ''rd'' x"
    if "x \<in> {''sub'', ''lvl'', ''exp'', ''prv''}" for x
    using that by (auto simp: json_key_code to_runes_ascii is_ascii_def byte_def fold_ascii_def lower_ascii_def)
  have e: "json_key ''exp'' ''exp''" "\<not> json_key ''exp'' ''sub''" "\<not> json_key ''exp'' ''lvl''"
    "\<not> json_key ''exp'' ''prv''"
    by (simp_all add: json_key_code to_runes_ascii is_ascii_def byte_def fold_ascii_def lower_ascii_def)
  assume "json_struct transient_member zero_transient (Data_json d) = Some t"
  then show ?thesis
    by (auto simp: json_struct_def Data_json_def transient_member_def k e zero_transient_def split: option.splits)
qed

lemma transient_json_roundtrip:
  assumes "json_parse G (json_text G (transient_json t)) = Some (transient_json t)"
    and "- (2 ^ 63) \<le> tr_Expiry t" "tr_Expiry t < 2 ^ 63"
  shows "transient_unmarshal G (json_text G (transient_json t)) = Some t"
proof -
  have k: "json_key ''state'' ''state''" "\<not> json_key ''state'' ''nonce''" "\<not> json_key ''state'' ''verifier''"
    "\<not> json_key ''state'' ''rd''" "\<not> json_key ''state'' ''exp''" "json_key ''nonce'' ''nonce''"
    "\<not> json_key ''nonce'' ''verifier''" "\<not> json_key ''nonce'' ''rd''" "\<not> json_key ''nonce'' ''exp''"
    "json_key ''verifier'' ''verifier''" "\<not> json_key ''verifier'' ''rd''" "\<not> json_key ''verifier'' ''exp''"
    "json_key ''rd'' ''rd''" "\<not> json_key ''rd'' ''exp''" "json_key ''exp'' ''exp''"
    by (simp_all add: json_key_code to_runes_ascii is_ascii_def byte_def fold_ascii_def lower_ascii_def)
  show ?thesis using assms
    by (simp add: transient_unmarshal_def json_struct_def transient_json_def transient_member_def k
        json_string_def json_int64_def zero_transient_def)
qed

section \<open>Properties\<close>


text \<open>
  a login that was started can be completed. The transient cookie that \<open>handleLogin\<close>
  sets, presented within its ten minutes, is read back by the callback with the state,
  nonce and verifier of that login and with the redirect target already made safe.
\<close>

theorem oidc_flow_state_survives:
  assumes codec: "NewCodec G (s # ss) = Inr (rt_Codec (en_Runtime e))" and sha: "\<forall>x. length (sha256_Sum256 G x) = 32"
    and nonce: "length n = NonceSize" and gcm: "\<forall>x. gcm_inverts G (primary_key (rt_Codec (en_Runtime e))) n x"
    and js: "json_parse G (json_text G (transient_json (new_transient now state nonce' verifier r)))
               = Some (transient_json (new_transient now state nonce' verifier r))"
    and tokens: "state \<noteq> []" "nonce' \<noteq> []" "verifier \<noteq> []"
    and range: "- (2 ^ 63) \<le> Unix (now + transientMaxAge)" "Unix (now + transientMaxAge) < 2 ^ 63"
    and intime: "Unix later < Unix (now + transientMaxAge)"
    and cookies: "rs_Cookies (oidc_handleLogin G idp p e now state nonce' verifier (Some n) empty_response r) = [c]"
    and carried: "request_Cookie r' (ck_Name c) = Some (ck_Value c)"
  shows "oidc_readTransient G e later r' = Some (new_transient now state nonce' verifier r)"
proof -
  let ?t = "new_transient now state nonce' verifier r"
  obtain v where v: "Seal G (rt_Codec (en_Runtime e)) (Some n) (transient_json ?t) = Inr v"
    and c: "c = session_cookie (transientCookieName (en_Runtime e)) v (transientMaxAge div second)
                  (CookieSecure (env_session e))"
    using cookies
    by (auto simp: oidc_handleLogin_def Let_def http_SetCookie_def split: sum.splits if_splits)
  have "transient_unmarshal G (json_text G (transient_json ?t)) = Some ?t"
    using js range by (intro transient_json_roundtrip) (simp_all add: new_transient_def)
  then have "Open G (rt_Codec (en_Runtime e)) v (transient_unmarshal G) = Inr ?t"
    by (subst Open_sealed[OF codec _ nonce _ v]) (simp_all add: sha gcm)
  with carried c tokens intime show ?thesis
    by (simp add: oidc_readTransient_def session_cookie_def new_transient_def)
qed

text \<open>
  the two kinds of sealed cookies are not interchangeable, although the same keys seal
  both. A login-flow payload presented as a session is refused, and a session payload
  presented as flow state is refused.
\<close>

theorem cookies_not_interchangeable:
  assumes "Open G (rt_Codec (en_Runtime e)) v (json_parse G) = Inr j"
  shows "(j = transient_json t \<and> request_Cookie r name = Some v
           \<longrightarrow> ReadCookie G (rt_Codec (en_Runtime e)) now r name \<noteq> Inr d)
    \<and> (j = Data_json d' \<and> request_Cookie r (transientCookieName (en_Runtime e)) = Some v
           \<longrightarrow> oidc_readTransient G e now r = None)"
proof (intro conjI impI)
  assume a: "j = transient_json t \<and> request_Cookie r name = Some v"
  show "ReadCookie G (rt_Codec (en_Runtime e)) now r name \<noteq> Inr d"
  proof
    assume "ReadCookie G (rt_Codec (en_Runtime e)) now r name = Inr d"
    then have "Open G (rt_Codec (en_Runtime e)) v (Data_unmarshal G) = Inr d" "Valid now d"
      using a by (auto simp: ReadCookie_def split: sum.splits if_splits)
    moreover have "Open G (rt_Codec (en_Runtime e)) v (Data_unmarshal G)
        = (case json_struct Data_member zero_Data (transient_json t) of None \<Rightarrow> Inl BadPayload | Some x \<Rightarrow> Inr x)"
      using Open_bind[OF assms, of "json_struct Data_member zero_Data"] a
      by (simp add: Data_unmarshal_def[abs_def])
    ultimately show False using transient_as_Data[of t d] by (simp add: Valid_def split: option.splits)
  qed
next
  assume a: "j = Data_json d' \<and> request_Cookie r (transientCookieName (en_Runtime e)) = Some v"
  have "Open G (rt_Codec (en_Runtime e)) v (transient_unmarshal G)
      = (case json_struct transient_member zero_transient (Data_json d') of None \<Rightarrow> Inl BadPayload | Some x \<Rightarrow> Inr x)"
    using Open_bind[OF assms, of "json_struct transient_member zero_transient"] a
    by (simp add: transient_unmarshal_def[abs_def])
  then show "oidc_readTransient G e now r = None"
    using Data_as_transient[of d'] a by (auto simp: oidc_readTransient_def split: option.splits)
qed

section \<open>Witnesses\<close>

definition oidc_env :: "golib \<Rightarrow> Env" where
  "oidc_env G = NewEnv \<lparr>rt_Config = sample_config, rt_Codec = \<lparr>keys = [sha256_Sum256 G ''secret'']\<rparr>,
     rt_Users = Map.empty, rt_Routes = []\<rparr>"

definition flow_lib :: golib where
  "flow_lib = sample_lib (transient_json (new_transient 0 ''s'' ''n'' ''v'' sample_request))"

definition sample_idp :: oidc_idp where
  "sample_idp = \<lparr>ip_AuthCodeURL = (\<lambda>_ _ _ _. ''https://idp/auth''), ip_Exchange = (\<lambda>_ _ _. Inl Unreachable),
     ip_Verify = (\<lambda>_. None), ip_Quote = (\<lambda>s. s)\<rparr>"

lemma flow_lib_simps:
  "length (sha256_Sum256 flow_lib x) = 32" "gcm_inverts flow_lib k m x" "json_parse flow_lib x
     = Some (transient_json (new_transient 0 ''s'' ''n'' ''v'' sample_request))"
  by (simp_all add: flow_lib_def gcm_inverts_def min_def)

theorem oidc_flow_state_survives_witness:
  "\<exists>c. rs_Cookies (oidc_handleLogin flow_lib sample_idp \<lparr>op_RedirectURL = [], op_subjectClaim = ''email''\<rparr>
          (oidc_env flow_lib) 0 ''s'' ''n'' ''v'' (Some sample_nonce) empty_response sample_request) = [c]
     \<and> oidc_readTransient flow_lib (oidc_env flow_lib) 0 (sample_request\<lparr>rq_Cookies := [(ck_Name c, ck_Value c)]\<rparr>)
         = Some (new_transient 0 ''s'' ''n'' ''v'' sample_request)"
proof -
  let ?e = "oidc_env flow_lib"
  let ?p = "\<lparr>op_RedirectURL = [], op_subjectClaim = ''email''\<rparr>"
  have "is_token ''pgtoolbox_session_oauth''" by code_simp
  then have tok: "is_token (transientCookieName (en_Runtime ?e))"
    by (simp add: transientCookieName_def oidc_env_def NewEnv_def sample_config_def)
  have key: "aes_key_ok (primary_key (rt_Codec (en_Runtime ?e)))"
    by (simp add: oidc_env_def NewEnv_def primary_key_def aes_key_ok_def flow_lib_simps)
  then have "\<exists>c. rs_Cookies (oidc_handleLogin flow_lib sample_idp ?p ?e 0 ''s'' ''n'' ''v'' (Some sample_nonce)
      empty_response sample_request) = [c] \<and> ck_Name c \<noteq> []"
    using tok by (simp add: oidc_handleLogin_def Let_def Seal_def http_SetCookie_def session_cookie_def is_token_def)
  then obtain c where c: "rs_Cookies (oidc_handleLogin flow_lib sample_idp ?p ?e 0 ''s'' ''n'' ''v'' (Some sample_nonce)
      empty_response sample_request) = [c]" "ck_Name c \<noteq> []" by blast
  have "oidc_readTransient flow_lib ?e 0 (sample_request\<lparr>rq_Cookies := [(ck_Name c, ck_Value c)]\<rparr>)
      = Some (new_transient 0 ''s'' ''n'' ''v'' sample_request)"
  proof (rule oidc_flow_state_survives[where s = "''secret''" and ss = "[]" and n = sample_nonce and p = ?p
        and idp = sample_idp and c = c])
    show "NewCodec flow_lib [''secret''] = Inr (rt_Codec (en_Runtime ?e))"
      by (simp add: NewCodec_Inr oidc_env_def NewEnv_def)
  qed (use c in \<open>simp_all add: flow_lib_simps sample_nonce_def NonceSize_def transientMaxAge_def second_def
        Unix_def request_Cookie_def\<close>)
  with c show ?thesis by blast
qed

definition mixed_cookie :: "golib \<Rightarrow> string" where
  "mixed_cookie G = b64_EncodeToString (sample_nonce @ sha256_Sum256 G ''secret'' @ ''document'')"

theorem cookies_not_interchangeable_witness:
  "ReadCookie flow_lib (rt_Codec (en_Runtime (oidc_env flow_lib))) 0
     (sample_request\<lparr>rq_Cookies := [(''s'', mixed_cookie flow_lib)]\<rparr>) ''s'' \<noteq> Inr zero_Data"
proof -
  have "Open flow_lib (rt_Codec (en_Runtime (oidc_env flow_lib))) (mixed_cookie flow_lib) (json_parse flow_lib)
      = Inr (transient_json (new_transient 0 ''s'' ''n'' ''v'' sample_request))"
    by (simp add: Open_def oidc_env_def NewEnv_def mixed_cookie_def b64_roundtrip aes_key_ok_def flow_lib_def
        sample_nonce_def NonceSize_def)
  from cookies_not_interchangeable[OF this, of "new_transient 0 ''s'' ''n'' ''v'' sample_request"
      "sample_request\<lparr>rq_Cookies := [(''s'', mixed_cookie flow_lib)]\<rparr>" "''s''" 0 zero_Data zero_Data]
  show ?thesis by (simp add: request_Cookie_def)
qed

end
