(* ===== verification/Openshift.thy ===== *)
theory Openshift
  imports Oidc
begin

text \<open>
  The OpenShift provider (\<open>internal/proxy/openshift/openshift.go\<close>): discovery at startup, the
  authorization-code flow with the service account as OAuth client, and the lookup of the
  current user.

  HTTP exchanges are arguments: a reply is a transport failure or a status with a body.
  The OAuth client library is the record \<open>os_idp\<close>. The callback's closures, its last steps
  and the transient cookie's name are those of the OIDC provider's model; the two packages
  have the same text there.
\<close>

section \<open>Model\<close>

record os_transient =
  ot_State :: string
  ot_Verifier :: string
  ot_RedirectTo :: string
  ot_Expiry :: int

definition zero_os_transient :: os_transient where
  "zero_os_transient = \<lparr>ot_State = [], ot_Verifier = [], ot_RedirectTo = [], ot_Expiry = 0\<rparr>"

definition os_transient_json :: "os_transient \<Rightarrow> json" where
  "os_transient_json t = JObj [(''state'', JStr (ot_State t)), (''verifier'', JStr (ot_Verifier t)),
     (''rd'', JStr (ot_RedirectTo t)), (''exp'', JInt (ot_Expiry t))]"

definition os_transient_member :: "os_transient \<Rightarrow> string \<Rightarrow> json \<Rightarrow> os_transient option" where
  "os_transient_member t k v =
     (if json_key ''state'' k then map_option (\<lambda>s. t\<lparr>ot_State := s\<rparr>) (json_string (ot_State t) v)
      else if json_key ''verifier'' k then map_option (\<lambda>s. t\<lparr>ot_Verifier := s\<rparr>) (json_string (ot_Verifier t) v)
      else if json_key ''rd'' k then map_option (\<lambda>s. t\<lparr>ot_RedirectTo := s\<rparr>) (json_string (ot_RedirectTo t) v)
      else if json_key ''exp'' k then map_option (\<lambda>i. t\<lparr>ot_Expiry := i\<rparr>) (json_int64 (ot_Expiry t) v)
      else Some t)"

definition os_transient_unmarshal :: "golib \<Rightarrow> string \<Rightarrow> os_transient option" where
  "os_transient_unmarshal G text =
     Option.bind (json_parse G text) (json_struct os_transient_member zero_os_transient)"

record discoveryDocument =
  dd_Issuer :: string
  dd_AuthorizationEndpoint :: string
  dd_TokenEndpoint :: string

definition zero_discoveryDocument :: discoveryDocument where
  "zero_discoveryDocument = \<lparr>dd_Issuer = [], dd_AuthorizationEndpoint = [], dd_TokenEndpoint = []\<rparr>"

definition discovery_member :: "discoveryDocument \<Rightarrow> string \<Rightarrow> json \<Rightarrow> discoveryDocument option" where
  "discovery_member d k v =
     (if json_key ''issuer'' k then map_option (\<lambda>s. d\<lparr>dd_Issuer := s\<rparr>) (json_string (dd_Issuer d) v)
      else if json_key ''authorization_endpoint'' k
      then map_option (\<lambda>s. d\<lparr>dd_AuthorizationEndpoint := s\<rparr>) (json_string (dd_AuthorizationEndpoint d) v)
      else if json_key ''token_endpoint'' k
      then map_option (\<lambda>s. d\<lparr>dd_TokenEndpoint := s\<rparr>) (json_string (dd_TokenEndpoint d) v)
      else Some d)"

text \<open>\<open>userInfo\<close> has one nested field, \<open>metadata.name\<close>; the decoder visits members in order.\<close>

definition metadata_member :: "string \<Rightarrow> string \<Rightarrow> json \<Rightarrow> string option" where
  "metadata_member name k v = (if json_key ''name'' k then json_string name v else Some name)"

definition userInfo_member :: "string \<Rightarrow> string \<Rightarrow> json \<Rightarrow> string option" where
  "userInfo_member name k v = (if json_key ''metadata'' k then json_struct metadata_member name v else Some name)"

type_synonym http_reply = "(int \<times> string) option"

datatype os_error =
    CAFileUnreadable | CAFileNoCertificates | DiscoverUnreachable | DiscoverStatus int | DiscoverParse
  | DiscoverMissingEndpoints | UserUnreachable | UserStatus int | UserParse | UserNoName

record os_idp =
  oi_AuthCodeURL :: "string \<Rightarrow> string \<Rightarrow> string"
  oi_Exchange :: "string \<Rightarrow> string \<Rightarrow> string \<Rightarrow> (exchange_error, string) result"
  oi_UserInfo :: "string \<Rightarrow> string \<Rightarrow> http_reply"

record os_provider =
  sp_clientSecretFile :: string
  sp_ClientID :: string
  sp_AuthURL :: string
  sp_TokenURL :: string
  sp_RedirectURL :: string
  sp_Scopes :: "string list"
  sp_userInfoURL :: string

definition maxDiscoveryBody :: nat where "maxDiscoveryBody = 2 ^ 20"
definition defaultDiscoveryURL :: string where
  "defaultDiscoveryURL = ''https://openshift.default.svc/.well-known/oauth-authorization-server''"
definition defaultAPIURL :: string where "defaultAPIURL = ''https://kubernetes.default.svc''"
definition defaultUserInfoPath :: string where "defaultUserInfoPath = ''/apis/user.openshift.io/v1/users/~''"

text \<open>
  \<open>buildHTTPClient\<close>: the CA file's content is an argument, \<open>None\<close> when it cannot be read,
  and \<open>usable\<close> says whether a PEM text has a certificate.
\<close>

definition buildHTTPClient :: "(string \<Rightarrow> bool) \<Rightarrow> string option \<Rightarrow> OpenShiftConfig \<Rightarrow> (os_error, string option) result" where
  "buildHTTPClient usable ca cfg =
     (if os_CAFile cfg = [] then Inr None
      else case ca of
        None \<Rightarrow> Inl CAFileUnreadable
      | Some pem \<Rightarrow> if \<not> usable pem then Inl CAFileNoCertificates else Inr (Some pem))"

definition discover :: "golib \<Rightarrow> http_reply \<Rightarrow> (os_error, discoveryDocument) result" where
  "discover G reply =
     (case reply of
        None \<Rightarrow> Inl DiscoverUnreachable
      | Some (status, body) \<Rightarrow>
          if status \<noteq> 200 then Inl (DiscoverStatus status)
          else case Option.bind (json_parse G (take maxDiscoveryBody body))
                      (json_struct discovery_member zero_discoveryDocument) of
            None \<Rightarrow> Inl DiscoverParse
          | Some doc \<Rightarrow>
              if dd_AuthorizationEndpoint doc = [] \<or> dd_TokenEndpoint doc = []
              then Inl DiscoverMissingEndpoints else Inr doc)"

definition openshift_New ::
  "golib \<Rightarrow> (string \<Rightarrow> bool) \<Rightarrow> string option \<Rightarrow> (string \<Rightarrow> http_reply) \<Rightarrow> OpenShiftConfig \<Rightarrow> (os_error, os_provider) result" where
  "openshift_New G usable ca get cfg =
     bind_result (buildHTTPClient usable ca cfg) (\<lambda>_.
     bind_result (discover G (get (default_string defaultDiscoveryURL (os_DiscoveryURL cfg)))) (\<lambda>doc.
       Inr \<lparr>sp_clientSecretFile = os_ClientSecretFile cfg, sp_ClientID = os_ClientID cfg,
            sp_AuthURL = dd_AuthorizationEndpoint doc, sp_TokenURL = dd_TokenEndpoint doc,
            sp_RedirectURL = os_RedirectURL cfg,
            sp_Scopes = default_list [''user:info''] (os_Scopes cfg),
            sp_userInfoURL = TrimSuffix (default_string defaultAPIURL (os_APIURL cfg)) ''/''
                             @ default_string defaultUserInfoPath (os_UserInfoPath cfg)\<rparr>))"

definition openshift_Register :: "pattern list \<Rightarrow> pattern list" where
  "openshift_Register mux =
     mux @ [\<lparr>pt_Method = ''GET'', pt_Path = ''/auth/openshift/login'', pt_Handler = EpOpenShiftStart\<rparr>,
            \<lparr>pt_Method = ''GET'', pt_Path = ''/auth/openshift/callback'', pt_Handler = EpOpenShiftCallback\<rparr>]"

definition openshift_handleLogin ::
  "golib \<Rightarrow> os_idp \<Rightarrow> Env \<Rightarrow> int \<Rightarrow> string \<Rightarrow> string \<Rightarrow> string option \<Rightarrow> response \<Rightarrow> request \<Rightarrow> response" where
  "openshift_handleLogin G idp e now state verifier rnd w r =
     (let rt = en_Runtime e;
          t = \<lparr>ot_State = state, ot_Verifier = verifier,
               ot_RedirectTo = SafeRedirect (value_Get (rq_Query r) ''rd''),
               ot_Expiry = Unix (now + transientMaxAge)\<rparr>
      in case Seal G (rt_Codec rt) rnd (os_transient_json t) of
           Inl _ \<Rightarrow> pages_Error w 500 ''The login flow could not be started.''
         | Inr v \<Rightarrow>
             http_Redirect
               (http_SetCookie w (session_cookie (transientCookieName rt) v (transientMaxAge div second)
                  (CookieSecure (cf_Session (rt_Config rt)))))
               (oi_AuthCodeURL idp state verifier) 302)"

definition openshift_readTransient :: "golib \<Rightarrow> Env \<Rightarrow> int \<Rightarrow> request \<Rightarrow> os_transient option" where
  "openshift_readTransient G e now r =
     (let rt = en_Runtime e in
      case request_Cookie r (transientCookieName rt) of
        None \<Rightarrow> None
      | Some v \<Rightarrow>
          (case Open G (rt_Codec rt) v (os_transient_unmarshal G) of
             Inl _ \<Rightarrow> None
           | Inr t \<Rightarrow>
               if Unix now \<ge> ot_Expiry t \<or> ot_State t = [] \<or> ot_Verifier t = [] then None else Some t))"

text \<open>\<open>readSecretFile\<close>: the file's content, trimmed; \<open>None\<close> when unreadable or blank.\<close>

definition readSecretFile :: "string option \<Rightarrow> string option" where
  "readSecretFile file =
     (case file of None \<Rightarrow> None | Some raw \<Rightarrow> if TrimSpace raw = [] then None else Some (TrimSpace raw))"

definition fetchUser :: "golib \<Rightarrow> http_reply \<Rightarrow> (os_error, string) result" where
  "fetchUser G reply =
     (case reply of
        None \<Rightarrow> Inl UserUnreachable
      | Some (status, body) \<Rightarrow>
          if status \<noteq> 200 then Inl (UserStatus status)
          else case Option.bind (json_parse G body) (json_struct userInfo_member []) of
            None \<Rightarrow> Inl UserParse
          | Some name \<Rightarrow> if name = [] then Inl UserNoName else Inr name)"

definition openshift_handleCallback ::
  "golib \<Rightarrow> os_idp \<Rightarrow> os_provider \<Rightarrow> string option \<Rightarrow> Env \<Rightarrow> int \<Rightarrow> string option \<Rightarrow> response \<Rightarrow> request \<Rightarrow> response" where
  "openshift_handleCallback G idp p secretFile e now rnd w r =
     (if value_Get (rq_Query r) ''error'' \<noteq> []
      then flow_fail e w 400 ''The identity provider returned an error.''
      else case openshift_readTransient G e now r of
        None \<Rightarrow> flow_fail e w 400 ''The login flow expired; please try again.''
      | Some t \<Rightarrow>
          if value_Get (rq_Query r) ''state'' \<noteq> ot_State t
          then flow_fail e w 400 ''Login state mismatch; please try again.''
          else if value_Get (rq_Query r) ''code'' = []
          then flow_fail e w 400 ''The authorization code is missing.''
          else case readSecretFile secretFile of
            None \<Rightarrow> flow_fail e w 500 (''This console's OAuth client secret could not be read; ''
                      @ ''an administrator has to check the ServiceAccount token mount.'')
          | Some secret \<Rightarrow>
              (case oi_Exchange idp secret (value_Get (rq_Query r) ''code'') (ot_Verifier t) of
                 Inl err \<Rightarrow> flow_fail e w (fst (ExchangeFailure err)) (snd (ExchangeFailure err))
               | Inr accessToken \<Rightarrow>
                   if accessToken = []
                   then flow_fail e w 502 ''The identity provider did not return an access token.''
                   else case fetchUser G (oi_UserInfo idp (sp_userInfoURL p) accessToken) of
                     Inl _ \<Rightarrow> flow_fail e w 502 ''The current user could not be resolved.''
                   | Inr subject \<Rightarrow> finish_login G e now rnd w subject ModeOpenShift (ot_RedirectTo t)))"

section \<open>The callback\<close>

lemma openshift_handleCallback_cases:
  obtains (failed) n m where "openshift_handleCallback G idp p f e now rnd w r = flow_fail e w n m" "n \<noteq> 302"
  | (passed) t secret tok subject where "value_Get (rq_Query r) ''error'' = []"
      "openshift_readTransient G e now r = Some t" "value_Get (rq_Query r) ''state'' = ot_State t"
      "readSecretFile f = Some secret"
      "oi_Exchange idp secret (value_Get (rq_Query r) ''code'') (ot_Verifier t) = Inr tok" "tok \<noteq> []"
      "fetchUser G (oi_UserInfo idp (sp_userInfoURL p) tok) = Inr subject"
      "openshift_handleCallback G idp p f e now rnd w r
         = finish_login G e now rnd w subject ModeOpenShift (ot_RedirectTo t)"
proof (cases "\<exists>t secret tok subject. value_Get (rq_Query r) ''error'' = []
    \<and> openshift_readTransient G e now r = Some t \<and> value_Get (rq_Query r) ''state'' = ot_State t
    \<and> value_Get (rq_Query r) ''code'' \<noteq> [] \<and> readSecretFile f = Some secret
    \<and> oi_Exchange idp secret (value_Get (rq_Query r) ''code'') (ot_Verifier t) = Inr tok \<and> tok \<noteq> []
    \<and> fetchUser G (oi_UserInfo idp (sp_userInfoURL p) tok) = Inr subject")
  case True
  then obtain t secret tok subject where "value_Get (rq_Query r) ''error'' = []"
    "openshift_readTransient G e now r = Some t" "value_Get (rq_Query r) ''state'' = ot_State t"
    "value_Get (rq_Query r) ''code'' \<noteq> []" "readSecretFile f = Some secret"
    "oi_Exchange idp secret (value_Get (rq_Query r) ''code'') (ot_Verifier t) = Inr tok" "tok \<noteq> []"
    "fetchUser G (oi_UserInfo idp (sp_userInfoURL p) tok) = Inr subject" by blast
  then show ?thesis by (intro passed) (simp_all add: openshift_handleCallback_def)
next
  case False
  have x: "fst (ExchangeFailure err) \<noteq> 302" for err using ExchangeFailure_status[of err] by auto
  from False have "\<exists>n m. openshift_handleCallback G idp p f e now rnd w r = flow_fail e w n m \<and> n \<noteq> 302"
    by (auto simp: openshift_handleCallback_def x split: option.split sum.split)
  with failed show ?thesis by blast
qed

lemma openshift_handleCallback_mints:
  assumes "c \<in> set (rs_Cookies (openshift_handleCallback G idp p f e now rnd empty_response r))"
    "ck_Name c = sc_CookieName (env_session e)"
  shows "\<exists>subject. seals_session G e rnd c
    (NewData now subject (level_of G e subject) ModeOpenShift (sc_MaxAge (env_session e)))"
proof (rule openshift_handleCallback_cases[of G idp p f e now rnd empty_response r])
  fix n m assume "openshift_handleCallback G idp p f e now rnd empty_response r = flow_fail e empty_response n m"
  with assms flow_fail_cookies[of c e empty_response n m] show ?thesis by simp
next
  fix t :: os_transient and subject
  assume "openshift_handleCallback G idp p f e now rnd empty_response r
    = finish_login G e now rnd empty_response subject ModeOpenShift (ot_RedirectTo t)"
  with assms finish_login_mints show ?thesis by metis
qed

interpretation openshift_login: login_provider G ModeOpenShift
  "\<lambda>e now rnd (idp, p, f) r. openshift_handleCallback G idp p f e now rnd empty_response r" for G
  by unfold_locales (auto intro: openshift_handleCallback_mints)

section \<open>Properties\<close>

text \<open>
  an OpenShift login succeeds only through the whole flow: transient cookie, state,
  client secret, code exchange with the flow's verifier and a named current user; the
  session is for that user's name at the level the configuration gives it.
\<close>

theorem openshift_callback_sound:
  assumes "rs_Status (openshift_handleCallback G idp p f e now rnd w r) = 302"
  shows "\<exists>t secret tok subject w'. openshift_readTransient G e now r = Some t
    \<and> value_Get (rq_Query r) ''state'' = ot_State t \<and> Unix now < ot_Expiry t \<and> ot_State t \<noteq> []
    \<and> readSecretFile f = Some secret
    \<and> oi_Exchange idp secret (value_Get (rq_Query r) ''code'') (ot_Verifier t) = Inr tok
    \<and> fetchUser G (oi_UserInfo idp (sp_userInfoURL p) tok) = Inr subject \<and> subject \<noteq> []
    \<and> IssueSession G e now rnd w subject (level_of G e subject) ModeOpenShift = Inr w'
    \<and> openshift_handleCallback G idp p f e now rnd w r
        = http_Redirect (clear_transient e w') (SafeRedirect (ot_RedirectTo t)) 302"
proof (rule openshift_handleCallback_cases[of G idp p f e now rnd w r])
  fix n m assume "openshift_handleCallback G idp p f e now rnd w r = flow_fail e w n m" "n \<noteq> 302"
  with assms show ?thesis by simp
next
  fix t secret tok subject
  assume a: "openshift_readTransient G e now r = Some t" "value_Get (rq_Query r) ''state'' = ot_State t"
    "readSecretFile f = Some secret"
    "oi_Exchange idp secret (value_Get (rq_Query r) ''code'') (ot_Verifier t) = Inr tok"
    "fetchUser G (oi_UserInfo idp (sp_userInfoURL p) tok) = Inr subject"
    "openshift_handleCallback G idp p f e now rnd w r
       = finish_login G e now rnd w subject ModeOpenShift (ot_RedirectTo t)"
  have "Unix now < ot_Expiry t" "ot_State t \<noteq> []"
    using a(1) by (auto simp: openshift_readTransient_def Let_def split: option.splits sum.splits if_splits)
  moreover have "subject \<noteq> []"
    using a(5) by (auto simp: fetchUser_def split: option.splits if_splits)
  moreover obtain w' where "IssueSession G e now rnd w subject (level_of G e subject) ModeOpenShift = Inr w'"
    "openshift_handleCallback G idp p f e now rnd w r = http_Redirect (clear_transient e w') (SafeRedirect (ot_RedirectTo t)) 302"
    using assms a(6) finish_login_302 by metis
  ultimately show ?thesis using a by blast
qed

text \<open>
  the OpenShift provider starts only with both OAuth endpoints. Whatever the discovery
  endpoint answers, a provider that was built has non-empty authorization and token URLs,
  non-empty scopes and a user-info URL made of the API server's address and a rooted path.
\<close>

theorem openshift_New_endpoints:
  assumes "openshift_New G usable ca get cfg = Inr p" "openshift_ok cfg"
  shows "sp_AuthURL p \<noteq> [] \<and> sp_TokenURL p \<noteq> [] \<and> sp_Scopes p \<noteq> []
    \<and> (\<exists>path. sp_userInfoURL p = TrimSuffix (default_string defaultAPIURL (os_APIURL cfg)) ''/'' @ path
        \<and> rooted path)"
proof -
  obtain doc where d: "discover G (get (default_string defaultDiscoveryURL (os_DiscoveryURL cfg))) = Inr doc"
    and p: "sp_AuthURL p = dd_AuthorizationEndpoint doc" "sp_TokenURL p = dd_TokenEndpoint doc"
      "sp_Scopes p = default_list [''user:info''] (os_Scopes cfg)"
      "sp_userInfoURL p = TrimSuffix (default_string defaultAPIURL (os_APIURL cfg)) ''/''
         @ default_string defaultUserInfoPath (os_UserInfoPath cfg)"
    using assms(1) by (auto simp: openshift_New_def)
  have "dd_AuthorizationEndpoint doc \<noteq> [] \<and> dd_TokenEndpoint doc \<noteq> []"
    using d by (auto simp: discover_def split: option.splits if_splits)
  moreover have "rooted (default_string defaultUserInfoPath (os_UserInfoPath cfg))"
    using assms(2) by (auto simp: openshift_ok_def default_string_def rooted_def defaultUserInfoPath_def HasPrefix_def)
  moreover have "os_Scopes cfg \<noteq> []" using assms(2) by (simp add: openshift_ok_def)
  ultimately show ?thesis by (auto simp: p default_list_def)
qed

section \<open>Witnesses\<close>

definition os_document :: json where
  "os_document = JObj [(''state'', JStr ''s''), (''verifier'', JStr ''v''), (''rd'', JStr ''/''), (''exp'', JInt 100),
     (''metadata'', JObj [(''name'', JStr ''jane'')]),
     (''authorization_endpoint'', JStr ''https://oauth/authorize''), (''token_endpoint'', JStr ''https://oauth/token'')]"

abbreviation os_lib :: golib where "os_lib \<equiv> sample_lib os_document"

definition sample_os_idp :: os_idp where
  "sample_os_idp = \<lparr>oi_AuthCodeURL = (\<lambda>_ _. ''https://oauth/authorize''),
     oi_Exchange = (\<lambda>_ code _. if code = ''c'' then Inr ''token'' else Inl Unreachable),
     oi_UserInfo = (\<lambda>_ _. Some (200, ''document''))\<rparr>"

definition sample_os_config :: OpenShiftConfig where
  "sample_os_config = \<lparr>os_ClientID = ''sa'', os_ClientSecretFile = ''/token'', os_RedirectURL = ''https://console.example/cb'',
     os_DiscoveryURL = [], os_APIURL = [], os_CAFile = [], os_Scopes = [''user:info''], os_UserInfoPath = []\<rparr>"

definition sample_os_provider :: os_provider where
  "sample_os_provider = \<lparr>sp_clientSecretFile = ''/token'', sp_ClientID = ''sa'', sp_AuthURL = ''https://oauth/authorize'',
     sp_TokenURL = ''https://oauth/token'', sp_RedirectURL = ''https://console.example/cb'', sp_Scopes = [''user:info''],
     sp_userInfoURL = TrimSuffix defaultAPIURL ''/'' @ defaultUserInfoPath\<rparr>"

lemma json_key_ascii:
  "is_ascii k \<Longrightarrow> json_key tag k \<longleftrightarrow> k = tag \<or> map (fold_ascii \<circ> byte) k = map (lower_ascii \<circ> byte) tag"
  by (simp add: json_key_code to_runes_ascii)

lemma os_document_decodes:
  "json_struct os_transient_member zero_os_transient os_document
     = Some \<lparr>ot_State = ''s'', ot_Verifier = ''v'', ot_RedirectTo = ''/'', ot_Expiry = 100\<rparr>"
  "json_struct userInfo_member [] os_document = Some ''jane''"
  "json_struct discovery_member zero_discoveryDocument os_document
     = Some \<lparr>dd_Issuer = [], dd_AuthorizationEndpoint = ''https://oauth/authorize'', dd_TokenEndpoint = ''https://oauth/token''\<rparr>"
  by (simp_all add: json_struct_def os_document_def os_transient_member_def userInfo_member_def metadata_member_def
      discovery_member_def json_key_ascii is_ascii_def byte_def fold_ascii_def lower_ascii_def json_string_def
      json_int64_def zero_os_transient_def zero_discoveryDocument_def)

definition os_callback :: request where
  "os_callback = sample_request\<lparr>rq_Query := [(''state'', ''s''), (''code'', ''c'')],
     rq_Cookies := [(''pgtoolbox_session_oauth'', mixed_cookie os_lib)]\<rparr>"

theorem openshift_callback_sound_witness:
  "fetchUser os_lib (oi_UserInfo sample_os_idp (sp_userInfoURL sample_os_provider) ''token'') = Inr ''jane''
   \<and> (\<exists>w'. openshift_handleCallback os_lib sample_os_idp sample_os_provider (Some ''secret'') (oidc_env os_lib) 0
        (Some sample_nonce) empty_response os_callback = http_Redirect (clear_transient (oidc_env os_lib) w') (SafeRedirect ''/'') 302)"
proof -
  let ?e = "oidc_env os_lib"
  let ?r = "openshift_handleCallback os_lib sample_os_idp sample_os_provider (Some ''secret'') ?e 0 (Some sample_nonce) empty_response os_callback"
  have t: "openshift_readTransient os_lib ?e 0 os_callback
      = Some \<lparr>ot_State = ''s'', ot_Verifier = ''v'', ot_RedirectTo = ''/'', ot_Expiry = 100\<rparr>"
    using os_document_decodes(1)
    by (simp add: openshift_readTransient_def os_callback_def oidc_env_def NewEnv_def transientCookieName_def
        sample_config_def request_Cookie_def Open_def mixed_cookie_def b64_roundtrip aes_key_ok_def sample_nonce_def
        NonceSize_def os_transient_unmarshal_def Unix_def)
  have "TrimSpace ''secret'' = ''secret''" by (rule TrimSpace_plain) (simp_all add: is_ascii_def byte_def IsSpace_def)
  then have sec: "readSecretFile (Some ''secret'') = Some ''secret''" by (simp add: readSecretFile_def)
  have q: "value_Get (rq_Query os_callback) ''error'' = []" "value_Get (rq_Query os_callback) ''state'' = ''s''"
    "value_Get (rq_Query os_callback) ''code'' = ''c''"
    by (simp_all add: os_callback_def value_Get_def)
  have u: "fetchUser os_lib (oi_UserInfo sample_os_idp (sp_userInfoURL sample_os_provider) ''token'') = Inr ''jane''"
    by (simp add: fetchUser_def sample_os_idp_def os_document_decodes)
  have issue: "\<exists>w. IssueSession os_lib ?e 0 (Some sample_nonce) empty_response ''jane'' l m = Inr w" for l m
    by (simp add: IssueSession_def SetCookie_def Seal_def Let_def oidc_env_def NewEnv_def primary_key_def aes_key_ok_def)
  have x: "oi_Exchange sample_os_idp ''secret'' ''c'' ''v'' = Inr ''token''" by (simp add: sample_os_idp_def)
  have "?r = finish_login os_lib ?e 0 (Some sample_nonce) empty_response ''jane'' ModeOpenShift ''/''"
    using t sec q u x by (simp add: openshift_handleCallback_def)
  then have "rs_Status ?r = 302"
    using issue[of "level_of os_lib ?e ''jane''" ModeOpenShift] by (auto simp: finish_login_def level_of_def)
  from openshift_callback_sound[OF this] t u show ?thesis by auto
qed

theorem openshift_New_endpoints_witness:
  "sp_AuthURL sample_os_provider \<noteq> [] \<and> sp_TokenURL sample_os_provider \<noteq> []"
proof -
  have "absolute_url [''https'', ''http''] ''https://console.example/cb''" by code_simp
  then have ok: "openshift_ok sample_os_config" by (simp add: openshift_ok_def sample_os_config_def)
  have "openshift_New os_lib (\<lambda>_. True) None (\<lambda>_. Some (200, ''document'')) sample_os_config = Inr sample_os_provider"
    by (simp add: openshift_New_def buildHTTPClient_def discover_def os_document_decodes sample_os_config_def
        sample_os_provider_def default_string_def default_list_def)
  from openshift_New_endpoints[OF this ok] show ?thesis by blast
qed

end
