(* ===== verification/Go_Flag.thy ===== *)
theory Go_Flag
  imports Go_Strings
begin

text \<open>
  The standard library's command-line parser (package \<open>flag\<close>), as far as the programs
  under \<open>cmd/\<close> use it: string flags, boolean flags, and flags of another type that only say
  which texts they accept. A set of flags is the function from a name to its kind; parsing
  returns the values that were set, the last one of a name winning, and the arguments left.
\<close>

section \<open>Flags\<close>

datatype flag_kind = StringFlag | BoolFlag | CustomFlag "string \<Rightarrow> bool"

datatype flag_error =
    BadSyntax string | UndefinedFlag string | NeedsArgument string | InvalidValue string string | HelpRequested

type_synonym flag_set = "string \<Rightarrow> flag_kind option"
type_synonym flag_values = "string \<Rightarrow> string option"

text \<open>\<open>strconv.ParseBool\<close>.\<close>

definition ParseBool :: "string \<Rightarrow> bool option" where
  "ParseBool s =
     (if s \<in> {''1'', ''t'', ''T'', ''true'', ''TRUE'', ''True''} then Some True
      else if s \<in> {''0'', ''f'', ''F'', ''false'', ''FALSE'', ''False''} then Some False
      else None)"

text \<open>
  The text of a flag after its dashes: the name up to the first equals sign that is not its
  first byte, and the value after it if there is one.
\<close>

definition flag_name :: "string \<Rightarrow> string" where
  "flag_name s = (case s of [] \<Rightarrow> [] | c # cs \<Rightarrow> c # takeWhile (\<lambda>d. d \<noteq> CHR ''='') cs)"

definition flag_value :: "string \<Rightarrow> string option" where
  "flag_value s =
     (case s of
        [] \<Rightarrow> None
      | c # cs \<Rightarrow> (case dropWhile (\<lambda>d. d \<noteq> CHR ''='') cs of [] \<Rightarrow> None | _ # v \<Rightarrow> Some v))"

definition stripped_flag :: "string \<Rightarrow> string" where
  "stripped_flag s = (if take 2 s = ''--'' then drop 2 s else drop 1 s)"

text \<open>
  One turn of the parser: either the flags are over, with the arguments that are left, or a
  flag was read, with the value it sets and the arguments that follow.
\<close>

datatype flag_step = FlagsOver "string list" | FlagRead string string "string list"

definition set_flag :: "flag_kind \<Rightarrow> string \<Rightarrow> string option \<Rightarrow> string list \<Rightarrow> flag_error + flag_step" where
  "set_flag kind name given rest =
     (case kind of
        BoolFlag \<Rightarrow>
          (case given of
             None \<Rightarrow> Inr (FlagRead name ''true'' rest)
           | Some v \<Rightarrow>
               (case ParseBool v of
                  None \<Rightarrow> Inl (InvalidValue name v)
                | Some b \<Rightarrow> Inr (FlagRead name (if b then ''true'' else ''false'') rest)))
      | _ \<Rightarrow>
          (case (case given of Some v \<Rightarrow> Some (v, rest)
                 | None \<Rightarrow> (case rest of [] \<Rightarrow> None | v # rest' \<Rightarrow> Some (v, rest'))) of
             None \<Rightarrow> Inl (NeedsArgument name)
           | Some (v, rest') \<Rightarrow>
               if (case kind of CustomFlag ok \<Rightarrow> ok v | _ \<Rightarrow> True) then Inr (FlagRead name v rest')
               else Inl (InvalidValue name v)))"

definition parseOne :: "flag_set \<Rightarrow> string list \<Rightarrow> flag_error + flag_step" where
  "parseOne formal args =
     (case args of
        [] \<Rightarrow> Inr (FlagsOver [])
      | s # rest \<Rightarrow>
          if length s < 2 \<or> hd s \<noteq> CHR ''-'' then Inr (FlagsOver args)
          else if s = ''--'' then Inr (FlagsOver rest)
          else let t = stripped_flag s in
            if t = [] \<or> hd t \<in> {CHR ''-'', CHR ''=''} then Inl (BadSyntax s)
            else case formal (flag_name t) of
                   None \<Rightarrow> Inl (if flag_name t \<in> {''help'', ''h''} then HelpRequested else UndefinedFlag (flag_name t))
                 | Some kind \<Rightarrow> set_flag kind (flag_name t) (flag_value t) rest)"

lemma parseOne_consumes:
  assumes "parseOne formal args = Inr (FlagRead n v rest)"
  shows "length rest < length args"
proof (cases args)
  case (Cons s rest0)
  with assms obtain kind t where "set_flag kind (flag_name t) (flag_value t) rest0 = Inr (FlagRead n v rest)"
    by (auto simp: parseOne_def Let_def split: if_splits option.splits)
  then have "length rest \<le> length rest0"
    by (auto simp: set_flag_def split: flag_kind.splits option.splits list.splits if_splits)
  with Cons show ?thesis by simp
qed (use assms in \<open>simp add: parseOne_def\<close>)

text \<open>\<open>FlagSet.Parse\<close>: turns until the flags are over or one is refused.\<close>

function flag_Parse :: "flag_set \<Rightarrow> flag_values \<Rightarrow> string list \<Rightarrow> flag_error + flag_values \<times> string list" where
  "flag_Parse formal vals args =
     (case parseOne formal args of
        Inl e \<Rightarrow> Inl e
      | Inr (FlagsOver rest) \<Rightarrow> Inr (vals, rest)
      | Inr (FlagRead name v rest) \<Rightarrow> flag_Parse formal (vals(name \<mapsto> v)) rest)"
  by pat_completeness auto
termination
  by (relation "measure (\<lambda>(f, v, args). length args)") (auto intro: parseOne_consumes)

declare flag_Parse.simps [simp del]

text \<open>
  What a program that exits on a parse error exits with: asking for help is not a failure.
\<close>

fun flag_exit :: "flag_error \<Rightarrow> nat" where
  "flag_exit HelpRequested = 0"
| "flag_exit _ = 2"

text \<open>The value a variable bound to a flag ends with.\<close>

definition flag_or :: "flag_values \<Rightarrow> string \<Rightarrow> string \<Rightarrow> string" where
  "flag_or vals name d = (case vals name of None \<Rightarrow> d | Some v \<Rightarrow> v)"

section \<open>Facts\<close>

lemma flag_Parse_Nil: "flag_Parse formal vals [] = Inr (vals, [])"
  by (simp add: flag_Parse.simps parseOne_def)

lemma no_equals:
  "c \<notin> set cs \<Longrightarrow> takeWhile (\<lambda>d. d \<noteq> c) cs = cs"
  "c \<notin> set cs \<Longrightarrow> dropWhile (\<lambda>d. d \<noteq> c) cs = []"
  by (induction cs) auto

lemma flag_name_plain:
  assumes "CHR ''='' \<notin> set n"
  shows "flag_name n = n" "flag_value n = None"
proof -
  consider "n = []" | c cs where "n = c # cs" "CHR ''='' \<notin> set cs"
    using assms by (cases n) auto
  then show "flag_name n = n" by cases (simp_all add: flag_name_def no_equals)
  consider "n = []" | c cs where "n = c # cs" "CHR ''='' \<notin> set cs"
    using assms by (cases n) auto
  then show "flag_value n = None" by cases (simp_all add: flag_value_def no_equals)
qed

text \<open>A string flag written with two dashes and its value as the next argument.\<close>

lemma flag_Parse_string:
  assumes "formal n = Some StringFlag" "n \<noteq> []" "hd n \<notin> {CHR ''-'', CHR ''=''}" "CHR ''='' \<notin> set n"
  shows "flag_Parse formal vals ((''--'' @ n) # v # rest) = flag_Parse formal (vals(n \<mapsto> v)) rest"
proof -
  have "stripped_flag (''--'' @ n) = n" by (simp add: stripped_flag_def)
  moreover have "''--'' @ n \<noteq> ''--''" using assms(2) by simp
  ultimately have "parseOne formal ((''--'' @ n) # v # rest) = Inr (FlagRead n v rest)"
    using assms flag_name_plain[OF assms(4)] by (simp add: parseOne_def set_flag_def Let_def)
  then show ?thesis by (subst flag_Parse.simps) simp
qed

lemma flag_Parse_rest:
  "flag_Parse formal vals args = Inr (vals', rest) \<Longrightarrow> length rest \<le> length args"
proof (induction formal vals args rule: flag_Parse.induct)
  case (1 formal vals args)
  note outer = "1.prems"[unfolded flag_Parse.simps[of formal vals args]]
  show ?case
  proof (cases "parseOne formal args")
    case (Inr st)
    show ?thesis
    proof (cases st)
      case (FlagsOver r)
      with Inr have "length r \<le> length args"
        by (auto simp: parseOne_def set_flag_def Let_def
            split: list.splits if_splits option.splits flag_kind.splits)
      with outer Inr FlagsOver show ?thesis by simp
    next
      case (FlagRead n v r)
      with outer Inr have "flag_Parse formal (vals(n \<mapsto> v)) r = Inr (vals', rest)" by simp
      from "1.IH"[OF Inr FlagRead this] parseOne_consumes[of formal args n v r] Inr FlagRead
      show ?thesis by simp
    qed
  qed (use outer in simp)
qed

end
