(* ===== verification/Proxy_Main.thy ===== *)
theory Proxy_Main
  imports Local_Auth Openshift Go_Flag
begin

text \<open>
  The proxy process: startup of the providers and the reload of its configuration
  (\<open>cmd/proxy/main.go\<close>, \<open>internal/proxy/config/watch.go\<close>).

  \<^item> Startup is a function from what the process finds (files, discovery answers) to the
    environment and the mux it serves, or an error; \<open>proxy_main\<close> adds the command line and
    the environment variable in front of it. Logging and the listener are not modelled.
  \<^item> The watcher is a step relation on its timer and the environment it swaps runtimes in;
    its labels are the cases of the \<open>select\<close> loop with the instant they are taken at.
\<close>

section \<open>Startup\<close>

record startup =
  su_File :: "string \<Rightarrow> string option"
  su_GenHash :: "string \<Rightarrow> string option"
  su_OIDCDiscover :: "string \<Rightarrow> bool"
  su_PEMUsable :: "string \<Rightarrow> bool"
  su_Get :: "string \<Rightarrow> http_reply"
  su_InCluster :: "(string \<Rightarrow> string \<Rightarrow> string \<Rightarrow> string \<Rightarrow> create_error option) option"

datatype provider = PLocal local_provider | POIDC oidc_provider string | POpenShift os_provider

text \<open>A provider may be unavailable; a missing settings block is a nil dereference, a panic.\<close>

datatype setup_error = Unavailable | NilDereference

fun provider_Mode :: "provider \<Rightarrow> string" where
  "provider_Mode (PLocal _) = ModeLocal"
| "provider_Mode (POIDC _ _) = ModeOIDC"
| "provider_Mode (POpenShift _) = ModeOpenShift"

fun provider_Register :: "provider \<Rightarrow> pattern list \<Rightarrow> pattern list" where
  "provider_Register (PLocal _) mux = local_Register mux"
| "provider_Register (POIDC _ _) mux = oidc_Register mux"
| "provider_Register (POpenShift _) mux = openshift_Register mux"

definition available_or :: "('a \<Rightarrow> provider) \<Rightarrow> 'a option \<Rightarrow> (setup_error, provider) result" where
  "available_or f x = (case x of None \<Rightarrow> Inl Unavailable | Some y \<Rightarrow> Inr (f y))"

definition setupProvider :: "golib \<Rightarrow> startup \<Rightarrow> Config \<Rightarrow> string \<Rightarrow> (setup_error, provider) result" where
  "setupProvider G su cfg mode =
     (if mode = ModeOIDC
      then case pc_OIDC (cf_Provider cfg) of
             None \<Rightarrow> Inl NilDereference
           | Some o' \<Rightarrow>
               (case readSecretFile (su_File su (oc_ClientSecretFile o')) of
                  None \<Rightarrow> Inl Unavailable
                | Some secret \<Rightarrow> available_or (\<lambda>p. POIDC p secret) (oidc_New (su_OIDCDiscover su) o'))
      else if mode = ModeLocal then available_or PLocal (local_New (su_GenHash su))
      else if mode = ModeOpenShift
      then case pc_OpenShift (cf_Provider cfg) of
             None \<Rightarrow> Inl NilDereference
           | Some o' \<Rightarrow>
               (case openshift_New G (su_PEMUsable su) (su_File su (os_CAFile o')) (su_Get su) o' of
                  Inl _ \<Rightarrow> Inl Unavailable
                | Inr p \<Rightarrow> Inr (POpenShift p))
      else Inl Unavailable)"

text \<open>The loop of \<open>setupProviders\<close>: an unavailable provider is skipped, a panic is not.\<close>

fun start_each :: "golib \<Rightarrow> startup \<Rightarrow> Config \<Rightarrow> string list \<Rightarrow> (setup_error, provider list) result" where
  "start_each G su cfg [] = Inr []"
| "start_each G su cfg (m # ms) =
     (case setupProvider G su cfg m of
        Inl Unavailable \<Rightarrow> start_each G su cfg ms
      | Inl NilDereference \<Rightarrow> Inl NilDereference
      | Inr p \<Rightarrow> bind_result (start_each G su cfg ms) (\<lambda>ps. Inr (p # ps)))"

definition setupProviders :: "golib \<Rightarrow> startup \<Rightarrow> Config \<Rightarrow> (setup_error, provider list) result" where
  "setupProviders G su cfg =
     bind_result (start_each G su cfg (pc_Modes (cf_Provider cfg)))
       (\<lambda>ps. if ps = [] then Inl Unavailable else Inr ps)"

datatype run_error = NoConfigFile | InvalidConfig "config_error list" | RuntimeError runtime_error | NoProvider setup_error

text \<open>\<open>run\<close> up to the listener: the environment served and the mux it is served through.\<close>

definition run ::
  "golib \<Rightarrow> (string \<Rightarrow> Config option) \<Rightarrow> startup \<Rightarrow> string \<Rightarrow> (run_error, Env \<times> pattern list) result" where
  "run G unmarshal su configPath =
     (if configPath = [] then Inl NoConfigFile
      else case Load G unmarshal (su_File su configPath) of
        Inl es \<Rightarrow> Inl (InvalidConfig es)
      | Inr (cfg, _) \<Rightarrow>
          (case BuildRuntime G cfg of
             Inl err \<Rightarrow> Inl (RuntimeError err)
           | Inr rt \<Rightarrow>
               (case setupProviders G su cfg of
                  Inl err \<Rightarrow> Inl (NoProvider err)
                | Inr ps \<Rightarrow>
                    Inr ((NewEnv rt)\<lparr>en_Available := map provider_Mode ps,
                                     en_AccessRequests := (if ar_Enabled (cf_AccessRequest cfg)
                                                           then su_InCluster su else None)\<rparr>,
                         fold provider_Register ps New))))"

text \<open>
  The process up to the listener, from its arguments and environment variables: what it
  serves, or the status it exits with.
\<close>

definition configFileEnv :: string where "configFileEnv = ''PROXY_CONFIG_FILE''"

definition proxy_flags :: flag_set where "proxy_flags = [''config'' \<mapsto> StringFlag]"

definition proxy_main ::
  "golib \<Rightarrow> (string \<Rightarrow> Config option) \<Rightarrow> startup \<Rightarrow> (string \<Rightarrow> string) \<Rightarrow> string list
   \<Rightarrow> (nat, Env \<times> pattern list) result" where
  "proxy_main G unmarshal su getenv args =
     (case flag_Parse proxy_flags Map.empty args of
        Inl e \<Rightarrow> Inl (flag_exit e)
      | Inr (vals, _) \<Rightarrow>
          (case run G unmarshal su (flag_or vals ''config'' (getenv configFileEnv)) of
             Inl _ \<Rightarrow> Inl 1
           | Inr served \<Rightarrow> Inr served))"

text \<open>The development helper \<open>hack/devtools/bcrypt\<close>: what it prints, or the status it exits with.\<close>

definition bcrypt_main :: "(string \<Rightarrow> string option) \<Rightarrow> string list \<Rightarrow> (nat, string) result" where
  "bcrypt_main gen args =
     (case args of
        [password] \<Rightarrow>
          if password = [] then Inl 2
          else (case gen password of None \<Rightarrow> Inl 1 | Some hash \<Rightarrow> Inr (hash @ [NL]))
      | _ \<Rightarrow> Inl 2)"

section \<open>Reload\<close>

definition debounceDelay :: int where "debounceDelay = second"

text \<open>\<open>filepath.Base\<close>.\<close>

definition Base :: "string \<Rightarrow> string" where
  "Base p =
     (if p = [] then ''.''
      else let b = rev (takeWhile (\<lambda>c. c \<noteq> CHR ''/'') (dropWhile (\<lambda>c. c = CHR ''/'') (rev p)))
           in if b = [] then ''/'' else b)"

definition relevant :: "string \<Rightarrow> string \<Rightarrow> bool" where
  "relevant path evName = (Base evName = Base path \<or> Base evName = ''..data'')"

text \<open>The closure \<open>run\<close> hands the watcher, and the watcher's \<open>reload\<close>.\<close>

definition apply_config :: "golib \<Rightarrow> Config \<Rightarrow> Env \<Rightarrow> Env" where
  "apply_config G newCfg e = (case BuildRuntime G newCfg of Inl _ \<Rightarrow> e | Inr rt \<Rightarrow> Swap e rt)"

definition reload :: "golib \<Rightarrow> (string \<Rightarrow> Config option) \<Rightarrow> string option \<Rightarrow> Env \<Rightarrow> Env" where
  "reload G unmarshal file e =
     (case Load G unmarshal file of Inl _ \<Rightarrow> e | Inr (cfg, _) \<Rightarrow> apply_config G cfg e)"

record watcher =
  wa_Timer :: "int option"
  wa_Env :: Env
  wa_Stopped :: bool

datatype watch_event =
    FsEvent int string | FsError int | TimerFired int "string option" | CtxDone int | ChannelClosed int

fun event_time :: "watch_event \<Rightarrow> int" where
  "event_time (FsEvent t _) = t"
| "event_time (FsError t) = t"
| "event_time (TimerFired t _) = t"
| "event_time (CtxDone t) = t"
| "event_time (ChannelClosed t) = t"

text \<open>One turn of the loop in \<open>Watcher.Run\<close>; a timer channel delivers only once its delay is over.\<close>

inductive watch_step ::
  "golib \<Rightarrow> (string \<Rightarrow> Config option) \<Rightarrow> string \<Rightarrow> watcher \<Rightarrow> watch_event \<Rightarrow> watcher \<Rightarrow> bool"
  for G unmarshal path where
  fs_relevant: "\<not> wa_Stopped s \<Longrightarrow> relevant path name \<Longrightarrow>
     watch_step G unmarshal path s (FsEvent t name) (s\<lparr>wa_Timer := Some (t + debounceDelay)\<rparr>)"
| fs_other: "\<not> wa_Stopped s \<Longrightarrow> \<not> relevant path name \<Longrightarrow> watch_step G unmarshal path s (FsEvent t name) s"
| fs_error: "\<not> wa_Stopped s \<Longrightarrow> watch_step G unmarshal path s (FsError t) s"
| timer: "\<not> wa_Stopped s \<Longrightarrow> wa_Timer s = Some d \<Longrightarrow> d \<le> t \<Longrightarrow>
     watch_step G unmarshal path s (TimerFired t file)
       (s\<lparr>wa_Timer := None, wa_Env := reload G unmarshal file (wa_Env s)\<rparr>)"
| ctx_done: "\<not> wa_Stopped s \<Longrightarrow> watch_step G unmarshal path s (CtxDone t) (s\<lparr>wa_Stopped := True\<rparr>)"
| closed: "\<not> wa_Stopped s \<Longrightarrow> watch_step G unmarshal path s (ChannelClosed t) (s\<lparr>wa_Stopped := True\<rparr>)"

inductive_cases watch_stepE: "watch_step G unmarshal path s ev s'"
inductive_simps watch_fired: "watch_step G unmarshal path s (TimerFired t file) s'"

text \<open>Runs of the loop, with the labels in order.\<close>

inductive watch_run ::
  "golib \<Rightarrow> (string \<Rightarrow> Config option) \<Rightarrow> string \<Rightarrow> watcher \<Rightarrow> watch_event list \<Rightarrow> watcher \<Rightarrow> bool"
  for G unmarshal path where
  run_nil: "watch_run G unmarshal path s [] s"
| run_snoc: "watch_run G unmarshal path s evs s' \<Longrightarrow> watch_step G unmarshal path s' ev s'' \<Longrightarrow>
     watch_run G unmarshal path s (evs @ [ev]) s''"

inductive_cases watch_run_snocE: "watch_run G unmarshal path s (evs @ [ev]) s'"

section \<open>Startup lemmas\<close>

lemma start_each_modes:
  "start_each G su cfg ms = Inr ps \<Longrightarrow> set (map provider_Mode ps) \<subseteq> set ms"
proof (induction ms arbitrary: ps)
  case (Cons m ms)
  have mode: "provider_Mode p = m" if "setupProvider G su cfg m = Inr p" for p
    using that by (auto simp: setupProvider_def available_or_def split: if_splits option.splits sum.splits)
  show ?case
  proof (cases "setupProvider G su cfg m")
    case (Inl e)
    with Cons show ?thesis by (cases e) auto
  next
    case (Inr p)
    with Cons.prems obtain ps' where "start_each G su cfg ms = Inr ps'" "ps = p # ps'" by auto
    with Cons.IH mode[OF Inr] show ?thesis by auto
  qed
qed simp

lemma setupProvider_no_panic:
  assumes "provider_ok (cf_Provider cfg)" "m \<in> set (pc_Modes (cf_Provider cfg))"
  shows "setupProvider G su cfg m \<noteq> Inl NilDereference"
  using assms by (auto simp: setupProvider_def available_or_def provider_ok_def split: option.splits sum.splits)

lemma start_each_no_panic:
  "provider_ok (cf_Provider cfg) \<Longrightarrow> set ms \<subseteq> set (pc_Modes (cf_Provider cfg)) \<Longrightarrow> \<exists>ps. start_each G su cfg ms = Inr ps"
proof (induction ms)
  case (Cons m ms)
  then obtain ps where ps: "start_each G su cfg ms = Inr ps" by auto
  have "setupProvider G su cfg m \<noteq> Inl NilDereference" using Cons.prems by (intro setupProvider_no_panic) auto
  with ps show ?case by (auto split: sum.split setup_error.split)
qed simp

text \<open>The paths a provider's handlers are registered under.\<close>

definition registered :: "pattern list \<Rightarrow> string \<Rightarrow> string \<Rightarrow> bool" where
  "registered mux meth path = (\<exists>p\<in>set mux. pt_Method p = meth \<and> pt_Path p = path)"

lemma registered_fold:
  "registered mux m path \<or> (\<exists>p\<in>set ps. registered (provider_Register p []) m path) \<Longrightarrow>
     registered (fold provider_Register ps mux) m path"
proof (induction ps arbitrary: mux)
  case (Cons p ps)
  have "registered (provider_Register p mux) m path \<longleftrightarrow>
      registered mux m path \<or> registered (provider_Register p []) m path"
    by (cases p) (auto simp: registered_def local_Register_def oidc_Register_def openshift_Register_def)
  with Cons show ?case by auto
qed simp

lemma provider_login_registered:
  "registered (provider_Register p []) ''GET''
     (if provider_Mode p = ModeLocal then ''/auth/local/login''
      else if provider_Mode p = ModeOpenShift then ''/auth/openshift/login'' else ''/auth/oidc/login'')"
  by (cases p) (auto simp: registered_def local_Register_def oidc_Register_def openshift_Register_def mode_defs)

lemma run_Inr:
  assumes "run G unmarshal su path = Inr (e, mux)"
  obtains cfg ws rt ps where "Load G unmarshal (su_File su path) = Inr (cfg, ws)" "BuildRuntime G cfg = Inr rt"
    "setupProviders G su cfg = Inr ps" "en_Runtime e = rt" "en_Available e = map provider_Mode ps"
    "mux = fold provider_Register ps New" "ps \<noteq> []"
  using assms
  by (auto simp: run_def setupProviders_def NewEnv_def split: if_splits sum.splits prod.splits)

lemma login_registered:
  assumes "p \<in> set ps" "provider_Mode p = m"
  shows "registered (fold provider_Register ps mux) ''GET''
    (if m = ModeLocal then ''/auth/local/login'' else if m = ModeOpenShift then ''/auth/openshift/login''
     else ''/auth/oidc/login'')"
  using provider_login_registered[of p] assms by (intro registered_fold) auto

lemma ExternalLogins_cases:
  assumes "l \<in> set (ExternalLogins e)"
  shows "\<exists>m\<in>set (available e). m = ModeOIDC \<and> el_Path l = ''/auth/oidc/login''
    \<or> m = ModeOpenShift \<and> el_Path l = ''/auth/openshift/login''"
proof -
  obtain m where m: "m \<in> set (available e)"
    "l \<in> set (if m = ModeOIDC then [\<lparr>el_Label = ''Sign in with SSO'', el_Path = ''/auth/oidc/login''\<rparr>]
       else if m = ModeOpenShift
       then [\<lparr>el_Label = ''Sign in with OpenShift'', el_Path = ''/auth/openshift/login''\<rparr>] else [])"
    using assms unfolding ExternalLogins_def set_concat set_map by blast
  then show ?thesis by (intro bexI[OF _ m(1)]) (cases "m = ModeOIDC"; cases "m = ModeOpenShift"; simp)
qed

section \<open>Reload lemmas\<close>

definition runtime_valid :: "golib \<Rightarrow> Env \<Rightarrow> bool" where
  "runtime_valid G e = (\<exists>cfg. config_ok G cfg \<and> BuildRuntime G cfg = Inr (en_Runtime e))"

lemma Load_config_ok: "Load G unmarshal file = Inr (cfg, ws) \<Longrightarrow> config_ok G cfg"
  by (auto simp: Load_def Parse_def Let_def Validate_Nil split: option.splits if_splits)

lemma reload_valid: "runtime_valid G e \<Longrightarrow> runtime_valid G (reload G unmarshal file e)"
  by (auto simp: reload_def apply_config_def runtime_valid_def Swap_def dest: Load_config_ok split: sum.splits)

lemma reload_keeps:
  "en_Available (reload G unmarshal file e) = en_Available e"
  "en_AccessRequests (reload G unmarshal file e) = en_AccessRequests e"
  by (auto simp: reload_def apply_config_def Swap_def split: sum.split)

lemma watch_step_env:
  assumes "watch_step G unmarshal path s ev s'"
  shows "wa_Env s' = wa_Env s \<or> (\<exists>t file. ev = TimerFired t file \<and> wa_Env s' = reload G unmarshal file (wa_Env s))"
  using assms by cases auto

text \<open>What an armed timer remembers: the last relevant event, with no reload since.\<close>

definition quiet :: "string \<Rightarrow> watch_event \<Rightarrow> bool" where
  "quiet path ev = (case ev of FsEvent _ name \<Rightarrow> \<not> relevant path name | TimerFired _ _ \<Rightarrow> False | _ \<Rightarrow> True)"

definition armed_by :: "string \<Rightarrow> int \<Rightarrow> watch_event list \<Rightarrow> bool" where
  "armed_by path d evs =
     (\<exists>pre t0 name post. evs = pre @ FsEvent t0 name # post \<and> relevant path name \<and> d = t0 + debounceDelay
       \<and> list_all (quiet path) post)"

lemma armed_by_snoc: "armed_by path d evs \<Longrightarrow> quiet path ev \<Longrightarrow> armed_by path d (evs @ [ev])"
  unfolding armed_by_def
proof (elim exE conjE)
  fix pre t0 name post
  assume "quiet path ev" "evs = pre @ FsEvent t0 name # post" "relevant path name" "d = t0 + debounceDelay"
    "list_all (quiet path) post"
  then show "\<exists>pre t0 name post. evs @ [ev] = pre @ FsEvent t0 name # post \<and> relevant path name
      \<and> d = t0 + debounceDelay \<and> list_all (quiet path) post"
    by (intro exI[of _ pre] exI[of _ t0] exI[of _ name] exI[of _ "post @ [ev]"]) simp
qed

lemma watch_run_timer:
  "watch_run G unmarshal path s evs s' \<Longrightarrow> wa_Timer s = None \<Longrightarrow> wa_Timer s' = Some d \<Longrightarrow> armed_by path d evs"
proof (induction arbitrary: d rule: watch_run.induct)
  case (run_nil s)
  then show ?case by simp
next
  case (run_snoc s evs s' ev s'')
  from run_snoc.hyps(2) run_snoc.prems run_snoc.IH show ?case
  proof cases
    case (fs_relevant name t)
    then have "d = t + debounceDelay" using run_snoc.prems by simp
    with fs_relevant show ?thesis
      unfolding armed_by_def by (intro exI[of _ evs] exI[of _ t] exI[of _ name] exI[of _ "[]"]) simp
  qed (auto intro!: armed_by_snoc simp: quiet_def)
qed

lemma watch_run_quiet:
  assumes "watch_run G unmarshal path s evs s'" "list_all (quiet path) evs"
  shows "wa_Timer s' = wa_Timer s \<and> wa_Env s' = wa_Env s"
  using assms
proof (induction rule: watch_run.induct)
  case (run_snoc s evs s' ev s'')
  from run_snoc.hyps(2) have "quiet path ev \<Longrightarrow> wa_Timer s'' = wa_Timer s' \<and> wa_Env s'' = wa_Env s'"
    by cases (auto simp: quiet_def)
  with run_snoc show ?case by simp
qed simp

section \<open>Properties\<close>

text \<open>
  every way to sign in that the proxy shows exists. After startup, and whatever
  configuration is swapped in later, the login redirect and every button of the login page
  lead to a handler some started provider registered.
\<close>

theorem logins_are_registered:
  assumes "run G unmarshal su path = Inr (e, mux)"
  shows "registered mux ''GET'' (LoginPath (Swap e rt))
    \<and> list_all (\<lambda>l. registered mux ''GET'' (el_Path l)) (ExternalLogins (Swap e rt))"
proof -
  from assms obtain cfg ws rt' ps where ps: "setupProviders G su cfg = Inr ps"
    "en_Available e = map provider_Mode ps" "mux = fold provider_Register ps New" "ps \<noteq> []"
    by (rule run_Inr)
  have av: "available (Swap e rt) = map provider_Mode ps"
    using ps by (simp add: available_def Swap_def)
  have reg: "registered mux ''GET'' (if provider_Mode p = ModeLocal then ''/auth/local/login''
      else if provider_Mode p = ModeOpenShift then ''/auth/openshift/login'' else ''/auth/oidc/login'')"
    if "p \<in> set ps" for p using login_registered[OF that refl] by (simp add: ps(3))
  have "registered mux ''GET'' (LoginPath (Swap e rt))"
  proof -
    let ?has = "\<lambda>m. \<exists>p\<in>set ps. provider_Mode p = m"
    have has: "list_ex (\<lambda>x. x = m) (map provider_Mode ps) \<longleftrightarrow> ?has m" for m by (auto simp: list_ex_iff)
    have path: "LoginPath (Swap e rt) = (if ?has ModeLocal then ''/auth/local/login''
        else if ?has ModeOpenShift then ''/auth/openshift/login'' else ''/auth/oidc/login'')"
      by (simp only: LoginPath_def av has)
    have "hd ps \<in> set ps" using ps(4) by simp
    consider (l) "?has ModeLocal" | (s) "\<not> ?has ModeLocal" "?has ModeOpenShift"
      | (o) "\<not> ?has ModeLocal" "\<not> ?has ModeOpenShift" by blast
    then show ?thesis
    proof cases
      case l
      then obtain p where "p \<in> set ps" "provider_Mode p = ModeLocal" by blast
      with reg[of p] l show ?thesis by (simp add: path)
    next
      case s
      then obtain p where "p \<in> set ps" "provider_Mode p = ModeOpenShift" by blast
      with reg[of p] s show ?thesis by (simp add: path mode_defs)
    next
      case o
      with reg[OF \<open>hd ps \<in> set ps\<close>] \<open>hd ps \<in> set ps\<close> have "registered mux ''GET'' ''/auth/oidc/login''" by auto
      with o show ?thesis by (simp add: path)
    qed
  qed
  moreover have "registered mux ''GET'' (el_Path l)" if l: "l \<in> set (ExternalLogins (Swap e rt))" for l
  proof -
    obtain p where "p \<in> set ps"
      "provider_Mode p = ModeOIDC \<and> el_Path l = ''/auth/oidc/login''
       \<or> provider_Mode p = ModeOpenShift \<and> el_Path l = ''/auth/openshift/login''"
      using ExternalLogins_cases[OF l] unfolding av by auto
    then show ?thesis
    proof (elim disjE conjE)
      assume "provider_Mode p = ModeOIDC" "el_Path l = ''/auth/oidc/login''"
      with reg[OF \<open>p \<in> set ps\<close>] show ?thesis by (simp add: mode_defs)
    next
      assume "provider_Mode p = ModeOpenShift" "el_Path l = ''/auth/openshift/login''"
      with reg[OF \<open>p \<in> set ps\<close>] show ?thesis by (simp add: mode_defs)
    qed
  qed
  ultimately show ?thesis by (simp add: list_all_iff)
qed

text \<open>
  a valid configuration starts. With a readable and valid configuration file the
  process never panics on a missing settings block and fails only when not one of the
  enabled providers could be started; a provider outage never takes the others with it.
\<close>

theorem run_needs_one_provider:
  assumes "path \<noteq> []" "Load G unmarshal (su_File su path) = Inr (cfg, ws)"
  shows "((\<exists>e mux. run G unmarshal su path = Inr (e, mux)) \<longleftrightarrow>
      list_ex (\<lambda>m. \<exists>p. setupProvider G su cfg m = Inr p) (pc_Modes (cf_Provider cfg)))
    \<and> run G unmarshal su path \<in> Inr ` UNIV \<union> {Inl (NoProvider Unavailable)}"
proof -
  have ok: "config_ok G cfg" using assms(2) by (rule Load_config_ok)
  then obtain rt where rt: "BuildRuntime G cfg = Inr rt" using config_ok_BuildRuntime by blast
  obtain ps where ps: "start_each G su cfg (pc_Modes (cf_Provider cfg)) = Inr ps"
    using ok start_each_no_panic[of cfg "pc_Modes (cf_Provider cfg)" G su] by (auto simp: config_ok_def)
  have "start_each G su cfg ms = Inr qs \<Longrightarrow> qs \<noteq> [] \<longleftrightarrow> list_ex (\<lambda>m. \<exists>p. setupProvider G su cfg m = Inr p) ms" for ms qs
    by (induction ms arbitrary: qs) (auto split: sum.splits setup_error.splits)
  from this[OF ps] have ne: "ps \<noteq> [] \<longleftrightarrow> list_ex (\<lambda>m. \<exists>p. setupProvider G su cfg m = Inr p) (pc_Modes (cf_Provider cfg))" .
  show ?thesis
    unfolding ne[symmetric] using assms rt ps by (simp add: run_def setupProviders_def)
qed

text \<open>
  C13: a reload never installs a broken configuration. Along every run of the watcher from
  a valid runtime, the runtime served is one built from a configuration that passed
  validation; the started providers and the access-request client stay as they were.
\<close>

theorem reload_keeps_serving:
  assumes "watch_run G unmarshal path s evs s'" "runtime_valid G (wa_Env s)"
  shows "runtime_valid G (wa_Env s') \<and> en_Available (wa_Env s') = en_Available (wa_Env s)
    \<and> en_AccessRequests (wa_Env s') = en_AccessRequests (wa_Env s)"
  using assms
proof (induction rule: watch_run.induct)
  case (run_snoc s evs s' ev s'')
  with watch_step_env[OF run_snoc.hyps(2)] show ?case by (auto simp: reload_valid reload_keeps)
qed simp

text \<open>
  reloads are debounced. Every reload was caused by a relevant file event at least the
  debounce delay earlier, with no other relevant event and no other reload in between.
\<close>

theorem reload_debounced:
  assumes "watch_run G unmarshal path s (evs @ [TimerFired t file]) s'" "wa_Timer s = None"
  shows "\<exists>pre t0 name post. evs = pre @ FsEvent t0 name # post \<and> relevant path name
    \<and> t0 + debounceDelay \<le> t \<and> list_all (quiet path) post"
proof -
  from assms(1) obtain u where u: "watch_run G unmarshal path s evs u"
    "watch_step G unmarshal path u (TimerFired t file) s'" by (rule watch_run_snocE)
  then obtain d where "wa_Timer u = Some d" "d \<le> t" by (auto simp: watch_fired)
  with watch_run_timer[OF u(1) assms(2)] show ?thesis by (fastforce simp: armed_by_def)
qed

text \<open>
  C14: a change is picked up. After a relevant file event, with nothing but irrelevant events
  since and the watcher still running, the timer fires once the delay is over and the file's
  content is loaded.
\<close>

theorem change_is_reloaded:
  assumes "watch_step G unmarshal path s (FsEvent t0 name) s1" "relevant path name"
    and "watch_run G unmarshal path s1 evs s2" "list_all (quiet path) evs" "\<not> wa_Stopped s2"
    and "t0 + debounceDelay \<le> t"
  shows "\<exists>s3. watch_step G unmarshal path s2 (TimerFired t file) s3
    \<and> wa_Env s3 = reload G unmarshal file (wa_Env s) \<and> wa_Timer s3 = None"
proof -
  have "wa_Timer s1 = Some (t0 + debounceDelay)" "wa_Env s1 = wa_Env s"
    using assms(1,2) by (auto elim: watch_stepE)
  with watch_run_quiet[OF assms(3,4)] assms(5,6) show ?thesis
    by (auto simp: watch_fired)
qed

section \<open>Witnesses\<close>

definition sample_startup :: startup where
  "sample_startup = \<lparr>su_File = (\<lambda>_. Some ''config''), su_GenHash = (\<lambda>p. Some (''$2a$10$'' @ p)),
     su_OIDCDiscover = (\<lambda>_. False), su_PEMUsable = (\<lambda>_. False), su_Get = (\<lambda>_. None), su_InCluster = None\<rparr>"

lemma sample_Load:
  "Load session_lib (\<lambda>_. Some sample_config) (Some f) = Inr (sample_config, warnings sample_config)"
proof -
  have "setDefaults sample_config = sample_config"
    by (simp add: setDefaults_def sample_config_def default_string_def default_int_def second_def level_defs)
  then show ?thesis by (simp add: Load_def Parse_def Validate_Nil sample_config_ok)
qed

lemma sample_provider:
  "setupProvider session_lib sample_startup sample_config ModeLocal
     = Inr (PLocal \<lparr>lp_limiter = newRateLimiter, lp_dummyHash = ''$2a$10$'' @ dummyPassword\<rparr>)"
  by (simp add: setupProvider_def mode_defs sample_startup_def local_New_def available_or_def)

lemma sample_run: "\<exists>e mux. run session_lib (\<lambda>_. Some sample_config) sample_startup ''p'' = Inr (e, mux)"
proof -
  have f: "su_File sample_startup ''p'' = Some ''config''" by (simp add: sample_startup_def)
  have modes: "pc_Modes (cf_Provider sample_config) = [ModeLocal]" by (simp add: sample_config_def)
  obtain rt where "BuildRuntime session_lib sample_config = Inr rt" by (rule sample_runtime)
  then show ?thesis by (simp add: run_def f sample_Load setupProviders_def modes sample_provider)
qed

theorem logins_are_registered_witness:
  "\<exists>e mux rt. run session_lib (\<lambda>_. Some sample_config) sample_startup ''p'' = Inr (e, mux)
     \<and> registered mux ''GET'' (LoginPath (Swap e rt))"
  using sample_run logins_are_registered by blast

theorem run_needs_one_provider_witness:
  "\<exists>e mux. run session_lib (\<lambda>_. Some sample_config) sample_startup ''p'' = Inr (e, mux)"
proof -
  have "su_File sample_startup ''p'' = Some ''config''" by (simp add: sample_startup_def)
  then have "Load session_lib (\<lambda>_. Some sample_config) (su_File sample_startup ''p'') = Inr (sample_config, warnings sample_config)"
    by (simp add: sample_Load)
  moreover have "list_ex (\<lambda>m. \<exists>p. setupProvider session_lib sample_startup sample_config m = Inr p) (pc_Modes (cf_Provider sample_config))"
    using sample_provider by (simp add: sample_config_def)
  ultimately show ?thesis using run_needs_one_provider[of "''p''" session_lib] by blast
qed

text \<open>A relevant event at instant 0 and, a second later, the reload of an unreadable file.\<close>

definition sample_watcher :: "Env \<Rightarrow> watcher" where
  "sample_watcher e = \<lparr>wa_Timer = None, wa_Env = e, wa_Stopped = False\<rparr>"

lemma sample_watch:
  "watch_run session_lib (\<lambda>_. None) ''/etc/proxy/config.yaml'' (sample_watcher e)
     ([FsEvent 0 ''/etc/proxy/..data''] @ [TimerFired second None]) (sample_watcher e)"
proof -
  have "relevant ''/etc/proxy/config.yaml'' ''/etc/proxy/..data''" by code_simp
  then have "watch_step session_lib (\<lambda>_. None) ''/etc/proxy/config.yaml'' (sample_watcher e) (FsEvent 0 ''/etc/proxy/..data'')
      ((sample_watcher e)\<lparr>wa_Timer := Some (0 + debounceDelay)\<rparr>)"
    by (intro fs_relevant) (simp_all add: sample_watcher_def)
  then have "watch_run session_lib (\<lambda>_. None) ''/etc/proxy/config.yaml'' (sample_watcher e)
      ([] @ [FsEvent 0 ''/etc/proxy/..data'']) ((sample_watcher e)\<lparr>wa_Timer := Some (0 + debounceDelay)\<rparr>)"
    by (rule run_snoc[OF run_nil])
  moreover have "watch_step session_lib (\<lambda>_. None) ''/etc/proxy/config.yaml''
      ((sample_watcher e)\<lparr>wa_Timer := Some (0 + debounceDelay)\<rparr>) (TimerFired second None) (sample_watcher e)"
    by (simp add: watch_fired sample_watcher_def debounceDelay_def reload_def Load_def)
  ultimately show ?thesis using run_snoc by fastforce
qed

theorem reload_keeps_serving_witness:
  "\<exists>rt. runtime_valid session_lib (wa_Env (sample_watcher (NewEnv rt)))"
proof -
  obtain rt where "BuildRuntime session_lib sample_config = Inr rt" by (rule sample_runtime)
  then have "runtime_valid session_lib (wa_Env (sample_watcher (NewEnv rt)))"
    using sample_config_ok by (auto simp: runtime_valid_def sample_watcher_def NewEnv_def)
  from reload_keeps_serving[OF sample_watch this] show ?thesis by blast
qed

theorem reload_debounced_witness:
  "\<exists>pre t0 name post. [FsEvent 0 ''/etc/proxy/..data''] = pre @ FsEvent t0 name # post
     \<and> relevant ''/etc/proxy/config.yaml'' name \<and> t0 + debounceDelay \<le> second"
  using reload_debounced[OF sample_watch[of "NewEnv \<lparr>rt_Config = sample_config, rt_Codec = console_codec,
      rt_Users = Map.empty, rt_Routes = []\<rparr>"]] by (force simp: sample_watcher_def)

theorem change_is_reloaded_witness:
  "\<exists>s3. watch_step session_lib (\<lambda>_. None) ''/etc/proxy/config.yaml''
      ((sample_watcher sample_env)\<lparr>wa_Timer := Some debounceDelay\<rparr>) (TimerFired second None) s3
     \<and> wa_Env s3 = reload session_lib (\<lambda>_. None) None sample_env"
proof -
  have r: "relevant ''/etc/proxy/config.yaml'' ''/etc/proxy/..data''" by code_simp
  have "watch_step session_lib (\<lambda>_. None) ''/etc/proxy/config.yaml'' (sample_watcher sample_env) (FsEvent 0 ''/etc/proxy/..data'')
      ((sample_watcher sample_env)\<lparr>wa_Timer := Some (0 + debounceDelay)\<rparr>)"
    using r by (intro fs_relevant) (simp_all add: sample_watcher_def)
  from change_is_reloaded[OF this r run_nil, of second None] show ?thesis
    by (auto simp: sample_watcher_def debounceDelay_def)
qed

end
