(* ===== verification/Pages.thy ===== *)
theory Pages
  imports Server
begin

text \<open>
  The HTML pages (\<open>internal/proxy/pages/pages.go\<close>). A handler's response names a page and
  the data it is rendered from; \<open>write_page\<close> is what reaches the browser. Execution of the
  embedded templates is an argument, \<open>None\<close> when it fails.
\<close>

section \<open>Model\<close>

definition fallback :: string where
  "fallback = ''<!doctype html><meta charset=\"utf-8\"><title>Error</title>''
     @ ''<p>This page could not be rendered.</p>''"

text \<open>\<open>http.StatusText\<close> of the statuses the proxy uses.\<close>

definition StatusText :: "nat \<Rightarrow> string" where
  "StatusText n =
     (if n = 200 then ''OK'' else if n = 400 then ''Bad Request'' else if n = 401 then ''Unauthorized''
      else if n = 403 then ''Forbidden'' else if n = 404 then ''Not Found''
      else if n = 429 then ''Too Many Requests'' else if n = 500 then ''Internal Server Error''
      else if n = 502 then ''Bad Gateway'' else [])"

record written =
  wr_ContentType :: string
  wr_Status :: nat
  wr_Body :: string

text \<open>
  \<open>render\<close>: the template is executed into memory, and written with the page's status only
  when it is whole.
\<close>

definition render ::
  "(string \<Rightarrow> string \<Rightarrow> page \<Rightarrow> string option) \<Rightarrow> nat \<Rightarrow> string \<Rightarrow> string \<Rightarrow> page \<Rightarrow> written" where
  "render exec status templateName title content =
     (case exec templateName title content of
        None \<Rightarrow> \<lparr>wr_ContentType = ''text/html; charset=utf-8'', wr_Status = 500, wr_Body = fallback\<rparr>
      | Some buf \<Rightarrow> \<lparr>wr_ContentType = ''text/html; charset=utf-8'', wr_Status = status, wr_Body = buf\<rparr>)"

text \<open>\<open>Login\<close>, \<open>DeniedUnknown\<close>, \<open>DeniedKnown\<close>, \<open>Confirmation\<close> and \<open>Error\<close>.\<close>

definition write_page :: "(string \<Rightarrow> string \<Rightarrow> page \<Rightarrow> string option) \<Rightarrow> nat \<Rightarrow> page \<Rightarrow> written" where
  "write_page exec status p =
     (case p of
        LoginPage _ _ _ \<Rightarrow> render exec status ''login'' ''Sign in'' p
      | DeniedUnknownPage _ _ _ _ \<Rightarrow> render exec 403 ''denied-unknown'' ''Access required'' p
      | DeniedKnownPage _ _ _ _ \<Rightarrow> render exec 403 ''denied-known'' ''Insufficient privileges'' p
      | ConfirmationPage _ \<Rightarrow> render exec 200 ''confirmation'' ''Request sent'' p
      | ErrorPage _ \<Rightarrow> render exec status ''error'' (StatusText status) p)"

text \<open>The template and title of a page.\<close>

definition page_template :: "nat \<Rightarrow> page \<Rightarrow> string \<times> string" where
  "page_template status p =
     (case p of
        LoginPage _ _ _ \<Rightarrow> (''login'', ''Sign in'')
      | DeniedUnknownPage _ _ _ _ \<Rightarrow> (''denied-unknown'', ''Access required'')
      | DeniedKnownPage _ _ _ _ \<Rightarrow> (''denied-known'', ''Insufficient privileges'')
      | ConfirmationPage _ \<Rightarrow> (''confirmation'', ''Request sent'')
      | ErrorPage _ \<Rightarrow> (''error'', StatusText status))"

section \<open>Properties\<close>

text \<open>
  a page is whole or replaced. What the browser gets for a refused or unroutable
  request is either the complete output of that page's template under the handler's
  status, or the fixed fallback page under status 500; a partly rendered page is never sent.
\<close>

theorem denied_page_whole:
  assumes "handleProxied G e now empty_response r = Reply w" "rs_Page w = Some p"
  shows "write_page exec (rs_Status w) p =
    (case exec (fst (page_template (rs_Status w) p)) (snd (page_template (rs_Status w) p)) p of
       Some body \<Rightarrow> \<lparr>wr_ContentType = ''text/html; charset=utf-8'', wr_Status = rs_Status w, wr_Body = body\<rparr>
     | None \<Rightarrow> \<lparr>wr_ContentType = ''text/html; charset=utf-8'', wr_Status = 500, wr_Body = fallback\<rparr>)
    \<and> rs_Status w \<in> {401, 403, 404}"
proof -
  have "rs_Page empty_response = None" by (simp add: empty_response_def)
  with assms obtain m where "p = ErrorPage m \<and> rs_Status w \<in> {401, 404}
      \<or> (\<exists>s c f n. p = DeniedUnknownPage s c f n) \<and> rs_Status w = 403
      \<or> (\<exists>s l n t. p = DeniedKnownPage s l n t) \<and> rs_Status w = 403"
    by (auto simp: handleProxied_def Let_def renderDeniedUnknown_def show_page_def pages_Error_def http_Redirect_def
        split: option.splits sum.splits if_splits)
  then show ?thesis by (auto simp: write_page_def render_def page_template_def split: option.split)
qed

section \<open>Witnesses\<close>

theorem denied_page_whole_witness:
  "\<exists>w. handleProxied session_lib (NewEnv \<lparr>rt_Config = sample_config, rt_Codec = console_codec,
       rt_Users = Map.empty, rt_Routes = []\<rparr>) 0 empty_response sample_request = Reply w \<and> rs_Status w \<in> {401, 403, 404}"
proof -
  let ?e = "NewEnv \<lparr>rt_Config = sample_config, rt_Codec = console_codec, rt_Users = Map.empty, rt_Routes = []\<rparr>"
  let ?w = "pages_Error empty_response 404 ''This path is not served by the console.''"
  have "handleProxied session_lib ?e 0 empty_response sample_request = Reply ?w"
    by (simp add: handleProxied_def matchRoute_def NewEnv_def)
  moreover have "rs_Page ?w = Some (ErrorPage ''This path is not served by the console.'')"
    by (simp add: pages_Error_def show_page_def)
  ultimately show ?thesis using denied_page_whole by blast
qed

end
