(* ===== verification/Route_Sort.thy ===== *)
theory Route_Sort
  imports Server
begin

text \<open>
  The loops of \<open>BuildRuntime\<close> that put the longest prefix first
  (\<open>internal/proxy/server/server.go\<close>), as the machine runs them: indices that are advanced and
  tested, slice accesses that panic out of range, and a count of the comparisons made.
  \<open>exchange_sort\<close> of theory Server is a fold over the index ranges and so total by
  construction; here a loop that did not end would have the value \<open>None\<close>, and an index out of
  range the value \<open>Panicked\<close>. The theorem shows that neither happens on any list of routes.
\<close>

section \<open>The loops\<close>

datatype 'a loop_end = Panicked | Done (le_slice: "'a list") (le_compared: nat)

text \<open>The body: both elements are read, compared, and stored back exchanged.\<close>

definition compare_swap :: "('a \<Rightarrow> nat) \<Rightarrow> nat \<Rightarrow> nat \<Rightarrow> 'a list \<Rightarrow> 'a list option" where
  "compare_swap key i j rs =
     (if j < length rs \<and> i < length rs
      then Some (if key (rs ! j) > key (rs ! i) then rs[i := rs ! j, j := rs ! i] else rs)
      else None)"

partial_function (option) inner_loop ::
  "('a \<Rightarrow> nat) \<Rightarrow> nat \<Rightarrow> nat \<Rightarrow> 'a list \<Rightarrow> nat \<Rightarrow> 'a loop_end option" where
  "inner_loop key i j rs c =
     (if j < length rs
      then (case compare_swap key i j rs of
              None \<Rightarrow> Some Panicked
            | Some rs' \<Rightarrow> inner_loop key i (Suc j) rs' (Suc c))
      else Some (Done rs c))"

partial_function (option) outer_loop ::
  "('a \<Rightarrow> nat) \<Rightarrow> nat \<Rightarrow> 'a list \<Rightarrow> nat \<Rightarrow> 'a loop_end option" where
  "outer_loop key i rs c =
     (if i < length rs
      then Option.bind (inner_loop key i (Suc i) rs c)
             (\<lambda>r. case r of
                    Panicked \<Rightarrow> Some Panicked
                  | Done rs' c' \<Rightarrow> outer_loop key (Suc i) rs' c')
      else Some (Done rs c))"

definition sort_loop :: "('a \<Rightarrow> nat) \<Rightarrow> 'a list \<Rightarrow> 'a loop_end option" where
  "sort_loop key rs = outer_loop key 0 rs 0"

section \<open>They end\<close>

lemma length_exchange [simp]: "length (exchange key i j rs) = length rs"
  by (simp add: exchange_def)

lemma length_exchange_fold [simp]: "length (fold (exchange key i) js rs) = length rs"
  by (induction js arbitrary: rs) simp_all

lemma compare_swap_in_range:
  "i < length rs \<Longrightarrow> j < length rs \<Longrightarrow> compare_swap key i j rs = Some (exchange key i j rs)"
  by (simp add: compare_swap_def exchange_def)

text \<open>The variant of the inner loop is the number of indices left, \<open>length rs - j\<close>.\<close>

lemma inner_loop_returns:
  assumes "i < length rs"
  shows "inner_loop key i j rs c =
           Some (Done (fold (exchange key i) [j..<length rs] rs) (c + (length rs - j)))"
  using assms
proof (induction "length rs - j" arbitrary: j rs c)
  case 0
  then show ?case by (subst inner_loop.simps) simp
next
  case (Suc d)
  then have j: "j < length rs" by simp
  have "inner_loop key i j rs c = inner_loop key i (Suc j) (exchange key i j rs) (Suc c)"
    using j Suc.prems by (subst inner_loop.simps) (simp add: compare_swap_in_range)
  also have "\<dots> = Some (Done (fold (exchange key i) [Suc j..<length rs] (exchange key i j rs))
                        (Suc c + (length rs - Suc j)))"
    using Suc.hyps(1) [of "exchange key i j rs" "Suc j" "Suc c"] Suc.hyps(2) Suc.prems by simp
  finally show ?case using j by (simp add: upt_conv_Cons)
qed

lemma length_exchange_inner [simp]: "length (exchange_inner key i rs) = length rs"
  by (simp add: exchange_inner_def)

lemma outer_loop_returns:
  "outer_loop key i rs c =
     Some (Done (fold (exchange_inner key) [i..<length rs] rs)
       (c + (\<Sum>k = i..<length rs. length rs - Suc k)))"
proof (induction "length rs - i" arbitrary: i rs c)
  case 0
  then show ?case by (subst outer_loop.simps) simp
next
  case (Suc d)
  then have i: "i < length rs" by simp
  have "outer_loop key i rs c =
          outer_loop key (Suc i) (exchange_inner key i rs) (c + (length rs - Suc i))"
    using i by (subst outer_loop.simps) (simp add: inner_loop_returns exchange_inner_def)
  then show ?case
    using i Suc.hyps(1) [of "exchange_inner key i rs" "Suc i"] Suc.hyps(2)
    by (simp add: upt_conv_Cons sum.atLeast_Suc_lessThan)
qed

lemma comparisons: "(\<Sum>k = 0..<n. n - Suc k) = n * (n - 1) div 2"
proof -
  have "(\<Sum>k = 0..<n. n - Suc k) = (\<Sum>k = 0..<n. k)"
    by (rule sum.reindex_bij_witness [of _ "\<lambda>k. n - Suc k" "\<lambda>k. n - Suc k"]) auto
  then show ?thesis by (cases n) (simp_all add: Sum_Ico_nat)
qed

lemma sort_loop_returns:
  "sort_loop key rs =
     Some (Done (exchange_sort key rs) (length rs * (length rs - 1) div 2))"
  by (simp add: sort_loop_def outer_loop_returns comparisons exchange_sort_def)

text \<open>
  C6: On every list the nested loops end, index nothing out of range, make exactly
  \<open>n (n - 1) / 2\<close> comparisons, and return a permutation of the list in which no element is
  followed by one with a longer prefix: the list that \<open>BuildRuntime\<close> stores.
\<close>

theorem route_sort_terminates:
  "sort_loop key rs =
     Some (Done (exchange_sort key rs) (length rs * (length rs - 1) div 2))
   \<and> mset (exchange_sort key rs) = mset rs
   \<and> sorted_wrt (\<lambda>x y. key y \<le> key x) (exchange_sort key rs)"
  by (simp add: sort_loop_returns exchange_sort_sorted)

end
