(* ===== verification/Kube.thy ===== *)
theory Kube
  imports Http "HOL-Library.Finite_Map" "HOL-Library.Product_Lexorder"
begin

text \<open>
  What the operator uses of Kubernetes: object metadata, Secrets, status conditions and the
  client it reads and writes objects through.

  \<^item> A Go map is a finite map; reading an absent key gives the zero value (\<open>at\<close>).
  \<^item> \<open>kube\<close> collects the helper functions of the Kubernetes libraries the operator calls;
    their documented behaviour is \<open>owners_ok\<close> and \<open>conditions_ok\<close>.
  \<^item> \<open>client\<close> is the API client for one kind of object, over a state of the API server
    that the model never looks into. \<open>api_Get\<close> and \<open>api_List\<close> read through the
    informer cache and \<open>api_Live\<close> reads the server; nothing says the two agree. A write
    returns its error, if any, and the next state; \<open>api_Apply\<close> is a server-side apply patch.
  \<^item> \<open>client_ok\<close> is what a client that answers without faults and without other writers
    documents: a write of an object is seen by the next live read of it.
\<close>

section \<open>Go maps\<close>

type_synonym smap = "(string, string) fmap"

definition at :: "smap \<Rightarrow> string \<Rightarrow> string" where
  "at m k = (case fmlookup m k of None \<Rightarrow> [] | Some v \<Rightarrow> v)"

lemma at_fmupd [simp]: "at (fmupd k v m) k' = (if k = k' then v else at m k')"
  by (simp add: at_def)

lemma at_fmempty [simp]: "at fmempty k = []"
  by (simp add: at_def)

lemma at_of_list: "at (fmap_of_list xs) k = (case map_of xs k of None \<Rightarrow> [] | Some v \<Rightarrow> v)"
  by (simp add: at_def fmlookup_of_list)

lemma sorted_list_of_fmap_single [simp]: "sorted_list_of_fmap (fmupd k v fmempty) = [(k, v)]"
  by (simp add: sorted_list_of_fmap_def sorted_list_of_fset.rep_eq)

section \<open>Objects\<close>

record OwnerReference =
  ow_Name :: string
  ow_UID :: string
  ow_Controller :: bool

record ObjectMeta =
  m_Name :: string
  m_Namespace :: string
  m_UID :: string
  m_ResourceVersion :: string
  m_Generation :: int
  m_Labels :: smap
  m_Annotations :: smap
  m_OwnerReferences :: "OwnerReference list"
  m_Finalizers :: "string list"
  m_Deleting :: bool

text \<open>The metadata literal \<open>ObjectMeta{Name, Namespace, Labels}\<close>: every other field is zero.\<close>

definition new_meta :: "string \<Rightarrow> string \<Rightarrow> smap \<Rightarrow> ObjectMeta" where
  "new_meta name namespace labels =
     \<lparr>m_Name = name, m_Namespace = namespace, m_UID = [], m_ResourceVersion = [], m_Generation = 0,
      m_Labels = labels, m_Annotations = fmempty, m_OwnerReferences = [], m_Finalizers = [],
      m_Deleting = False\<rparr>"

lemma new_meta_simps [simp]:
  "m_Name (new_meta n ns l) = n" "m_Namespace (new_meta n ns l) = ns" "m_UID (new_meta n ns l) = []"
  "m_Labels (new_meta n ns l) = l" "m_Annotations (new_meta n ns l) = fmempty"
  "m_OwnerReferences (new_meta n ns l) = []"
  by (simp_all add: new_meta_def)

type_synonym object_key = "string \<times> string"

definition key_of :: "ObjectMeta \<Rightarrow> object_key" where
  "key_of m = (m_Namespace m, m_Name m)"

lemma key_of_new_meta [simp]: "key_of (new_meta n ns l) = (ns, n)"
  by (simp add: key_of_def)

record Secret =
  se_Meta :: ObjectMeta
  se_Type :: string
  se_Immutable :: "bool option"
  se_Data :: smap

definition SecretTypeOpaque :: string where "SecretTypeOpaque = ''Opaque''"

record ResourceRequirements =
  rr_Limits :: smap
  rr_Requests :: smap

datatype condition_status = ConditionTrue | ConditionFalse | ConditionUnknown

record Condition =
  co_Type :: string
  co_Status :: condition_status
  co_ObservedGeneration :: int
  co_LastTransitionTime :: int
  co_Reason :: string
  co_Message :: string

definition FindStatusCondition :: "Condition list \<Rightarrow> string \<Rightarrow> Condition option" where
  "FindStatusCondition cs t = find (\<lambda>c. co_Type c = t) cs"

section \<open>Library parameters\<close>

record kube =
  GetControllerOf :: "ObjectMeta \<Rightarrow> OwnerReference option"
  SetControllerReference :: "ObjectMeta \<Rightarrow> ObjectMeta \<Rightarrow> (string, ObjectMeta) result"
  SetStatusCondition :: "Condition list \<Rightarrow> Condition \<Rightarrow> Condition list"

text \<open>
  \<open>metav1.GetControllerOf\<close> depends on the owner references; \<open>SetControllerReference\<close>
  on an object without owners records the owner as its controller and changes nothing else;
  \<open>meta.SetStatusCondition\<close> updates or adds the condition of that type, leaves the
  others, and keeps the transition time when the status does not change.
\<close>

definition controller_uid :: "kube \<Rightarrow> ObjectMeta \<Rightarrow> string option" where
  "controller_uid K m = map_option ow_UID (GetControllerOf K m)"

definition owners_ok :: "kube \<Rightarrow> bool" where
  "owners_ok K =
     ((\<forall>m m'. m_OwnerReferences m = m_OwnerReferences m' \<longrightarrow> GetControllerOf K m = GetControllerOf K m')
      \<and> (\<forall>own m. m_OwnerReferences m = [] \<longrightarrow>
           (\<exists>r. SetControllerReference K own m = Inr (m\<lparr>m_OwnerReferences := [r]\<rparr>)
                \<and> controller_uid K (m\<lparr>m_OwnerReferences := [r]\<rparr>) = Some (m_UID own))))"

definition conditions_ok :: "kube \<Rightarrow> bool" where
  "conditions_ok K =
     (\<forall>cs c. (\<exists>t. FindStatusCondition (SetStatusCondition K cs c) (co_Type c) = Some (c\<lparr>co_LastTransitionTime := t\<rparr>))
        \<and> (\<forall>t. t \<noteq> co_Type c \<longrightarrow>
             FindStatusCondition (SetStatusCondition K cs c) t = FindStatusCondition cs t)
        \<and> SetStatusCondition K (SetStatusCondition K cs c) c = SetStatusCondition K cs c)"

section \<open>The API client\<close>

datatype api_error = NotFound | AlreadyExists | ApiFailed string

record ('s, 'o) client =
  api_Get :: "'s \<Rightarrow> object_key \<Rightarrow> (api_error, 'o) result"
  api_Live :: "'s \<Rightarrow> object_key \<Rightarrow> (api_error, 'o) result"
  api_List :: "'s \<Rightarrow> string \<Rightarrow> (api_error, 'o list) result"
  api_Create :: "'s \<Rightarrow> 'o \<Rightarrow> api_error option \<times> 's"
  api_Update :: "'s \<Rightarrow> 'o \<Rightarrow> api_error option \<times> 's"
  api_Patch :: "'s \<Rightarrow> 'o \<Rightarrow> 'o \<Rightarrow> api_error option \<times> 's"
  api_StatusPatch :: "'s \<Rightarrow> 'o \<Rightarrow> 'o \<Rightarrow> api_error option \<times> 's"
  api_Apply :: "'s \<Rightarrow> 'o \<Rightarrow> api_error option \<times> 's"
  api_Delete :: "'s \<Rightarrow> object_key \<Rightarrow> api_error option \<times> 's"

text \<open>
  A read after a successful write returns the written object, up to the fields the server
  maintains itself; \<open>content\<close> projects what it leaves alone.
\<close>

definition stores :: "('s, 'o) client \<Rightarrow> ('o \<Rightarrow> 'c) \<Rightarrow> 's \<Rightarrow> object_key \<Rightarrow> 'o \<Rightarrow> bool" where
  "stores C content s k x =
     (\<exists>y. api_Live C s k = Inr y \<and> content y = content x \<and> api_Get C s k = Inr y)"

definition writes :: "('s, 'o) client \<Rightarrow> ('o \<Rightarrow> object_key) \<Rightarrow> ('o \<Rightarrow> 'c) \<Rightarrow> 's \<Rightarrow> 'o \<Rightarrow> 's \<Rightarrow> bool" where
  "writes C key content s x s' =
     (stores C content s' (key x) x
      \<and> (\<forall>k. k \<noteq> key x \<longrightarrow> api_Live C s' k = api_Live C s k \<and> api_Get C s' k = api_Get C s k))"

definition client_ok :: "('s, 'o) client \<Rightarrow> ('o \<Rightarrow> object_key) \<Rightarrow> ('o \<Rightarrow> 'c) \<Rightarrow> bool" where
  "client_ok C key content =
     (\<forall>s x s'. (api_Create C s x = (None, s') \<longrightarrow> writes C key content s x s')
        \<and> (api_Update C s x = (None, s') \<longrightarrow> writes C key content s x s')
        \<and> (\<forall>b. api_Patch C s b x = (None, s') \<longrightarrow> writes C key content s x s'))"

lemma client_ok_writes:
  assumes "client_ok C key content"
  shows "api_Create C s x = (None, s') \<Longrightarrow> writes C key content s x s'"
    and "api_Update C s x = (None, s') \<Longrightarrow> writes C key content s x s'"
    and "api_Patch C s b x = (None, s') \<Longrightarrow> writes C key content s x s'"
  using assms unfolding client_ok_def by blast+

section \<open>Convergence\<close>

text \<open>
  The contract of a reconcile step: from a state where the API answers as documented
  (\<open>good\<close>), success reaches a settled state, and in a settled state the step succeeds
  without any write. Its clients may then run it as often as events arrive.
\<close>

locale convergence =
  fixes step :: "'s \<Rightarrow> ('e, 'r) result \<times> 's" and good :: "'s \<Rightarrow> bool" and settled :: "'s \<Rightarrow> bool"
  assumes settles: "good s \<Longrightarrow> step s = (Inr r, s') \<Longrightarrow> settled s'"
    and quiet: "settled s \<Longrightarrow> \<exists>r. step s = (Inr r, s)"
begin

lemma runs_settled: "settled s \<Longrightarrow> ((\<lambda>t. snd (step t)) ^^ n) s = s"
proof (induction n)
  case (Suc n)
  then show ?case using quiet[OF Suc.prems] by auto
qed simp

lemma runs_quiet:
  assumes "good s" "step s = (Inr r, s')"
  shows "((\<lambda>t. snd (step t)) ^^ n) s' = s' \<and> (\<exists>r'. step s' = (Inr r', s'))"
  using settles[OF assms] runs_settled quiet by blast

end

section \<open>A store for the witnesses\<close>

text \<open>
  An API server that keeps one kind of object in a finite map and answers every call;
  and the library functions in their simplest documented form.
\<close>

definition store_Get :: "(object_key, 'o) fmap \<Rightarrow> object_key \<Rightarrow> (api_error, 'o) result" where
  "store_Get s k = (case fmlookup s k of None \<Rightarrow> Inl NotFound | Some x \<Rightarrow> Inr x)"

definition store_client :: "('o \<Rightarrow> object_key) \<Rightarrow> ((object_key, 'o) fmap, 'o) client" where
  "store_client key =
     \<lparr>api_Get = store_Get, api_Live = store_Get,
      api_List = (\<lambda>s ns. Inr (map snd (filter (\<lambda>(k, _). fst k = ns) (sorted_list_of_fmap s)))),
      api_Create = (\<lambda>s x. if key x |\<in>| fmdom s then (Some AlreadyExists, s) else (None, fmupd (key x) x s)),
      api_Update = (\<lambda>s x. if key x |\<in>| fmdom s then (None, fmupd (key x) x s) else (Some NotFound, s)),
      api_Patch = (\<lambda>s b x. if key x |\<in>| fmdom s then (None, fmupd (key x) x s) else (Some NotFound, s)),
      api_StatusPatch = (\<lambda>s b x. if key x |\<in>| fmdom s then (None, fmupd (key x) x s) else (Some NotFound, s)),
      api_Apply = (\<lambda>s x. (None, fmupd (key x) x s)),
      api_Delete = (\<lambda>s k. if k |\<in>| fmdom s then (None, fmdrop k s) else (Some NotFound, s))\<rparr>"

text \<open>A read-only view of given objects.\<close>

definition fixed_client :: "(object_key \<Rightarrow> (api_error, 'o) result) \<Rightarrow> 'o list \<Rightarrow> ('s, 'o) client" where
  "fixed_client f xs =
     \<lparr>api_Get = (\<lambda>s. f), api_Live = (\<lambda>s. f), api_List = (\<lambda>s ns. Inr xs),
      api_Create = (\<lambda>s x. (Some (ApiFailed ''read-only''), s)),
      api_Update = (\<lambda>s x. (Some (ApiFailed ''read-only''), s)),
      api_Patch = (\<lambda>s b x. (Some (ApiFailed ''read-only''), s)),
      api_StatusPatch = (\<lambda>s b x. (Some (ApiFailed ''read-only''), s)),
      api_Apply = (\<lambda>s x. (Some (ApiFailed ''read-only''), s)),
      api_Delete = (\<lambda>s k. (Some (ApiFailed ''read-only''), s))\<rparr>"

lemma fixed_client_simps [simp]:
  "api_Get (fixed_client f xs) s = f" "api_Live (fixed_client f xs) s = f"
  "api_List (fixed_client f xs) s ns = Inr xs"
  by (simp_all add: fixed_client_def)

lemma store_client_simps [simp]:
  "api_Get (store_client key) = store_Get"
  "api_Live (store_client key) = store_Get"
  "api_Create (store_client key) s x = (if key x |\<in>| fmdom s then (Some AlreadyExists, s) else (None, fmupd (key x) x s))"
  "api_Update (store_client key) s x = (if key x |\<in>| fmdom s then (None, fmupd (key x) x s) else (Some NotFound, s))"
  "api_Patch (store_client key) s b x = (if key x |\<in>| fmdom s then (None, fmupd (key x) x s) else (Some NotFound, s))"
  "api_StatusPatch (store_client key) s b x = (if key x |\<in>| fmdom s then (None, fmupd (key x) x s) else (Some NotFound, s))"
  "api_Apply (store_client key) s x = (None, fmupd (key x) x s)"
  "api_Delete (store_client key) s k = (if k |\<in>| fmdom s then (None, fmdrop k s) else (Some NotFound, s))"
  by (simp_all add: store_client_def)

lemma store_Get_simps [simp]:
  "store_Get (fmupd k x s) k' = (if k = k' then Inr x else store_Get s k')"
  "store_Get fmempty k = Inl NotFound"
  by (simp_all add: store_Get_def)

lemma store_client_ok: "client_ok (store_client key) key content"
  by (simp add: client_ok_def writes_def stores_def)

fun upsert_condition :: "Condition list \<Rightarrow> Condition \<Rightarrow> Condition list" where
  "upsert_condition [] c = [c]"
| "upsert_condition (d # ds) c =
     (if co_Type d = co_Type c
      then (if co_Status d = co_Status c then c\<lparr>co_LastTransitionTime := co_LastTransitionTime d\<rparr> else c) # ds
      else d # upsert_condition ds c)"

definition sample_kube :: kube where
  "sample_kube =
     \<lparr>GetControllerOf = (\<lambda>m. find ow_Controller (m_OwnerReferences m)),
      SetControllerReference = (\<lambda>own m.
        if find ow_Controller (m_OwnerReferences m) = None
        then Inr (m\<lparr>m_OwnerReferences :=
               m_OwnerReferences m @ [\<lparr>ow_Name = m_Name own, ow_UID = m_UID own, ow_Controller = True\<rparr>]\<rparr>)
        else Inl ''already owned''),
      SetStatusCondition = upsert_condition\<rparr>"

lemma sample_kube_owners: "owners_ok sample_kube"
  by (auto simp: owners_ok_def sample_kube_def controller_uid_def)

lemma upsert_condition_find:
  "\<exists>t. find (\<lambda>d. co_Type d = co_Type c) (upsert_condition cs c) = Some (c\<lparr>co_LastTransitionTime := t\<rparr>)"
proof (induction cs)
  case Nil
  show ?case by (rule exI[of _ "co_LastTransitionTime c"]) simp
next
  case (Cons d ds)
  show ?case
  proof (cases "co_Type d = co_Type c \<and> co_Status d \<noteq> co_Status c")
    case True
    then show ?thesis by (intro exI[of _ "co_LastTransitionTime c"]) simp
  next
    case False
    with Cons.IH show ?thesis by auto
  qed
qed

lemma sample_kube_conditions: "conditions_ok sample_kube"
proof -
  have "find (\<lambda>d. co_Type d = t) (upsert_condition cs c) = find (\<lambda>d. co_Type d = t) cs"
    if "t \<noteq> co_Type c" for cs t c
    using that by (induction cs) auto
  moreover have "upsert_condition (upsert_condition cs c) c = upsert_condition cs c" for cs c
    by (induction cs) auto
  ultimately show ?thesis
    using upsert_condition_find
    by (simp add: conditions_ok_def sample_kube_def FindStatusCondition_def)
qed

end
