(* ===== verification/Api.thy ===== *)
theory Api
  imports Kube
begin

text \<open>
  The custom resources of \<open>api/v1alpha1\<close>: consoles, users and access requests, with the
  label keys, condition types and reasons the operator writes. A pointer field is an option;
  a duration is in nanoseconds; a string type with named constants stays a string, since
  stored objects may hold values outside the declared set.
\<close>

section \<open>Labels and annotations\<close>

definition ManagedByLabelValue :: string where "ManagedByLabelValue = ''pgtoolbox''"
definition PgConsoleLabelKey :: string where "PgConsoleLabelKey = ''pgtoolbox.fyannk.dev/pgconsole''"
definition PgToolBoxUserLabelKey :: string where "PgToolBoxUserLabelKey = ''pgtoolbox.fyannk.dev/pgtoolboxuser''"
definition ConfigChecksumAnnotation :: string where "ConfigChecksumAnnotation = ''pgtoolbox.fyannk.dev/config-checksum''"
definition AdminSyncSecretVersionAnnotation :: string where "AdminSyncSecretVersionAnnotation = ''pgtoolbox.fyannk.dev/admin-sync-secret-version''"
definition PgAdminSyncRevisionAnnotation :: string where "PgAdminSyncRevisionAnnotation = ''pgtoolbox.fyannk.dev/pgadmin-sync-revision''"
definition EvidenceTokenLabelKey :: string where "EvidenceTokenLabelKey = ''pgtoolbox.fyannk.dev/evidence-token''"
definition RotateEvidenceTokenAnnotation :: string where "RotateEvidenceTokenAnnotation = ''pgtoolbox.fyannk.dev/rotate-evidence-token''"
definition ReconcileAnnotation :: string where "ReconcileAnnotation = ''pgtoolbox.fyannk.dev/reconcile''"
definition PgConsoleFinalizer :: string where "PgConsoleFinalizer = ''pgtoolbox.fyannk.dev/pgconsole''"
definition PgToolBoxUserFinalizer :: string where "PgToolBoxUserFinalizer = ''pgtoolbox.fyannk.dev/pgtoolboxuser''"

lemmas api_key_defs =
  ManagedByLabelValue_def PgConsoleLabelKey_def PgToolBoxUserLabelKey_def
  ConfigChecksumAnnotation_def AdminSyncSecretVersionAnnotation_def PgAdminSyncRevisionAnnotation_def
  EvidenceTokenLabelKey_def RotateEvidenceTokenAnnotation_def ReconcileAnnotation_def
  PgConsoleFinalizer_def PgToolBoxUserFinalizer_def

section \<open>Shared types\<close>

record LocalObjectReference =
  lor_Name :: string

record SecretKeyReference =
  skr_Name :: string
  skr_Key :: string

record ImageSpec =
  im_Repository :: string
  im_Tag :: string
  im_Digest :: string
  im_PullPolicy :: string
  im_PullSecrets :: "LocalObjectReference list"

definition ExposureTypeClusterIP :: string where "ExposureTypeClusterIP = ''clusterIP''"
definition ExposureTypeRoute :: string where "ExposureTypeRoute = ''route''"
definition ExposureTypeIngress :: string where "ExposureTypeIngress = ''ingress''"
definition ExposureTypeGateway :: string where "ExposureTypeGateway = ''gateway''"

lemmas exposure_type_defs =
  ExposureTypeClusterIP_def ExposureTypeRoute_def ExposureTypeIngress_def
  ExposureTypeGateway_def

record ExposureTLSSpec =
  tls_Termination :: string
  tls_CertificateSecretRef :: "LocalObjectReference option"

record GatewayParentRef =
  gp_Name :: string
  gp_Namespace :: string
  gp_SectionName :: string

record GatewayExposureSpec =
  gw_ParentRef :: GatewayParentRef

record ExposureSpec =
  ex_Type :: string
  ex_Hostname :: string
  ex_TLS :: "ExposureTLSSpec option"
  ex_IngressClassName :: string
  ex_Gateway :: "GatewayExposureSpec option"
  ex_Annotations :: smap
  ex_Labels :: smap

definition NetworkPolicyTypesFull :: string where "NetworkPolicyTypesFull = ''full''"
definition NetworkPolicyTypesIngress :: string where "NetworkPolicyTypesIngress = ''ingress''"

lemmas policy_type_defs =
  NetworkPolicyTypesFull_def NetworkPolicyTypesIngress_def

text \<open>
  The parts of a NetworkPolicy rule the operator writes itself. A user's extra egress rule is
  passed through unread, so it may carry anything in \<open>eg_Other\<close>.
\<close>

record NetworkPolicyPort =
  npp_Protocol :: "string option"
  npp_Port :: "int option"

record NetworkPolicyPeer =
  npe_PodSelector :: "smap option"
  npe_NamespaceSelector :: "smap option"

record NetworkPolicyEgressRule =
  eg_Ports :: "NetworkPolicyPort list"
  eg_To :: "NetworkPolicyPeer list"
  eg_Other :: string

record NetworkPolicySpec =
  np_Enabled :: "bool option"
  np_PolicyTypes :: string
  np_ExtraEgress :: "NetworkPolicyEgressRule list"

definition RoleLevelView :: string where "RoleLevelView = ''view''"
definition RoleLevelPowerUser :: string where "RoleLevelPowerUser = ''poweruser''"
definition RoleLevelDBA :: string where "RoleLevelDBA = ''dba''"

lemmas role_level_defs =
  RoleLevelView_def RoleLevelPowerUser_def RoleLevelDBA_def

section \<open>Consoles\<close>

record BootstrapAdminSpec =
  ba_Subject :: string
  ba_PasswordSecretRef :: "SecretKeyReference option"

datatype ProxyLocalSpec = ProxyLocalSpec
datatype ProxyOpenShiftSpec = ProxyOpenShiftSpec

record ProxyOIDCSpec =
  po_IssuerURL :: string
  po_ClientID :: string
  po_ClientSecretRef :: SecretKeyReference

record ProxyAuthenticationSpec =
  au_BootstrapAdmin :: BootstrapAdminSpec
  au_Local :: "ProxyLocalSpec option"
  au_OIDC :: "ProxyOIDCSpec option"
  au_OpenShift :: "ProxyOpenShiftSpec option"

record ProxySpec =
  px_Image :: "ImageSpec option"
  px_Authentication :: ProxyAuthenticationSpec
  px_Resources :: ResourceRequirements

record PgAdminStorageSpec =
  sg_Size :: string
  sg_StorageClass :: string

record PgAdminSpec =
  pa_Enabled :: "bool option"
  pa_Image :: "ImageSpec option"
  pa_AccessMinLevel :: string
  pa_Storage :: PgAdminStorageSpec
  pa_Resources :: ResourceRequirements

record PodSecurityContextSpec =
  ps_FSGroup :: "int option"

record ConsoleLogTailSpec =
  lt_Lines :: "int option"
  lt_MaxBytes :: "int option"

record ConsoleMetricsSpec =
  mt_Enabled :: "bool option"
  mt_Interval :: "int option"
  mt_Retention :: "int option"

record ConsoleHistorySpec =
  hi_Enabled :: "bool option"
  hi_MaxRevisions :: "int option"
  hi_MaxBytes :: "int option"
  hi_PerObjectRevisions :: "int option"
  hi_CoalesceWindow :: "int option"

record ConsoleSpec =
  cs_AllowOperations :: "bool option"
  cs_AllowLogs :: "bool option"
  cs_AllowAccessReview :: "bool option"
  cs_AllowClusterCatalogs :: "bool option"
  cs_AllowInsecureLinks :: "bool option"
  cs_MonitoringURL :: string
  cs_APIRequestTimeout :: "int option"
  cs_EventsMaxAge :: "int option"
  cs_LogTail :: ConsoleLogTailSpec
  cs_Metrics :: ConsoleMetricsSpec
  cs_History :: ConsoleHistorySpec

record EvidenceSpec =
  ev_Enabled :: "bool option"
  ev_Image :: "ImageSpec option"
  ev_Resources :: ResourceRequirements

record PgConsoleSpec =
  sp_CNPGClusterRef :: LocalObjectReference
  sp_Image :: "ImageSpec option"
  sp_Proxy :: ProxySpec
  sp_PgAdmin :: PgAdminSpec
  sp_Console :: ConsoleSpec
  sp_Evidence :: EvidenceSpec
  sp_Exposure :: ExposureSpec
  sp_NetworkPolicy :: NetworkPolicySpec
  sp_PodSecurityContext :: PodSecurityContextSpec
  sp_Resources :: ResourceRequirements

record UserSyncStatus =
  uy_Desired :: int
  uy_Synced :: int
  uy_Degraded :: int

record EvidenceStatus =
  es_Enabled :: bool
  es_TokenSecretName :: string

record PgConsoleStatus =
  ct_ObservedGeneration :: int
  ct_URL :: string
  ct_ConfigRevision :: string
  ct_UserSync :: UserSyncStatus
  ct_Evidence :: EvidenceStatus
  ct_Conditions :: "Condition list"

record PgConsole =
  con_Meta :: ObjectMeta
  con_Spec :: PgConsoleSpec
  con_Status :: PgConsoleStatus

abbreviation con_Name :: "PgConsole \<Rightarrow> string" where
  "con_Name c \<equiv> m_Name (con_Meta c)"

abbreviation con_Namespace :: "PgConsole \<Rightarrow> string" where
  "con_Namespace c \<equiv> m_Namespace (con_Meta c)"

abbreviation con_UID :: "PgConsole \<Rightarrow> string" where
  "con_UID c \<equiv> m_UID (con_Meta c)"

abbreviation con_auth :: "PgConsole \<Rightarrow> ProxyAuthenticationSpec" where
  "con_auth c \<equiv> px_Authentication (sp_Proxy (con_Spec c))"

section \<open>Users\<close>

record PgToolBoxUserSpec =
  tu_PgConsoleRef :: LocalObjectReference
  tu_Subject :: string
  tu_Level :: string
  tu_LocalPasswordSecretRef :: "SecretKeyReference option"

record PgToolBoxUserStatus =
  tt_ObservedGeneration :: int
  tt_ProxySynced :: bool
  tt_Conditions :: "Condition list"

record PgToolBoxUser =
  usr_Meta :: ObjectMeta
  usr_Spec :: PgToolBoxUserSpec
  usr_Status :: PgToolBoxUserStatus

abbreviation usr_Name :: "PgToolBoxUser \<Rightarrow> string" where
  "usr_Name u \<equiv> m_Name (usr_Meta u)"

definition new_user_status :: PgToolBoxUserStatus where
  "new_user_status = \<lparr>tt_ObservedGeneration = 0, tt_ProxySynced = False, tt_Conditions = []\<rparr>"

text \<open>A user object's identity, and what of it the API server stores as written.\<close>

definition user_key :: "PgToolBoxUser \<Rightarrow> object_key" where
  "user_key u = key_of (usr_Meta u)"

definition user_content :: "PgToolBoxUser \<Rightarrow> PgToolBoxUserSpec \<times> smap \<times> OwnerReference list" where
  "user_content u = (usr_Spec u, m_Labels (usr_Meta u), m_OwnerReferences (usr_Meta u))"

section \<open>Access requests\<close>

definition AccessRequestStatePending :: string where "AccessRequestStatePending = ''pending''"
definition AccessRequestStateApproved :: string where "AccessRequestStateApproved = ''approved''"
definition AccessRequestStateDenied :: string where "AccessRequestStateDenied = ''denied''"

lemmas request_state_defs =
  AccessRequestStatePending_def AccessRequestStateApproved_def AccessRequestStateDenied_def

record PgToolBoxAccessRequestSpec =
  rq_PgConsoleRef :: LocalObjectReference
  rq_Subject :: string
  rq_Message :: string

record PgToolBoxAccessRequestStatus =
  rt_ObservedGeneration :: int
  rt_State :: string
  rt_RequestedLevel :: string
  rt_DecidedBy :: string
  rt_DecidedAt :: "int option"
  rt_Conditions :: "Condition list"

record PgToolBoxAccessRequest =
  req_Meta :: ObjectMeta
  req_Spec :: PgToolBoxAccessRequestSpec
  req_Status :: PgToolBoxAccessRequestStatus

section \<open>Condition types and reasons\<close>

definition PgConsoleConditionReady :: string where "PgConsoleConditionReady = ''Ready''"
definition PgConsoleConditionProgressing :: string where "PgConsoleConditionProgressing = ''Progressing''"
definition PgConsoleConditionConfigurationValid :: string where "PgConsoleConditionConfigurationValid = ''ConfigurationValid''"
definition PgConsoleConditionRouteReady :: string where "PgConsoleConditionRouteReady = ''RouteReady''"
definition PgConsoleConditionRepositoryEvidenceReady :: string where "PgConsoleConditionRepositoryEvidenceReady = ''RepositoryEvidenceReady''"
definition PgConsoleConditionProxyConfigReady :: string where "PgConsoleConditionProxyConfigReady = ''ProxyConfigReady''"
definition PgConsoleConditionClusterReady :: string where "PgConsoleConditionClusterReady = ''ClusterReady''"
definition PgConsoleConditionPgAdminSynced :: string where "PgConsoleConditionPgAdminSynced = ''PgAdminSynced''"
definition UserConditionReady :: string where "UserConditionReady = ''Ready''"
definition UserConditionProxySynced :: string where "UserConditionProxySynced = ''ProxySynced''"
definition AccessRequestConditionDecided :: string where "AccessRequestConditionDecided = ''Decided''"
definition AccessRequestConditionUserReady :: string where "AccessRequestConditionUserReady = ''UserReady''"

lemmas condition_type_defs =
  PgConsoleConditionReady_def PgConsoleConditionProgressing_def PgConsoleConditionConfigurationValid_def
  PgConsoleConditionRouteReady_def PgConsoleConditionRepositoryEvidenceReady_def PgConsoleConditionProxyConfigReady_def
  PgConsoleConditionClusterReady_def PgConsoleConditionPgAdminSynced_def UserConditionReady_def
  UserConditionProxySynced_def AccessRequestConditionDecided_def AccessRequestConditionUserReady_def

definition ReasonAsExpected :: string where "ReasonAsExpected = ''AsExpected''"
definition ReasonReconciling :: string where "ReasonReconciling = ''Reconciling''"
definition ReasonReconciliationSkipped :: string where "ReasonReconciliationSkipped = ''ReconciliationSkipped''"
definition ReasonRolloutInProgress :: string where "ReasonRolloutInProgress = ''RolloutInProgress''"
definition ReasonRolloutStuck :: string where "ReasonRolloutStuck = ''RolloutStuck''"
definition ReasonConfigurationInvalid :: string where "ReasonConfigurationInvalid = ''ConfigurationInvalid''"
definition ReasonSecretNotFound :: string where "ReasonSecretNotFound = ''SecretNotFound''"
definition ReasonSecretKeyMissing :: string where "ReasonSecretKeyMissing = ''SecretKeyMissing''"
definition ReasonSecretFormatInvalid :: string where "ReasonSecretFormatInvalid = ''SecretFormatInvalid''"
definition ReasonRenderFailed :: string where "ReasonRenderFailed = ''RenderFailed''"
definition ReasonNotAdmitted :: string where "ReasonNotAdmitted = ''NotAdmitted''"
definition ReasonNotAccepted :: string where "ReasonNotAccepted = ''NotAccepted''"
definition ReasonGatewayNotFound :: string where "ReasonGatewayNotFound = ''GatewayNotFound''"
definition ReasonHostnameConflict :: string where "ReasonHostnameConflict = ''HostnameConflict''"
definition ReasonNotRequested :: string where "ReasonNotRequested = ''NotRequested''"
definition ReasonAllApplied :: string where "ReasonAllApplied = ''AllApplied''"
definition ReasonSomeDegraded :: string where "ReasonSomeDegraded = ''SomeDegraded''"
definition ReasonNoneConfigured :: string where "ReasonNoneConfigured = ''NoneConfigured''"
definition ReasonPgConsoleNotFound :: string where "ReasonPgConsoleNotFound = ''PgConsoleNotFound''"
definition ReasonClusterNotFound :: string where "ReasonClusterNotFound = ''ClusterNotFound''"
definition ReasonClusterNotReady :: string where "ReasonClusterNotReady = ''ClusterNotReady''"
definition ReasonRoleNotFound :: string where "ReasonRoleNotFound = ''RoleNotFound''"
definition ReasonCredentialLost :: string where "ReasonCredentialLost = ''CredentialLost''"
definition ReasonDatabaseRolePending :: string where "ReasonDatabaseRolePending = ''DatabaseRolePending''"
definition ReasonDatabaseRoleFailed :: string where "ReasonDatabaseRoleFailed = ''DatabaseRoleFailed''"
definition ReasonPendingRollout :: string where "ReasonPendingRollout = ''PendingRollout''"
definition ReasonSyncFailed :: string where "ReasonSyncFailed = ''SyncFailed''"
definition ReasonCNPGAPIMissing :: string where "ReasonCNPGAPIMissing = ''CNPGAPIMissing''"
definition ReasonDatabaseRoleAPIMissing :: string where "ReasonDatabaseRoleAPIMissing = ''DatabaseRoleAPIMissing''"
definition ReasonPending :: string where "ReasonPending = ''Pending''"
definition ReasonApproved :: string where "ReasonApproved = ''Approved''"
definition ReasonDenied :: string where "ReasonDenied = ''Denied''"
definition ReasonEvidenceDisabled :: string where "ReasonEvidenceDisabled = ''EvidenceDisabled''"
definition ReasonImageRequired :: string where "ReasonImageRequired = ''ImageRequired''"
definition ReasonObjectStoreNotFound :: string where "ReasonObjectStoreNotFound = ''ObjectStoreNotFound''"
definition ReasonUnsupportedCredentialMode :: string where "ReasonUnsupportedCredentialMode = ''UnsupportedCredentialMode''"
definition ReasonUnsupportedAuthMode :: string where "ReasonUnsupportedAuthMode = ''UnsupportedAuthMode''"

lemmas reason_defs =
  ReasonAsExpected_def ReasonReconciling_def ReasonReconciliationSkipped_def
  ReasonRolloutInProgress_def ReasonRolloutStuck_def ReasonConfigurationInvalid_def
  ReasonSecretNotFound_def ReasonSecretKeyMissing_def ReasonSecretFormatInvalid_def
  ReasonRenderFailed_def ReasonNotAdmitted_def ReasonNotAccepted_def
  ReasonGatewayNotFound_def ReasonHostnameConflict_def ReasonNotRequested_def
  ReasonAllApplied_def ReasonSomeDegraded_def ReasonNoneConfigured_def
  ReasonPgConsoleNotFound_def ReasonClusterNotFound_def ReasonClusterNotReady_def
  ReasonRoleNotFound_def ReasonCredentialLost_def ReasonDatabaseRolePending_def
  ReasonDatabaseRoleFailed_def ReasonPendingRollout_def ReasonSyncFailed_def
  ReasonCNPGAPIMissing_def ReasonDatabaseRoleAPIMissing_def ReasonPending_def
  ReasonApproved_def ReasonDenied_def ReasonEvidenceDisabled_def
  ReasonImageRequired_def ReasonObjectStoreNotFound_def ReasonUnsupportedCredentialMode_def
  ReasonUnsupportedAuthMode_def

section \<open>A console for the witnesses\<close>

definition no_resources :: ResourceRequirements where
  "no_resources = \<lparr>rr_Limits = fmempty, rr_Requests = fmempty\<rparr>"

definition default_console_spec :: ConsoleSpec where
  "default_console_spec =
     \<lparr>cs_AllowOperations = None, cs_AllowLogs = None, cs_AllowAccessReview = None,
      cs_AllowClusterCatalogs = None, cs_AllowInsecureLinks = None, cs_MonitoringURL = [],
      cs_APIRequestTimeout = None, cs_EventsMaxAge = None,
      cs_LogTail = \<lparr>lt_Lines = None, lt_MaxBytes = None\<rparr>,
      cs_Metrics = \<lparr>mt_Enabled = None, mt_Interval = None, mt_Retention = None\<rparr>,
      cs_History = \<lparr>hi_Enabled = None, hi_MaxRevisions = None, hi_MaxBytes = None,
                    hi_PerObjectRevisions = None, hi_CoalesceWindow = None\<rparr>\<rparr>"

definition sample_spec :: PgConsoleSpec where
  "sample_spec =
     \<lparr>sp_CNPGClusterRef = \<lparr>lor_Name = ''main''\<rparr>, sp_Image = None,
      sp_Proxy = \<lparr>px_Image = None,
        px_Authentication =
          \<lparr>au_BootstrapAdmin = \<lparr>ba_Subject = ''Jane'',
              ba_PasswordSecretRef = Some \<lparr>skr_Name = ''jane'', skr_Key = []\<rparr>\<rparr>,
           au_Local = Some ProxyLocalSpec, au_OIDC = None, au_OpenShift = None\<rparr>,
        px_Resources = no_resources\<rparr>,
      sp_PgAdmin = \<lparr>pa_Enabled = None, pa_Image = None, pa_AccessMinLevel = [],
        pa_Storage = \<lparr>sg_Size = [], sg_StorageClass = []\<rparr>, pa_Resources = no_resources\<rparr>,
      sp_Console = default_console_spec,
      sp_Evidence = \<lparr>ev_Enabled = None, ev_Image = None, ev_Resources = no_resources\<rparr>,
      sp_Exposure = \<lparr>ex_Type = ExposureTypeClusterIP, ex_Hostname = [], ex_TLS = None,
        ex_IngressClassName = [], ex_Gateway = None, ex_Annotations = fmempty, ex_Labels = fmempty\<rparr>,
      sp_NetworkPolicy = \<lparr>np_Enabled = None, np_PolicyTypes = [], np_ExtraEgress = []\<rparr>,
      sp_PodSecurityContext = \<lparr>ps_FSGroup = None\<rparr>, sp_Resources = no_resources\<rparr>"

definition sample_console :: PgConsole where
  "sample_console =
     \<lparr>con_Meta = (new_meta ''pg'' ''db'' fmempty)\<lparr>m_UID := ''u1'', m_Generation := 1\<rparr>,
      con_Spec = sample_spec,
      con_Status = \<lparr>ct_ObservedGeneration = 0, ct_URL = [], ct_ConfigRevision = [],
        ct_UserSync = \<lparr>uy_Desired = 0, uy_Synced = 0, uy_Degraded = 0\<rparr>,
        ct_Evidence = \<lparr>es_Enabled = False, es_TokenSecretName = []\<rparr>, ct_Conditions = []\<rparr>\<rparr>"

lemma sample_console_simps [simp]:
  "con_Name sample_console = ''pg''" "con_Namespace sample_console = ''db''"
  "con_UID sample_console = ''u1''" "m_Generation (con_Meta sample_console) = 1"
  "con_Spec sample_console = sample_spec"
  by (simp_all add: sample_console_def)

end
