(* ===== verification/Shared.thy ===== *)
theory Shared
  imports Api
begin

text \<open>
  Plumbing shared by the reconcilers (\<open>internal/controller/shared\<close>): the identity of the
  application, bounded object names, labels, user metadata overlays, ownership tests and the
  reading of credential Secrets.
\<close>

section \<open>Model\<close>

definition reservedKeyPrefix :: string where "reservedKeyPrefix = ''pgtoolbox.fyannk.dev/''"

definition FilteredOverlay :: "smap \<Rightarrow> smap" where
  "FilteredOverlay values = fmfilter (\<lambda>key. \<not> HasPrefix key reservedKeyPrefix) values"

definition maxResourceNameLength :: nat where "maxResourceNameLength = 63"
definition truncatedNameStem :: nat where "truncatedNameStem = 54"

definition BoundedName :: "golib \<Rightarrow> string \<Rightarrow> string \<Rightarrow> string" where
  "BoundedName G base suffix' =
     (let fullName = base @ suffix' in
      if length fullName \<le> maxResourceNameLength then fullName
      else take truncatedNameStem fullName @ ''-'' @ hex_EncodeToString (take 4 (sha256_Sum256 G fullName)))"

record Application =
  ap_Name :: string
  ap_ResourceInfix :: string
  ap_InstanceLabelKey :: string
  ap_Finalizer :: string

definition PgConsoleApplication :: Application where
  "PgConsoleApplication =
     \<lparr>ap_Name = ''pgconsole'', ap_ResourceInfix = ''-pgconsole'',
      ap_InstanceLabelKey = PgConsoleLabelKey, ap_Finalizer = PgConsoleFinalizer\<rparr>"

definition ResourceName :: "golib \<Rightarrow> Application \<Rightarrow> string \<Rightarrow> string \<Rightarrow> string" where
  "ResourceName G a instance' suffix' = BoundedName G instance' (ap_ResourceInfix a @ suffix')"

definition CommonLabels :: "Application \<Rightarrow> string \<Rightarrow> smap" where
  "CommonLabels a instance' =
     fmupd (ap_InstanceLabelKey a) instance'
       (fmupd ''app.kubernetes.io/managed-by'' ManagedByLabelValue
         (fmupd ''app.kubernetes.io/instance'' instance'
           (fmupd ''app.kubernetes.io/name'' (ap_Name a) fmempty)))"

definition SelectorLabels :: "Application \<Rightarrow> string \<Rightarrow> smap" where
  "SelectorLabels a instance' =
     fmupd ''app.kubernetes.io/instance'' instance'
       (fmupd ''app.kubernetes.io/name'' (ap_Name a) fmempty)"

text \<open>\<open>application\<close>, the identity the console reconciler uses throughout.\<close>

abbreviation application :: Application where
  "application \<equiv> PgConsoleApplication"

record BasicAuthCredential =
  bc_Username :: string
  bc_Password :: string
  bc_ResourceVersion :: string

datatype secret_error = SecretReadFailed api_error | SecretFormatError object_key

definition has_line_break :: "string \<Rightarrow> bool" where
  "has_line_break s = (CR \<in> set s \<or> NL \<in> set s)"

definition ReadCredential ::
  "(object_key \<Rightarrow> (api_error, Secret) result) \<Rightarrow> object_key \<Rightarrow> string \<Rightarrow> string
   \<Rightarrow> (secret_error, BasicAuthCredential) result" where
  "ReadCredential reader key usernameKey passwordKey =
     (let usernameKey = (if usernameKey = [] then ''username'' else usernameKey);
          passwordKey = (if passwordKey = [] then ''password'' else passwordKey) in
      case reader key of
        Inl e \<Rightarrow> Inl (SecretReadFailed e)
      | Inr secret \<Rightarrow>
          (let username = at (se_Data secret) usernameKey; password = at (se_Data secret) passwordKey in
           if username = [] \<or> password = [] \<or> has_line_break username \<or> has_line_break password
           then Inl (SecretFormatError key)
           else Inr \<lparr>bc_Username = username, bc_Password = password,
                     bc_ResourceVersion = m_ResourceVersion (se_Meta secret)\<rparr>))"

definition ReadBasicAuthCredential ::
  "(object_key \<Rightarrow> (api_error, Secret) result) \<Rightarrow> object_key \<Rightarrow> (secret_error, BasicAuthCredential) result" where
  "ReadBasicAuthCredential reader key = ReadCredential reader key ''username'' ''password''"

definition ReadLocalPasswordHash ::
  "golib \<Rightarrow> (object_key \<Rightarrow> (api_error, Secret) result) \<Rightarrow> object_key \<Rightarrow> string
   \<Rightarrow> (secret_error, string \<times> string) result" where
  "ReadLocalPasswordHash G reader secretKey key =
     (let key = (if key = [] then ''password'' else key) in
      case reader secretKey of
        Inl e \<Rightarrow> Inl (SecretReadFailed e)
      | Inr secret \<Rightarrow>
          (let hash = at (se_Data secret) key in
           if hash = [] \<or> has_line_break hash then Inl (SecretFormatError secretKey)
           else if \<not> bcrypt_CostOk G hash then Inl (SecretFormatError secretKey)
           else Inr (hash, m_ResourceVersion (se_Meta secret))))"

definition ControllerOwnerMatches :: "kube \<Rightarrow> ObjectMeta \<Rightarrow> ObjectMeta \<Rightarrow> bool" where
  "ControllerOwnerMatches K existing desired =
     (case (GetControllerOf K existing, GetControllerOf K desired) of
        (Some a, Some b) \<Rightarrow> ow_UID a = ow_UID b
      | _ \<Rightarrow> False)"

definition LabelsContain :: "smap \<Rightarrow> smap \<Rightarrow> bool" where
  "LabelsContain existing desired = fmpred (\<lambda>key value. at existing key = value) desired"

section \<open>Names\<close>

lemma append_same_length: "a @ x = b @ y \<Longrightarrow> length a = length b \<Longrightarrow> a = b \<and> x = y"
  by simp

lemma BoundedName_short:
  "length (b @ s) \<le> 63 \<Longrightarrow> BoundedName G b s = b @ s"
  by (simp add: BoundedName_def maxResourceNameLength_def)

lemma BoundedName_long:
  "63 < length (b @ s) \<Longrightarrow>
     BoundedName G b s = take 54 (b @ s) @ ''-'' @ hex_EncodeToString (take 4 (sha256_Sum256 G (b @ s)))"
  by (simp add: BoundedName_def maxResourceNameLength_def truncatedNameStem_def Let_def)

lemma BoundedName_length: "length (BoundedName G b s) \<le> 63"
proof (cases "length (b @ s) \<le> 63")
  case True
  then show ?thesis by (simp only: BoundedName_short)
next
  case False
  then show ?thesis by (simp add: BoundedName_long)
qed

lemma ReadLocalPasswordHash_Inr:
  assumes "ReadLocalPasswordHash G reader k key = Inr (h, v)"
  shows "h \<noteq> [] \<and> \<not> has_line_break h \<and> bcrypt_CostOk G h
         \<and> (\<exists>secret. reader k = Inr secret \<and> at (se_Data secret) (if key = [] then ''password'' else key) = h)"
  using assms by (auto simp: ReadLocalPasswordHash_def Let_def split: sum.splits if_splits)

lemma at_FilteredOverlay:
  "at (FilteredOverlay m) k = (if HasPrefix k reservedKeyPrefix then [] else at m k)"
  by (simp add: FilteredOverlay_def at_def)

lemma LabelsContain_refl: "LabelsContain m m"
  by (auto simp: LabelsContain_def at_def intro!: fmpredI)

lemma LabelsContain_iff:
  "LabelsContain e d \<longleftrightarrow> (\<forall>k v. fmlookup d k = Some v \<longrightarrow> at e k = v)"
  by (auto simp: LabelsContain_def fmpred_iff)

lemma ControllerOwnerMatches_iff:
  "ControllerOwnerMatches K e d \<longleftrightarrow> controller_uid K e \<noteq> None \<and> controller_uid K e = controller_uid K d"
  by (auto simp: ControllerOwnerMatches_def controller_uid_def split: option.splits)

section \<open>Properties\<close>

text \<open>
  generated names obey the Kubernetes limit and stay apart. Every resource name fits 63
  bytes; a name that fits is the plain concatenation; and two instances or suffixes whose
  full names differ can only share a bounded name when one of the full names is longer than
  the limit, and then, if both are, only when they agree on the first 54 bytes and on the
  four digest bytes.
\<close>

theorem resource_names:
  "length (ResourceName G a i s) \<le> 63
   \<and> (length (i @ ap_ResourceInfix a @ s) \<le> 63 \<longrightarrow> ResourceName G a i s = i @ ap_ResourceInfix a @ s)
   \<and> (ResourceName G a i s = ResourceName G a i' s' \<longrightarrow>
        i @ ap_ResourceInfix a @ s = i' @ ap_ResourceInfix a @ s'
        \<or> 63 < length (i @ ap_ResourceInfix a @ s) \<or> 63 < length (i' @ ap_ResourceInfix a @ s'))
   \<and> (ResourceName G a i s = ResourceName G a i' s'
        \<and> 63 < length (i @ ap_ResourceInfix a @ s) \<and> 63 < length (i' @ ap_ResourceInfix a @ s') \<longrightarrow>
        take 54 (i @ ap_ResourceInfix a @ s) = take 54 (i' @ ap_ResourceInfix a @ s')
        \<and> take 4 (sha256_Sum256 G (i @ ap_ResourceInfix a @ s))
          = take 4 (sha256_Sum256 G (i' @ ap_ResourceInfix a @ s')))"
proof (intro conjI impI)
  show "length (ResourceName G a i s) \<le> 63" by (simp only: ResourceName_def BoundedName_length)
  show "ResourceName G a i s = i @ ap_ResourceInfix a @ s" if "length (i @ ap_ResourceInfix a @ s) \<le> 63"
    unfolding ResourceName_def using that by (rule BoundedName_short)
  show "i @ ap_ResourceInfix a @ s = i' @ ap_ResourceInfix a @ s'
      \<or> 63 < length (i @ ap_ResourceInfix a @ s) \<or> 63 < length (i' @ ap_ResourceInfix a @ s')"
    if "ResourceName G a i s = ResourceName G a i' s'"
    using that BoundedName_short[of i "ap_ResourceInfix a @ s" G]
      BoundedName_short[of i' "ap_ResourceInfix a @ s'" G]
    unfolding ResourceName_def by (metis not_less)
  assume long: "ResourceName G a i s = ResourceName G a i' s'
      \<and> 63 < length (i @ ap_ResourceInfix a @ s) \<and> 63 < length (i' @ ap_ResourceInfix a @ s')"
  let ?f = "i @ ap_ResourceInfix a @ s" and ?f' = "i' @ ap_ResourceInfix a @ s'"
  have "take 54 ?f @ ''-'' @ hex_EncodeToString (take 4 (sha256_Sum256 G ?f))
      = take 54 ?f' @ ''-'' @ hex_EncodeToString (take 4 (sha256_Sum256 G ?f'))"
    using long BoundedName_long[of i "ap_ResourceInfix a @ s" G] BoundedName_long[of i' "ap_ResourceInfix a @ s'" G]
    unfolding ResourceName_def by (elim conjE) simp
  moreover have "length (take 54 ?f) = length (take 54 ?f')"
    using long unfolding length_take by linarith
  ultimately have "take 54 ?f = take 54 ?f'
      \<and> ''-'' @ hex_EncodeToString (take 4 (sha256_Sum256 G ?f)) = ''-'' @ hex_EncodeToString (take 4 (sha256_Sum256 G ?f'))"
    by (rule append_same_length)
  then have 1: "take 54 ?f = take 54 ?f'"
    and 2: "hex_EncodeToString (take 4 (sha256_Sum256 G ?f)) = hex_EncodeToString (take 4 (sha256_Sum256 G ?f'))"
    by (auto simp only: same_append_eq)
  show "take 54 ?f = take 54 ?f'" by (rule 1)
  from 2 show "take 4 (sha256_Sum256 G ?f) = take 4 (sha256_Sum256 G ?f')"
    by (metis hex_roundtrip option.inject)
qed

section \<open>Witness\<close>

theorem resource_names_witness:
  "ResourceName (sample_lib JNull) application ''pg'' ''-proxy'' = ''pg-pgconsole-proxy''"
proof -
  have "length (''pg'' @ ap_ResourceInfix application @ ''-proxy'') \<le> 63"
    by (simp add: PgConsoleApplication_def)
  with resource_names[of "sample_lib JNull" application "''pg''" "''-proxy''"]
  have "ResourceName (sample_lib JNull) application ''pg'' ''-proxy'' = ''pg'' @ ap_ResourceInfix application @ ''-proxy''"
    by blast
  then show ?thesis by (simp add: PgConsoleApplication_def)
qed

end
