(* ===== verification/Conditions.thy ===== *)
theory Conditions
  imports Api
begin

text \<open>
  Status conditions (\<open>internal/conditions/conditions.go\<close>): one write path, which admits
  only the documented reasons and stamps the object's generation.

  The type switch over the object is a value of \<open>conditioned\<close> per kind, which says where
  the object keeps its conditions and its generation; \<open>conditioned_kind\<close> states the laws
  the write path needs, and each kind is an interpretation of it.
\<close>

datatype reconcile_error = Panicked string | Failed string | FailedApi string api_error

type_synonym 'a reconciled = "(reconcile_error, 'a) result"

record 'o conditioned =
  cd_Conditions :: "'o \<Rightarrow> Condition list"
  cd_Generation :: "'o \<Rightarrow> int"
  cd_Set :: "Condition list \<Rightarrow> 'o \<Rightarrow> 'o"

definition console_conditions :: "PgConsole conditioned" where
  "console_conditions =
     \<lparr>cd_Conditions = (\<lambda>c. ct_Conditions (con_Status c)),
      cd_Generation = (\<lambda>c. m_Generation (con_Meta c)),
      cd_Set = (\<lambda>cs c. c\<lparr>con_Status := (con_Status c)\<lparr>ct_Conditions := cs\<rparr>\<rparr>)\<rparr>"

definition user_conditions :: "PgToolBoxUser conditioned" where
  "user_conditions =
     \<lparr>cd_Conditions = (\<lambda>u. tt_Conditions (usr_Status u)),
      cd_Generation = (\<lambda>u. m_Generation (usr_Meta u)),
      cd_Set = (\<lambda>cs u. u\<lparr>usr_Status := (usr_Status u)\<lparr>tt_Conditions := cs\<rparr>\<rparr>)\<rparr>"

definition request_conditions :: "PgToolBoxAccessRequest conditioned" where
  "request_conditions =
     \<lparr>cd_Conditions = (\<lambda>r. rt_Conditions (req_Status r)),
      cd_Generation = (\<lambda>r. m_Generation (req_Meta r)),
      cd_Set = (\<lambda>cs r. r\<lparr>req_Status := (req_Status r)\<lparr>rt_Conditions := cs\<rparr>\<rparr>)\<rparr>"

definition knownReasons :: "string list" where
  "knownReasons =
     [ReasonAsExpected, ReasonReconciling, ReasonReconciliationSkipped,
      ReasonRolloutInProgress, ReasonRolloutStuck, ReasonConfigurationInvalid,
      ReasonSecretNotFound, ReasonSecretKeyMissing, ReasonSecretFormatInvalid,
      ReasonRenderFailed, ReasonNotAdmitted, ReasonNotAccepted,
      ReasonGatewayNotFound, ReasonHostnameConflict, ReasonNotRequested,
      ReasonAllApplied, ReasonSomeDegraded, ReasonNoneConfigured,
      ReasonPgConsoleNotFound, ReasonClusterNotFound, ReasonClusterNotReady,
      ReasonRoleNotFound, ReasonCredentialLost, ReasonDatabaseRolePending,
      ReasonDatabaseRoleFailed, ReasonPendingRollout, ReasonSyncFailed,
      ReasonCNPGAPIMissing, ReasonDatabaseRoleAPIMissing, ReasonPending,
      ReasonApproved, ReasonDenied, ReasonEvidenceDisabled,
      ReasonImageRequired, ReasonObjectStoreNotFound, ReasonUnsupportedCredentialMode,
      ReasonUnsupportedAuthMode]"

definition assertKnownReason :: "string \<Rightarrow> unit reconciled" where
  "assertKnownReason reason =
     (if reason \<in> set knownReasons then Inr () else Inl (Panicked (''unknown condition reason '' @ reason)))"

definition mark ::
  "kube \<Rightarrow> 'o conditioned \<Rightarrow> 'o \<Rightarrow> string \<Rightarrow> condition_status \<Rightarrow> string \<Rightarrow> string \<Rightarrow> 'o reconciled" where
  "mark K kd x conditionType status reason message =
     bind_result (assertKnownReason reason) (\<lambda>_.
       Inr (cd_Set kd
              (SetStatusCondition K (cd_Conditions kd x)
                 \<lparr>co_Type = conditionType, co_Status = status, co_ObservedGeneration = cd_Generation kd x,
                  co_LastTransitionTime = 0, co_Reason = reason, co_Message = message\<rparr>) x))"

definition MarkTrue :: "kube \<Rightarrow> 'o conditioned \<Rightarrow> string \<Rightarrow> string \<Rightarrow> string \<Rightarrow> 'o \<Rightarrow> 'o reconciled" where
  "MarkTrue K kd conditionType reason message x = mark K kd x conditionType ConditionTrue reason message"

definition MarkFalse :: "kube \<Rightarrow> 'o conditioned \<Rightarrow> string \<Rightarrow> string \<Rightarrow> string \<Rightarrow> 'o \<Rightarrow> 'o reconciled" where
  "MarkFalse K kd conditionType reason message x = mark K kd x conditionType ConditionFalse reason message"

definition MarkUnknown :: "kube \<Rightarrow> 'o conditioned \<Rightarrow> string \<Rightarrow> string \<Rightarrow> string \<Rightarrow> 'o \<Rightarrow> 'o reconciled" where
  "MarkUnknown K kd conditionType reason message x = mark K kd x conditionType ConditionUnknown reason message"

lemmas mark_defs = MarkTrue_def MarkFalse_def MarkUnknown_def

section \<open>The write path\<close>

lemma known_reasons [simp]:
  "ReasonAsExpected \<in> set knownReasons"
  "ReasonReconciling \<in> set knownReasons"
  "ReasonReconciliationSkipped \<in> set knownReasons"
  "ReasonRolloutInProgress \<in> set knownReasons"
  "ReasonRolloutStuck \<in> set knownReasons"
  "ReasonConfigurationInvalid \<in> set knownReasons"
  "ReasonSecretNotFound \<in> set knownReasons"
  "ReasonSecretKeyMissing \<in> set knownReasons"
  "ReasonSecretFormatInvalid \<in> set knownReasons"
  "ReasonRenderFailed \<in> set knownReasons"
  "ReasonNotAdmitted \<in> set knownReasons"
  "ReasonNotAccepted \<in> set knownReasons"
  "ReasonGatewayNotFound \<in> set knownReasons"
  "ReasonHostnameConflict \<in> set knownReasons"
  "ReasonNotRequested \<in> set knownReasons"
  "ReasonAllApplied \<in> set knownReasons"
  "ReasonSomeDegraded \<in> set knownReasons"
  "ReasonNoneConfigured \<in> set knownReasons"
  "ReasonPgConsoleNotFound \<in> set knownReasons"
  "ReasonClusterNotFound \<in> set knownReasons"
  "ReasonClusterNotReady \<in> set knownReasons"
  "ReasonRoleNotFound \<in> set knownReasons"
  "ReasonCredentialLost \<in> set knownReasons"
  "ReasonDatabaseRolePending \<in> set knownReasons"
  "ReasonDatabaseRoleFailed \<in> set knownReasons"
  "ReasonPendingRollout \<in> set knownReasons"
  "ReasonSyncFailed \<in> set knownReasons"
  "ReasonCNPGAPIMissing \<in> set knownReasons"
  "ReasonDatabaseRoleAPIMissing \<in> set knownReasons"
  "ReasonPending \<in> set knownReasons"
  "ReasonApproved \<in> set knownReasons"
  "ReasonDenied \<in> set knownReasons"
  "ReasonEvidenceDisabled \<in> set knownReasons"
  "ReasonImageRequired \<in> set knownReasons"
  "ReasonObjectStoreNotFound \<in> set knownReasons"
  "ReasonUnsupportedCredentialMode \<in> set knownReasons"
  "ReasonUnsupportedAuthMode \<in> set knownReasons"
  by (simp_all add: knownReasons_def)

lemma mark_known:
  "reason \<in> set knownReasons \<Longrightarrow>
     mark K kd x t st reason m =
       Inr (cd_Set kd (SetStatusCondition K (cd_Conditions kd x)
              \<lparr>co_Type = t, co_Status = st, co_ObservedGeneration = cd_Generation kd x,
               co_LastTransitionTime = 0, co_Reason = reason, co_Message = m\<rparr>) x)"
  by (simp add: mark_def assertKnownReason_def)

lemma mark_unknown:
  "reason \<notin> set knownReasons \<Longrightarrow>
     mark K kd x t st reason m = Inl (Panicked (''unknown condition reason '' @ reason))"
  by (simp add: mark_def assertKnownReason_def)

locale conditioned_kind =
  fixes kd :: "'o conditioned"
  assumes get_set: "cd_Conditions kd (cd_Set kd cs x) = cs"
    and set_set: "cd_Set kd cs (cd_Set kd ds x) = cd_Set kd cs x"
    and generation_set: "cd_Generation kd (cd_Set kd cs x) = cd_Generation kd x"
begin

lemma mark_published:
  assumes "conditions_ok K" "mark K kd x t st reason m = Inr y"
  shows "\<exists>c. FindStatusCondition (cd_Conditions kd y) t = Some c \<and> co_Status c = st
             \<and> co_Reason c = reason \<and> co_Message c = m \<and> co_ObservedGeneration c = cd_Generation kd y"
proof (cases "reason \<in> set knownReasons")
  case True
  let ?c = "\<lparr>co_Type = t, co_Status = st, co_ObservedGeneration = cd_Generation kd x,
             co_LastTransitionTime = 0, co_Reason = reason, co_Message = m\<rparr>"
  have y: "y = cd_Set kd (SetStatusCondition K (cd_Conditions kd x) ?c) x"
    using assms(2) True by (simp add: mark_known)
  obtain tm where "FindStatusCondition (SetStatusCondition K (cd_Conditions kd x) ?c) (co_Type ?c)
      = Some (?c\<lparr>co_LastTransitionTime := tm\<rparr>)"
    using assms(1) unfolding conditions_ok_def by blast
  then show ?thesis by (simp add: y get_set generation_set)
qed (use assms(2) in \<open>simp add: mark_unknown\<close>)

lemma mark_keeps_others:
  assumes "conditions_ok K" "mark K kd x t st reason m = Inr y" "t' \<noteq> t"
  shows "FindStatusCondition (cd_Conditions kd y) t' = FindStatusCondition (cd_Conditions kd x) t'"
proof (cases "reason \<in> set knownReasons")
  case True
  with assms show ?thesis by (auto simp: mark_known get_set conditions_ok_def)
qed (use assms(2) in \<open>simp add: mark_unknown\<close>)

lemma mark_again:
  assumes "conditions_ok K" "mark K kd x t st reason m = Inr y"
  shows "mark K kd y t st reason m = Inr y"
proof (cases "reason \<in> set knownReasons")
  case True
  with assms show ?thesis by (auto simp: mark_known get_set set_set generation_set conditions_ok_def)
qed (use assms(2) in \<open>simp add: mark_unknown\<close>)

end

interpretation console_cond: conditioned_kind console_conditions
  by unfold_locales (simp_all add: console_conditions_def)

interpretation user_cond: conditioned_kind user_conditions
  by unfold_locales (simp_all add: user_conditions_def)

interpretation request_cond: conditioned_kind request_conditions
  by unfold_locales (simp_all add: request_conditions_def)

text \<open>What marking leaves of an object: everything but the conditions.\<close>

lemma mark_user_frame:
  assumes "mark K user_conditions u t st reason m = Inr v"
  shows "usr_Meta v = usr_Meta u \<and> usr_Spec v = usr_Spec u
         \<and> tt_ProxySynced (usr_Status v) = tt_ProxySynced (usr_Status u)
         \<and> tt_ObservedGeneration (usr_Status v) = tt_ObservedGeneration (usr_Status u)"
  using assms by (auto simp: mark_def user_conditions_def)

lemma mark_request_frame:
  assumes "mark K request_conditions r t st reason m = Inr v"
  shows "req_Meta v = req_Meta r \<and> req_Spec v = req_Spec r
         \<and> rt_State (req_Status v) = rt_State (req_Status r)
         \<and> rt_RequestedLevel (req_Status v) = rt_RequestedLevel (req_Status r)
         \<and> rt_ObservedGeneration (req_Status v) = rt_ObservedGeneration (req_Status r)
         \<and> rt_DecidedBy (req_Status v) = rt_DecidedBy (req_Status r)"
  using assms by (auto simp: mark_def request_conditions_def)

section \<open>Properties\<close>

text \<open>
  a marked condition is what consumers read. Whatever kind of condition a console is
  marked with, the mark either panics, exactly when the reason is not a documented one, or
  publishes that status, reason and message under the console's current generation, leaves
  every other condition as it was, and changes nothing when repeated.
\<close>

theorem condition_published:
  assumes "conditions_ok K"
  shows "(reason \<notin> set knownReasons \<and> (\<exists>p. mark K console_conditions x t st reason m = Inl (Panicked p)))
   \<or> (\<exists>y c. mark K console_conditions x t st reason m = Inr y
        \<and> FindStatusCondition (ct_Conditions (con_Status y)) t = Some c
        \<and> co_Status c = st \<and> co_Reason c = reason \<and> co_Message c = m
        \<and> co_ObservedGeneration c = m_Generation (con_Meta x) \<and> reason \<in> set knownReasons
        \<and> (\<forall>t'. t' \<noteq> t \<longrightarrow> FindStatusCondition (ct_Conditions (con_Status y)) t'
                            = FindStatusCondition (ct_Conditions (con_Status x)) t')
        \<and> con_Spec y = con_Spec x \<and> mark K console_conditions y t st reason m = Inr y)"
proof (cases "reason \<in> set knownReasons")
  case True
  then obtain y where y: "mark K console_conditions x t st reason m = Inr y" by (simp add: mark_known)
  then have "con_Meta y = con_Meta x" "con_Spec y = con_Spec x"
    by (auto simp: mark_def console_conditions_def)
  then show ?thesis
    using True y console_cond.mark_published[OF assms y] console_cond.mark_keeps_others[OF assms y]
      console_cond.mark_again[OF assms y]
    by (auto simp: console_conditions_def)
qed (simp add: mark_unknown)

section \<open>Witness\<close>

theorem condition_published_witness:
  "\<exists>y c. mark sample_kube console_conditions sample_console PgConsoleConditionReady ConditionTrue
           ReasonAsExpected ''ready'' = Inr y
       \<and> FindStatusCondition (ct_Conditions (con_Status y)) PgConsoleConditionReady = Some c
       \<and> co_Status c = ConditionTrue \<and> co_ObservedGeneration c = 1"
  using condition_published[OF sample_kube_conditions, of ReasonAsExpected sample_console
      PgConsoleConditionReady ConditionTrue "''ready''"]
  by auto

end
