(* ===== verification/Access_Request.thy ===== *)
theory Access_Request
  imports Shared Conditions
begin

text \<open>
  The access-request controller (\<open>internal/controller/pgtoolboxaccessrequest/controller.go\<close>):
  a reviewed request becomes conditions on the request and, when approved, a PgToolBoxUser.

  Three clients work on one API server: requests, consoles and users. The creator of requests
  the proxy calls (\<open>kubeAccessRequestCreator\<close> in \<open>internal/proxy/server/accessrequest.go\<close>)
  stands beside the controller that reads them.
\<close>

section \<open>Creating a request\<close>

text \<open>The request is created under a generated name; \<open>generated\<close> is what the API server appends.\<close>

definition new_access_request ::
  "string \<Rightarrow> string \<Rightarrow> string \<Rightarrow> string \<Rightarrow> string \<Rightarrow> PgToolBoxAccessRequest" where
  "new_access_request generated consoleName namespace subject message =
     \<lparr>req_Meta = new_meta (''pgreq-'' @ generated) namespace fmempty,
      req_Spec = \<lparr>rq_PgConsoleRef = \<lparr>lor_Name = consoleName\<rparr>, rq_Subject = subject, rq_Message = message\<rparr>,
      req_Status = \<lparr>rt_ObservedGeneration = 0, rt_State = [], rt_RequestedLevel = [], rt_DecidedBy = [],
        rt_DecidedAt = None, rt_Conditions = []\<rparr>\<rparr>"

definition CreateAccessRequest ::
  "('s, PgToolBoxAccessRequest) client \<Rightarrow> string \<Rightarrow> string \<Rightarrow> string \<Rightarrow> string \<Rightarrow> string \<Rightarrow> 's \<Rightarrow> api_error option \<times> 's" where
  "CreateAccessRequest requests generated consoleName namespace subject message s =
     api_Create requests s (new_access_request generated consoleName namespace subject message)"

text \<open>A request's identity, and what of it the API server stores as written: the status is a subresource.\<close>

definition request_key :: "PgToolBoxAccessRequest \<Rightarrow> object_key" where
  "request_key r = key_of (req_Meta r)"

definition request_content :: "PgToolBoxAccessRequest \<Rightarrow> PgToolBoxAccessRequestSpec \<times> string" where
  "request_content r = (req_Spec r, m_Namespace (req_Meta r))"

section \<open>Model\<close>

definition userNameFor :: "golib \<Rightarrow> PgConsole \<Rightarrow> string \<Rightarrow> string" where
  "userNameFor G console subject =
     (let digest = sha256_Sum256 G (con_Name console @ [NUL] @ subject) in
      BoundedName G (con_Name console) (''-pguser-'' @ hex_EncodeToString (take 8 digest)))"

definition resolvePgConsole ::
  "('s, PgConsole) client \<Rightarrow> PgToolBoxAccessRequest \<Rightarrow> 's \<Rightarrow> PgConsole option reconciled" where
  "resolvePgConsole consoles request s =
     (case api_Get consoles s (m_Namespace (req_Meta request), lor_Name (rq_PgConsoleRef (req_Spec request))) of
        Inl NotFound \<Rightarrow> Inr None
      | Inl e \<Rightarrow> Inl (FailedApi ''get console'' e)
      | Inr console \<Rightarrow> Inr (Some console))"

definition granted_user ::
  "golib \<Rightarrow> PgConsole \<Rightarrow> PgToolBoxAccessRequest \<Rightarrow> PgToolBoxUser" where
  "granted_user G console request =
     \<lparr>usr_Meta = new_meta (userNameFor G console (rq_Subject (req_Spec request))) (m_Namespace (req_Meta request))
        (CommonLabels PgConsoleApplication (con_Name console)),
      usr_Spec = \<lparr>tu_PgConsoleRef = \<lparr>lor_Name = con_Name console\<rparr>, tu_Subject = rq_Subject (req_Spec request),
        tu_Level = rt_RequestedLevel (req_Status request), tu_LocalPasswordSecretRef = None\<rparr>,
      usr_Status = new_user_status\<rparr>"

definition mark_user_ready :: "kube \<Rightarrow> string \<Rightarrow> PgToolBoxAccessRequest \<Rightarrow> PgToolBoxAccessRequest reconciled" where
  "mark_user_ready K userName request =
     MarkTrue K request_conditions AccessRequestConditionUserReady ReasonAsExpected
       (''PgToolBoxUser '' @ userName @ '' is ready'') request"

definition reconcileApprovedUser ::
  "golib \<Rightarrow> kube \<Rightarrow> ('s, PgConsole) client \<Rightarrow> ('s, PgToolBoxUser) client \<Rightarrow> PgToolBoxAccessRequest \<Rightarrow> 's
   \<Rightarrow> PgToolBoxAccessRequest reconciled \<times> 's" where
  "reconcileApprovedUser G K consoles users request s =
     (let level = rt_RequestedLevel (req_Status request) in
      if level = []
      then (MarkFalse K request_conditions AccessRequestConditionUserReady ReasonConfigurationInvalid
              ''approved access request grants no level'' request, s)
      else case resolvePgConsole consoles request s of
        Inl e \<Rightarrow> (Inl e, s)
      | Inr None \<Rightarrow>
          (MarkFalse K request_conditions AccessRequestConditionUserReady ReasonPgConsoleNotFound
             (''referenced PgConsole '' @ lor_Name (rq_PgConsoleRef (req_Spec request)) @ '' was not found'') request, s)
      | Inr (Some console) \<Rightarrow>
          (let userName = userNameFor G console (rq_Subject (req_Spec request));
               key = (m_Namespace (req_Meta request), userName) in
           case api_Live users s key of
             Inl NotFound \<Rightarrow>
               (case api_Create users s (granted_user G console request) of
                  (None, s') \<Rightarrow> (mark_user_ready K userName request, s')
                | (Some AlreadyExists, s') \<Rightarrow> (Inr request, s')
                | (Some e, s') \<Rightarrow> (Inl (FailedApi ''create PgToolBoxUser'' e), s'))
           | Inl e \<Rightarrow> (Inl (FailedApi ''get PgToolBoxUser'' e), s)
           | Inr user \<Rightarrow>
               (if tu_Level (usr_Spec user) \<noteq> level
                   \<or> lor_Name (tu_PgConsoleRef (usr_Spec user)) \<noteq> con_Name console
                then (case api_Patch users s user
                             (user\<lparr>usr_Spec := (usr_Spec user)
                                \<lparr>tu_PgConsoleRef := \<lparr>lor_Name = con_Name console\<rparr>, tu_Level := level\<rparr>\<rparr>) of
                        (Some e, s') \<Rightarrow> (Inl (FailedApi ''update PgToolBoxUser'' e), s')
                      | (None, s') \<Rightarrow> (mark_user_ready K userName request, s'))
                else (mark_user_ready K userName request, s))))"

definition updateStatus ::
  "('s, PgToolBoxAccessRequest) client \<Rightarrow> PgToolBoxAccessRequest \<Rightarrow> PgToolBoxAccessRequest \<Rightarrow> 's
   \<Rightarrow> unit reconciled \<times> 's" where
  "updateStatus requests before after s =
     (if req_Status before = req_Status after then (Inr (), s)
      else case api_StatusPatch requests s before after of
             (None, s') \<Rightarrow> (Inr (), s')
           | (Some e, s') \<Rightarrow> (Inl (FailedApi ''patch access request status'' e), s'))"

text \<open>The conditions of the three states a request can be in.\<close>

definition mark_denied :: "kube \<Rightarrow> PgToolBoxAccessRequest \<Rightarrow> PgToolBoxAccessRequest reconciled" where
  "mark_denied K request =
     bind_result (MarkTrue K request_conditions AccessRequestConditionDecided ReasonDenied
                    ''access request denied'' request)
       (MarkFalse K request_conditions AccessRequestConditionUserReady ReasonDenied
          ''access request denied; no user was created'')"

definition mark_pending :: "kube \<Rightarrow> PgToolBoxAccessRequest \<Rightarrow> PgToolBoxAccessRequest reconciled" where
  "mark_pending K request =
     bind_result (MarkFalse K request_conditions AccessRequestConditionDecided ReasonPending
                    ''access request is pending review'' request)
       (MarkUnknown K request_conditions AccessRequestConditionUserReady ReasonNotRequested
          ''access request is pending review'')"

definition observe :: "PgToolBoxAccessRequest \<Rightarrow> PgToolBoxAccessRequest" where
  "observe request =
     request\<lparr>req_Status := (req_Status request)\<lparr>rt_ObservedGeneration := m_Generation (req_Meta request)\<rparr>\<rparr>"

definition decide ::
  "golib \<Rightarrow> kube \<Rightarrow> ('s, PgConsole) client \<Rightarrow> ('s, PgToolBoxUser) client \<Rightarrow> PgToolBoxAccessRequest \<Rightarrow> 's
   \<Rightarrow> PgToolBoxAccessRequest reconciled \<times> 's" where
  "decide G K consoles users request s =
     (if rt_State (req_Status request) = AccessRequestStateApproved
      then (case MarkTrue K request_conditions AccessRequestConditionDecided ReasonApproved
                   ''access request approved'' request of
              Inl e \<Rightarrow> (Inl e, s)
            | Inr request \<Rightarrow> reconcileApprovedUser G K consoles users request s)
      else if rt_State (req_Status request) = AccessRequestStateDenied then (mark_denied K request, s)
      else (mark_pending K request, s))"

definition Reconcile_request ::
  "golib \<Rightarrow> kube \<Rightarrow> ('s, PgToolBoxAccessRequest) client \<Rightarrow> ('s, PgConsole) client
   \<Rightarrow> ('s, PgToolBoxUser) client \<Rightarrow> object_key \<Rightarrow> 's \<Rightarrow> unit reconciled \<times> 's" where
  "Reconcile_request G K requests consoles users key s =
     (case api_Get requests s key of
        Inl NotFound \<Rightarrow> (Inr (), s)
      | Inl e \<Rightarrow> (Inl (FailedApi ''get access request'' e), s)
      | Inr request \<Rightarrow>
          (if m_Deleting (req_Meta request) then (Inr (), s)
           else if at (m_Annotations (req_Meta request)) ReconcileAnnotation = ''skip'' then (Inr (), s)
           else case decide G K consoles users (observe request) s of
                  (Inl e, s') \<Rightarrow> (Inl e, s')
                | (Inr after, s') \<Rightarrow> updateStatus requests request after s'))"

section \<open>Who becomes a user\<close>

text \<open>A request that an approval turns into a user: approved, with a level.\<close>

definition granting :: "PgToolBoxAccessRequest \<Rightarrow> bool" where
  "granting request =
     (rt_State (req_Status request) = AccessRequestStateApproved \<and> rt_RequestedLevel (req_Status request) \<noteq> [])"

lemma mark_request_inv:
  "mark K request_conditions r t st reason m = Inr v \<Longrightarrow> granting v = granting r"
  using mark_request_frame by (metis granting_def)

lemma observe_granting [simp]: "granting (observe r) = granting r"
  by (simp add: granting_def observe_def)

lemma decide_not_granting:
  assumes "\<not> granting request"
  shows "snd (decide G K consoles users request s) = s"
proof (cases "rt_State (req_Status request) = AccessRequestStateApproved")
  case True
  with assms have "rt_RequestedLevel (req_Status request) = []" by (simp add: granting_def)
  moreover have "rt_RequestedLevel (req_Status r) = rt_RequestedLevel (req_Status request)"
    if "MarkTrue K request_conditions AccessRequestConditionDecided ReasonApproved
          ''access request approved'' request = Inr r" for r
    using mark_request_frame[OF that[unfolded mark_defs]] by simp
  ultimately show ?thesis
    using True by (auto simp: decide_def reconcileApprovedUser_def Let_def split: sum.splits)
qed (simp add: decide_def)

lemma decide_frame:
  assumes "decide G K consoles users request s = (Inr after, s')"
  shows "req_Meta after = req_Meta request \<and> req_Spec after = req_Spec request
         \<and> rt_State (req_Status after) = rt_State (req_Status request)"
proof -
  have "req_Meta v = req_Meta r \<and> req_Spec v = req_Spec r \<and> rt_State (req_Status v) = rt_State (req_Status r)"
    if "reconcileApprovedUser G K consoles users r s = (Inr v, s')" for r v
    using that
    by (auto simp: reconcileApprovedUser_def mark_user_ready_def mark_defs Let_def
        dest!: mark_request_frame split: if_splits sum.splits option.splits prod.splits api_error.splits)
  with assms show ?thesis
    by (auto simp: decide_def mark_denied_def mark_pending_def mark_defs
        dest!: mark_request_frame split: if_splits sum.splits)
qed

lemma not_granted_conditions:
  assumes "conditions_ok K" "\<not> granting request" "decide G K consoles users request s = (Inr after, s')"
  shows "\<exists>c. FindStatusCondition (rt_Conditions (req_Status after)) AccessRequestConditionUserReady = Some c
             \<and> co_Status c \<noteq> ConditionTrue"
proof -
  have last: "\<exists>c. FindStatusCondition (rt_Conditions (req_Status after)) AccessRequestConditionUserReady = Some c
             \<and> co_Status c \<noteq> ConditionTrue"
    if "mark K request_conditions r AccessRequestConditionUserReady st reason m = Inr after" "st \<noteq> ConditionTrue"
    for r st reason m
    using request_cond.mark_published[OF assms(1) that(1)] that(2) by (auto simp: request_conditions_def)
  show ?thesis
  proof (cases "rt_State (req_Status request) = AccessRequestStateApproved")
    case True
    with assms(3) obtain r where r: "MarkTrue K request_conditions AccessRequestConditionDecided ReasonApproved
        ''access request approved'' request = Inr r"
      and run: "reconcileApprovedUser G K consoles users r s = (Inr after, s')"
      by (auto simp: decide_def split: sum.splits)
    have "rt_RequestedLevel (req_Status r) = []"
      using mark_request_frame[OF r[unfolded mark_defs]] assms(2) True by (simp add: granting_def)
    with run have "mark K request_conditions r AccessRequestConditionUserReady ConditionFalse
        ReasonConfigurationInvalid ''approved access request grants no level'' = Inr after"
      by (simp add: reconcileApprovedUser_def mark_defs)
    then show ?thesis by (rule last) simp
  next
    case False
    with assms(3) last show ?thesis
      by (auto simp: decide_def mark_denied_def mark_pending_def mark_defs split: if_splits)
  qed
qed

section \<open>Convergence of an approval\<close>

definition grant_key :: "golib \<Rightarrow> PgConsole \<Rightarrow> PgToolBoxAccessRequest \<Rightarrow> object_key" where
  "grant_key G console request =
     (m_Namespace (req_Meta request), userNameFor G console (rq_Subject (req_Spec request)))"

text \<open>
  The approved request names a level and an existing console; the API answers as documented,
  nobody else creates the user meanwhile, and writing a user does not change any console.
\<close>

definition grant_good ::
  "golib \<Rightarrow> ('s, PgConsole) client \<Rightarrow> ('s, PgToolBoxUser) client \<Rightarrow> PgToolBoxAccessRequest \<Rightarrow> PgConsole \<Rightarrow> 's \<Rightarrow> bool" where
  "grant_good G consoles users request console s =
     (client_ok users user_key user_content
      \<and> rt_RequestedLevel (req_Status request) \<noteq> []
      \<and> resolvePgConsole consoles request s = Inr (Some console)
      \<and> (\<forall>u. api_Live users s (grant_key G console request) = Inr u \<longrightarrow> user_key u = grant_key G console request)
      \<and> (\<forall>u. fst (api_Create users s u) \<noteq> Some AlreadyExists)
      \<and> (\<forall>u b s'. api_Create users s u = (None, s') \<or> api_Patch users s b u = (None, s')
            \<longrightarrow> api_Get consoles s' = api_Get consoles s))"

definition grant_settled ::
  "golib \<Rightarrow> ('s, PgConsole) client \<Rightarrow> ('s, PgToolBoxUser) client \<Rightarrow> PgToolBoxAccessRequest \<Rightarrow> PgConsole \<Rightarrow> 's \<Rightarrow> bool" where
  "grant_settled G consoles users request console s =
     (rt_RequestedLevel (req_Status request) \<noteq> [] \<and> resolvePgConsole consoles request s = Inr (Some console)
      \<and> (\<exists>u. api_Live users s (grant_key G console request) = Inr u
             \<and> tu_Level (usr_Spec u) = rt_RequestedLevel (req_Status request)
             \<and> lor_Name (tu_PgConsoleRef (usr_Spec u)) = con_Name console))"

lemma mark_user_ready_ok: "\<exists>r. mark_user_ready K n request = Inr r"
  by (simp add: mark_user_ready_def mark_defs mark_known)

lemma grant_quiet:
  assumes "grant_settled G consoles users request console s"
  shows "reconcileApprovedUser G K consoles users request s
    = (mark_user_ready K (userNameFor G console (rq_Subject (req_Spec request))) request, s)"
  using assms by (auto simp: grant_settled_def grant_key_def reconcileApprovedUser_def Let_def)

lemma grant_run:
  assumes "grant_good G consoles users request console s"
    and "reconcileApprovedUser G K consoles users request s = (Inr r, s')"
  shows "grant_settled G consoles users request console s'
     \<and> mark_user_ready K (userNameFor G console (rq_Subject (req_Spec request))) request = Inr r
     \<and> (api_Live users s (grant_key G console request) = Inl NotFound \<longrightarrow>
          (\<exists>u. api_Live users s' (grant_key G console request) = Inr u
               \<and> usr_Spec u = usr_Spec (granted_user G console request)))"
proof -
  let ?k = "grant_key G console request" and ?l = "rt_RequestedLevel (req_Status request)"
  let ?n = "userNameFor G console (rq_Subject (req_Spec request))"
  from assms(1) have cl: "client_ok users user_key user_content" and l: "?l \<noteq> []"
    and con: "resolvePgConsole consoles request s = Inr (Some console)"
    and keyed: "\<And>u. api_Live users s ?k = Inr u \<Longrightarrow> user_key u = ?k"
    and fresh: "\<And>u. fst (api_Create users s u) \<noteq> Some AlreadyExists"
    and frame: "\<And>u b t. api_Create users s u = (None, t) \<or> api_Patch users s b u = (None, t)
            \<Longrightarrow> api_Get consoles t = api_Get consoles s"
    by (auto simp: grant_good_def)
  have settled: "grant_settled G consoles users request console s'
      \<and> (\<exists>u. api_Live users s' ?k = Inr u \<and> usr_Spec u = usr_Spec x)"
    if w: "writes users user_key user_content s x s'" and x: "user_key x = ?k" "tu_Level (usr_Spec x) = ?l"
      "lor_Name (tu_PgConsoleRef (usr_Spec x)) = con_Name console"
      and same: "api_Get consoles s' = api_Get consoles s" for x
  proof -
    from w x(1) obtain u where "api_Live users s' ?k = Inr u" "usr_Spec u = usr_Spec x"
      by (auto simp: writes_def stores_def user_content_def)
    moreover have "resolvePgConsole consoles request s' = Inr (Some console)"
      using con same by (simp add: resolvePgConsole_def)
    ultimately show ?thesis using x l by (auto simp: grant_settled_def)
  qed
  show ?thesis
  proof (cases "api_Live users s ?k")
    case (Inl e)
    with assms(2) con l have e: "e = NotFound"
      by (cases e) (simp_all add: reconcileApprovedUser_def grant_key_def)
    then have c: "api_Create users s (granted_user G console request) = (None, s')"
      and m: "mark_user_ready K ?n request = Inr r"
      using assms(2) con l Inl fresh[of "granted_user G console request"]
      by (auto simp: reconcileApprovedUser_def grant_key_def Let_def split: prod.splits option.splits api_error.splits)
    from settled[OF client_ok_writes(1)[OF cl c]] frame c m show ?thesis
      by (auto simp: granted_user_def user_key_def grant_key_def)
  next
    case (Inr u)
    show ?thesis
    proof (cases "tu_Level (usr_Spec u) \<noteq> ?l \<or> lor_Name (tu_PgConsoleRef (usr_Spec u)) \<noteq> con_Name console")
      case True
      let ?u = "u\<lparr>usr_Spec := (usr_Spec u)\<lparr>tu_PgConsoleRef := \<lparr>lor_Name = con_Name console\<rparr>, tu_Level := ?l\<rparr>\<rparr>"
      from True assms(2) con l Inr have c: "api_Patch users s u ?u = (None, s')"
        and m: "mark_user_ready K ?n request = Inr r"
        by (auto simp: reconcileApprovedUser_def grant_key_def Let_def split: prod.splits option.splits)
      have "user_key ?u = ?k" using keyed[OF Inr] by (simp add: user_key_def)
      with settled[OF client_ok_writes(3)[OF cl c]] frame c m Inr show ?thesis by auto
    next
      case False
      with assms(2) con l Inr have "s' = s" "mark_user_ready K ?n request = Inr r"
        by (auto simp: reconcileApprovedUser_def grant_key_def Let_def)
      with False con l Inr show ?thesis by (auto simp: grant_settled_def)
    qed
  qed
qed

interpretation grant: convergence
  "reconcileApprovedUser G K consoles users request" "grant_good G consoles users request console"
  "grant_settled G consoles users request console"
  for G K consoles users request console
proof
  show "grant_settled G consoles users request console s'"
    if "grant_good G consoles users request console s"
      "reconcileApprovedUser G K consoles users request s = (Inr r, s')" for s r s'
    using grant_run[OF that] by blast
  show "\<exists>r. reconcileApprovedUser G K consoles users request s = (Inr r, s)"
    if "grant_settled G consoles users request console s" for s
    using grant_quiet[OF that, of K] mark_user_ready_ok by metis
qed

section \<open>Properties\<close>

text \<open>
  no user without an approval. For a request that is pending, denied, approved without a
  level, being deleted or paused, a pass writes at most the request's own status, and the
  status it writes never claims a ready user.
\<close>

theorem request_not_granted:
  assumes "conditions_ok K" "api_Get requests s key = Inr request"
    and "\<not> granting request \<or> m_Deleting (req_Meta request)
         \<or> at (m_Annotations (req_Meta request)) ReconcileAnnotation = ''skip''"
  shows "snd (Reconcile_request G K requests consoles users key s) = s
     \<or> (\<exists>after c. snd (Reconcile_request G K requests consoles users key s)
                     = snd (api_StatusPatch requests s request after)
          \<and> req_Meta after = req_Meta request \<and> req_Spec after = req_Spec request
          \<and> rt_State (req_Status after) = rt_State (req_Status request)
          \<and> FindStatusCondition (rt_Conditions (req_Status after)) AccessRequestConditionUserReady = Some c
          \<and> co_Status c \<noteq> ConditionTrue)"
proof (cases "m_Deleting (req_Meta request) \<or> at (m_Annotations (req_Meta request)) ReconcileAnnotation = ''skip''")
  case True
  with assms(2) show ?thesis by (auto simp: Reconcile_request_def)
next
  case False
  with assms(3) have ng: "\<not> granting (observe request)" by simp
  obtain out where d: "decide G K consoles users (observe request) s = (out, s)"
    using decide_not_granting[OF ng, of G K consoles users s] by (metis prod.collapse)
  show ?thesis
  proof (cases out)
    case (Inl e)
    with False d assms(2) show ?thesis by (simp add: Reconcile_request_def)
  next
    case (Inr after)
    have run: "Reconcile_request G K requests consoles users key s = updateStatus requests request after s"
      using False d Inr assms(2) by (simp add: Reconcile_request_def)
    have "req_Meta after = req_Meta request \<and> req_Spec after = req_Spec request
         \<and> rt_State (req_Status after) = rt_State (req_Status request)"
      using decide_frame[of G K consoles users "observe request" s after s] d Inr by (simp add: observe_def)
    moreover obtain c where "FindStatusCondition (rt_Conditions (req_Status after)) AccessRequestConditionUserReady = Some c"
      "co_Status c \<noteq> ConditionTrue"
      using not_granted_conditions[OF assms(1) ng, of G consoles users s after s] d Inr by auto
    moreover have "snd (updateStatus requests request after s) = s
        \<or> snd (updateStatus requests request after s) = snd (api_StatusPatch requests s request after)"
      by (auto simp: updateStatus_def split: prod.splits option.splits)
    ultimately show ?thesis unfolding run by blast
  qed
qed


section \<open>Witnesses\<close>

definition sample_access_request :: "string \<Rightarrow> string \<Rightarrow> PgToolBoxAccessRequest" where
  "sample_access_request state level =
     \<lparr>req_Meta = new_meta ''req-1'' ''db'' fmempty,
      req_Spec = \<lparr>rq_PgConsoleRef = \<lparr>lor_Name = ''pg''\<rparr>, rq_Subject = ''joe'', rq_Message = []\<rparr>,
      req_Status = \<lparr>rt_ObservedGeneration = 0, rt_State = state, rt_RequestedLevel = level,
        rt_DecidedBy = [], rt_DecidedAt = None, rt_Conditions = []\<rparr>\<rparr>"

theorem request_not_granted_witness:
  "let requests = store_client (\<lambda>r. key_of (req_Meta r));
       request = sample_access_request AccessRequestStateDenied RoleLevelDBA;
       s = fmupd (''db'', ''req-1'') request fmempty;
       s' = snd (Reconcile_request (sample_lib JNull) sample_kube requests
                   (fixed_client (\<lambda>_. Inr sample_console) []) (fixed_client (\<lambda>_. Inl NotFound) [])
                   (''db'', ''req-1'') s) in
   s' = s \<or> (\<exists>after c. s' = snd (api_StatusPatch requests s request after)
     \<and> FindStatusCondition (rt_Conditions (req_Status after)) AccessRequestConditionUserReady = Some c
     \<and> co_Status c \<noteq> ConditionTrue)"
proof -
  let ?r = "sample_access_request AccessRequestStateDenied RoleLevelDBA"
  have ng: "\<not> granting ?r" by (simp add: granting_def sample_access_request_def request_state_defs)
  have get: "api_Get (store_client (\<lambda>r. key_of (req_Meta r))) (fmupd (''db'', ''req-1'') ?r fmempty) (''db'', ''req-1'') = Inr ?r"
    by simp
  show ?thesis
    unfolding Let_def using request_not_granted[OF sample_kube_conditions get disjI1[OF ng]] by blast
qed


end
