(* ===== verification/Users.thy ===== *)
theory Users
  imports Shared Conditions Proxy_Config
begin

text \<open>
  The users of a console (\<open>internal/controller/pgconsole/users.go\<close>,
  \<open>bootstrapadmin.go\<close>): resolving each PgToolBoxUser to an entry of the proxy
  configuration, rejecting duplicate subjects, publishing each user's status, and keeping
  the first administrator's user object in place.

  \<open>Quote\<close> stands for \<open>%q\<close>, which only reaches messages. \<open>sort.Slice\<close> is a sort by the
  comparison's key; object names are unique in a namespace, so the order it gives is the
  only one.
\<close>

section \<open>Resolving users\<close>

record resolvedConsoleUser =
  ru_user :: PgToolBoxUser
  ru_proxyUser :: User
  ru_proxyExcluded :: bool
  ru_proxyExcludeReason :: string

definition proxyIncluded :: "resolvedConsoleUser \<Rightarrow> bool" where
  "proxyIncluded u = (\<not> ru_proxyExcluded u)"

definition exclude :: "string \<Rightarrow> resolvedConsoleUser \<Rightarrow> resolvedConsoleUser" where
  "exclude reason u = u\<lparr>ru_proxyExcluded := True, ru_proxyExcludeReason := reason\<rparr>"

definition zero_User :: User where
  "zero_User = \<lparr>us_Subject = [], us_Level = [], us_LocalPasswordBcrypt = []\<rparr>"

definition bootstrapAdminUserName :: "PgConsole \<Rightarrow> string" where
  "bootstrapAdminUserName console = con_Name console @ ''-bootstrap-admin''"

text \<open>The Secret a user's password is read from, when the console takes local passwords.\<close>

definition password_ref :: "PgConsole \<Rightarrow> PgToolBoxUser \<Rightarrow> SecretKeyReference option" where
  "password_ref console user =
     (case tu_LocalPasswordSecretRef (usr_Spec user) of
        None \<Rightarrow> None
      | Some ref \<Rightarrow> if au_Local (con_auth console) \<noteq> None \<and> skr_Name ref \<noteq> [] then Some ref else None)"

definition resolveConsoleUser ::
  "golib \<Rightarrow> (string \<Rightarrow> string) \<Rightarrow> (object_key \<Rightarrow> (api_error, Secret) result) \<Rightarrow> PgConsole
   \<Rightarrow> PgToolBoxUser \<Rightarrow> resolvedConsoleUser reconciled" where
  "resolveConsoleUser G Quote reader console user =
     (let resolved = \<lparr>ru_user = user, ru_proxyUser = zero_User, ru_proxyExcluded = False,
                      ru_proxyExcludeReason = []\<rparr>;
          level = tu_Level (usr_Spec user) in
      if \<not> Level_Valid level then Inr (exclude (''user has invalid level '' @ Quote level) resolved)
      else let proxyUser = \<lparr>us_Subject = tu_Subject (usr_Spec user), us_Level = level,
                            us_LocalPasswordBcrypt = []\<rparr> in
        case password_ref console user of
          None \<Rightarrow> Inr (resolved\<lparr>ru_proxyUser := proxyUser\<rparr>)
        | Some ref \<Rightarrow>
            (case ReadLocalPasswordHash G reader (con_Namespace console, skr_Name ref) (skr_Key ref) of
               Inl (SecretReadFailed NotFound) \<Rightarrow>
                 Inr (exclude (''local password secret '' @ skr_Name ref @ '' was not found'') resolved)
             | Inl _ \<Rightarrow> Inr (exclude (''local password secret '' @ skr_Name ref @ '' is invalid'') resolved)
             | Inr (hash, _) \<Rightarrow>
                 Inr (resolved\<lparr>ru_proxyUser := proxyUser\<lparr>us_LocalPasswordBcrypt := hash\<rparr>\<rparr>)))"

fun resolve_each ::
  "golib \<Rightarrow> (string \<Rightarrow> string) \<Rightarrow> (object_key \<Rightarrow> (api_error, Secret) result) \<Rightarrow> PgConsole
   \<Rightarrow> PgToolBoxUser list \<Rightarrow> resolvedConsoleUser list reconciled" where
  "resolve_each G Quote reader console [] = Inr []"
| "resolve_each G Quote reader console (u # us) =
     (if lor_Name (tu_PgConsoleRef (usr_Spec u)) \<noteq> con_Name console
      then resolve_each G Quote reader console us
      else bind_result (resolveConsoleUser G Quote reader console u) (\<lambda>r.
             bind_result (resolve_each G Quote reader console us) (\<lambda>rs. Inr (r # rs))))"

definition user_order :: "string \<Rightarrow> resolvedConsoleUser \<Rightarrow> bool \<times> string" where
  "user_order bootstrap u = (usr_Name (ru_user u) \<noteq> bootstrap, usr_Name (ru_user u))"

fun exclude_duplicates ::
  "golib \<Rightarrow> (string \<Rightarrow> string) \<Rightarrow> string \<Rightarrow> string list \<Rightarrow> resolvedConsoleUser list
   \<Rightarrow> resolvedConsoleUser list" where
  "exclude_duplicates G Quote bootstrap seen [] = []"
| "exclude_duplicates G Quote bootstrap seen (u # us) =
     (if ru_proxyExcluded u
      then u # exclude_duplicates G Quote bootstrap
                 (if usr_Name (ru_user u) = bootstrap
                  then lower G (tu_Subject (usr_Spec (ru_user u))) # seen else seen) us
      else let key = lower G (us_Subject (ru_proxyUser u)) in
        if key \<in> set seen
        then exclude (''duplicate subject '' @ Quote (us_Subject (ru_proxyUser u))) u
               # exclude_duplicates G Quote bootstrap seen us
        else u # exclude_duplicates G Quote bootstrap (key # seen) us)"

definition resolveConsoleUsers ::
  "golib \<Rightarrow> (string \<Rightarrow> string) \<Rightarrow> ('s, PgToolBoxUser) client \<Rightarrow> ('s, Secret) client \<Rightarrow> 's \<Rightarrow> PgConsole
   \<Rightarrow> resolvedConsoleUser list reconciled" where
  "resolveConsoleUsers G Quote users secrets s console =
     (case api_List users s (con_Namespace console) of
        Inl e \<Rightarrow> Inl (FailedApi ''list users'' e)
      | Inr items \<Rightarrow>
          bind_result (resolve_each G Quote (api_Live secrets s) console items) (\<lambda>result.
            Inr (exclude_duplicates G Quote (bootstrapAdminUserName console) []
                   (sort_key (user_order (bootstrapAdminUserName console)) result))))"

definition proxyUsers :: "resolvedConsoleUser list \<Rightarrow> User list" where
  "proxyUsers resolved = map ru_proxyUser (filter proxyIncluded resolved)"

section \<open>Publishing user statuses\<close>

definition mark_user ::
  "kube \<Rightarrow> resolvedConsoleUser \<Rightarrow> PgToolBoxUser reconciled" where
  "mark_user K u =
     (let user = ru_user u;
          user = user\<lparr>usr_Status := (usr_Status user)
                        \<lparr>tt_ObservedGeneration := m_Generation (usr_Meta user)\<rparr>\<rparr> in
      if ru_proxyExcluded u
      then bind_result (MarkFalse K user_conditions UserConditionProxySynced ReasonSomeDegraded
                          (ru_proxyExcludeReason u) user) (\<lambda>user.
             Inr (user\<lparr>usr_Status := (usr_Status user)\<lparr>tt_ProxySynced := False\<rparr>\<rparr>))
      else bind_result (MarkTrue K user_conditions UserConditionProxySynced ReasonAsExpected
                          ''user rendered into proxy configuration'' user) (\<lambda>user.
             Inr (user\<lparr>usr_Status := (usr_Status user)\<lparr>tt_ProxySynced := True\<rparr>\<rparr>)))"

fun applyUserStatuses ::
  "kube \<Rightarrow> ('s, PgToolBoxUser) client \<Rightarrow> resolvedConsoleUser list \<Rightarrow> 's \<Rightarrow> unit reconciled \<times> 's" where
  "applyUserStatuses K users [] s = (Inr (), s)"
| "applyUserStatuses K users (u # us) s =
     (case mark_user K u of
        Inl e \<Rightarrow> (Inl e, s)
      | Inr user \<Rightarrow>
          (case api_StatusPatch users s (ru_user u) user of
             (Some e, s') \<Rightarrow> (Inl (FailedApi ''patch user status'' e), s')
           | (None, s') \<Rightarrow> applyUserStatuses K users us s'))"

section \<open>The bootstrap administrator\<close>

definition bootstrap_spec :: "PgConsole \<Rightarrow> PgToolBoxUserSpec" where
  "bootstrap_spec console =
     (let admin = au_BootstrapAdmin (con_auth console) in
      \<lparr>tu_PgConsoleRef = \<lparr>lor_Name = con_Name console\<rparr>, tu_Subject = ba_Subject admin,
       tu_Level = RoleLevelDBA, tu_LocalPasswordSecretRef = ba_PasswordSecretRef admin\<rparr>)"

definition equalBootstrapAdminSpec :: "PgToolBoxUserSpec \<Rightarrow> PgToolBoxUserSpec \<Rightarrow> bool" where
  "equalBootstrapAdminSpec a b =
     (if tu_PgConsoleRef a \<noteq> tu_PgConsoleRef b \<or> tu_Subject a \<noteq> tu_Subject b \<or> tu_Level a \<noteq> tu_Level b
      then False
      else case (tu_LocalPasswordSecretRef a, tu_LocalPasswordSecretRef b) of
             (None, None) \<Rightarrow> True
           | (Some x, Some y) \<Rightarrow> x = y
           | _ \<Rightarrow> False)"

definition reconcileBootstrapAdmin ::
  "kube \<Rightarrow> ('s, PgToolBoxUser) client \<Rightarrow> PgConsole \<Rightarrow> 's \<Rightarrow> unit reconciled \<times> 's" where
  "reconcileBootstrapAdmin K users console s =
     (let meta = new_meta (bootstrapAdminUserName console) (con_Namespace console)
                   (CommonLabels application (con_Name console)) in
      case SetControllerReference K (con_Meta console) meta of
        Inl e \<Rightarrow> (Inl (Failed (''setting owner on bootstrap admin: '' @ e)), s)
      | Inr meta \<Rightarrow>
          (let desired = \<lparr>usr_Meta = meta, usr_Spec = bootstrap_spec console, usr_Status = new_user_status\<rparr> in
           case api_Get users s (key_of meta) of
             Inl NotFound \<Rightarrow>
               (case api_Create users s desired of
                  (None, s') \<Rightarrow> (Inr (), s')
                | (Some AlreadyExists, s') \<Rightarrow> (Inr (), s')
                | (Some e, s') \<Rightarrow> (Inl (FailedApi ''creating bootstrap admin'' e), s'))
           | Inl e \<Rightarrow> (Inl (FailedApi ''reading bootstrap admin'' e), s)
           | Inr existing \<Rightarrow>
               (if equalBootstrapAdminSpec (usr_Spec existing) (usr_Spec desired) then (Inr (), s)
                else case api_Update users s
                            (existing\<lparr>usr_Spec := usr_Spec desired,
                                      usr_Meta := (usr_Meta existing)\<lparr>m_Labels := m_Labels meta,
                                         m_OwnerReferences := m_OwnerReferences meta\<rparr>\<rparr>) of
                       (None, s') \<Rightarrow> (Inr (), s')
                     | (Some e, s') \<Rightarrow> (Inl (FailedApi ''updating bootstrap admin'' e), s'))))"

section \<open>What the users become\<close>

lemma resolveConsoleUser_Inr:
  assumes "resolveConsoleUser G Quote reader console u = Inr r"
  shows "ru_user r = u
    \<and> (proxyIncluded r \<longrightarrow> us_Subject (ru_proxyUser r) = tu_Subject (usr_Spec u)
         \<and> us_Level (ru_proxyUser r) = tu_Level (usr_Spec u) \<and> Level_Valid (tu_Level (usr_Spec u))
         \<and> (us_LocalPasswordBcrypt (ru_proxyUser r) \<noteq> [] \<longrightarrow>
              au_Local (con_auth console) \<noteq> None \<and> bcrypt_CostOk G (us_LocalPasswordBcrypt (ru_proxyUser r))))"
proof (cases "Level_Valid (tu_Level (usr_Spec u))")
  case False
  with assms show ?thesis by (auto simp: resolveConsoleUser_def exclude_def proxyIncluded_def)
next
  case True
  show ?thesis
  proof (cases "password_ref console u")
    case None
    with True assms show ?thesis by (auto simp: resolveConsoleUser_def Let_def)
  next
    case (Some ref)
    have loc: "au_Local (con_auth console) \<noteq> None"
      using Some by (auto simp: password_ref_def split: option.splits if_splits)
    show ?thesis
    proof (cases "ReadLocalPasswordHash G reader (con_Namespace console, skr_Name ref) (skr_Key ref)")
      case (Inl e)
      with Some True assms show ?thesis
        by (auto simp: resolveConsoleUser_def Let_def exclude_def proxyIncluded_def
            split: secret_error.splits api_error.splits)
    next
      case (Inr hv)
      obtain h v where "hv = (h, v)" by fastforce
      with Inr Some True assms loc show ?thesis
        by (auto simp: resolveConsoleUser_def Let_def dest: ReadLocalPasswordHash_Inr)
    qed
  qed
qed

text \<open>Every resolved user stands for one of the console's objects, faithfully.\<close>

definition resolved_ok :: "golib \<Rightarrow> PgConsole \<Rightarrow> PgToolBoxUser list \<Rightarrow> resolvedConsoleUser \<Rightarrow> bool" where
  "resolved_ok G console items r =
     (ru_user r \<in> set items \<and> lor_Name (tu_PgConsoleRef (usr_Spec (ru_user r))) = con_Name console
      \<and> (proxyIncluded r \<longrightarrow>
           us_Subject (ru_proxyUser r) = tu_Subject (usr_Spec (ru_user r))
           \<and> us_Level (ru_proxyUser r) = tu_Level (usr_Spec (ru_user r)) \<and> Level_Valid (us_Level (ru_proxyUser r))
           \<and> (us_LocalPasswordBcrypt (ru_proxyUser r) \<noteq> [] \<longrightarrow>
                au_Local (con_auth console) \<noteq> None \<and> bcrypt_CostOk G (us_LocalPasswordBcrypt (ru_proxyUser r)))))"

lemma resolve_each_ok:
  "resolve_each G Quote reader console us = Inr rs \<Longrightarrow> set us \<subseteq> set items \<Longrightarrow> r \<in> set rs
     \<Longrightarrow> resolved_ok G console items r"
proof (induction us arbitrary: rs)
  case (Cons u us)
  show ?case
  proof (cases "lor_Name (tu_PgConsoleRef (usr_Spec u)) = con_Name console")
    case True
    with Cons.prems obtain r0 rs0 where r0: "resolveConsoleUser G Quote reader console u = Inr r0"
      and rs0: "resolve_each G Quote reader console us = Inr rs0" "rs = r0 # rs0"
      by auto
    from resolveConsoleUser_Inr[OF r0] True Cons.prems(2) have "resolved_ok G console items r0"
      by (auto simp: resolved_ok_def)
    with Cons.IH[OF rs0(1)] Cons.prems rs0(2) show ?thesis by auto
  qed (use Cons in auto)
qed simp

lemma resolve_each_complete:
  "resolve_each G Quote reader console us = Inr rs \<Longrightarrow> u \<in> set us
     \<Longrightarrow> lor_Name (tu_PgConsoleRef (usr_Spec u)) = con_Name console \<Longrightarrow> \<exists>r\<in>set rs. ru_user r = u"
proof (induction us arbitrary: rs)
  case (Cons a us)
  then show ?case using resolveConsoleUser_Inr by (cases "a = u") (auto split: if_splits)
qed simp

lemma exclude_simps [simp]:
  "ru_user (exclude m r) = ru_user r" "ru_proxyUser (exclude m r) = ru_proxyUser r"
  "\<not> proxyIncluded (exclude m r)"
  by (simp_all add: exclude_def proxyIncluded_def)

text \<open>One round of the duplicate check: the verdict on a user and the subjects taken after it.\<close>

definition verdict :: "golib \<Rightarrow> (string \<Rightarrow> string) \<Rightarrow> string list \<Rightarrow> resolvedConsoleUser \<Rightarrow> resolvedConsoleUser" where
  "verdict G Quote seen u =
     (if ru_proxyExcluded u \<or> lower G (us_Subject (ru_proxyUser u)) \<notin> set seen then u
      else exclude (''duplicate subject '' @ Quote (us_Subject (ru_proxyUser u))) u)"

definition taken :: "golib \<Rightarrow> string \<Rightarrow> string list \<Rightarrow> resolvedConsoleUser \<Rightarrow> string list" where
  "taken G b seen u =
     (if ru_proxyExcluded u
      then if usr_Name (ru_user u) = b then lower G (tu_Subject (usr_Spec (ru_user u))) # seen else seen
      else if lower G (us_Subject (ru_proxyUser u)) \<in> set seen then seen
      else lower G (us_Subject (ru_proxyUser u)) # seen)"

lemma exclude_duplicates_Cons:
  "exclude_duplicates G Quote b seen (u # us)
     = verdict G Quote seen u # exclude_duplicates G Quote b (taken G b seen u) us"
  by (simp add: verdict_def taken_def Let_def)

declare exclude_duplicates.simps(2) [simp del]

lemma verdict_user [simp]: "ru_user (verdict G Quote seen u) = ru_user u"
  by (simp add: verdict_def)

lemma taken_mono: "set seen \<subseteq> set (taken G b seen u)"
  by (auto simp: taken_def)

lemma verdict_included:
  assumes "proxyIncluded (verdict G Quote seen u)"
  shows "verdict G Quote seen u = u \<and> lower G (us_Subject (ru_proxyUser u)) \<notin> set seen
         \<and> lower G (us_Subject (ru_proxyUser u)) \<in> set (taken G b seen u)"
  using assms by (cases "ru_proxyExcluded u") (auto simp: verdict_def taken_def proxyIncluded_def exclude_def split: if_splits)

lemma taken_bootstrap:
  assumes "usr_Name (ru_user u) = b"
    and "proxyIncluded u \<longrightarrow> us_Subject (ru_proxyUser u) = tu_Subject (usr_Spec (ru_user u))"
  shows "lower G (tu_Subject (usr_Spec (ru_user u))) \<in> set (taken G b seen u)"
  using assms by (simp add: taken_def proxyIncluded_def)

lemma exclude_duplicates_users:
  "map ru_user (exclude_duplicates G Quote b seen us) = map ru_user us"
  by (induction us arbitrary: seen) (simp_all add: exclude_duplicates_Cons)

lemma exclude_duplicates_included:
  "r \<in> set (exclude_duplicates G Quote b seen us) \<Longrightarrow> proxyIncluded r
     \<Longrightarrow> r \<in> set us \<and> lower G (us_Subject (ru_proxyUser r)) \<notin> set seen"
proof (induction us arbitrary: seen)
  case (Cons u us)
  show ?case
  proof (cases "r = verdict G Quote seen u")
    case True
    with Cons.prems(2) verdict_included[of G Quote seen u b] show ?thesis by simp
  next
    case False
    with Cons.prems have "r \<in> set (exclude_duplicates G Quote b (taken G b seen u) us)"
      by (simp add: exclude_duplicates_Cons)
    from Cons.IH[OF this Cons.prems(2)] taken_mono[of seen G b u] show ?thesis by auto
  qed
qed simp

lemma exclude_duplicates_distinct:
  "distinct (map (\<lambda>u. lower G (us_Subject u)) (proxyUsers (exclude_duplicates G Quote b seen us)))"
proof (induction us arbitrary: seen)
  case (Cons u us)
  show ?case
  proof (cases "proxyIncluded (verdict G Quote seen u)")
    case True
    from verdict_included[OF True, of b]
    have "lower G (us_Subject (ru_proxyUser r)) \<noteq> lower G (us_Subject (ru_proxyUser u))"
      if "r \<in> set (exclude_duplicates G Quote b (taken G b seen u) us)" "proxyIncluded r" for r
      using exclude_duplicates_included[OF that] by auto
    then have "lower G (us_Subject (ru_proxyUser u)) \<notin> (\<lambda>u. lower G (us_Subject u)) `
        set (proxyUsers (exclude_duplicates G Quote b (taken G b seen u) us))"
      by (fastforce simp: proxyUsers_def)
    with True Cons.IH[of "taken G b seen u"] verdict_included[OF True, of b] show ?thesis
      by (simp add: exclude_duplicates_Cons proxyUsers_def image_image)
  qed (use Cons.IH in \<open>simp add: exclude_duplicates_Cons proxyUsers_def\<close>)
qed (simp add: proxyUsers_def)

text \<open>A user of the bootstrap name claims its subject, whether or not it is rendered.\<close>

lemma bootstrap_claims:
  assumes "sorted_wrt (\<lambda>x y. usr_Name (ru_user y) = b \<longrightarrow> usr_Name (ru_user x) = b) us"
    and "a \<in> set us" "usr_Name (ru_user a) = b"
    and "proxyIncluded a \<longrightarrow> us_Subject (ru_proxyUser a) = tu_Subject (usr_Spec (ru_user a))"
    and "r \<in> set (exclude_duplicates G Quote b seen us)" "proxyIncluded r" "usr_Name (ru_user r) \<noteq> b"
  shows "lower G (us_Subject (ru_proxyUser r)) \<noteq> lower G (tu_Subject (usr_Spec (ru_user a)))"
  using assms
proof (induction us arbitrary: seen)
  case (Cons u us)
  have "usr_Name (ru_user u) = b" using Cons.prems(1-3) by (cases "u = a") auto
  then have "r \<noteq> verdict G Quote seen u" using Cons.prems(7) verdict_user by metis
  with Cons.prems(5) have r: "r \<in> set (exclude_duplicates G Quote b (taken G b seen u) us)"
    by (simp add: exclude_duplicates_Cons)
  show ?case
  proof (cases "u = a")
    case True
    from exclude_duplicates_included[OF r Cons.prems(6)] taken_bootstrap[of a b G seen] Cons.prems(3,4) True
    show ?thesis by auto
  next
    case False
    show ?thesis by (rule Cons.IH) (use Cons.prems False r in auto)
  qed
qed simp

lemma sorted_bootstrap_first:
  "sorted_wrt (\<lambda>x y. usr_Name (ru_user y) = b \<longrightarrow> usr_Name (ru_user x) = b) (sort_key (user_order b) us)"
proof -
  have "sorted_wrt (\<lambda>x y. user_order b x \<le> user_order b y) (sort_key (user_order b) us)"
    using sorted_sort_key[of "user_order b" us] by (simp only: sorted_map)
  then show ?thesis
    by (rule sorted_wrt_mono_rel[rotated]) (auto simp: user_order_def less_eq_prod_def)
qed

lemma resolveConsoleUsers_Inr:
  assumes "resolveConsoleUsers G Quote users secrets s console = Inr rs"
  obtains items rs0 where "api_List users s (con_Namespace console) = Inr items"
    and "resolve_each G Quote (api_Live secrets s) console items = Inr rs0"
    and "rs = exclude_duplicates G Quote (bootstrapAdminUserName console) []
                (sort_key (user_order (bootstrapAdminUserName console)) rs0)"
  using assms by (auto simp: resolveConsoleUsers_def split: sum.splits)

section \<open>Convergence of the bootstrap administrator\<close>

lemma equalBootstrapAdminSpec_iff: "equalBootstrapAdminSpec a b \<longleftrightarrow> a = b"
  by (auto simp: equalBootstrapAdminSpec_def split: option.splits)

definition bootstrap_key :: "PgConsole \<Rightarrow> object_key" where
  "bootstrap_key console = (con_Namespace console, bootstrapAdminUserName console)"

text \<open>
  The API answers as documented, an object read under a key carries that key, and the cache
  is not behind: what it does not know does not exist.
\<close>

definition bootstrap_good :: "kube \<Rightarrow> ('s, PgToolBoxUser) client \<Rightarrow> PgConsole \<Rightarrow> 's \<Rightarrow> bool" where
  "bootstrap_good K users console s =
     (owners_ok K \<and> client_ok users user_key user_content
      \<and> (\<forall>u. api_Get users s (bootstrap_key console) = Inr u \<longrightarrow> user_key u = bootstrap_key console)
      \<and> (\<forall>u. api_Get users s (bootstrap_key console) = Inl NotFound \<longrightarrow>
             user_key u = bootstrap_key console \<longrightarrow> fst (api_Create users s u) \<noteq> Some AlreadyExists))"

definition bootstrap_settled :: "kube \<Rightarrow> ('s, PgToolBoxUser) client \<Rightarrow> PgConsole \<Rightarrow> 's \<Rightarrow> bool" where
  "bootstrap_settled K users console s =
     (owners_ok K \<and> (\<exists>u. api_Get users s (bootstrap_key console) = Inr u \<and> usr_Spec u = bootstrap_spec console))"

lemma bootstrap_desired:
  assumes "owners_ok K"
  obtains meta where
    "SetControllerReference K (con_Meta console)
       (new_meta (bootstrapAdminUserName console) (con_Namespace console)
          (CommonLabels application (con_Name console))) = Inr meta"
    "key_of meta = bootstrap_key console"
proof -
  let ?m = "new_meta (bootstrapAdminUserName console) (con_Namespace console)
      (CommonLabels application (con_Name console))"
  have "m_OwnerReferences ?m = []" by simp
  with assms obtain r where "SetControllerReference K (con_Meta console) ?m = Inr (?m\<lparr>m_OwnerReferences := [r]\<rparr>)"
    unfolding owners_ok_def by blast
  then show thesis by (rule that) (simp add: key_of_def bootstrap_key_def)
qed

lemma bootstrap_settles:
  assumes "bootstrap_good K users console s" "reconcileBootstrapAdmin K users console s = (Inr r, s')"
  shows "bootstrap_settled K users console s'"
proof -
  from assms(1) have K: "owners_ok K" and cl: "client_ok users user_key user_content"
    and keyed: "\<And>u. api_Get users s (bootstrap_key console) = Inr u \<Longrightarrow> user_key u = bootstrap_key console"
    and fresh: "\<And>u. api_Get users s (bootstrap_key console) = Inl NotFound \<Longrightarrow>
             user_key u = bootstrap_key console \<Longrightarrow> fst (api_Create users s u) \<noteq> Some AlreadyExists"
    by (auto simp: bootstrap_good_def)
  obtain meta where meta: "SetControllerReference K (con_Meta console)
       (new_meta (bootstrapAdminUserName console) (con_Namespace console)
          (CommonLabels application (con_Name console))) = Inr meta" "key_of meta = bootstrap_key console"
    by (rule bootstrap_desired[OF K])
  let ?d = "\<lparr>usr_Meta = meta, usr_Spec = bootstrap_spec console, usr_Status = new_user_status\<rparr>"
  have written: "bootstrap_settled K users console s'"
    if "stores users user_content s' (user_key x) x" "user_key x = bootstrap_key console"
      "usr_Spec x = bootstrap_spec console" for x
    using that K by (auto simp: stores_def bootstrap_settled_def user_content_def)
  show ?thesis
  proof (cases "api_Get users s (bootstrap_key console)")
    case (Inl e)
    with assms(2) meta have "e = NotFound"
      by (cases e) (simp_all add: reconcileBootstrapAdmin_def Let_def)
    moreover have "user_key ?d = bootstrap_key console" by (simp add: user_key_def meta(2))
    ultimately have "api_Create users s ?d = (None, s')"
      using fresh[of ?d] assms(2) meta Inl
      by (auto simp: reconcileBootstrapAdmin_def Let_def split: prod.splits option.splits api_error.splits)
    then have "stores users user_content s' (user_key ?d) ?d" using client_ok_writes(1)[OF cl] by (simp add: writes_def)
    then show ?thesis by (rule written) (simp_all add: user_key_def meta(2))
  next
    case (Inr u)
    show ?thesis
    proof (cases "usr_Spec u = bootstrap_spec console")
      case True
      with Inr assms(2) meta K show ?thesis
        by (simp add: reconcileBootstrapAdmin_def Let_def equalBootstrapAdminSpec_iff bootstrap_settled_def)
    next
      case False
      let ?u = "u\<lparr>usr_Spec := bootstrap_spec console, usr_Meta := (usr_Meta u)\<lparr>m_Labels := m_Labels meta,
                   m_OwnerReferences := m_OwnerReferences meta\<rparr>\<rparr>"
      from False Inr assms(2) meta have "api_Update users s ?u = (None, s')"
        by (auto simp: reconcileBootstrapAdmin_def Let_def equalBootstrapAdminSpec_iff split: prod.splits option.splits)
      moreover have "user_key ?u = bootstrap_key console"
        using keyed[OF Inr] by (simp add: user_key_def key_of_def)
      moreover from calculation(1) have "stores users user_content s' (user_key ?u) ?u"
        using client_ok_writes(2)[OF cl] by (simp add: writes_def)
      ultimately show ?thesis by (intro written[of ?u]) simp_all
    qed
  qed
qed

interpretation bootstrap: convergence
  "reconcileBootstrapAdmin K users console" "bootstrap_good K users console" "bootstrap_settled K users console"
  for K users console
proof
  show "bootstrap_settled K users console s'"
    if "bootstrap_good K users console s" "reconcileBootstrapAdmin K users console s = (Inr r, s')" for s r s'
    using that by (rule bootstrap_settles)
  show "\<exists>r. reconcileBootstrapAdmin K users console s = (Inr r, s)" if "bootstrap_settled K users console s" for s
  proof -
    from that have K: "owners_ok K" by (simp add: bootstrap_settled_def)
    obtain meta where "SetControllerReference K (con_Meta console)
         (new_meta (bootstrapAdminUserName console) (con_Namespace console)
            (CommonLabels application (con_Name console))) = Inr meta" "key_of meta = bootstrap_key console"
      by (rule bootstrap_desired[OF K])
    moreover from that obtain u where "api_Get users s (bootstrap_key console) = Inr u"
      "usr_Spec u = bootstrap_spec console" by (auto simp: bootstrap_settled_def)
    ultimately show ?thesis
      by (simp add: reconcileBootstrapAdmin_def Let_def equalBootstrapAdminSpec_iff)
  qed
qed

section \<open>Properties\<close>


text \<open>
  C18: nobody can take the first administrator's identity. When the operator's bootstrap user
  exists, no other user object whose subject lowercases to the same identity is rendered into
  the proxy configuration, not even while the bootstrap user itself cannot be rendered.
\<close>

theorem bootstrap_subject_reserved:
  assumes "resolveConsoleUsers G Quote users secrets s console = Inr rs"
    and "api_List users s (con_Namespace console) = Inr items"
    and "a \<in> set items" "usr_Name a = bootstrapAdminUserName console"
    and "lor_Name (tu_PgConsoleRef (usr_Spec a)) = con_Name console"
    and "r \<in> set rs" "proxyIncluded r" "usr_Name (ru_user r) \<noteq> bootstrapAdminUserName console"
  shows "lower G (us_Subject (ru_proxyUser r)) \<noteq> lower G (tu_Subject (usr_Spec a))"
proof -
  let ?b = "bootstrapAdminUserName console"
  obtain rs0 where rs0: "resolve_each G Quote (api_Live secrets s) console items = Inr rs0"
    and rs: "rs = exclude_duplicates G Quote ?b [] (sort_key (user_order ?b) rs0)"
    using resolveConsoleUsers_Inr[OF assms(1)] assms(2) by (metis sum.inject(2))
  obtain ra where ra: "ra \<in> set rs0" "ru_user ra = a"
    using resolve_each_complete[OF rs0 assms(3,5)] by blast
  have "lower G (us_Subject (ru_proxyUser r)) \<noteq> lower G (tu_Subject (usr_Spec (ru_user ra)))"
    using sorted_bootstrap_first
    by (rule bootstrap_claims)
      (use ra assms(4,6-8) rs resolve_each_ok[OF rs0 subset_refl ra(1)] in \<open>auto simp: resolved_ok_def\<close>)
  with ra(2) show ?thesis by simp
qed

text \<open>
  the first administrator cannot stay deleted. From any state of the API server that
  answers as documented, a successful pass leaves the bootstrap user in place at dba level
  with the subject and password reference the console declares, whatever was there before;
  and every further pass issues no write.
\<close>

theorem bootstrap_admin_restored:
  assumes "bootstrap_good K users console s" "reconcileBootstrapAdmin K users console s = (Inr r, s')"
  shows "\<exists>u. api_Get users s' (con_Namespace console, bootstrapAdminUserName console) = Inr u
     \<and> tu_Level (usr_Spec u) = RoleLevelDBA \<and> tu_Subject (usr_Spec u) = ba_Subject (au_BootstrapAdmin (con_auth console))
     \<and> tu_LocalPasswordSecretRef (usr_Spec u) = ba_PasswordSecretRef (au_BootstrapAdmin (con_auth console))
     \<and> ((\<lambda>t. snd (reconcileBootstrapAdmin K users console t)) ^^ n) s' = s'"
proof -
  from bootstrap.settles[OF assms] obtain u
    where "api_Get users s' (bootstrap_key console) = Inr u" "usr_Spec u = bootstrap_spec console"
    by (auto simp: bootstrap_settled_def)
  with bootstrap.runs_quiet[OF assms, of n] show ?thesis
    by (simp add: bootstrap_key_def bootstrap_spec_def Let_def)
qed

section \<open>Witnesses\<close>

text \<open>A namespace with the administrator, another object claiming her identity, and a viewer.\<close>

definition sample_user :: "string \<Rightarrow> string \<Rightarrow> string \<Rightarrow> PgToolBoxUser" where
  "sample_user name subject level =
     \<lparr>usr_Meta = new_meta name ''db'' fmempty,
      usr_Spec = \<lparr>tu_PgConsoleRef = \<lparr>lor_Name = ''pg''\<rparr>, tu_Subject = subject, tu_Level = level,
                  tu_LocalPasswordSecretRef = None\<rparr>,
      usr_Status = new_user_status\<rparr>"

definition sample_users :: "PgToolBoxUser list" where
  "sample_users =
     [sample_user ''a-shadow'' ''JANE'' RoleLevelView, sample_user ''joe'' ''joe'' RoleLevelView,
      sample_user ''pg-bootstrap-admin'' ''Jane'' RoleLevelDBA]"

definition sample_resolved :: "PgToolBoxUser \<Rightarrow> resolvedConsoleUser" where
  "sample_resolved u =
     \<lparr>ru_user = u, ru_proxyUser = \<lparr>us_Subject = tu_Subject (usr_Spec u), us_Level = tu_Level (usr_Spec u),
        us_LocalPasswordBcrypt = []\<rparr>, ru_proxyExcluded = False, ru_proxyExcludeReason = []\<rparr>"

lemma sample_resolution:
  "resolveConsoleUsers (sample_lib JNull) id (fixed_client (\<lambda>_. Inl NotFound) sample_users)
     (fixed_client (\<lambda>_. Inl NotFound) []) () sample_console
   = Inr [sample_resolved (sample_user ''pg-bootstrap-admin'' ''Jane'' RoleLevelDBA),
          exclude ''duplicate subject JANE'' (sample_resolved (sample_user ''a-shadow'' ''JANE'' RoleLevelView)),
          sample_resolved (sample_user ''joe'' ''joe'' RoleLevelView)]"
proof -
  have boot: "bootstrapAdminUserName sample_console = ''pg-bootstrap-admin''"
    by (simp add: bootstrapAdminUserName_def)
  have one: "resolveConsoleUser (sample_lib JNull) id reader sample_console (sample_user n j l) = Inr (sample_resolved (sample_user n j l))"
    if "l = RoleLevelView \<or> l = RoleLevelDBA" for reader n j l
    using that by (auto simp: resolveConsoleUser_def sample_resolved_def sample_user_def password_ref_def
        Level_Valid_def Rank_def level_defs role_level_defs)
  have "resolve_each (sample_lib JNull) id reader sample_console sample_users = Inr (map sample_resolved sample_users)" for reader
    using one by (simp add: sample_users_def) (simp add: sample_user_def)
  moreover have "sort_key (user_order ''pg-bootstrap-admin'') (map sample_resolved sample_users)
      = map sample_resolved [sample_user ''pg-bootstrap-admin'' ''Jane'' RoleLevelDBA,
          sample_user ''a-shadow'' ''JANE'' RoleLevelView, sample_user ''joe'' ''joe'' RoleLevelView]"
    by (simp add: sample_users_def user_order_def sample_resolved_def sample_user_def less_eq_prod_def
        list_less_def list_le_def less_char_def)
  ultimately show ?thesis
    by (simp add: resolveConsoleUsers_def boot exclude_duplicates_Cons verdict_def taken_def
        sample_resolved_def sample_user_def exclude_def ToLower_def is_ascii_def byte_def lower_ascii_def)
qed


theorem bootstrap_subject_reserved_witness:
  "lower (sample_lib JNull) ''joe'' \<noteq> lower (sample_lib JNull) ''Jane''"
  using bootstrap_subject_reserved[OF sample_resolution,
      of sample_users "sample_user ''pg-bootstrap-admin'' ''Jane'' RoleLevelDBA"
         "sample_resolved (sample_user ''joe'' ''joe'' RoleLevelView)"]
  by (simp add: sample_users_def sample_user_def sample_resolved_def proxyIncluded_def bootstrapAdminUserName_def)

theorem bootstrap_admin_restored_witness:
  "\<exists>u. api_Get (store_client user_key)
         (snd (reconcileBootstrapAdmin sample_kube (store_client user_key) sample_console fmempty))
         (''db'', ''pg-bootstrap-admin'') = Inr u
       \<and> tu_Level (usr_Spec u) = RoleLevelDBA \<and> tu_Subject (usr_Spec u) = ''Jane''"
proof -
  have boot: "bootstrapAdminUserName sample_console = ''pg-bootstrap-admin''"
    by (simp add: bootstrapAdminUserName_def)
  have "bootstrap_good sample_kube (store_client user_key) sample_console fmempty"
    by (simp add: bootstrap_good_def sample_kube_owners store_client_ok)
  moreover have "reconcileBootstrapAdmin sample_kube (store_client user_key) sample_console fmempty
      = (Inr (), snd (reconcileBootstrapAdmin sample_kube (store_client user_key) sample_console fmempty))"
    by (simp add: reconcileBootstrapAdmin_def sample_kube_def Let_def)
  ultimately show ?thesis
    using bootstrap_admin_restored[of sample_kube "store_client user_key" sample_console fmempty "()" _ 0]
    by (fastforce simp: boot sample_spec_def)
qed

end
