(* ===== verification/Render.thy ===== *)
theory Render
  imports Kube "HOL-Library.Word"
begin

unbundle bit_operations_syntax

text \<open>
  The configuration checksum of \<open>internal/render/render.go\<close>. The hash object is the text
  written to it so far; SHA-256 is the library parameter.

  \<open>prefix_code\<close> is the contract of the framing: an encoding that can be read off the front
  of a longer text. Fixed-width integers, length-prefixed parts and key/value entries are
  its interpretations, and the checksum's injectivity follows.
\<close>

section \<open>Model\<close>

text \<open>\<open>binary.BigEndian.PutUint64\<close>: the eight bytes, most significant first.\<close>

definition word_byte :: "64 word \<Rightarrow> nat \<Rightarrow> char" where
  "word_byte v n = char_of (unat (drop_bit n v) mod 256)"

definition PutUint64 :: "64 word \<Rightarrow> string" where
  "PutUint64 v = map (word_byte v) [56, 48, 40, 32, 24, 16, 8, 0]"

definition writeChecksumUint64 :: "string \<Rightarrow> 64 word \<Rightarrow> string" where
  "writeChecksumUint64 digest value = digest @ PutUint64 value"

definition writeChecksumPart :: "string \<Rightarrow> string \<Rightarrow> string" where
  "writeChecksumPart digest value = writeChecksumUint64 digest (word_of_nat (length value)) @ value"

definition writeChecksumMap :: "string \<Rightarrow> smap \<Rightarrow> string" where
  "writeChecksumMap digest values =
     (let entries = sorted_list_of_fmap values in
      foldl (\<lambda>d (key, value). writeChecksumPart (writeChecksumPart d key) value)
        (writeChecksumUint64 digest (word_of_nat (length entries))) entries)"

definition Checksum :: "golib \<Rightarrow> smap \<Rightarrow> string" where
  "Checksum G rendered =
     hex_EncodeToString (sha256_Sum256 G (writeChecksumMap (writeChecksumPart [] ''pgtoolbox-checksum-v1'') rendered))"

definition Revision :: "string \<Rightarrow> string" where
  "Revision checksum = ''cfg-'' @ (if length checksum > 8 then take 8 checksum else checksum)"

section \<open>Prefix codes\<close>

locale prefix_code =
  fixes enc :: "'a \<Rightarrow> string" and ok :: "'a \<Rightarrow> bool"
  assumes read: "ok x \<Longrightarrow> ok y \<Longrightarrow> enc x @ r = enc y @ r' \<Longrightarrow> x = y \<and> r = r'"
begin

lemma read_list:
  assumes "list_all ok xs" "list_all ok ys" "length xs = length ys"
    and "concat (map enc xs) @ r = concat (map enc ys) @ r'"
  shows "xs = ys \<and> r = r'"
  using assms(3,1,2,4)
proof (induction xs ys rule: list_induct2)
  case (Cons x xs y ys)
  then have "x = y \<and> concat (map enc xs) @ r = concat (map enc ys) @ r'"
    by (intro read) simp_all
  with Cons show ?case by simp
qed simp

end

lemma fixed_width_prefix_code:
  assumes "\<And>x. length (enc x) = n" "inj enc"
  shows "prefix_code enc (\<lambda>_. True)"
proof
  fix x y r r'
  assume "enc x @ r = enc y @ r'"
  then have "enc x = enc y \<and> r = r'" by (simp add: append_eq_append_conv assms(1))
  with assms(2) show "x = y \<and> r = r'" by (simp add: inj_eq)
qed

lemma PutUint64_length [simp]: "length (PutUint64 v) = 8"
  by (simp add: PutUint64_def)

lemma word_byte_bit:
  assumes "word_byte v n = word_byte w n" "i < 8"
  shows "bit v (n + i) = bit w (n + i)"
proof -
  have "byte (word_byte v n) = byte (word_byte w n)" using assms(1) by simp
  then have "take_bit 8 (unat (drop_bit n v)) = take_bit 8 (unat (drop_bit n w))"
    by (simp add: word_byte_def take_bit_eq_mod)
  then have "bit (take_bit 8 (unat (drop_bit n v))) i = bit (take_bit 8 (unat (drop_bit n w))) i" by simp
  with assms(2) show ?thesis by (simp add: bit_take_bit_iff bit_unsigned_iff bit_drop_bit_eq)
qed

lemma PutUint64_inj: "inj PutUint64"
proof (rule injI, rule bit_word_eqI)
  fix v w :: "64 word" and k :: nat
  assume eq: "PutUint64 v = PutUint64 w" and k: "k < LENGTH(64)"
  have "8 * (k div 8) \<in> set [56, 48, 40, 32, 24, 16, 8, 0 :: nat]"
  proof -
    have "k div 8 < 8" using k by simp
    then have "k div 8 \<in> {0, 1, 2, 3, 4, 5, 6, 7}" by auto
    then show ?thesis by auto
  qed
  with eq have "word_byte v (8 * (k div 8)) = word_byte w (8 * (k div 8))"
    unfolding PutUint64_def map_eq_conv by blast
  from word_byte_bit[OF this, of "k mod 8"] show "bit v k = bit w k" by simp
qed

interpretation uint64_code: prefix_code PutUint64 "\<lambda>_. True"
  by (rule fixed_width_prefix_code[OF PutUint64_length PutUint64_inj])

definition part_bytes :: "string \<Rightarrow> string" where
  "part_bytes value = PutUint64 (word_of_nat (length value)) @ value"

definition part_ok :: "string \<Rightarrow> bool" where
  "part_ok value = (length value < 2 ^ 64)"

lemma word_of_length_inject:
  assumes "m < 2 ^ 64" "n < 2 ^ 64" "(word_of_nat m :: 64 word) = word_of_nat n"
  shows "m = n"
proof -
  have "unat (word_of_nat m :: 64 word) = unat (word_of_nat n :: 64 word)" using assms(3) by simp
  with assms(1,2) show ?thesis by (simp add: unat_of_nat)
qed

interpretation part_code: prefix_code part_bytes part_ok
proof
  fix x y r r'
  assume ok: "part_ok x" "part_ok y" and eq: "part_bytes x @ r = part_bytes y @ r'"
  then have "(word_of_nat (length x) :: 64 word) = word_of_nat (length y) \<and> x @ r = y @ r'"
    by (intro uint64_code.read) (simp_all add: part_bytes_def)
  with ok have "length x = length y \<and> x @ r = y @ r'"
    using word_of_length_inject[of "length x" "length y"] by (simp add: part_ok_def)
  then show "x = y \<and> r = r'" by auto
qed

definition entry_bytes :: "string \<times> string \<Rightarrow> string" where
  "entry_bytes e = part_bytes (fst e) @ part_bytes (snd e)"

definition entry_ok :: "string \<times> string \<Rightarrow> bool" where
  "entry_ok e = (part_ok (fst e) \<and> part_ok (snd e))"

interpretation entry_code: prefix_code entry_bytes entry_ok
proof
  fix x y :: "string \<times> string" and r r'
  assume ok: "entry_ok x" "entry_ok y" and eq: "entry_bytes x @ r = entry_bytes y @ r'"
  have 1: "fst x = fst y \<and> part_bytes (snd x) @ r = part_bytes (snd y) @ r'"
    using ok eq by (intro part_code.read) (simp_all add: entry_bytes_def entry_ok_def)
  then have "snd x = snd y \<and> r = r'"
    using ok by (intro part_code.read) (simp_all add: entry_ok_def)
  with 1 show "x = y \<and> r = r'" by (simp add: prod_eq_iff)
qed

section \<open>The checksum\<close>

lemma writeChecksumPart_bytes: "writeChecksumPart d v = d @ part_bytes v"
  by (simp add: writeChecksumPart_def writeChecksumUint64_def part_bytes_def)

lemma write_entries:
  "foldl (\<lambda>d (key, value). writeChecksumPart (writeChecksumPart d key) value) d es
     = d @ concat (map entry_bytes es)"
  by (induction es arbitrary: d) (auto simp: writeChecksumPart_bytes entry_bytes_def)

text \<open>A rendered set small enough that no length wraps around in 64 bits.\<close>

definition fits :: "smap \<Rightarrow> bool" where
  "fits m = (list_all entry_ok (sorted_list_of_fmap m) \<and> length (sorted_list_of_fmap m) < 2 ^ 64)"

lemma writeChecksumMap_inject:
  assumes "fits a" "fits b" "writeChecksumMap d a = writeChecksumMap d b"
  shows "a = b"
proof -
  let ?a = "sorted_list_of_fmap a" and ?b = "sorted_list_of_fmap b"
  have "(word_of_nat (length ?a) :: 64 word) = word_of_nat (length ?b)
      \<and> concat (map entry_bytes ?a) = concat (map entry_bytes ?b)"
    using assms(3) by (intro uint64_code.read) (simp_all add: writeChecksumMap_def write_entries writeChecksumUint64_def Let_def)
  moreover have "length ?a < 2 ^ 64" "length ?b < 2 ^ 64" using assms(1,2) by (simp_all add: fits_def)
  ultimately have "length ?a = length ?b" "concat (map entry_bytes ?a) @ [] = concat (map entry_bytes ?b) @ []"
    using word_of_length_inject by simp_all
  then have "?a = ?b" using entry_code.read_list[of ?a ?b "[]" "[]"] assms(1,2) by (simp add: fits_def)
  then have "fmlookup a = fmlookup b" by (metis map_of_sorted_list)
  then show ?thesis by (rule fmlookup_inject[THEN iffD1])
qed

section \<open>Properties\<close>

text \<open>
  the configuration checksum tells configurations apart. When SHA-256 does not collide on
  the two framed texts, the checksums of two rendered file sets are equal exactly when the
  sets are: the length prefixes and the sorted keys lose nothing, and neither the order of a
  map nor bytes shifted between adjacent files can produce or hide a change.
\<close>

theorem Checksum_injective:
  assumes "fits a" "fits b"
    and "let frame = writeChecksumMap (writeChecksumPart [] ''pgtoolbox-checksum-v1'') in
         sha256_Sum256 G (frame a) = sha256_Sum256 G (frame b) \<longrightarrow> frame a = frame b"
  shows "Checksum G a = Checksum G b \<longleftrightarrow> a = b"
proof
  assume "Checksum G a = Checksum G b"
  then have "hex_DecodeString (Checksum G a) = hex_DecodeString (Checksum G b)" by simp
  with assms(3) have "writeChecksumMap (writeChecksumPart [] ''pgtoolbox-checksum-v1'') a
      = writeChecksumMap (writeChecksumPart [] ''pgtoolbox-checksum-v1'') b"
    by (simp add: Checksum_def rt_simps Let_def)
  with assms(1,2) show "a = b" by (rule writeChecksumMap_inject)
qed simp

section \<open>Witness\<close>

theorem Checksum_injective_witness:
  "let G = (sample_lib JNull)\<lparr>sha256_Sum256 := (\<lambda>s. s)\<rparr> in
   Checksum G (fmupd ''config.yaml'' ''a'' fmempty) \<noteq> Checksum G (fmupd ''config.yaml'' ''b'' fmempty)"
proof -
  have "fits (fmupd ''config.yaml'' v fmempty)" if "v \<in> {''a'', ''b''}" for v
    using that by (auto simp: fits_def entry_ok_def part_ok_def)
  moreover have "fmupd ''config.yaml'' ''a'' fmempty \<noteq> (fmupd ''config.yaml'' ''b'' fmempty :: smap)"
    proof
    assume "fmupd ''config.yaml'' ''a'' fmempty = (fmupd ''config.yaml'' ''b'' fmempty :: smap)"
    then have "at (fmupd ''config.yaml'' ''a'' fmempty) ''config.yaml'' = at (fmupd ''config.yaml'' ''b'' fmempty) ''config.yaml''" by simp
    then show False by simp
  qed
  ultimately show ?thesis
    using Checksum_injective[of "fmupd ''config.yaml'' ''a'' fmempty" "fmupd ''config.yaml'' ''b'' fmempty"
        "(sample_lib JNull)\<lparr>sha256_Sum256 := (\<lambda>s. s)\<rparr>"]
    by (simp add: Let_def)
qed

end
