(* ===== verification/Proxy_Render.thy ===== *)
theory Proxy_Render
  imports Users Render Server
begin

text \<open>
  The proxy's configuration Secret (\<open>internal/controller/pgconsole/proxyconfig.go\<close>): the
  configuration rendered from the console and its users, and the reconciliation of the
  Secret that carries it and the session key.

  \<open>yaml\<close> stands for the YAML library on the proxy's configuration type, \<open>Quote\<close> for
  \<open>%q\<close> and \<open>Show\<close> for the text of a rendering error, both of which reach messages only.
\<close>

section \<open>Model\<close>

definition consolePort :: int where "consolePort = 3000"
definition proxyPort :: int where "proxyPort = 8080"
definition pgAdminPort :: int where "pgAdminPort = 8081"
definition serviceAccountRoot :: string where
  "serviceAccountRoot = ''/var/run/secrets/kubernetes.io/serviceaccount''"

definition pgAdminEnabled :: "PgConsole \<Rightarrow> bool" where
  "pgAdminEnabled console = (case pa_Enabled (sp_PgAdmin (con_Spec console)) of None \<Rightarrow> True | Some b \<Rightarrow> b)"

definition proxyConfigSecretSuffix :: string where "proxyConfigSecretSuffix = ''-proxy''"
definition proxyConfigFileName :: string where "proxyConfigFileName = ''config.yaml''"
definition proxySessionKeyName :: string where "proxySessionKeyName = ''session-key''"
definition oidcClientSecretMountPath :: string where "oidcClientSecretMountPath = ''/etc/pgtoolbox-proxy/oidc''"
definition oidcClientSecretFile :: string where "oidcClientSecretFile = ''client-secret''"
definition defaultOIDCClientSecretKey :: string where "defaultOIDCClientSecretKey = ''clientSecret''"
definition proxyCallbackPath :: string where "proxyCallbackPath = ''/auth/oidc/callback''"
definition openshiftCallbackPath :: string where "openshiftCallbackPath = ''/auth/openshift/callback''"

lemmas proxy_constants =
  consolePort_def proxyPort_def pgAdminPort_def serviceAccountRoot_def oidcClientSecretMountPath_def
  oidcClientSecretFile_def proxyCallbackPath_def openshiftCallbackPath_def

record configIssue =
  is_reason :: string
  is_message :: string

record yaml =
  yaml_Marshal :: "Config \<Rightarrow> (string, string) result"
  yaml_Unmarshal :: "string \<Rightarrow> Config option"

datatype render_error =
    NoProviderEnabled | AccessMinLevelInvalid string | MarshalFailed string
  | RenderedInvalid "config_error list"

definition portString :: "int \<Rightarrow> string" where
  "portString port = Itoa port"

definition loopbackUpstream :: "int \<Rightarrow> string" where
  "loopbackUpstream port = ''http://127.0.0.1:'' @ portString port"

definition consoleBaseURL :: "PgConsole \<Rightarrow> string" where
  "consoleBaseURL console =
     (let hostname = ex_Hostname (sp_Exposure (con_Spec console)) in
      if hostname \<noteq> [] then ''https://'' @ hostname else ''http://localhost:'' @ portString proxyPort)"

definition externalCallbackURL :: "PgConsole \<Rightarrow> string \<Rightarrow> string" where
  "externalCallbackURL console path =
     (if ex_Hostname (sp_Exposure (con_Spec console)) = [] then [] else consoleBaseURL console @ path)"

definition serviceAccountClientID :: "golib \<Rightarrow> PgConsole \<Rightarrow> string" where
  "serviceAccountClientID G console =
     ''system:serviceaccount:'' @ con_Namespace console @ '':'' @ ResourceName G application (con_Name console) []"

definition base_config :: "PgConsole \<Rightarrow> string \<Rightarrow> User list \<Rightarrow> Config" where
  "base_config console sessionKey users =
     \<lparr>cf_Session = \<lparr>sc_CookieName = [], sc_CookieSecrets = [sessionKey], sc_MaxAge = 0, sc_Secure = None\<rparr>,
      cf_Server = \<lparr>sv_Listen = '':'' @ portString proxyPort, sv_UpstreamDialTimeout = 0,
                   sv_UpstreamResponseHeaderTimeout = 0\<rparr>,
      cf_Provider = \<lparr>pc_Modes = [], pc_OIDC = None, pc_OpenShift = None\<rparr>,
      cf_Users = users,
      cf_Routes = [\<lparr>rc_PathPrefix = ''/'', rc_Upstream = loopbackUpstream consolePort, rc_MinLevel = LevelView\<rparr>],
      cf_AccessRequest = \<lparr>ar_Enabled = True, ar_ConsoleName = con_Name console,
                          ar_Namespace = con_Namespace console\<rparr>\<rparr>"

definition provider_config :: "golib \<Rightarrow> PgConsole \<Rightarrow> ProviderConfig" where
  "provider_config G console =
     (let auth = con_auth console in
      \<lparr>pc_Modes =
         (case au_Local auth of None \<Rightarrow> [] | Some _ \<Rightarrow> [ModeLocal])
         @ (case au_OIDC auth of None \<Rightarrow> [] | Some _ \<Rightarrow> [ModeOIDC])
         @ (case au_OpenShift auth of None \<Rightarrow> [] | Some _ \<Rightarrow> [ModeOpenShift]),
       pc_OIDC = map_option (\<lambda>oidc.
         \<lparr>oc_IssuerURL = po_IssuerURL oidc, oc_ClientID = po_ClientID oidc,
          oc_ClientSecretFile = oidcClientSecretMountPath @ ''/'' @ oidcClientSecretFile,
          oc_RedirectURL = externalCallbackURL console proxyCallbackPath,
          oc_Scopes = [], oc_SubjectClaim = []\<rparr>) (au_OIDC auth),
       pc_OpenShift = map_option (\<lambda>_.
         \<lparr>os_ClientID = serviceAccountClientID G console,
          os_ClientSecretFile = serviceAccountRoot @ ''/token'',
          os_RedirectURL = externalCallbackURL console openshiftCallbackPath,
          os_DiscoveryURL = [], os_APIURL = [], os_CAFile = serviceAccountRoot @ ''/ca.crt'',
          os_Scopes = [], os_UserInfoPath = []\<rparr>) (au_OpenShift auth)\<rparr>)"

definition pgadmin_route :: "string \<Rightarrow> RouteConfig" where
  "pgadmin_route level =
     \<lparr>rc_PathPrefix = ''/pgadmin'', rc_Upstream = loopbackUpstream pgAdminPort, rc_MinLevel = level\<rparr>"

definition pgadmin_level :: "PgConsole \<Rightarrow> string" where
  "pgadmin_level console =
     (let minLevel = pa_AccessMinLevel (sp_PgAdmin (con_Spec console)) in
      if minLevel = [] then LevelDBA else minLevel)"

text \<open>The configuration value \<open>renderProxyConfig\<close> assembles before it is marshalled.\<close>

definition assemble_config ::
  "golib \<Rightarrow> PgConsole \<Rightarrow> string \<Rightarrow> bool \<Rightarrow> User list \<Rightarrow> (render_error, Config) result" where
  "assemble_config G console sessionKey pgAdmin users =
     (let cfg = (base_config console sessionKey users)\<lparr>cf_Provider := provider_config G console\<rparr> in
      if pc_Modes (cf_Provider cfg) = [] then Inl NoProviderEnabled
      else if pgAdmin
      then (if \<not> Level_Valid (pgadmin_level console) then Inl (AccessMinLevelInvalid (pgadmin_level console))
            else Inr (cfg\<lparr>cf_Routes := pgadmin_route (pgadmin_level console) # cf_Routes cfg\<rparr>))
      else Inr cfg)"

definition renderProxyConfig ::
  "golib \<Rightarrow> yaml \<Rightarrow> PgConsole \<Rightarrow> string \<Rightarrow> bool \<Rightarrow> User list \<Rightarrow> (render_error, string) result" where
  "renderProxyConfig G Y console sessionKey pgAdmin users =
     bind_result (assemble_config G console sessionKey pgAdmin users) (\<lambda>cfg.
       case yaml_Marshal Y cfg of
         Inl e \<Rightarrow> Inl (MarshalFailed e)
       | Inr rendered \<Rightarrow>
           (case Parse G (yaml_Unmarshal Y) rendered of
              Inl es \<Rightarrow> Inl (RenderedInvalid es)
            | Inr _ \<Rightarrow> Inr rendered))"

definition oidcClientSecretKey :: "SecretKeyReference \<Rightarrow> string" where
  "oidcClientSecretKey ref = (if skr_Key ref \<noteq> [] then skr_Key ref else defaultOIDCClientSecretKey)"

text \<open>\<open>None\<close> is the nil issue; \<open>ErrText\<close> is the text of an API error.\<close>

definition checkOIDCClientSecret ::
  "(string \<Rightarrow> string) \<Rightarrow> (api_error \<Rightarrow> string) \<Rightarrow> (object_key \<Rightarrow> (api_error, Secret) result) \<Rightarrow> PgConsole
   \<Rightarrow> configIssue option" where
  "checkOIDCClientSecret Quote ErrText reader console =
     (case au_OIDC (con_auth console) of
        None \<Rightarrow> None
      | Some oidc \<Rightarrow>
          (let ref = po_ClientSecretRef oidc in
           case reader (con_Namespace console, skr_Name ref) of
             Inl NotFound \<Rightarrow> Some \<lparr>is_reason = ReasonSecretNotFound,
               is_message = ''OIDC client secret '' @ skr_Name ref @ '' was not found''\<rparr>
           | Inl e \<Rightarrow> Some \<lparr>is_reason = ReasonSecretNotFound,
               is_message = ''OIDC client secret '' @ skr_Name ref @ '' could not be read: '' @ ErrText e\<rparr>
           | Inr secret \<Rightarrow>
               (if at (se_Data secret) (oidcClientSecretKey ref) = []
                then Some \<lparr>is_reason = ReasonSecretKeyMissing,
                  is_message = ''OIDC client secret '' @ skr_Name ref @ '' has no key ''
                                 @ Quote (oidcClientSecretKey ref)\<rparr>
                else None)))"

definition generateSessionKey :: "string option \<Rightarrow> string reconciled" where
  "generateSessionKey rnd =
     (case rnd of
        None \<Rightarrow> Inl (Failed ''generate proxy session key'')
      | Some value \<Rightarrow> Inr (b64_EncodeToString value))"

definition proxy_secret_key :: "golib \<Rightarrow> PgConsole \<Rightarrow> object_key" where
  "proxy_secret_key G console =
     (con_Namespace console, ResourceName G application (con_Name console) proxyConfigSecretSuffix)"

text \<open>
  The texts an error turns into and the libraries, as one argument of the reconciler.
\<close>

record render_lib =
  rl_Quote :: "string \<Rightarrow> string"
  rl_ErrText :: "api_error \<Rightarrow> string"
  rl_Show :: "render_error \<Rightarrow> string"
  rl_Yaml :: yaml

text \<open>The second half of the reconciler: the Secret is adopted, left alone, updated or created.\<close>

definition converge_proxy_secret ::
  "golib \<Rightarrow> kube \<Rightarrow> ('s, Secret) client \<Rightarrow> PgConsole \<Rightarrow> Secret option \<Rightarrow> string \<Rightarrow> string \<Rightarrow> 's
   \<Rightarrow> string reconciled \<times> 's" where
  "converge_proxy_secret G K secrets console found rendered sessionKey s =
     (let checksum = Checksum G (fmupd proxyConfigFileName rendered fmempty) in
      case found of
        Some existing \<Rightarrow>
          (if controller_uid K (se_Meta existing) \<noteq> Some (con_UID console)
           then (Inl (Failed ''proxy configuration secret exists and is not owned by this PgConsole''), s)
           else if at (se_Data existing) proxyConfigFileName = rendered
                   \<and> at (se_Data existing) proxySessionKeyName = sessionKey
           then (Inr checksum, s)
           else case api_Update secrets s
                  (existing\<lparr>se_Data := fmupd proxySessionKeyName sessionKey
                     (fmupd proxyConfigFileName rendered (se_Data existing))\<rparr>) of
                  (Some e, s') \<Rightarrow> (Inl (FailedApi ''update proxy configuration secret'' e), s')
                | (None, s') \<Rightarrow> (Inr checksum, s'))
      | None \<Rightarrow>
          (case SetControllerReference K (con_Meta console)
                  (new_meta (snd (proxy_secret_key G console)) (fst (proxy_secret_key G console))
                     (CommonLabels application (con_Name console))) of
             Inl e \<Rightarrow> (Inl (Failed e), s)
           | Inr meta \<Rightarrow>
               (case api_Create secrets s
                       \<lparr>se_Meta = meta, se_Type = SecretTypeOpaque, se_Immutable = None,
                        se_Data = fmupd proxySessionKeyName sessionKey
                          (fmupd proxyConfigFileName rendered fmempty)\<rparr> of
                  (Some e, s') \<Rightarrow> (Inl (FailedApi ''create proxy configuration secret'' e), s')
                | (None, s') \<Rightarrow> (Inr checksum, s'))))"

definition render_proxy_secret ::
  "golib \<Rightarrow> kube \<Rightarrow> render_lib \<Rightarrow> ('s, Secret) client \<Rightarrow> string option \<Rightarrow> PgConsole \<Rightarrow> User list
   \<Rightarrow> Secret option \<Rightarrow> 's \<Rightarrow> (configIssue, string) result reconciled \<times> 's" where
  "render_proxy_secret G K L secrets rnd console users found s =
     (let stored = (case found of Some existing \<Rightarrow> at (se_Data existing) proxySessionKeyName | None \<Rightarrow> []) in
      case (if stored = [] then generateSessionKey rnd else Inr stored) of
        Inl e \<Rightarrow> (Inl e, s)
      | Inr sessionKey \<Rightarrow>
          (case renderProxyConfig G (rl_Yaml L) console sessionKey (pgAdminEnabled console) users of
             Inl e \<Rightarrow> (Inr (Inl \<lparr>is_reason = ReasonRenderFailed, is_message = rl_Show L e\<rparr>), s)
           | Inr rendered \<Rightarrow>
               (case converge_proxy_secret G K secrets console found rendered sessionKey s of
                  (Inl e, s') \<Rightarrow> (Inl e, s')
                | (Inr checksum, s') \<Rightarrow> (Inr (Inr checksum), s'))))"

definition reconcileProxyConfigSecret ::
  "golib \<Rightarrow> kube \<Rightarrow> render_lib \<Rightarrow> ('s, Secret) client \<Rightarrow> string option \<Rightarrow> PgConsole \<Rightarrow> User list \<Rightarrow> 's
   \<Rightarrow> (configIssue, string) result reconciled \<times> 's" where
  "reconcileProxyConfigSecret G K L secrets rnd console users s =
     (case checkOIDCClientSecret (rl_Quote L) (rl_ErrText L) (api_Live secrets s) console of
        Some whyNot \<Rightarrow> (Inr (Inl whyNot), s)
      | None \<Rightarrow>
          (case api_Live secrets s (proxy_secret_key G console) of
             Inr existing \<Rightarrow> render_proxy_secret G K L secrets rnd console users (Some existing) s
           | Inl NotFound \<Rightarrow> render_proxy_secret G K L secrets rnd console users None s
           | Inl e \<Rightarrow> (Inl (FailedApi ''read proxy configuration secret'' e), s)))"

section \<open>Rendering\<close>

text \<open>
  What admission and the caller guarantee of a console before it is rendered: a provider is
  enabled, names are not empty, the session key has the length of a generated one, and the
  URLs and the level the spec contains are usable.
\<close>

definition renderable :: "PgConsole \<Rightarrow> bool" where
  "renderable console =
     (con_Name console \<noteq> [] \<and> con_Namespace console \<noteq> []
      \<and> (au_Local (con_auth console) \<noteq> None \<or> au_OIDC (con_auth console) \<noteq> None
         \<or> au_OpenShift (con_auth console) \<noteq> None)
      \<and> (\<forall>oidc. au_OIDC (con_auth console) = Some oidc \<longrightarrow>
            absolute_url [''https''] (po_IssuerURL oidc) \<and> po_ClientID oidc \<noteq> []
            \<and> (externalCallbackURL console proxyCallbackPath = []
               \<or> absolute_url [''https'', ''http''] (externalCallbackURL console proxyCallbackPath)))
      \<and> (au_OpenShift (con_auth console) \<noteq> None \<longrightarrow>
            absolute_url [''https'', ''http''] (externalCallbackURL console openshiftCallbackPath))
      \<and> (pgAdminEnabled console \<longrightarrow> Level_Valid (pgadmin_level console)))"

lemma provider_config_modes:
  "ModeLocal \<in> set (pc_Modes (provider_config G console)) \<longleftrightarrow> au_Local (con_auth console) \<noteq> None"
  "ModeOIDC \<in> set (pc_Modes (provider_config G console)) \<longleftrightarrow> au_OIDC (con_auth console) \<noteq> None"
  "ModeOpenShift \<in> set (pc_Modes (provider_config G console)) \<longleftrightarrow> au_OpenShift (con_auth console) \<noteq> None"
  "distinct (pc_Modes (provider_config G console))"
  "list_all known_mode (pc_Modes (provider_config G console))"
  by (cases "au_Local (con_auth console)"; cases "au_OIDC (con_auth console)"; cases "au_OpenShift (con_auth console)";
      simp add: provider_config_def Let_def mode_defs known_mode_def)+

text \<open>The configuration the proxy ends up with: the assembled one with its defaults.\<close>

definition served_config :: "golib \<Rightarrow> PgConsole \<Rightarrow> string \<Rightarrow> User list \<Rightarrow> Config" where
  "served_config G console sessionKey users =
     (let cfg = (base_config console sessionKey users)\<lparr>cf_Provider := provider_config G console\<rparr> in
      setDefaults (if pgAdminEnabled console
        then cfg\<lparr>cf_Routes := pgadmin_route (pgadmin_level console) # cf_Routes cfg\<rparr> else cfg))"

lemma assemble_config_Inr:
  assumes "assemble_config G console key (pgAdminEnabled console) users = Inr cfg"
  shows "setDefaults cfg = served_config G console key users"
  using assms by (auto simp: assemble_config_def served_config_def Let_def split: if_splits)

lemma assemble_renderable:
  "renderable console \<Longrightarrow> \<exists>cfg. assemble_config G console key (pgAdminEnabled console) users = Inr cfg"
  by (auto simp: assemble_config_def renderable_def provider_config_def Let_def)

lemma loopback_urls:
  "absolute_url [''http'', ''https''] (loopbackUpstream consolePort)"
  "absolute_url [''http'', ''https''] (loopbackUpstream pgAdminPort)"
proof -
  have "digits 3000 = ''3000''" "digits 8081 = ''8081''"
    by (simp_all add: digits.simps[of 3000] digits.simps[of 300] digits.simps[of 30] digits.simps[of 3]
        digits.simps[of 8081] digits.simps[of 808] digits.simps[of 80] digits.simps[of 8] char_of_def bit_0)
  then have "loopbackUpstream consolePort = ''http://127.0.0.1:3000''" "loopbackUpstream pgAdminPort = ''http://127.0.0.1:8081''"
    by (simp_all add: loopbackUpstream_def portString_def Itoa_def proxy_constants)
  moreover have "absolute_url [''http'', ''https''] ''http://127.0.0.1:3000''"
    "absolute_url [''http'', ''https''] ''http://127.0.0.1:8081''" by code_simp+
  ultimately show "absolute_url [''http'', ''https''] (loopbackUpstream consolePort)"
    "absolute_url [''http'', ''https''] (loopbackUpstream pgAdminPort)" by simp_all
qed

lemma view_valid [simp]: "Level_Valid LevelView"
  by (simp add: Level_Valid_def Rank_def level_defs)

lemma rendered_routes:
  "route_ok \<lparr>rc_PathPrefix = ''/'', rc_Upstream = loopbackUpstream consolePort, rc_MinLevel = LevelView\<rparr>"
  "Level_Valid level \<Longrightarrow> route_ok (pgadmin_route level)"
proof -
  have "\<not> Contains ''/pgadmin'' ''..''" "\<not> Contains ''/'' ''..''" by code_simp+
  then show "route_ok \<lparr>rc_PathPrefix = ''/'', rc_Upstream = loopbackUpstream consolePort, rc_MinLevel = LevelView\<rparr>"
    "Level_Valid level \<Longrightarrow> route_ok (pgadmin_route level)"
    by (simp_all add: route_ok_def pgadmin_route_def loopback_urls rooted_def HasPrefix_def
        ReservedPrefixes_def reserved_clash_def)
qed

lemma default_level [simp]: "Level_Valid l \<Longrightarrow> default_string d l = l"
  by (auto simp: default_string_def Level_Valid_def Rank_def level_defs)

lemma served_config_simps [simp]:
  "cf_Users (served_config G console key users) = users"
  "cf_AccessRequest (served_config G console key users)
     = \<lparr>ar_Enabled = True, ar_ConsoleName = con_Name console, ar_Namespace = con_Namespace console\<rparr>"
  "sc_CookieSecrets (cf_Session (served_config G console key users)) = [key]"
  "pc_Modes (cf_Provider (served_config G console key users)) = pc_Modes (provider_config G console)"
  by (simp_all add: served_config_def Let_def setDefaults_def base_config_def)

lemma served_session: "16 \<le> length key \<Longrightarrow> session_ok (cf_Session (served_config G console key users))"
proof -
  have "isCookieNameValid ''pgtoolbox_session''" by code_simp
  then show "16 \<le> length key \<Longrightarrow> ?thesis"
    by (simp add: session_ok_def served_config_def Let_def setDefaults_def base_config_def default_string_def
        default_int_def second_def minSecretLength_def)
qed

lemma served_server: "server_ok (cf_Server (served_config G console key users))"
  by (simp add: server_ok_def served_config_def Let_def setDefaults_def base_config_def default_string_def
      default_int_def second_def)

lemma served_oidc:
  "pc_OIDC (cf_Provider (served_config G console key users)) =
     map_option (\<lambda>oidc. \<lparr>oc_IssuerURL = po_IssuerURL oidc, oc_ClientID = po_ClientID oidc,
        oc_ClientSecretFile = oidcClientSecretMountPath @ ''/'' @ oidcClientSecretFile,
        oc_RedirectURL = externalCallbackURL console proxyCallbackPath,
        oc_Scopes = [''openid'', ''email''], oc_SubjectClaim = ''email''\<rparr>) (au_OIDC (con_auth console))"
  by (cases "au_OIDC (con_auth console)")
    (simp_all add: served_config_def Let_def setDefaults_def base_config_def provider_config_def
      default_string_def default_list_def)

lemma served_openshift:
  "pc_OpenShift (cf_Provider (served_config G console key users)) =
     map_option (\<lambda>_. \<lparr>os_ClientID = serviceAccountClientID G console,
        os_ClientSecretFile = serviceAccountRoot @ ''/token'',
        os_RedirectURL = externalCallbackURL console openshiftCallbackPath,
        os_DiscoveryURL = [], os_APIURL = [], os_CAFile = serviceAccountRoot @ ''/ca.crt'',
        os_Scopes = [''user:info''], os_UserInfoPath = ''/apis/user.openshift.io/v1/users/~''\<rparr>)
       (au_OpenShift (con_auth console))"
  by (cases "au_OpenShift (con_auth console)")
    (simp_all add: served_config_def Let_def setDefaults_def base_config_def provider_config_def
      default_string_def default_list_def)

lemma served_provider:
  assumes "renderable console"
  shows "provider_ok (cf_Provider (served_config G console key users))"
proof -
  let ?p = "cf_Provider (served_config G console key users)"
  have "pred_option oidc_ok (pc_OIDC ?p)"
    using assms by (cases "au_OIDC (con_auth console)")
      (simp_all add: served_oidc oidc_ok_def renderable_def oidcClientSecretMountPath_def)
  moreover have "pred_option openshift_ok (pc_OpenShift ?p)"
    using assms by (cases "au_OpenShift (con_auth console)")
      (simp_all add: served_openshift openshift_ok_def renderable_def serviceAccountRoot_def
        serviceAccountClientID_def rooted_def HasPrefix_def)
  moreover have "pc_Modes (provider_config G console) \<noteq> []"
    using assms by (auto simp: renderable_def provider_config_def Let_def)
  ultimately show ?thesis
    using provider_config_modes[of G console] by (simp add: provider_ok_def served_oidc served_openshift)
qed

lemma served_routes_eq:
  assumes "renderable console"
  shows "cf_Routes (served_config G console key users)
    = (if pgAdminEnabled console then [pgadmin_route (pgadmin_level console)] else [])
      @ [\<lparr>rc_PathPrefix = ''/'', rc_Upstream = loopbackUpstream consolePort, rc_MinLevel = LevelView\<rparr>]"
  using assms
  by (simp add: served_config_def Let_def setDefaults_def base_config_def pgadmin_route_def renderable_def)

lemma served_config_ok:
  assumes "renderable console" "16 \<le> length key" "users_ok G (au_Local (con_auth console) \<noteq> None) users"
  shows "config_ok G (served_config G console key users)"
proof -
  have "routes_ok (cf_Routes (served_config G console key users))"
    using assms(1) rendered_routes
    by (auto simp: served_routes_eq routes_ok_def renderable_def) (simp_all add: pgadmin_route_def)
  with assms provider_config_modes(1)[of G console] served_session[of key G console users]
    served_server[of G console key users] served_provider[OF assms(1), of G key users]
  show ?thesis by (simp add: config_ok_def access_ok_def renderable_def)
qed

lemma renderProxyConfig_cases:
  assumes "renderProxyConfig G Y console key (pgAdminEnabled console) users = Inr rendered"
  obtains cfg ws where "assemble_config G console key (pgAdminEnabled console) users = Inr cfg"
    and "yaml_Marshal Y cfg = Inr rendered" "Parse G (yaml_Unmarshal Y) rendered = Inr ws"
proof -
  from assms obtain cfg where cfg: "assemble_config G console key (pgAdminEnabled console) users = Inr cfg"
    by (auto simp: renderProxyConfig_def)
  with assms obtain r where r: "yaml_Marshal Y cfg = Inr r"
    by (cases "yaml_Marshal Y cfg") (simp_all add: renderProxyConfig_def)
  with assms cfg obtain ws where "Parse G (yaml_Unmarshal Y) r = Inr ws" "r = rendered"
    by (cases "Parse G (yaml_Unmarshal Y) r") (simp_all add: renderProxyConfig_def)
  with cfg r that show thesis by blast
qed

text \<open>A renderable console with acceptable users is rendered, and the proxy reads what was meant.\<close>

lemma render_total:
  assumes "renderable console" "16 \<le> length key" "users_ok G (au_Local (con_auth console) \<noteq> None) users"
    and "\<And>cfg. assemble_config G console key (pgAdminEnabled console) users = Inr cfg
           \<Longrightarrow> \<exists>doc. yaml_Marshal Y cfg = Inr doc \<and> yaml_Unmarshal Y doc = Some cfg"
  obtains rendered where "renderProxyConfig G Y console key (pgAdminEnabled console) users = Inr rendered"
    and "Parse G (yaml_Unmarshal Y) rendered
           = Inr (served_config G console key users, warnings (served_config G console key users))"
proof -
  obtain cfg where cfg: "assemble_config G console key (pgAdminEnabled console) users = Inr cfg"
    using assemble_renderable[OF assms(1)] by blast
  then obtain doc where doc: "yaml_Marshal Y cfg = Inr doc" "yaml_Unmarshal Y doc = Some cfg"
    using assms(4) by blast
  have "Parse G (yaml_Unmarshal Y) doc
      = Inr (served_config G console key users, warnings (served_config G console key users))"
    using served_config_ok[OF assms(1-3)] assemble_config_Inr[OF cfg] doc
    by (simp add: Parse_def Validate_Nil Let_def)
  moreover from this cfg doc have "renderProxyConfig G Y console key (pgAdminEnabled console) users = Inr doc"
    by (simp add: renderProxyConfig_def)
  ultimately show thesis using that by blast
qed

section \<open>Convergence of the Secret\<close>

definition secret_key :: "Secret \<Rightarrow> object_key" where
  "secret_key x = key_of (se_Meta x)"

definition secret_content :: "Secret \<Rightarrow> OwnerReference list \<times> smap" where
  "secret_content x = (m_OwnerReferences (se_Meta x), se_Data x)"

text \<open>
  The API answers as documented, an object read under a key carries that key, the random
  source delivers what was asked, and the OIDC client Secret is not the proxy's own.
\<close>

definition proxy_good :: "golib \<Rightarrow> kube \<Rightarrow> ('s, Secret) client \<Rightarrow> string option \<Rightarrow> PgConsole \<Rightarrow> 's \<Rightarrow> bool" where
  "proxy_good G K secrets rnd console s =
     (owners_ok K \<and> client_ok secrets secret_key secret_content
      \<and> (\<forall>x. api_Live secrets s (proxy_secret_key G console) = Inr x \<longrightarrow> secret_key x = proxy_secret_key G console)
      \<and> (\<forall>v. rnd = Some v \<longrightarrow> length v = 32)
      \<and> (\<forall>oidc. au_OIDC (con_auth console) = Some oidc \<longrightarrow>
            (con_Namespace console, skr_Name (po_ClientSecretRef oidc)) \<noteq> proxy_secret_key G console))"

text \<open>The Secret in place: owned by the console, its key kept, its file rendered from that key.\<close>

definition proxy_secret_current ::
  "golib \<Rightarrow> kube \<Rightarrow> render_lib \<Rightarrow> PgConsole \<Rightarrow> User list \<Rightarrow> Secret \<Rightarrow> bool" where
  "proxy_secret_current G K L console users x =
     (controller_uid K (se_Meta x) = Some (con_UID console) \<and> at (se_Data x) proxySessionKeyName \<noteq> []
      \<and> renderProxyConfig G (rl_Yaml L) console (at (se_Data x) proxySessionKeyName) (pgAdminEnabled console) users
          = Inr (at (se_Data x) proxyConfigFileName))"

definition proxy_settled ::
  "golib \<Rightarrow> kube \<Rightarrow> render_lib \<Rightarrow> ('s, Secret) client \<Rightarrow> PgConsole \<Rightarrow> User list \<Rightarrow> 's \<Rightarrow> bool" where
  "proxy_settled G K L secrets console users s =
     (checkOIDCClientSecret (rl_Quote L) (rl_ErrText L) (api_Live secrets s) console = None
      \<and> (\<exists>x. api_Live secrets s (proxy_secret_key G console) = Inr x \<and> proxy_secret_current G K L console users x))"

definition config_checksum :: "golib \<Rightarrow> Secret \<Rightarrow> string" where
  "config_checksum G x = Checksum G (fmupd proxyConfigFileName (at (se_Data x) proxyConfigFileName) fmempty)"

lemma reconcile_settled:
  assumes "proxy_settled G K L secrets console users s"
    and "api_Live secrets s (proxy_secret_key G console) = Inr x"
  shows "reconcileProxyConfigSecret G K L secrets rnd console users s = (Inr (Inr (config_checksum G x)), s)"
  using assms
  by (auto simp: proxy_settled_def proxy_secret_current_def reconcileProxyConfigSecret_def
      render_proxy_secret_def converge_proxy_secret_def config_checksum_def Let_def)

lemma check_frame:
  assumes "\<forall>k. k \<noteq> proxy_secret_key G console \<longrightarrow> r' k = r k"
    and "\<forall>oidc. au_OIDC (con_auth console) = Some oidc \<longrightarrow>
           (con_Namespace console, skr_Name (po_ClientSecretRef oidc)) \<noteq> proxy_secret_key G console"
  shows "checkOIDCClientSecret q t r' console = checkOIDCClientSecret q t r console"
proof (cases "au_OIDC (con_auth console)")
  case (Some oidc)
  with assms have "r' (con_Namespace console, skr_Name (po_ClientSecretRef oidc))
      = r (con_Namespace console, skr_Name (po_ClientSecretRef oidc))" by blast
  with Some show ?thesis by (simp add: checkOIDCClientSecret_def Let_def)
qed (simp add: checkOIDCClientSecret_def)

text \<open>A run that ends with a checksum, taken apart.\<close>

lemma reconcile_success:
  assumes "reconcileProxyConfigSecret G K L secrets rnd console users s = (Inr (Inr c), s')"
  obtains found key rendered where
    "checkOIDCClientSecret (rl_Quote L) (rl_ErrText L) (api_Live secrets s) console = None"
    "(found = None \<and> api_Live secrets s (proxy_secret_key G console) = Inl NotFound)
     \<or> (\<exists>x. found = Some x \<and> api_Live secrets s (proxy_secret_key G console) = Inr x)"
    "(\<exists>x. found = Some x \<and> at (se_Data x) proxySessionKeyName = key \<and> key \<noteq> [])
     \<or> ((\<forall>x. found = Some x \<longrightarrow> at (se_Data x) proxySessionKeyName = []) \<and> generateSessionKey rnd = Inr key)"
    "renderProxyConfig G (rl_Yaml L) console key (pgAdminEnabled console) users = Inr rendered"
    "converge_proxy_secret G K secrets console found rendered key s = (Inr c, s')"
proof -
  have check: "checkOIDCClientSecret (rl_Quote L) (rl_ErrText L) (api_Live secrets s) console = None"
    using assms by (auto simp: reconcileProxyConfigSecret_def split: option.splits)
  obtain found where found: "(found = None \<and> api_Live secrets s (proxy_secret_key G console) = Inl NotFound)
     \<or> (\<exists>x. found = Some x \<and> api_Live secrets s (proxy_secret_key G console) = Inr x)"
    and run: "render_proxy_secret G K L secrets rnd console users found s = (Inr (Inr c), s')"
    using assms check
    by (cases "api_Live secrets s (proxy_secret_key G console)")
      (auto simp: reconcileProxyConfigSecret_def split: api_error.splits)
  define stored where "stored = (case found of Some existing \<Rightarrow> at (se_Data existing) proxySessionKeyName | None \<Rightarrow> [])"
  obtain key where key: "(if stored = [] then generateSessionKey rnd else Inr stored) = Inr key"
    using run by (cases "if stored = [] then generateSessionKey rnd else Inr stored")
      (simp_all add: render_proxy_secret_def Let_def flip: stored_def split del: if_split)
  obtain rendered where rendered:
    "renderProxyConfig G (rl_Yaml L) console key (pgAdminEnabled console) users = Inr rendered"
    using run key by (cases "renderProxyConfig G (rl_Yaml L) console key (pgAdminEnabled console) users")
      (simp_all add: render_proxy_secret_def Let_def flip: stored_def split del: if_split)
  have conv: "converge_proxy_secret G K secrets console found rendered key s = (Inr c, s')"
    using run key rendered
    by (simp add: render_proxy_secret_def Let_def flip: stored_def split del: if_split split: prod.splits sum.splits)
  have "(\<exists>x. found = Some x \<and> at (se_Data x) proxySessionKeyName = key \<and> key \<noteq> [])
     \<or> ((\<forall>x. found = Some x \<longrightarrow> at (se_Data x) proxySessionKeyName = []) \<and> generateSessionKey rnd = Inr key)"
    using key by (cases found) (auto simp: stored_def split: if_splits)
  from that[OF check found this rendered conv] show thesis .
qed

lemma controller_uid_cong:
  "owners_ok K \<Longrightarrow> m_OwnerReferences a = m_OwnerReferences b \<Longrightarrow> controller_uid K a = controller_uid K b"
  unfolding owners_ok_def controller_uid_def by metis

lemma proxy_key_names [simp]: "proxySessionKeyName \<noteq> proxyConfigFileName" "proxyConfigFileName \<noteq> proxySessionKeyName"
  by (simp_all add: proxySessionKeyName_def proxyConfigFileName_def)

text \<open>What the Secret looks like after a successful write or a successful look.\<close>

definition holds_config ::
  "golib \<Rightarrow> kube \<Rightarrow> ('s, Secret) client \<Rightarrow> PgConsole \<Rightarrow> string \<Rightarrow> string \<Rightarrow> 's \<Rightarrow> 's \<Rightarrow> bool" where
  "holds_config G K secrets console rendered key s s' =
     ((\<exists>x. api_Live secrets s' (proxy_secret_key G console) = Inr x
           \<and> controller_uid K (se_Meta x) = Some (con_UID console)
           \<and> at (se_Data x) proxySessionKeyName = key \<and> at (se_Data x) proxyConfigFileName = rendered)
      \<and> (\<forall>k. k \<noteq> proxy_secret_key G console \<longrightarrow> api_Live secrets s' k = api_Live secrets s k))"

lemma written_config:
  assumes "owners_ok K" "writes secrets secret_key secret_content s x s'"
    and "secret_key x = proxy_secret_key G console" "controller_uid K (se_Meta x) = Some (con_UID console)"
    and "at (se_Data x) proxySessionKeyName = key" "at (se_Data x) proxyConfigFileName = rendered"
  shows "holds_config G K secrets console rendered key s s'"
proof -
  obtain y where y: "api_Live secrets s' (proxy_secret_key G console) = Inr y"
    "m_OwnerReferences (se_Meta y) = m_OwnerReferences (se_Meta x)" "se_Data y = se_Data x"
    using assms(2,3) by (auto simp: writes_def stores_def secret_content_def)
  moreover have "controller_uid K (se_Meta y) = Some (con_UID console)"
    using controller_uid_cong[OF assms(1) y(2)] assms(4) by simp
  moreover have "\<forall>k. k \<noteq> proxy_secret_key G console \<longrightarrow> api_Live secrets s' k = api_Live secrets s k"
    using assms(2,3) by (simp add: writes_def)
  ultimately show ?thesis using assms(5,6) by (simp add: holds_config_def)
qed

lemma converge_holds:
  assumes "proxy_good G K secrets rnd console s"
    and "converge_proxy_secret G K secrets console found rendered key s = (Inr c, s')"
    and "\<And>x. found = Some x \<Longrightarrow> api_Live secrets s (proxy_secret_key G console) = Inr x"
  shows "c = Checksum G (fmupd proxyConfigFileName rendered fmempty)
         \<and> holds_config G K secrets console rendered key s s'"
proof -
  from assms(1) have K: "owners_ok K" and cl: "client_ok secrets secret_key secret_content"
    and keyed: "\<And>x. api_Live secrets s (proxy_secret_key G console) = Inr x \<Longrightarrow> secret_key x = proxy_secret_key G console"
    by (auto simp: proxy_good_def)
  have c: "c = Checksum G (fmupd proxyConfigFileName rendered fmempty)"
    using assms(2) by (auto simp: converge_proxy_secret_def Let_def split: option.splits if_splits prod.splits sum.splits)
  have "holds_config G K secrets console rendered key s s'"
  proof (cases found)
    case None
    let ?m = "new_meta (snd (proxy_secret_key G console)) (fst (proxy_secret_key G console))
        (CommonLabels application (con_Name console))"
    have "m_OwnerReferences ?m = []" by simp
    with K obtain r where r: "SetControllerReference K (con_Meta console) ?m = Inr (?m\<lparr>m_OwnerReferences := [r]\<rparr>)"
      "controller_uid K (?m\<lparr>m_OwnerReferences := [r]\<rparr>) = Some (con_UID console)"
      unfolding owners_ok_def by blast
    let ?x = "\<lparr>se_Meta = ?m\<lparr>m_OwnerReferences := [r]\<rparr>, se_Type = SecretTypeOpaque, se_Immutable = None,
        se_Data = fmupd proxySessionKeyName key (fmupd proxyConfigFileName rendered fmempty)\<rparr>"
    have "api_Create secrets s ?x = (None, s')"
      using assms(2) None r(1) by (auto simp: converge_proxy_secret_def Let_def split: prod.splits option.splits)
    then have "writes secrets secret_key secret_content s ?x s'" by (rule client_ok_writes(1)[OF cl])
    then show ?thesis
      by (rule written_config[OF K]) (simp_all add: r(2) secret_key_def key_of_def)
  next
    case (Some x)
    have own: "controller_uid K (se_Meta x) = Some (con_UID console)"
      using assms(2) Some by (auto simp: converge_proxy_secret_def Let_def split: if_splits)
    show ?thesis
    proof (cases "at (se_Data x) proxyConfigFileName = rendered \<and> at (se_Data x) proxySessionKeyName = key")
      case True
      with own Some assms(2,3) show ?thesis by (simp add: converge_proxy_secret_def Let_def holds_config_def)
    next
      case False
      let ?x = "x\<lparr>se_Data := fmupd proxySessionKeyName key (fmupd proxyConfigFileName rendered (se_Data x))\<rparr>"
      have "api_Update secrets s ?x = (None, s')"
        using assms(2) False own Some
        by (auto simp: converge_proxy_secret_def Let_def split: prod.splits option.splits if_splits)
      then have "writes secrets secret_key secret_content s ?x s'" by (rule client_ok_writes(2)[OF cl])
      moreover have "secret_key ?x = proxy_secret_key G console"
        using keyed[OF assms(3)[OF Some]] by (simp add: secret_key_def)
      ultimately show ?thesis by (rule written_config[OF K]) (simp_all add: own)
    qed
  qed
  with c show ?thesis by simp
qed

lemma generated_key:
  assumes "generateSessionKey rnd = Inr key" "\<forall>v. rnd = Some v \<longrightarrow> length v = 32"
  shows "length key = 43"
  using assms by (auto simp: generateSessionKey_def b64_length split: option.splits)

lemma reconcile_holds:
  assumes "proxy_good G K secrets rnd console s"
    and "reconcileProxyConfigSecret G K L secrets rnd console users s = (Inr (Inr c), s')"
  obtains x where "api_Live secrets s' (proxy_secret_key G console) = Inr x"
    "proxy_secret_current G K L console users x" "c = config_checksum G x"
    "proxy_settled G K L secrets console users s'"
    "\<forall>x0. api_Live secrets s (proxy_secret_key G console) = Inr x0 \<and> at (se_Data x0) proxySessionKeyName \<noteq> []
        \<longrightarrow> at (se_Data x) proxySessionKeyName = at (se_Data x0) proxySessionKeyName"
proof -
  obtain found key rendered where check:
    "checkOIDCClientSecret (rl_Quote L) (rl_ErrText L) (api_Live secrets s) console = None"
    and found: "(found = None \<and> api_Live secrets s (proxy_secret_key G console) = Inl NotFound)
     \<or> (\<exists>x. found = Some x \<and> api_Live secrets s (proxy_secret_key G console) = Inr x)"
    and key: "(\<exists>x. found = Some x \<and> at (se_Data x) proxySessionKeyName = key \<and> key \<noteq> [])
     \<or> ((\<forall>x. found = Some x \<longrightarrow> at (se_Data x) proxySessionKeyName = []) \<and> generateSessionKey rnd = Inr key)"
    and rendered: "renderProxyConfig G (rl_Yaml L) console key (pgAdminEnabled console) users = Inr rendered"
    and conv: "converge_proxy_secret G K secrets console found rendered key s = (Inr c, s')"
    by (rule reconcile_success[OF assms(2)])
  have c: "c = Checksum G (fmupd proxyConfigFileName rendered fmempty)"
    and "holds_config G K secrets console rendered key s s'"
    using converge_holds[OF assms(1) conv] found by auto
  then obtain x where x: "api_Live secrets s' (proxy_secret_key G console) = Inr x"
    "controller_uid K (se_Meta x) = Some (con_UID console)"
    "at (se_Data x) proxySessionKeyName = key" "at (se_Data x) proxyConfigFileName = rendered"
    and frame: "\<forall>k. k \<noteq> proxy_secret_key G console \<longrightarrow> api_Live secrets s' k = api_Live secrets s k"
    by (auto simp: holds_config_def)
  have "key \<noteq> []" using key generated_key[of rnd key] assms(1) by (auto simp: proxy_good_def)
  then have current: "proxy_secret_current G K L console users x"
    using x rendered by (simp add: proxy_secret_current_def)
  have "checkOIDCClientSecret (rl_Quote L) (rl_ErrText L) (api_Live secrets s') console = None"
    using check_frame[OF frame] check assms(1) by (simp add: proxy_good_def)
  then have settled: "proxy_settled G K L secrets console users s'"
    using x(1) current by (auto simp: proxy_settled_def)
  show thesis
    by (rule that[OF x(1) current _ settled]) (use c x found key frame in \<open>auto simp: config_checksum_def\<close>)
qed

text \<open>An issue is not an error to retry, but it is not convergence either.\<close>

fun proxy_outcome :: "(configIssue, string) result reconciled \<Rightarrow> (reconcile_error + configIssue, string) result" where
  "proxy_outcome (Inl e) = Inl (Inl e)"
| "proxy_outcome (Inr (Inl i)) = Inl (Inr i)"
| "proxy_outcome (Inr (Inr c)) = Inr c"

lemma proxy_outcome_Inr [simp]: "proxy_outcome r = Inr c \<longleftrightarrow> r = Inr (Inr c)"
  by (cases r rule: proxy_outcome.cases) simp_all

interpretation proxy_secret: convergence
  "\<lambda>s. map_prod proxy_outcome id (reconcileProxyConfigSecret G K L secrets rnd console users s)"
  "proxy_good G K secrets rnd console" "proxy_settled G K L secrets console users"
  for G K L secrets rnd console users
proof
  fix s c s'
  assume good: "proxy_good G K secrets rnd console s"
    and "map_prod proxy_outcome id (reconcileProxyConfigSecret G K L secrets rnd console users s) = (Inr c, s')"
  then have "reconcileProxyConfigSecret G K L secrets rnd console users s = (Inr (Inr c), s')"
    by (cases "reconcileProxyConfigSecret G K L secrets rnd console users s") simp
  from reconcile_holds[OF good this] show "proxy_settled G K L secrets console users s'" by blast
next
  fix s
  assume settled: "proxy_settled G K L secrets console users s"
  then obtain x where "api_Live secrets s (proxy_secret_key G console) = Inr x" by (auto simp: proxy_settled_def)
  from reconcile_settled[OF settled this]
  show "\<exists>c. map_prod proxy_outcome id (reconcileProxyConfigSecret G K L secrets rnd console users s) = (Inr c, s)"
    by simp
qed

section \<open>Properties\<close>


text \<open>
  a Secret of somebody else is not taken over. When a Secret of that name exists without
  this console as its controller, the pass never succeeds and never writes.
\<close>

theorem foreign_secret_untouched:
  assumes "api_Live secrets s (proxy_secret_key G console) = Inr x"
    and "controller_uid K (se_Meta x) \<noteq> Some (con_UID console)"
  shows "snd (reconcileProxyConfigSecret G K L secrets rnd console users s) = s
     \<and> (\<forall>c. fst (reconcileProxyConfigSecret G K L secrets rnd console users s) \<noteq> Inr (Inr c))"
proof -
  have "converge_proxy_secret G K secrets console (Some x) rendered key s
      = (Inl (Failed ''proxy configuration secret exists and is not owned by this PgConsole''), s)" for rendered key
    using assms(2) by (simp add: converge_proxy_secret_def)
  then have "snd (render_proxy_secret G K L secrets rnd console users (Some x) s) = s
     \<and> (\<forall>c. fst (render_proxy_secret G K L secrets rnd console users (Some x) s) \<noteq> Inr (Inr c))"
    by (auto simp: render_proxy_secret_def Let_def split: sum.splits)
  with assms(1) show ?thesis by (simp add: reconcileProxyConfigSecret_def split: option.splits)
qed

section \<open>Witnesses\<close>

text \<open>A Secret the sample console owns, with a session key and an outdated file.\<close>

definition sample_secret :: "string \<Rightarrow> Secret" where
  "sample_secret owner =
     \<lparr>se_Meta = (new_meta ''pg-pgconsole-proxy'' ''db'' fmempty)
        \<lparr>m_OwnerReferences := [\<lparr>ow_Name = ''pg'', ow_UID = owner, ow_Controller = True\<rparr>]\<rparr>,
      se_Type = SecretTypeOpaque, se_Immutable = None,
      se_Data = fmupd proxySessionKeyName ''0123456789abcdef'' fmempty\<rparr>"

definition sample_render_lib :: render_lib where
  "sample_render_lib =
     \<lparr>rl_Quote = id, rl_ErrText = (\<lambda>_. []), rl_Show = (\<lambda>_. []),
      rl_Yaml = \<lparr>yaml_Marshal = (\<lambda>_. Inr ''document''),
        yaml_Unmarshal = (\<lambda>_. case assemble_config (sample_lib JNull) sample_console ''0123456789abcdef'' True [] of
           Inr cfg \<Rightarrow> Some cfg | Inl _ \<Rightarrow> None)\<rparr>\<rparr>"

lemma sample_proxy_key: "proxy_secret_key (sample_lib JNull) sample_console = (''db'', ''pg-pgconsole-proxy'')"
  by (simp add: proxy_secret_key_def ResourceName_def BoundedName_def PgConsoleApplication_def
      proxyConfigSecretSuffix_def maxResourceNameLength_def)

lemma sample_renderable: "renderable sample_console" "pgAdminEnabled sample_console"
  by (simp_all add: renderable_def pgAdminEnabled_def sample_spec_def pgadmin_level_def Level_Valid_def
      Rank_def level_defs)

lemma sample_render:
  "renderProxyConfig (sample_lib JNull) (rl_Yaml sample_render_lib) sample_console ''0123456789abcdef''
     (pgAdminEnabled sample_console) [] = Inr ''document''"
proof -
  obtain cfg where cfg: "assemble_config (sample_lib JNull) sample_console ''0123456789abcdef'' True [] = Inr cfg"
    using assemble_renderable[OF sample_renderable(1), of "sample_lib JNull" "''0123456789abcdef''" "[]"]
      sample_renderable(2) by auto
  have "users_ok (sample_lib JNull) (au_Local (con_auth sample_console) \<noteq> None) []" by (simp add: users_ok_def)
  from render_total[OF sample_renderable(1) _ this, of "''0123456789abcdef''" "rl_Yaml sample_render_lib"]
  obtain r where r: "renderProxyConfig (sample_lib JNull) (rl_Yaml sample_render_lib) sample_console ''0123456789abcdef''
     (pgAdminEnabled sample_console) [] = Inr r"
    using cfg sample_renderable(2) by (auto simp: sample_render_lib_def)
  then have "r = ''document''"
    by (rule renderProxyConfig_cases) (simp add: sample_render_lib_def)
  with r show ?thesis by simp
qed

lemma sample_owner: "controller_uid sample_kube (se_Meta (sample_secret u)) = Some u"
  by (simp add: controller_uid_def sample_kube_def sample_secret_def)


theorem foreign_secret_untouched_witness:
  "let s = fmupd (''db'', ''pg-pgconsole-proxy'') (sample_secret ''other'') fmempty in
   snd (reconcileProxyConfigSecret (sample_lib JNull) sample_kube sample_render_lib
          (store_client secret_key) None sample_console [] s) = s"
  using foreign_secret_untouched[of "store_client secret_key"
      "fmupd (''db'', ''pg-pgconsole-proxy'') (sample_secret ''other'') fmempty"
      "sample_lib JNull" sample_console "sample_secret ''other''" sample_kube]
  by (simp add: sample_proxy_key sample_owner)

end
