(* ===== verification/Console_Config.thy ===== *)
theory Console_Config
  imports Proxy_Render
begin

text \<open>
  The console application's configuration (\<open>internal/controller/pgconsole/consoleconfig.go\<close>):
  the capabilities a spec switches on, the environment the container gets, and the bounds
  checked before a Pod is rolled out. Durations are nanoseconds; \<open>Duration_String\<close> is
  \<open>time.Duration.String\<close>.
\<close>

section \<open>Durations as text\<close>

text \<open>A fraction of \<open>prec\<close> digits without its trailing zeros, and the dot if anything is left.\<close>

definition pad_left :: "nat \<Rightarrow> string \<Rightarrow> string" where
  "pad_left n s = replicate (n - length s) (CHR ''0'') @ s"

definition fmtFrac :: "nat \<Rightarrow> nat \<Rightarrow> string" where
  "fmtFrac v prec =
     (let ds = rev (dropWhile (\<lambda>c. c = CHR ''0'') (rev (pad_left prec (digits v)))) in
      if ds = [] then [] else CHR ''.'' # ds)"

definition Duration_String :: "int \<Rightarrow> string" where
  "Duration_String d =
     (let u = nat \<bar>d\<bar>; sign = (if d < 0 then ''-'' else []) in
      if u = 0 then ''0s''
      else if u < 1000 then sign @ digits u @ ''ns''
      else if u < 1000000 then sign @ digits (u div 1000) @ fmtFrac (u mod 1000) 3 @ [char_of (194 :: nat), char_of (181 :: nat)] @ ''s''
      else if u < 1000000000 then sign @ digits (u div 1000000) @ fmtFrac (u mod 1000000) 6 @ ''ms''
      else let w = u div 1000000000; frac = fmtFrac (u mod 1000000000) 9 in
        sign @ (if w div 3600 > 0 then digits (w div 3600) @ ''h'' else [])
             @ (if w div 60 > 0 then digits (w div 60 mod 60) @ ''m'' else [])
             @ digits (w mod 60) @ frac @ ''s'')"

section \<open>Model\<close>

definition consoleTrustedUserHeader :: string where "consoleTrustedUserHeader = ''X-Forwarded-User''"
definition consoleTrustedLevelHeader :: string where "consoleTrustedLevelHeader = ''X-PgToolBox-Level''"
definition pgAdminLinkPath :: string where "pgAdminLinkPath = ''/pgadmin''"

definition minEventsMaxAge :: int where "minEventsMaxAge = 60 * second"
definition maxEventsMaxAge :: int where "maxEventsMaxAge = 24 * 3600 * second"
definition minAPIRequestTimeout :: int where "minAPIRequestTimeout = second"
definition maxAPIRequestTimeout :: int where "maxAPIRequestTimeout = 60 * second"
definition minHistoryCoalesceWindow :: int where "minHistoryCoalesceWindow = second"
definition maxHistoryCoalesceWindow :: int where "maxHistoryCoalesceWindow = 3600 * second"
definition minMetricsInterval :: int where "minMetricsInterval = 5 * second"
definition maxMetricsInterval :: int where "maxMetricsInterval = 5 * 60 * second"
definition minMetricsRetention :: int where "minMetricsRetention = 3600 * second"
definition maxMetricsRetention :: int where "maxMetricsRetention = 30 * 24 * 3600 * second"

abbreviation con_console :: "PgConsole \<Rightarrow> ConsoleSpec" where
  "con_console c \<equiv> sp_Console (con_Spec c)"

text \<open>\<open>p == nil || *p\<close> and \<open>p != nil && *p\<close>.\<close>

definition default_true :: "bool option \<Rightarrow> bool" where
  "default_true p = (case p of None \<Rightarrow> True | Some b \<Rightarrow> b)"

definition default_false :: "bool option \<Rightarrow> bool" where
  "default_false p = (case p of None \<Rightarrow> False | Some b \<Rightarrow> b)"

definition consoleAllowOperations :: "PgConsole \<Rightarrow> bool" where
  "consoleAllowOperations console = default_true (cs_AllowOperations (con_console console))"

definition consoleAllowLogs :: "PgConsole \<Rightarrow> bool" where
  "consoleAllowLogs console = default_true (cs_AllowLogs (con_console console))"

definition consoleAllowAccessReview :: "PgConsole \<Rightarrow> bool" where
  "consoleAllowAccessReview console = default_true (cs_AllowAccessReview (con_console console))"

definition consoleAllowClusterCatalogs :: "PgConsole \<Rightarrow> bool" where
  "consoleAllowClusterCatalogs console = default_false (cs_AllowClusterCatalogs (con_console console))"

definition consoleAllowInsecureLinks :: "PgConsole \<Rightarrow> bool" where
  "consoleAllowInsecureLinks console = default_false (cs_AllowInsecureLinks (con_console console))"

definition consoleHistoryEnabled :: "PgConsole \<Rightarrow> bool" where
  "consoleHistoryEnabled console = default_true (hi_Enabled (cs_History (con_console console)))"

definition consoleMetricsEnabled :: "PgConsole \<Rightarrow> bool" where
  "consoleMetricsEnabled console = default_true (mt_Enabled (cs_Metrics (con_console console)))"

definition consolePgAdminURL :: "PgConsole \<Rightarrow> string" where
  "consolePgAdminURL console = (if \<not> pgAdminEnabled console then [] else pgAdminLinkPath)"

definition boolString :: "bool \<Rightarrow> string" where
  "boolString value = (if value then ''true'' else ''false'')"

definition int32String :: "int \<Rightarrow> string" where
  "int32String value = Itoa value"

text \<open>An environment variable is a name and a value; a tunable appears when it is set.\<close>

type_synonym env_var = "string \<times> string"

definition env_int :: "string \<Rightarrow> int option \<Rightarrow> env_var list" where
  "env_int name v = (case v of None \<Rightarrow> [] | Some i \<Rightarrow> [(name, int32String i)])"

definition env_duration :: "string \<Rightarrow> int option \<Rightarrow> env_var list" where
  "env_duration name v = (case v of None \<Rightarrow> [] | Some d \<Rightarrow> [(name, Duration_String d)])"

definition env_text :: "string \<Rightarrow> string \<Rightarrow> env_var list" where
  "env_text name v = (if v \<noteq> [] then [(name, v)] else [])"

definition consoleEnv :: "PgConsole \<Rightarrow> env_var list" where
  "consoleEnv console =
     (let spec = con_console console in
      [(''CLUSTER_NAME'', lor_Name (sp_CNPGClusterRef (con_Spec console))),
       (''NAMESPACE'', con_Namespace console),
       (''TRUSTED_USER_HEADER'', consoleTrustedUserHeader),
       (''TRUSTED_LEVEL_HEADER'', consoleTrustedLevelHeader),
       (''ALLOW_OPERATIONS'', boolString (consoleAllowOperations console)),
       (''ALLOW_LOGS'', boolString (consoleAllowLogs console)),
       (''ALLOW_ACCESS_REVIEW'', boolString (consoleAllowAccessReview console)),
       (''ALLOW_CLUSTER_CATALOGS'', boolString (consoleAllowClusterCatalogs console)),
       (''ALLOW_INSECURE_LINKS'', boolString (consoleAllowInsecureLinks console))]
      @ env_int ''LOG_TAIL_LINES'' (lt_Lines (cs_LogTail spec))
      @ env_int ''LOG_TAIL_MAX_BYTES'' (lt_MaxBytes (cs_LogTail spec))
      @ env_duration ''EVENTS_MAX_AGE'' (cs_EventsMaxAge spec)
      @ env_duration ''API_REQUEST_TIMEOUT'' (cs_APIRequestTimeout spec)
      @ [(''HISTORY_ENABLED'', boolString (consoleHistoryEnabled console))]
      @ env_int ''HISTORY_MAX_REVISIONS'' (hi_MaxRevisions (cs_History spec))
      @ env_int ''HISTORY_MAX_BYTES'' (hi_MaxBytes (cs_History spec))
      @ env_int ''HISTORY_PER_OBJECT_REVISIONS'' (hi_PerObjectRevisions (cs_History spec))
      @ env_duration ''HISTORY_COALESCE_WINDOW'' (hi_CoalesceWindow (cs_History spec))
      @ [(''METRICS_ENABLED'', boolString (consoleMetricsEnabled console))]
      @ env_duration ''METRICS_INTERVAL'' (mt_Interval (cs_Metrics spec))
      @ env_duration ''METRICS_RETENTION'' (mt_Retention (cs_Metrics spec))
      @ env_text ''PGADMIN_URL'' (consolePgAdminURL console)
      @ env_text ''MONITORING_URL'' (cs_MonitoringURL spec))"

datatype console_error = DurationOutOfRange string int int | InsecureMonitoringURL

definition console_durations :: "PgConsole \<Rightarrow> (string \<times> int option \<times> int \<times> int) list" where
  "console_durations console =
     (let spec = con_console console in
      [(''spec.console.eventsMaxAge'', cs_EventsMaxAge spec, minEventsMaxAge, maxEventsMaxAge),
       (''spec.console.apiRequestTimeout'', cs_APIRequestTimeout spec, minAPIRequestTimeout, maxAPIRequestTimeout),
       (''spec.console.history.coalesceWindow'', hi_CoalesceWindow (cs_History spec),
        minHistoryCoalesceWindow, maxHistoryCoalesceWindow),
       (''spec.console.metrics.interval'', mt_Interval (cs_Metrics spec), minMetricsInterval, maxMetricsInterval),
       (''spec.console.metrics.retention'', mt_Retention (cs_Metrics spec), minMetricsRetention, maxMetricsRetention)])"

fun check_durations :: "(string \<times> int option \<times> int \<times> int) list \<Rightarrow> console_error option" where
  "check_durations [] = None"
| "check_durations ((field, None, lo, hi) # ds) = check_durations ds"
| "check_durations ((field, Some v, lo, hi) # ds) =
     (if v < lo \<or> v > hi then Some (DurationOutOfRange field lo hi) else check_durations ds)"

definition validateConsoleSpec :: "PgConsole \<Rightarrow> console_error option" where
  "validateConsoleSpec console =
     (case check_durations (console_durations console) of
        Some e \<Rightarrow> Some e
      | None \<Rightarrow>
          (if HasPrefix (cs_MonitoringURL (con_console console)) ''http://'' \<and> \<not> consoleAllowInsecureLinks console
           then Some InsecureMonitoringURL else None))"

section \<open>The environment as a map\<close>

lemma env_names:
  "map fst (env_int n v) = (if v = None then [] else [n])"
  "map fst (env_duration n w) = (if w = None then [] else [n])"
  "map fst (env_text n t) = (if t = [] then [] else [n])"
  by (simp_all add: env_int_def env_duration_def env_text_def split: option.splits)

text \<open>The order of the optional variables, whatever of them is set.\<close>

definition env_order :: "string list" where
  "env_order =
     [''CLUSTER_NAME'', ''NAMESPACE'', ''TRUSTED_USER_HEADER'', ''TRUSTED_LEVEL_HEADER'',
      ''ALLOW_OPERATIONS'', ''ALLOW_LOGS'', ''ALLOW_ACCESS_REVIEW'', ''ALLOW_CLUSTER_CATALOGS'',
      ''ALLOW_INSECURE_LINKS'', ''LOG_TAIL_LINES'', ''LOG_TAIL_MAX_BYTES'', ''EVENTS_MAX_AGE'',
      ''API_REQUEST_TIMEOUT'', ''HISTORY_ENABLED'', ''HISTORY_MAX_REVISIONS'', ''HISTORY_MAX_BYTES'',
      ''HISTORY_PER_OBJECT_REVISIONS'', ''HISTORY_COALESCE_WINDOW'', ''METRICS_ENABLED'',
      ''METRICS_INTERVAL'', ''METRICS_RETENTION'', ''PGADMIN_URL'', ''MONITORING_URL'']"

lemma env_order_distinct: "distinct env_order"
  by (simp add: env_order_def)

lemma subseq_opt: "subseq xs ys \<Longrightarrow> subseq ((if b then [] else [n]) @ xs) (n # ys)"
  by auto

lemma consoleEnv_order: "subseq (map fst (consoleEnv console)) env_order"
  unfolding consoleEnv_def Let_def env_order_def
  by (simp only: map_append env_names list.map fst_conv append.simps)
    (intro subseq_Cons2 subseq_opt; simp)

lemma distinct_subseq: "subseq xs ys \<Longrightarrow> distinct ys \<Longrightarrow> distinct xs"
proof (induction rule: list_emb.induct)
  case (list_emb_Cons2 x y xs ys)
  then have "set xs \<subseteq> set ys" by (auto elim: list_emb_set)
  with list_emb_Cons2 show ?case by auto
qed auto

lemma consoleEnv_distinct: "distinct (map fst (consoleEnv console))"
  using consoleEnv_order env_order_distinct by (rule distinct_subseq)

lemma env_lookup:
  "(n, v) \<in> set (consoleEnv console) \<Longrightarrow> map_of (consoleEnv console) n = Some v"
  using consoleEnv_distinct by (rule map_of_distinct_mem)

definition within :: "int option \<Rightarrow> int \<Rightarrow> int \<Rightarrow> bool" where
  "within v lo hi = (case v of None \<Rightarrow> True | Some d \<Rightarrow> lo \<le> d \<and> d \<le> hi)"

lemma check_durations_None:
  "check_durations ((f, v, lo, hi) # ds) = None \<longleftrightarrow> within v lo hi \<and> check_durations ds = None"
  by (cases v) (auto simp: within_def not_less)

lemma check_durations_Some:
  "check_durations ds = Some (DurationOutOfRange f lo hi) \<Longrightarrow>
     \<exists>v. (f, v, lo, hi) \<in> set ds \<and> \<not> within v lo hi"
  by (induction ds rule: check_durations.induct) (auto simp: within_def split: if_splits)

lemmas console_bounds =
  minEventsMaxAge_def maxEventsMaxAge_def minAPIRequestTimeout_def maxAPIRequestTimeout_def
  minHistoryCoalesceWindow_def maxHistoryCoalesceWindow_def minMetricsInterval_def maxMetricsInterval_def
  minMetricsRetention_def maxMetricsRetention_def

section \<open>Properties\<close>

text \<open>
  the console and the proxy agree on who is asking. The environment names no variable
  twice; the identity and level headers it tells the console to trust are the very headers
  the proxy strips from clients and sets itself; every capability is stated as the spec has
  it; and the link to pgAdmin is the proxy's own pgAdmin route, present exactly when pgAdmin
  is.
\<close>

theorem console_trusts_proxy_headers:
  "distinct (map fst (consoleEnv console))
   \<and> map_of (consoleEnv console) ''TRUSTED_USER_HEADER'' = Some HeaderUser
   \<and> map_of (consoleEnv console) ''TRUSTED_LEVEL_HEADER'' = Some HeaderLevel
   \<and> {HeaderUser, HeaderLevel} \<subseteq> set strippedHeaders
   \<and> map_of (consoleEnv console) ''ALLOW_OPERATIONS'' = Some (boolString (consoleAllowOperations console))
   \<and> map_of (consoleEnv console) ''ALLOW_LOGS'' = Some (boolString (consoleAllowLogs console))
   \<and> map_of (consoleEnv console) ''ALLOW_ACCESS_REVIEW'' = Some (boolString (consoleAllowAccessReview console))
   \<and> map_of (consoleEnv console) ''ALLOW_CLUSTER_CATALOGS'' = Some (boolString (consoleAllowClusterCatalogs console))
   \<and> map_of (consoleEnv console) ''PGADMIN_URL''
       = (if pgAdminEnabled console then Some (rc_PathPrefix (pgadmin_route (pgadmin_level console))) else None)"
proof -
  have mem: "map_of (consoleEnv console) n = Some v" if "(n, v) \<in> set (consoleEnv console)" for n v
    using that by (rule env_lookup)
  have "map_of (consoleEnv console) ''PGADMIN_URL''
       = (if pgAdminEnabled console then Some (rc_PathPrefix (pgadmin_route (pgadmin_level console))) else None)"
  proof (cases "pgAdminEnabled console")
    case True
    then have "(''PGADMIN_URL'', ''/pgadmin'') \<in> set (consoleEnv console)"
      by (simp add: consoleEnv_def Let_def env_text_def consolePgAdminURL_def pgAdminLinkPath_def)
    with True mem show ?thesis by (simp add: pgadmin_route_def)
  next
    case False
    then have "''PGADMIN_URL'' \<notin> set (map fst (consoleEnv console))"
      by (simp only: consoleEnv_def Let_def map_append env_names list.map fst_conv) (simp add: consolePgAdminURL_def)
    with False show ?thesis by (simp add: map_of_eq_None_iff)
  qed
  moreover have "{HeaderUser, HeaderLevel} \<subseteq> set strippedHeaders" by (simp add: strippedHeaders_def)
  moreover have "(''TRUSTED_USER_HEADER'', HeaderUser) \<in> set (consoleEnv console)"
    "(''TRUSTED_LEVEL_HEADER'', HeaderLevel) \<in> set (consoleEnv console)"
    by (simp_all add: consoleEnv_def Let_def consoleTrustedUserHeader_def consoleTrustedLevelHeader_def
        HeaderUser_def HeaderLevel_def)
  moreover have
    "(''ALLOW_OPERATIONS'', boolString (consoleAllowOperations console)) \<in> set (consoleEnv console)"
    "(''ALLOW_LOGS'', boolString (consoleAllowLogs console)) \<in> set (consoleEnv console)"
    "(''ALLOW_ACCESS_REVIEW'', boolString (consoleAllowAccessReview console)) \<in> set (consoleEnv console)"
    "(''ALLOW_CLUSTER_CATALOGS'', boolString (consoleAllowClusterCatalogs console)) \<in> set (consoleEnv console)"
    by (simp_all add: consoleEnv_def Let_def)
  ultimately show ?thesis using mem consoleEnv_distinct by blast
qed

text \<open>
  a console is rolled out only with values its application accepts. Validation passes
  exactly when every duration that is set lies within the application's bounds and an http
  monitoring link is explicitly allowed; otherwise it names an offending field together with
  the bounds that field violates.
\<close>

theorem validateConsoleSpec_exact:
  "let spec = con_console console in
   (validateConsoleSpec console = None \<longleftrightarrow>
      within (cs_EventsMaxAge spec) (60 * second) (86400 * second)
      \<and> within (cs_APIRequestTimeout spec) second (60 * second)
      \<and> within (hi_CoalesceWindow (cs_History spec)) second (3600 * second)
      \<and> within (mt_Interval (cs_Metrics spec)) (5 * second) (300 * second)
      \<and> within (mt_Retention (cs_Metrics spec)) (3600 * second) (2592000 * second)
      \<and> (HasPrefix (cs_MonitoringURL spec) ''http://'' \<longrightarrow> consoleAllowInsecureLinks console))
   \<and> (\<forall>f lo hi. validateConsoleSpec console = Some (DurationOutOfRange f lo hi) \<longrightarrow>
        (\<exists>v. (f, v, lo, hi) \<in> set (console_durations console) \<and> \<not> within v lo hi))"
proof -
  have "validateConsoleSpec console = None \<longleftrightarrow>
      check_durations (console_durations console) = None
      \<and> (HasPrefix (cs_MonitoringURL (con_console console)) ''http://'' \<longrightarrow> consoleAllowInsecureLinks console)"
    by (simp add: validateConsoleSpec_def split: option.splits)
  moreover have "check_durations (console_durations console) = Some (DurationOutOfRange f lo hi)"
    if "validateConsoleSpec console = Some (DurationOutOfRange f lo hi)" for f lo hi
    using that by (simp add: validateConsoleSpec_def split: option.splits if_splits)
  moreover have "check_durations (console_durations console) = None \<longleftrightarrow>
      (let spec = con_console console in
       within (cs_EventsMaxAge spec) (60 * second) (86400 * second)
       \<and> within (cs_APIRequestTimeout spec) second (60 * second)
       \<and> within (hi_CoalesceWindow (cs_History spec)) second (3600 * second)
       \<and> within (mt_Interval (cs_Metrics spec)) (5 * second) (300 * second)
       \<and> within (mt_Retention (cs_Metrics spec)) (3600 * second) (2592000 * second))"
    by (simp only: console_durations_def Let_def check_durations_None check_durations.simps console_bounds) simp
  ultimately show ?thesis using check_durations_Some unfolding Let_def by blast
qed

section \<open>Witness\<close>

theorem validateConsoleSpec_exact_witness:
  "validateConsoleSpec sample_console = None"
  using validateConsoleSpec_exact[of sample_console]
  by (simp add: Let_def sample_spec_def default_console_spec_def HasPrefix_def within_def)

end
