(* ===== verification/Go_Duration.thy ===== *)
theory Go_Duration
  imports Console_Config
begin

text \<open>
  Durations as the proxy's configuration reads them (\<open>Duration\<close> in
  \<open>internal/proxy/config/config.go\<close>): \<open>time.ParseDuration\<close> behind \<open>UnmarshalJSON\<close>, beside
  \<open>time.Duration.String\<close>, which the operator prints durations with (\<open>Console_Config\<close>).

  The value of a fraction is a floating-point product in the library. It is a parameter
  \<open>fmul\<close> here; \<open>fmul_exact\<close> is what IEEE arithmetic guarantees where the product is a whole
  number of nanoseconds. Everything else is integer arithmetic at 64 bits, written out.
\<close>

section \<open>Parsing\<close>

definition dur_unit :: "string \<Rightarrow> nat option" where
  "dur_unit = map_of
     [(''ns'', 1), (''us'', 1000), ([char_of (194 :: nat), char_of (181 :: nat)] @ ''s'', 1000),
      ([char_of (206 :: nat), char_of (188 :: nat)] @ ''s'', 1000), (''ms'', 1000000), (''s'', 1000000000),
      (''m'', 60000000000), (''h'', 3600000000000)]"

text \<open>The digits at the front, refused when they pass \<open>2 ^ 63\<close>.\<close>

fun leadingInt :: "nat \<Rightarrow> string \<Rightarrow> (nat \<times> string) option" where
  "leadingInt x [] = Some (x, [])"
| "leadingInt x (c # cs) =
     (if \<not> is_digit c then Some (x, c # cs)
      else if x > 2 ^ 63 div 10 then None
      else let y = x * 10 + (byte c - 48) in if y > 2 ^ 63 then None else leadingInt y cs)"

text \<open>
  The digits of a fraction, with their number: once a further digit would not fit, the rest
  of them is skipped.
\<close>

fun leadingFraction :: "nat \<Rightarrow> nat \<Rightarrow> bool \<Rightarrow> string \<Rightarrow> nat \<times> nat \<times> string" where
  "leadingFraction x k over [] = (x, k, [])"
| "leadingFraction x k over (c # cs) =
     (if \<not> is_digit c then (x, k, c # cs)
      else if over then leadingFraction x k True cs
      else if x > (2 ^ 63 - 1) div 10 then leadingFraction x k True cs
      else let y = x * 10 + (byte c - 48) in
        if y > 2 ^ 63 then leadingFraction x k True cs else leadingFraction y (k + 1) False cs)"

text \<open>One turn of the loop: a number, its unit, and what follows.\<close>

definition in_unit :: "char \<Rightarrow> bool" where
  "in_unit c = (c \<noteq> CHR ''.'' \<and> \<not> is_digit c)"

definition dur_fraction :: "string \<Rightarrow> nat \<times> nat \<times> bool \<times> string" where
  "dur_fraction s =
     (case s of
        c # cs \<Rightarrow>
          if c = CHR ''.''
          then case leadingFraction 0 0 False cs of (f, k, rest) \<Rightarrow> (f, k, length rest \<noteq> length cs, rest)
          else (0, 0, False, s)
      | [] \<Rightarrow> (0, 0, False, s))"

text \<open>The unit after a number of value \<open>v\<close> with the fraction \<open>f\<close> of \<open>k\<close> digits.\<close>

definition dur_scaled :: "(nat \<Rightarrow> nat \<Rightarrow> nat \<Rightarrow> nat) \<Rightarrow> nat \<Rightarrow> nat \<Rightarrow> nat \<Rightarrow> string \<Rightarrow> (nat \<times> string) option" where
  "dur_scaled fmul v f k s =
     (case dur_unit (takeWhile in_unit s) of
        None \<Rightarrow> None
      | Some unit \<Rightarrow>
          if v > 2 ^ 63 div unit then None
          else let w = v * unit + (if f > 0 then fmul f unit k else 0) in
            if f > 0 \<and> w > 2 ^ 63 then None else Some (w, dropWhile in_unit s))"

definition dur_component :: "(nat \<Rightarrow> nat \<Rightarrow> nat \<Rightarrow> nat) \<Rightarrow> string \<Rightarrow> (nat \<times> string) option" where
  "dur_component fmul s =
     (if s = [] \<or> \<not> (hd s = CHR ''.'' \<or> is_digit (hd s)) then None
      else case leadingInt 0 s of
        None \<Rightarrow> None
      | Some (v, s1) \<Rightarrow>
          (case dur_fraction s1 of (f, k, post, s2) \<Rightarrow>
             if length s1 = length s \<and> \<not> post then None else dur_scaled fmul v f k s2))"

lemma leadingInt_length: "leadingInt x s = Some (v, r) \<Longrightarrow> length r \<le> length s"
  by (induction x s rule: leadingInt.induct) (auto simp: Let_def split: if_splits)

lemma leadingFraction_length: "leadingFraction x k b s = (f, j, r) \<Longrightarrow> length r \<le> length s"
proof (induction s arbitrary: x k b)
  case (Cons c cs)
  then obtain x' k' b' where "r = c # cs \<or> leadingFraction x' k' b' cs = (f, j, r)"
    by (auto simp: Let_def split: if_splits)
  with Cons.IH show ?case by fastforce
qed simp

lemma dur_fraction_length: "dur_fraction s = (f, k, p, r) \<Longrightarrow> length r \<le> length s"
  by (auto simp: dur_fraction_def dest: leadingFraction_length split: list.splits if_splits prod.splits)

text \<open>Every turn consumes a unit of at least one byte, so the loop ends.\<close>

lemma dur_unit_Nil [simp]: "dur_unit [] = None"
  by (simp add: dur_unit_def)

lemma dur_scaled_consumes:
  assumes "dur_scaled fmul v f k s = Some (w, r)"
  shows "length r < length s"
proof -
  have "0 < length (takeWhile in_unit s)"
  proof (rule ccontr)
    assume "\<not> 0 < length (takeWhile in_unit s)"
    then have "takeWhile in_unit s = []" by blast
    then have "dur_unit (takeWhile in_unit s) = None" by (simp only: dur_unit_Nil)
    with assms show False by (simp add: dur_scaled_def)
  qed
  moreover have "r = dropWhile in_unit s"
    using assms by (cases "dur_unit (takeWhile in_unit s)") (simp_all add: dur_scaled_def Let_def split: if_splits)
  moreover have "length s = length (takeWhile in_unit s) + length (dropWhile in_unit s)"
    by (simp flip: length_append)
  ultimately show ?thesis by simp
qed

lemma dur_component_consumes:
  assumes "dur_component fmul s = Some (w, r)"
  shows "length r < length s"
proof -
  obtain v s1 where s1: "leadingInt 0 s = Some (v, s1)"
    using assms by (cases "leadingInt 0 s") (auto simp: dur_component_def split: if_splits)
  obtain f k p s2 where s2: "dur_fraction s1 = (f, k, p, s2)" by (cases "dur_fraction s1")
  have "dur_scaled fmul v f k s2 = Some (w, r)"
    using assms by (simp add: dur_component_def s1 s2 split: if_splits)
  from dur_scaled_consumes[OF this] leadingInt_length[OF s1] dur_fraction_length[OF s2] show ?thesis by simp
qed

function dur_loop :: "(nat \<Rightarrow> nat \<Rightarrow> nat \<Rightarrow> nat) \<Rightarrow> nat \<Rightarrow> string \<Rightarrow> nat option" where
  "dur_loop fmul d s =
     (if s = [] then Some d
      else case dur_component fmul s of
        None \<Rightarrow> None
      | Some (v, rest) \<Rightarrow>
          (let d' = (d + v) mod 2 ^ 64 in if d' > 2 ^ 63 then None else dur_loop fmul d' rest))"
  by pat_completeness auto
termination
  by (relation "measure (\<lambda>(f, d, s). length s)") (auto dest: dur_component_consumes)

declare dur_loop.simps [simp del]

definition ParseDuration :: "(nat \<Rightarrow> nat \<Rightarrow> nat \<Rightarrow> nat) \<Rightarrow> string \<Rightarrow> int option" where
  "ParseDuration fmul s =
     (let neg = (s \<noteq> [] \<and> hd s = CHR ''-'');
          t = (if s \<noteq> [] \<and> hd s \<in> {CHR ''-'', CHR ''+''} then tl s else s) in
      if t = ''0'' then Some 0
      else if t = [] then None
      else case dur_loop fmul 0 t of
        None \<Rightarrow> None
      | Some d \<Rightarrow> if neg then Some (- int d) else if d > 2 ^ 63 - 1 then None else Some (int d))"

text \<open>\<open>Duration.UnmarshalJSON\<close>; \<open>text_of\<close> is the YAML library reading a string.\<close>

definition Duration_UnmarshalJSON ::
  "(string \<Rightarrow> string option) \<Rightarrow> (nat \<Rightarrow> nat \<Rightarrow> nat \<Rightarrow> nat) \<Rightarrow> string \<Rightarrow> int option" where
  "Duration_UnmarshalJSON text_of fmul b = Option.bind (text_of b) (ParseDuration fmul)"

definition fmul_exact :: "(nat \<Rightarrow> nat \<Rightarrow> nat \<Rightarrow> nat) \<Rightarrow> bool" where
  "fmul_exact fmul = (\<forall>f unit k. 10 ^ k dvd unit \<and> f < 10 ^ k \<longrightarrow> fmul f unit k = f * (unit div 10 ^ k))"

section \<open>Reading a number back\<close>

lemma leadingInt_val:
  assumes "digits_val x ds = Some n" "n \<le> 2 ^ 63" "rest = [] \<or> \<not> is_digit (hd rest)"
  shows "leadingInt x (ds @ rest) = Some (n, rest)"
  using assms(1)
proof (induction ds arbitrary: x)
  case Nil
  with assms(3) show ?case by (cases rest) auto
next
  case (Cons c ds)
  then have c: "is_digit c" and v: "digits_val (x * 10 + (byte c - 48)) ds = Some n" by (simp_all split: if_splits)
  have "y \<le> n" if "digits_val y ds = Some n" for y
    using that by (induction ds arbitrary: y) (force split: if_splits)+
  from this[OF v] assms(2) have "x * 10 + (byte c - 48) \<le> 2 ^ 63" by simp
  moreover from this have "\<not> x > 2 ^ 63 div 10" by simp
  ultimately show ?case using c Cons.IH[OF v] by (simp add: Let_def)
qed

lemma leadingFraction_val:
  assumes "digits_val x ds = Some n" "n < 10 ^ 18" "rest = [] \<or> \<not> is_digit (hd rest)"
  shows "leadingFraction x k False (ds @ rest) = (n, k + length ds, rest)"
  using assms(1)
proof (induction ds arbitrary: x k)
  case Nil
  with assms(3) show ?case by (cases rest) auto
next
  case (Cons c ds)
  then have c: "is_digit c" and v: "digits_val (x * 10 + (byte c - 48)) ds = Some n" by (simp_all split: if_splits)
  have "y \<le> n" if "digits_val y ds = Some n" for y
    using that by (induction ds arbitrary: y) (force split: if_splits)+
  from this[OF v] assms(2) have "x * 10 + (byte c - 48) < 10 ^ 18" by simp
  then have "\<not> x > (2 ^ 63 - 1) div 10" "\<not> x * 10 + (byte c - 48) > 2 ^ 63" by simp_all
  with c Cons.IH[OF v, of "Suc k"] show ?case by (simp add: Let_def)
qed

text \<open>Leading and trailing zeros of a row of digits.\<close>

lemma digits_val_zeros: "digits_val 0 (replicate m (CHR ''0'') @ ds) = digits_val 0 ds"
  by (induction m) (simp_all add: is_digit_def byte_def)

lemma digits_val_trailing:
  "digits_val x ds = Some n \<Longrightarrow> digits_val x (ds @ replicate m (CHR ''0'')) = Some (n * 10 ^ m)"
proof (induction m arbitrary: n)
  case (Suc m)
  from Suc.IH[OF Suc.prems]
  have "digits_val x ((ds @ replicate m (CHR ''0'')) @ [CHR ''0'']) = Some (n * 10 ^ m * 10)"
    unfolding digits_val_append[of x "ds @ replicate m (CHR ''0'')"] by (simp add: is_digit_def byte_def)
  moreover have "ds @ replicate (Suc m) (CHR ''0'') = (ds @ replicate m (CHR ''0'')) @ [CHR ''0'']"
    by (simp add: replicate_append_same)
  ultimately show ?case by (simp only: power_Suc mult.assoc mult.commute[of 10])
qed simp

lemma digits_length: "n < 10 ^ p \<Longrightarrow> 0 < p \<Longrightarrow> length (digits n) \<le> p"
proof (induction n arbitrary: p rule: digits.induct)
  case (1 n)
  show ?case
  proof (cases "n < 10")
    case True
    with "1.prems" show ?thesis by (subst digits.simps) simp
  next
    case False
    obtain q where q: "p = Suc q" "0 < q"
    proof (cases p)
      case (Suc q)
      moreover have "q \<noteq> 0" using Suc "1.prems"(1) False by (intro notI) simp
      ultimately show thesis using that by blast
    qed (use "1.prems" in simp)
    with "1.prems" have "n div 10 < 10 ^ q" by (simp add: less_mult_imp_div_less mult.commute)
    from "1.IH"[OF False this q(2)] False q show ?thesis by (subst digits.simps) simp
  qed
qed

lemma stripped_zeros:
  "\<exists>m. ps = rev (dropWhile (\<lambda>c. c = z) (rev ps)) @ replicate m z"
proof -
  have "rev ps = takeWhile (\<lambda>c. c = z) (rev ps) @ dropWhile (\<lambda>c. c = z) (rev ps)" by simp
  moreover have "takeWhile (\<lambda>c. c = z) xs = replicate (length (takeWhile (\<lambda>c. c = z) xs)) z" for xs
    by (induction xs) auto
  ultimately have "rev ps = replicate (length (takeWhile (\<lambda>c. c = z) (rev ps))) z @ dropWhile (\<lambda>c. c = z) (rev ps)" by metis
  then have "rev (rev ps) = rev (dropWhile (\<lambda>c. c = z) (rev ps)) @ rev (replicate (length (takeWhile (\<lambda>c. c = z) (rev ps))) z)"
    by (metis rev_append)
  then show ?thesis by (metis rev_replicate rev_rev_ident)
qed

lemma digits_val_prefix: "digits_val x (ds @ es) = Some n \<Longrightarrow> \<exists>m. digits_val x ds = Some m"
  by (auto simp: digits_val_append split: option.splits)

lemma digits_val_bound: "digits_val x ds = Some n \<Longrightarrow> n < (x + 1) * 10 ^ length ds"
proof (induction ds arbitrary: x)
  case (Cons c ds)
  then have c: "is_digit c" and v: "digits_val (x * 10 + (byte c - 48)) ds = Some n" by (simp_all split: if_splits)
  have "byte c - 48 \<le> 9" using c by (auto simp: is_digit_def)
  then have "x * 10 + (byte c - 48) + 1 \<le> (x + 1) * 10" by (simp add: add_mult_distrib)
  then have "(x * 10 + (byte c - 48) + 1) * 10 ^ length ds \<le> (x + 1) * 10 * 10 ^ length ds" by (rule mult_right_mono) simp
  with Cons.IH[OF v] have "n < (x + 1) * 10 * 10 ^ length ds" by (rule less_le_trans)
  then show ?case by (simp only: list.size power_Suc mult.assoc add_0_right add_Suc_right)
qed simp

text \<open>A printed fraction is read as its significant digits and their number.\<close>

lemma fmtFrac_read:
  assumes "v < 10 ^ p" "0 < p" "p \<le> 9" "rest \<noteq> []" "in_unit (hd rest)"
  obtains f k where "dur_fraction (fmtFrac v p @ rest) = (f, k, k \<noteq> 0, rest)" "k \<le> p" "f * 10 ^ (p - k) = v" "f < 10 ^ k"
proof -
  define ds where "ds = rev (dropWhile (\<lambda>c. c = CHR ''0'') (rev (pad_left p (digits v))))"
  obtain m where m: "pad_left p (digits v) = ds @ replicate m (CHR ''0'')"
    using stripped_zeros[of "pad_left p (digits v)" "CHR ''0''"] unfolding ds_def by (elim exE)
  have val: "digits_val 0 (pad_left p (digits v)) = Some v" by (simp add: pad_left_def digits_val_zeros digits_val_digits)
  then obtain f where f: "digits_val 0 ds = Some f" using digits_val_prefix m by metis
  have "length (pad_left p (digits v)) = p" using digits_length[OF assms(1,2)] by (simp add: pad_left_def)
  with m have len: "length ds + m = p" by (metis length_append length_replicate)
  have v: "f * 10 ^ m = v" using digits_val_trailing[OF f, of m] val m by simp
  have lt: "f < 10 ^ length ds" using digits_val_bound[OF f] by simp
  have nd: "\<not> is_digit (hd rest)" "hd rest \<noteq> CHR ''.''" using assms(5) by (auto simp: in_unit_def)
  have "dur_fraction (fmtFrac v p @ rest) = (f, length ds, length ds \<noteq> 0, rest)"
  proof (cases "ds = []")
    case True
    with f have "f = 0" by simp
    with True assms(4) nd show ?thesis
      by (cases rest) (simp_all add: fmtFrac_def dur_fraction_def flip: ds_def)
  next
    case False
    have "(10::nat) ^ length ds \<le> 10 ^ 9" using len assms(3) by (intro power_increasing) auto
    with lt have "f < 10 ^ 18" by simp
    from leadingFraction_val[OF f this, of rest 0] nd False show ?thesis
      by (simp add: fmtFrac_def dur_fraction_def flip: ds_def)
  qed
  with v lt len show thesis by (intro that[of f "length ds"]) auto
qed

section \<open>Reading a duration back\<close>

lemma component_read:
  assumes fr: "dur_fraction (t @ u @ rest) = (f, k, b, u @ rest)" "t @ u @ rest = [] \<or> \<not> is_digit (hd (t @ u @ rest))"
    and u: "u \<noteq> []" "list_all in_unit u" "dur_unit u = Some scale" "rest = [] \<or> \<not> in_unit (hd rest)"
    and w: "w = n * scale + (if f > 0 then fmul f scale k else 0)" "w \<le> 2 ^ 63" "0 < scale"
  shows "dur_component fmul (digits n @ t @ u @ rest) = Some (w, rest)"
proof -
  have hd: "is_digit (hd (digits n @ t @ u @ rest))" using digits_all_digit[of "hd (digits n)" n] by simp
  have n: "n * scale \<le> 2 ^ 63" using w(1,2) by simp
  moreover have "n \<le> n * scale" using w(3) by simp
  ultimately have "n \<le> 2 ^ 63" by linarith
  from leadingInt_val[OF digits_val_digits this fr(2)]
  have li: "leadingInt 0 (digits n @ t @ u @ rest) = Some (n, t @ u @ rest)" .
  have "takeWhile in_unit rest = []" "dropWhile in_unit rest = rest" using u(4) by (cases rest; simp)+
  then have tk: "takeWhile in_unit (u @ rest) = u" "dropWhile in_unit (u @ rest) = rest"
    using u(2) by (simp_all add: list_all_iff)
  have "n \<le> 2 ^ 63 div scale" using n w(3) by (simp add: less_eq_div_iff_mult_less_eq)
  with w(1,2) have "dur_scaled fmul n f k (u @ rest) = Some (w, rest)"
    unfolding dur_scaled_def tk u(3) by (simp add: Let_def)
  with hd li fr(1) show ?thesis by (simp add: dur_component_def)
qed

lemma whole_read:
  assumes "u \<noteq> []" "list_all in_unit u" "dur_unit u = Some scale" "rest = [] \<or> \<not> in_unit (hd rest)"
    and "n * scale \<le> 2 ^ 63" "0 < scale"
  shows "dur_component fmul (digits n @ u @ rest) = Some (n * scale, rest)"
proof -
  obtain c cs where c: "u = c # cs" "c \<noteq> CHR ''.''" "\<not> is_digit c" using assms(1,2) by (cases u) (auto simp: in_unit_def)
  have "dur_fraction ([] @ u @ rest) = (0, 0, False, u @ rest)" using c by (simp add: dur_fraction_def)
  from component_read[OF this _ assms(1-4) _ _ assms(6), where n = n and fmul = fmul] c assms(5) show ?thesis by simp
qed

lemma fractional_read:
  assumes fm: "fmul_exact fmul"
    and p: "v < 10 ^ p" "0 < p" "p \<le> 9" "scale = 10 ^ p * q" "0 < q"
    and u: "u \<noteq> []" "list_all in_unit u" "dur_unit u = Some scale" "rest = [] \<or> \<not> in_unit (hd rest)"
    and w: "n * scale + v * q \<le> 2 ^ 63"
  shows "dur_component fmul (digits n @ fmtFrac v p @ u @ rest) = Some (n * scale + v * q, rest)"
proof -
  have hd: "u @ rest \<noteq> []" "in_unit (hd (u @ rest))" using u(1,2) by (cases u; simp)+
  obtain f k where fr: "dur_fraction (fmtFrac v p @ u @ rest) = (f, k, k \<noteq> 0, u @ rest)"
    and k: "k \<le> p" "f * 10 ^ (p - k) = v" "f < 10 ^ k"
    by (rule fmtFrac_read[OF p(1-3) hd])
  have "(10 :: nat) ^ p = 10 ^ k * 10 ^ (p - k)" using k(1) by (simp flip: power_add)
  then have scale: "scale = 10 ^ k * (10 ^ (p - k) * q)" using p(4) by (simp add: mult.assoc)
  then have "fmul f scale k = f * (10 ^ (p - k) * q)" using fm k(3) by (auto simp: fmul_exact_def)
  also have "\<dots> = v * q" using k(2) by (simp add: mult.assoc flip: k(2))
  finally have "(if f > 0 then fmul f scale k else 0) = v * q" using k(2) by auto
  moreover have "\<not> is_digit (hd (fmtFrac v p @ u @ rest))"
    using u(1,2) by (cases u) (auto simp: fmtFrac_def Let_def in_unit_def is_digit_def byte_def)
  moreover have "0 < scale" using p(4,5) by simp
  ultimately show ?thesis using component_read[OF fr _ u, where n = n and fmul = fmul] w by simp
qed

lemma dur_loop_step:
  assumes "s \<noteq> []" "dur_component fmul s = Some (v, rest)" "d + v \<le> 2 ^ 63"
  shows "dur_loop fmul d s = dur_loop fmul (d + v) rest"
  using assms by (subst dur_loop.simps) (simp add: Let_def)

lemma unit_texts:
  "dur_unit ''ns'' = Some 1" "dur_unit ([char_of (194 :: nat), char_of (181 :: nat)] @ ''s'') = Some 1000"
  "dur_unit ''ms'' = Some 1000000" "dur_unit ''s'' = Some 1000000000" "dur_unit ''m'' = Some 60000000000"
  "dur_unit ''h'' = Some 3600000000000"
  "list_all in_unit ''ns''" "list_all in_unit ([char_of (194 :: nat), char_of (181 :: nat)] @ ''s'')"
  "list_all in_unit ''ms''" "list_all in_unit ''s''" "list_all in_unit ''m''" "list_all in_unit ''h''"
  by (simp_all add: dur_unit_def in_unit_def is_digit_def byte_def char_of_def bit_0)

lemma digits_not_unit: "digits n @ s = [] \<or> \<not> in_unit (hd (digits n @ s))"
  using digits_all_digit[of "hd (digits n)" n] by (simp add: in_unit_def)

text \<open>The text of a magnitude below one second.\<close>

lemma small_read:
  assumes fm: "fmul_exact fmul" and p: "0 < p" "p \<le> 9" "dur_unit un = Some (10 ^ p)" "un \<noteq> []" "list_all in_unit un"
    and u: "u \<le> 2 ^ 63"
  shows "dur_loop fmul 0 (digits (u div 10 ^ p) @ fmtFrac (u mod 10 ^ p) p @ un) = Some u"
proof -
  have "dur_component fmul (digits (u div 10 ^ p) @ fmtFrac (u mod 10 ^ p) p @ un @ []) = Some (u div 10 ^ p * 10 ^ p + u mod 10 ^ p * 1, [])"
    by (rule fractional_read[OF fm _ p(1,2) _ _ p(4,5,3)]) (use u in \<open>simp_all add: div_mult_mod_eq\<close>)
  then show ?thesis using u dur_loop_step[of _ fmul u "[]" 0]
    by (simp add: div_mult_mod_eq dur_loop.simps[of fmul u "[]"])
qed

text \<open>Seconds with their fraction, after what came before them.\<close>

lemma seconds_read:
  assumes fm: "fmul_exact fmul" and v: "v < 10 ^ 9" and d: "d + (n * 10 ^ 9 + v) \<le> 2 ^ 63"
  shows "dur_loop fmul d (digits n @ fmtFrac v 9 @ ''s'') = Some (d + (n * 10 ^ 9 + v))"
proof -
  have "dur_component fmul (digits n @ fmtFrac v 9 @ ''s'' @ []) = Some (n * 1000000000 + v * 1, [])"
    by (rule fractional_read[OF fm v _ _ _ _ _ unit_texts(10,4)]) (use d in simp_all)
  then show ?thesis using d dur_loop_step[of _ fmul "n * 10 ^ 9 + v" "[]" d] by (simp add: dur_loop.simps[of fmul _ "[]"])
qed

lemma whole_step:
  assumes "u \<noteq> []" "list_all in_unit u" "dur_unit u = Some scale" "0 < scale" "d + n * scale \<le> 2 ^ 63"
  shows "dur_loop fmul d (digits n @ u @ digits m @ s) = dur_loop fmul (d + n * scale) (digits m @ s)"
  by (rule dur_loop_step[OF _ whole_read[OF assms(1-3) digits_not_unit _ assms(4)] assms(5)]) (use assms(5) in simp_all)

lemma clock_split:
  fixes w :: nat
  shows "w = w div 3600 * 3600 + w div 60 mod 60 * 60 + w mod 60" "w div 60 = 0 \<Longrightarrow> w div 3600 = 0"
proof -
  have h: "w div 3600 = w div 60 div 60" by (simp add: div_mult2_eq[symmetric])
  then show "w div 60 = 0 \<Longrightarrow> w div 3600 = 0" by simp
  have "w div 60 * 60 + w mod 60 = w" "w div 60 div 60 * 60 + w div 60 mod 60 = w div 60" by (rule div_mult_mod_eq)+
  with h show "w = w div 3600 * 3600 + w div 60 mod 60 * 60 + w mod 60" by linarith
qed

text \<open>The text of a magnitude of a second and more.\<close>

definition clock_text :: "nat \<Rightarrow> nat \<Rightarrow> string" where
  "clock_text w v =
     (if w div 3600 > 0 then digits (w div 3600) @ ''h'' else [])
     @ (if w div 60 > 0 then digits (w div 60 mod 60) @ ''m'' else [])
     @ digits (w mod 60) @ fmtFrac v 9 @ ''s''"

lemma clock_read:
  assumes fm: "fmul_exact fmul" and v: "v < 10 ^ 9" and d: "w * 10 ^ 9 + v \<le> 2 ^ 63"
  shows "dur_loop fmul 0 (clock_text w v) = Some (w * 10 ^ 9 + v)"
proof -
  let ?h = "w div 3600" and ?m = "w div 60 mod 60" and ?s = "w mod 60"
  define tail where "tail = digits ?s @ fmtFrac v 9 @ ''s''"
  have sum: "?h * 3600000000000 + ?m * 60000000000 + (?s * 10 ^ 9 + v) = w * 10 ^ 9 + v"
    using clock_split(1)[of w] by simp
  note step = whole_step[OF _ unit_texts(12) unit_texts(6), where fmul = fmul]
    and step' = whole_step[OF _ unit_texts(11) unit_texts(5), where fmul = fmul]
  have sec: "dur_loop fmul e tail = Some (e + (?s * 10 ^ 9 + v))" if "e + (?s * 10 ^ 9 + v) \<le> 2 ^ 63" for e
    unfolding tail_def by (rule seconds_read[OF fm v that])
  have min: "dur_loop fmul e (digits ?m @ ''m'' @ tail) = Some (e + ?m * 60000000000 + (?s * 10 ^ 9 + v))"
    if "e + ?m * 60000000000 + (?s * 10 ^ 9 + v) \<le> 2 ^ 63" for e
    using step'[of e ?m ?s "fmtFrac v 9 @ ''s''"] sec[of "e + ?m * 60000000000"] that by (simp add: tail_def)
  have bound: "?h * 3600000000000 + ?m * 60000000000 + (?s * 10 ^ 9 + v) \<le> 2 ^ 63" unfolding sum by (rule d)
  consider "w div 60 = 0" | "w div 60 > 0" "?h = 0" | "?h > 0" by blast
  then show ?thesis
  proof cases
    case 1
    then have "clock_text w v = tail" "?h = 0" "?m = 0" by (simp_all add: clock_text_def tail_def clock_split(2))
    with sec[of 0] bound sum show ?thesis by simp
  next
    case 2
    then have "clock_text w v = digits ?m @ ''m'' @ tail" by (simp add: clock_text_def tail_def)
    with min[of 0] bound sum 2(2) show ?thesis by simp
  next
    case 3
    then have "w div 60 > 0" using clock_split(2)[of w] by (cases "w div 60 = 0") simp_all
    with 3 have "clock_text w v = digits ?h @ ''h'' @ digits ?m @ ''m'' @ tail" by (simp add: clock_text_def tail_def)
    moreover have "dur_loop fmul 0 (digits ?h @ ''h'' @ digits ?m @ ''m'' @ tail)
        = dur_loop fmul (?h * 3600000000000) (digits ?m @ ''m'' @ tail)"
      using step[of 0 ?h ?m "''m'' @ tail"] bound by simp
    ultimately show ?thesis using min[of "?h * 3600000000000"] bound sum by simp
  qed
qed

definition magnitude_text :: "nat \<Rightarrow> string" where
  "magnitude_text u =
     (if u = 0 then ''0s''
      else if u < 1000 then digits u @ ''ns''
      else if u < 1000000 then digits (u div 1000) @ fmtFrac (u mod 1000) 3 @ [char_of (194 :: nat), char_of (181 :: nat)] @ ''s''
      else if u < 1000000000 then digits (u div 1000000) @ fmtFrac (u mod 1000000) 6 @ ''ms''
      else clock_text (u div 1000000000) (u mod 1000000000))"

lemma Duration_String_sign:
  "Duration_String d = (if d < 0 then [CHR ''-''] else []) @ magnitude_text (nat \<bar>d\<bar>)"
  by (simp add: Duration_String_def magnitude_text_def clock_text_def Let_def)

lemma magnitude_read:
  assumes fm: "fmul_exact fmul" and u: "u \<le> 2 ^ 63"
  shows "dur_loop fmul 0 (magnitude_text u) = Some u"
proof -
  consider "u = 0" | "0 < u" "u < 1000" | "1000 \<le> u" "u < 1000000" | "1000000 \<le> u" "u < 1000000000" | "1000000000 \<le> u"
    by linarith
  then show ?thesis
  proof cases
    case 1
    have "dur_component fmul (digits 0 @ ''s'' @ []) = Some (0 * 1000000000, [])"
      by (rule whole_read[OF _ unit_texts(10,4)]) simp_all
    then have "dur_component fmul ''0s'' = Some (0, [])" by (simp add: digits.simps[of 0] char_of_def bit_0)
    with 1 show ?thesis using dur_loop_step[of "''0s''" fmul 0 "[]" 0] by (simp add: magnitude_text_def dur_loop.simps[of fmul 0 "[]"])
  next
    case 2
    have "dur_component fmul (digits u @ ''ns'' @ []) = Some (u * 1, [])"
      by (rule whole_read[OF _ unit_texts(7,1)]) (use u in simp_all)
    with 2 u show ?thesis using dur_loop_step[of "digits u @ ''ns''" fmul u "[]" 0]
      by (simp add: magnitude_text_def dur_loop.simps[of fmul u "[]"])
  next
    case 3
    with small_read[OF fm _ _ _ _ unit_texts(8) u, of 3] unit_texts(2) show ?thesis by (simp add: magnitude_text_def)
  next
    case 4
    with small_read[OF fm _ _ _ _ unit_texts(9) u, of 6] unit_texts(3) show ?thesis by (simp add: magnitude_text_def)
  next
    case 5
    have "u div 1000000000 * 10 ^ 9 + u mod 1000000000 = u" by simp
    with clock_read[OF fm, of "u mod 1000000000" "u div 1000000000"] u 5 show ?thesis by (simp add: magnitude_text_def)
  qed
qed

lemma magnitude_shape:
  "magnitude_text u \<noteq> []" "hd (magnitude_text u) \<notin> {CHR ''-'', CHR ''+''}" "last (magnitude_text u) = CHR ''s''"
proof -
  have d: "hd (digits n @ s) \<notin> {CHR ''-'', CHR ''+''}" "digits n @ s \<noteq> []" for n s
    using is_digit_sign[OF digits_all_digit[of "hd (digits n)" n]] by auto
  have "\<exists>n s. magnitude_text u = digits n @ s @ ''s''" if "u \<noteq> 0"
  proof -
    have "\<exists>n s. clock_text w v = digits n @ s @ ''s''" for w v
      by (cases "w div 3600 > 0"; cases "w div 60 > 0") (auto simp: clock_text_def)
    moreover have "\<exists>n s. digits m @ t @ x @ ''s'' = digits n @ s @ ''s''" for m t x
      by (metis append_assoc)
    ultimately show ?thesis
      using that by (auto simp: magnitude_text_def)
  qed
  then obtain n s where "magnitude_text u = digits n @ s @ ''s'' \<or> magnitude_text u = ''0s''"
    by (cases "u = 0") (auto simp: magnitude_text_def)
  then show "magnitude_text u \<noteq> []" "hd (magnitude_text u) \<notin> {CHR ''-'', CHR ''+''}" "last (magnitude_text u) = CHR ''s''"
    using d(1)[of n "s @ ''s''"] d(2)[of n] by auto
qed


text \<open>
  A duration written as a number, which is how a value of the type is marshalled, is not read
  back: there is no unit.
\<close>

lemma bare_number_refused:
  assumes "0 < n"
  shows "ParseDuration fmul (digits n) = None"
proof -
  have hd: "hd (digits n) \<notin> {CHR ''-'', CHR ''+''}" and dig: "is_digit (hd (digits n))"
    using is_digit_sign[OF digits_all_digit[of "hd (digits n)" n]] digits_all_digit[of "hd (digits n)" n] by auto
  have "digits n \<noteq> ''0''"
  proof
    assume "digits n = ''0''"
    with digits_val_digits[of n] have "n = 0" by (simp add: is_digit_def byte_def)
    with assms show False by simp
  qed
  moreover have "dur_component fmul (digits n) = None"
  proof (cases "leadingInt 0 (digits n)")
    case (Some a)
    have "list_all is_digit ds \<Longrightarrow> leadingInt x ds = Some (v, r) \<Longrightarrow> r = []" for x ds v r
      by (induction x ds rule: leadingInt.induct) (auto simp: Let_def split: if_splits)
    moreover have "list_all is_digit (digits n)" using digits_all_digit by (simp add: list_all_iff)
    ultimately have "snd a = []" using Some by (metis prod.collapse)
    with Some obtain v where "leadingInt 0 (digits n) = Some (v, [])" by (cases a) simp
    then show ?thesis by (simp add: dur_component_def dur_fraction_def dur_scaled_def)
  qed (simp add: dur_component_def)
  ultimately show ?thesis using hd by (simp add: ParseDuration_def dur_loop.simps[of fmul 0 "digits n"])
qed

text \<open>Exact products, and a JSON string taken without its quotes.\<close>

definition whole_product :: "nat \<Rightarrow> nat \<Rightarrow> nat \<Rightarrow> nat" where
  "whole_product f scale k = f * scale div 10 ^ k"


end
