(* ===== verification/Pods.thy ===== *)
theory Pods
  imports Conditions
begin

text \<open>
  The pod template as the operator writes and compares it: volumes, mounts, containers and
  the Deployment around them (\<open>internal/controller/pgconsole/workload.go\<close>,
  \<open>evidence_compose.go\<close>). Only fields that some operation of the operator sets or reads are
  kept; a pointer the operator always sets is its value, one it sometimes leaves nil is an option.
\<close>

section \<open>Volumes\<close>

type_synonym key_path = "string \<times> string"

record SecretVolumeSource =
  vs_SecretName :: string
  vs_DefaultMode :: int
  vs_Items :: "key_path list"

datatype projection =
    TokenProjection string int
  | ConfigMapProjection string "key_path list"
  | DownwardAPIProjection "(string \<times> string \<times> string) list"
  | SecretProjection string "key_path list"

datatype volume_source =
    EmptyDir
  | SecretVolume SecretVolumeSource
  | ProjectedVolume int "projection list"
  | ClaimVolume string

record volume =
  vo_Name :: string
  vo_Source :: volume_source

definition vo_Secret :: "volume \<Rightarrow> string option" where
  "vo_Secret v = (case vo_Source v of SecretVolume s \<Rightarrow> Some (vs_SecretName s) | _ \<Rightarrow> None)"

record VolumeMount =
  vm_Name :: string
  vm_MountPath :: string
  vm_SubPath :: string
  vm_ReadOnly :: bool

section \<open>Containers\<close>

record ContainerPort =
  pp_Name :: string
  pp_ContainerPort :: int
  pp_Protocol :: string

datatype probe_handler = HTTPGet string int | TCPSocket int | ExecProbe "string list"

record Probe =
  pb_Handler :: probe_handler
  pb_InitialDelaySeconds :: int
  pb_PeriodSeconds :: int

record SecurityContext =
  sx_AllowPrivilegeEscalation :: bool
  sx_ReadOnlyRootFilesystem :: "bool option"
  sx_Drop :: "string list"

record Container =
  cn_Name :: string
  cn_Image :: string
  cn_ImagePullPolicy :: string
  cn_Command :: "string list"
  cn_Args :: "string list"
  cn_Env :: "(string \<times> string) list"
  cn_Ports :: "ContainerPort list"
  cn_LivenessProbe :: "Probe option"
  cn_ReadinessProbe :: "Probe option"
  cn_Resources :: ResourceRequirements
  cn_SecurityContext :: SecurityContext
  cn_VolumeMounts :: "VolumeMount list"

section \<open>The Deployment\<close>

record PodSecurityContext =
  sy_RunAsNonRoot :: bool
  sy_SeccompProfile :: string
  sy_FSGroup :: "int option"

record PodSpec =
  pd_ServiceAccountName :: string
  pd_AutomountServiceAccountToken :: bool
  pd_RestartPolicy :: string
  pd_DNSPolicy :: string
  pd_SecurityContext :: PodSecurityContext
  pd_InitContainers :: "Container list"
  pd_Containers :: "Container list"
  pd_Volumes :: "volume list"

record Deployment =
  dp_Meta :: ObjectMeta
  dp_Replicas :: int
  dp_Strategy :: string
  dp_Selector :: smap
  dp_TemplateLabels :: smap
  dp_TemplateAnnotations :: smap
  dp_Pod :: PodSpec
  dp_ObservedGeneration :: int
  dp_UpdatedReplicas :: int
  dp_ReadyReplicas :: int

abbreviation dp_Volumes :: "Deployment \<Rightarrow> volume list" where
  "dp_Volumes d \<equiv> pd_Volumes (dp_Pod d)"

section \<open>Images and budgets\<close>

definition imageReference :: "ImageSpec \<Rightarrow> string" where
  "imageReference img =
     (if im_Digest img \<noteq> [] then im_Repository img @ ''@'' @ im_Digest img
      else im_Repository img @ '':'' @ im_Tag img)"

definition resolveImage :: "ImageSpec option \<Rightarrow> string \<Rightarrow> string reconciled" where
  "resolveImage spec fallback =
     (case spec of
        Some img \<Rightarrow>
          (if im_Repository img \<noteq> [] then Inr (imageReference img)
           else if fallback \<noteq> [] then Inr fallback
           else Inl (Failed ''no image configured (spec image and operator default are both empty)''))
      | None \<Rightarrow>
          (if fallback \<noteq> [] then Inr fallback
           else Inl (Failed ''no image configured (spec image and operator default are both empty)'')))"

definition imagePullPolicy :: "ImageSpec option \<Rightarrow> string" where
  "imagePullPolicy img =
     (case img of None \<Rightarrow> ''IfNotPresent''
      | Some i \<Rightarrow> if im_PullPolicy i \<noteq> [] then im_PullPolicy i else ''IfNotPresent'')"

definition cpu_memory :: "string \<Rightarrow> string \<Rightarrow> smap" where
  "cpu_memory cpu memory = fmupd ''cpu'' cpu (fmupd ''memory'' memory fmempty)"

text \<open>Quantities are kept as they are written; \<open>resource.MustParse\<close> of the constants succeeds.\<close>

definition containerResources :: "ResourceRequirements \<Rightarrow> ResourceRequirements" where
  "containerResources resources =
     (if rr_Requests resources \<noteq> fmempty \<or> rr_Limits resources \<noteq> fmempty then resources
      else \<lparr>rr_Limits = cpu_memory ''500m'' ''256Mi'', rr_Requests = cpu_memory ''25m'' ''64Mi''\<rparr>)"

definition adminSyncResources :: "ResourceRequirements \<Rightarrow> ResourceRequirements" where
  "adminSyncResources resources =
     (if rr_Requests resources \<noteq> fmempty \<or> rr_Limits resources \<noteq> fmempty then resources
      else \<lparr>rr_Limits = cpu_memory ''1'' ''1Gi'', rr_Requests = cpu_memory ''50m'' ''256Mi''\<rparr>)"

section \<open>A sample\<close>

text \<open>A Deployment with an empty pod at generation one, complete, for the witnesses.\<close>

definition bare_pod :: PodSpec where
  "bare_pod =
     \<lparr>pd_ServiceAccountName = [], pd_AutomountServiceAccountToken = False, pd_RestartPolicy = ''Always'',
      pd_DNSPolicy = ''ClusterFirst'',
      pd_SecurityContext = \<lparr>sy_RunAsNonRoot = True, sy_SeccompProfile = ''RuntimeDefault'', sy_FSGroup = None\<rparr>,
      pd_InitContainers = [], pd_Containers = [], pd_Volumes = []\<rparr>"

definition bare_deployment :: "ObjectMeta \<Rightarrow> smap \<Rightarrow> Deployment" where
  "bare_deployment m annotations =
     \<lparr>dp_Meta = m, dp_Replicas = 1, dp_Strategy = ''Recreate'', dp_Selector = fmempty, dp_TemplateLabels = fmempty,
      dp_TemplateAnnotations = annotations, dp_Pod = bare_pod,
      dp_ObservedGeneration = 1, dp_UpdatedReplicas = 1, dp_ReadyReplicas = 1\<rparr>"

lemma bare_deployment_simps [simp]:
  "dp_Meta (bare_deployment m a) = m" "dp_TemplateAnnotations (bare_deployment m a) = a"
  "dp_Pod (bare_deployment m a) = bare_pod" "pd_Volumes bare_pod = []"
  "dp_ObservedGeneration (bare_deployment m a) = 1" "dp_UpdatedReplicas (bare_deployment m a) = 1"
  "dp_ReadyReplicas (bare_deployment m a) = 1"
  by (simp_all add: bare_deployment_def bare_pod_def)

end
