(* ===== verification/Evidence_Token.thy ===== *)
theory Evidence_Token
  imports Proxy_Render Pods
begin

text \<open>
  The life cycle of the pod-local evidence token
  (\<open>internal/controller/pgconsole/evidence_token.go\<close>): numbered immutable Secrets,
  rotation on request, self-healing under a fresh name, and the collection of superseded
  generations. The rotation counter is a Go \<open>int\<close> of 64 bits.
\<close>

section \<open>Model\<close>

definition evidenceTokenKey :: string where "evidenceTokenKey = ''token''"
definition evidenceTokenSuffix :: string where "evidenceTokenSuffix = ''-evidence-t''"
definition evidenceTokenVolume :: string where "evidenceTokenVolume = ''evidence-token''"

definition tokenGeneration :: "string \<Rightarrow> int" where
  "tokenGeneration secretName =
     (case LastIndex secretName evidenceTokenSuffix of
        None \<Rightarrow> 0
      | Some index \<Rightarrow>
          (case Atoi (drop (index + length evidenceTokenSuffix) secretName) of
             None \<Rightarrow> 0
           | Some generation \<Rightarrow> if generation < 1 then 0 else generation))"

definition evidenceTokenSecretName :: "golib \<Rightarrow> string \<Rightarrow> int \<Rightarrow> string" where
  "evidenceTokenSecretName G consoleName generation =
     ResourceName G application consoleName (evidenceTokenSuffix @ Itoa generation)"

definition next_generation :: "int \<Rightarrow> int" where
  "next_generation g = (if g = 2 ^ 63 - 1 then - (2 ^ 63) else g + 1)"

text \<open>The first volume of that name with a Secret source decides.\<close>

definition deployed_generation :: "Deployment \<Rightarrow> int" where
  "deployed_generation d =
     (case find (\<lambda>v. vo_Name v = evidenceTokenVolume \<and> vo_Secret v \<noteq> None) (dp_Volumes d) of
        Some v \<Rightarrow> (case vo_Secret v of Some name \<Rightarrow> tokenGeneration name | None \<Rightarrow> 0)
      | None \<Rightarrow> 0)"

definition deployedTokenGeneration ::
  "golib \<Rightarrow> ('s, Deployment) client \<Rightarrow> PgConsole \<Rightarrow> 's \<Rightarrow> int reconciled" where
  "deployedTokenGeneration G deployments console s =
     (case api_Live deployments s (con_Namespace console, ResourceName G application (con_Name console) []) of
        Inl NotFound \<Rightarrow> Inr 0
      | Inl e \<Rightarrow> Inl (FailedApi ''read live deployment for token resolution'' e)
      | Inr d \<Rightarrow> Inr (deployed_generation d))"

definition createEvidenceTokenSecret ::
  "kube \<Rightarrow> ('s, Secret) client \<Rightarrow> string option \<Rightarrow> PgConsole \<Rightarrow> string \<Rightarrow> 's \<Rightarrow> unit reconciled \<times> 's" where
  "createEvidenceTokenSecret K secrets rnd console name s =
     (case rnd of
        None \<Rightarrow> (Inl (Failed ''generate evidence token''), s)
      | Some raw \<Rightarrow>
          (let token = b64_EncodeToString raw;
               labels = fmupd EvidenceTokenLabelKey (con_Name console) (CommonLabels application (con_Name console)) in
           case SetControllerReference K (con_Meta console) (new_meta name (con_Namespace console) labels) of
             Inl e \<Rightarrow> (Inl (Failed e), s)
           | Inr meta \<Rightarrow>
               (case api_Create secrets s
                       \<lparr>se_Meta = meta, se_Type = SecretTypeOpaque, se_Immutable = Some True,
                        se_Data = fmupd evidenceTokenKey token fmempty\<rparr> of
                  (None, s') \<Rightarrow> (Inr (), s')
                | (Some api_error.AlreadyExists, s') \<Rightarrow> (Inr (), s')
                | (Some e, s') \<Rightarrow> (Inl (FailedApi ''create evidence token secret'' e), s'))))"

definition rotation_requested :: "PgConsole \<Rightarrow> bool" where
  "rotation_requested console = (at (m_Annotations (con_Meta console)) RotateEvidenceTokenAnnotation = ''now'')"

definition without_rotation :: "PgConsole \<Rightarrow> PgConsole" where
  "without_rotation console =
     console\<lparr>con_Meta := (con_Meta console)
        \<lparr>m_Annotations := fmdrop RotateEvidenceTokenAnnotation (m_Annotations (con_Meta console))\<rparr>\<rparr>"

text \<open>The tail of the reconciler: mint the generation and acknowledge a rotation.\<close>

definition mint_token ::
  "golib \<Rightarrow> kube \<Rightarrow> ('s, Secret) client \<Rightarrow> ('s, PgConsole) client \<Rightarrow> string option \<Rightarrow> PgConsole \<Rightarrow> int \<Rightarrow> 's
   \<Rightarrow> (string \<times> PgConsole) reconciled \<times> 's" where
  "mint_token G K secrets consoles rnd console generation s =
     (let name = evidenceTokenSecretName G (con_Name console) generation in
      case createEvidenceTokenSecret K secrets rnd console name s of
        (Inl e, s') \<Rightarrow> (Inl e, s')
      | (Inr _, s') \<Rightarrow>
          (if rotation_requested console
           then (case api_Patch consoles s' console (without_rotation console) of
                   (Some e, s'') \<Rightarrow> (Inl (FailedApi ''acknowledge token rotation'' e), s'')
                 | (None, s'') \<Rightarrow> (Inr (name, without_rotation console), s''))
           else (Inr (name, console), s')))"

text \<open>The switch over the resolved generation.\<close>

definition resolve_token ::
  "golib \<Rightarrow> kube \<Rightarrow> ('s, Secret) client \<Rightarrow> ('s, PgConsole) client \<Rightarrow> string option \<Rightarrow> PgConsole \<Rightarrow> int \<Rightarrow> 's
   \<Rightarrow> (string \<times> PgConsole) reconciled \<times> 's" where
  "resolve_token G K secrets consoles rnd console generation s =
     (if generation = 0 then mint_token G K secrets consoles rnd console 1 s
      else if rotation_requested console
      then mint_token G K secrets consoles rnd console (next_generation generation) s
      else let name = evidenceTokenSecretName G (con_Name console) generation in
        case api_Live secrets s (con_Namespace console, name) of
          Inr existing \<Rightarrow>
            (if at (se_Data existing) evidenceTokenKey = []
             then (Inl (Failed (''evidence token secret '' @ name @ '' is invalid'')), s)
             else (Inr (name, console), s))
        | Inl NotFound \<Rightarrow> mint_token G K secrets consoles rnd console (next_generation generation) s
        | Inl e \<Rightarrow> (Inl (FailedApi ''read evidence token secret'' e), s))"

definition reconcileEvidenceToken ::
  "golib \<Rightarrow> kube \<Rightarrow> ('s, Secret) client \<Rightarrow> ('s, Deployment) client \<Rightarrow> ('s, PgConsole) client \<Rightarrow> string option
   \<Rightarrow> PgConsole \<Rightarrow> 's \<Rightarrow> (string \<times> PgConsole) reconciled \<times> 's" where
  "reconcileEvidenceToken G K secrets deployments consoles rnd console s =
     (let generation = tokenGeneration (es_TokenSecretName (ct_Evidence (con_Status console))) in
      if rotation_requested console then resolve_token G K secrets consoles rnd console generation s
      else case deployedTokenGeneration G deployments console s of
             Inl e \<Rightarrow> (Inl e, s)
           | Inr deployed \<Rightarrow>
               resolve_token G K secrets consoles rnd console
                 (if deployed > generation then deployed else generation) s)"

definition rolloutComplete :: "Deployment \<Rightarrow> bool" where
  "rolloutComplete d =
     (dp_ObservedGeneration d \<ge> m_Generation (dp_Meta d) \<and> dp_UpdatedReplicas d = 1 \<and> dp_ReadyReplicas d = 1)"

text \<open>The loop over the listed Secrets' metadata.\<close>

fun delete_superseded ::
  "kube \<Rightarrow> ('s, Secret) client \<Rightarrow> PgConsole \<Rightarrow> string \<Rightarrow> ObjectMeta list \<Rightarrow> 's \<Rightarrow> unit reconciled \<times> 's" where
  "delete_superseded K secrets console activeName [] s = (Inr (), s)"
| "delete_superseded K secrets console activeName (item # items) s =
     (if m_Name item = activeName then delete_superseded K secrets console activeName items s
      else if controller_uid K item \<noteq> Some (con_UID console)
      then delete_superseded K secrets console activeName items s
      else case api_Delete secrets s (key_of item) of
             (None, s') \<Rightarrow> delete_superseded K secrets console activeName items s'
           | (Some NotFound, s') \<Rightarrow> delete_superseded K secrets console activeName items s'
           | (Some e, s') \<Rightarrow> (Inl (FailedApi (''delete superseded token secret '' @ m_Name item) e), s'))"

definition collectSupersededTokens ::
  "kube \<Rightarrow> ('s, Secret) client \<Rightarrow> PgConsole \<Rightarrow> string \<Rightarrow> Deployment option \<Rightarrow> 's \<Rightarrow> unit reconciled \<times> 's" where
  "collectSupersededTokens K secrets console activeName deployment s =
     (case deployment of
        None \<Rightarrow> (Inr (), s)
      | Some d \<Rightarrow>
          (if \<not> rolloutComplete d then (Inr (), s)
           else case api_List secrets s (con_Namespace console) of
                  Inl e \<Rightarrow> (Inl (FailedApi ''list evidence token secrets'' e), s)
                | Inr items \<Rightarrow>
                    delete_superseded K secrets console activeName
                      (filter (\<lambda>m. fmlookup (m_Labels m) EvidenceTokenLabelKey = Some (con_Name console))
                         (map se_Meta items)) s))"

section \<open>The counter in the name\<close>

lemma suffix_after_digits:
  assumes "\<forall>c\<in>set ds. is_digit c" "0 < i"
  shows "\<not> prefix evidenceTokenSuffix (drop i (evidenceTokenSuffix @ ds))"
proof
  assume p: "prefix evidenceTokenSuffix (drop i (evidenceTokenSuffix @ ds))"
  show False
  proof (cases "i < 11")
    case True
    with assms(2) have "i \<in> {1, 2, 3, 4, 5, 6, 7, 8, 9, 10}"
      unfolding insert_iff empty_iff by presburger
    with p show False by (auto simp: evidenceTokenSuffix_def)
  next
    case False
    moreover have "length evidenceTokenSuffix = 11" by (simp add: evidenceTokenSuffix_def)
    ultimately have "drop i (evidenceTokenSuffix @ ds) = drop (i - 11) ds" by simp
    with p obtain r where "drop (i - 11) ds = evidenceTokenSuffix @ r" by (auto simp: prefix_def)
    then have "CHR ''-'' \<in> set (drop (i - 11) ds)" by (simp add: evidenceTokenSuffix_def)
    then have "CHR ''-'' \<in> set ds" by (rule in_set_dropD)
    with assms(1) show False using is_digit_sign by blast
  qed
qed

lemma find_append: "find P (xs @ ys) = (case find P xs of None \<Rightarrow> find P ys | Some x \<Rightarrow> Some x)"
  by (induction xs) auto

lemma hex_digit_not_v: "n < 16 \<Longrightarrow> hex_digit n = CHR ''v'' \<Longrightarrow> False"
proof -
  assume "n < 16" "hex_digit n = CHR ''v''"
  then have "byte (hex_digit n) = 118" by (simp add: byte_def)
  with \<open>n < 16\<close> show False by (simp add: hex_digit_def split: if_splits)
qed

lemma find_rev_upt:
  assumes "P k" "k < n" "\<And>i. k < i \<Longrightarrow> i < n \<Longrightarrow> \<not> P i"
  shows "find P (rev [0..<n]) = Some k"
proof -
  have "[0..<n] = [0..<k] @ [k..<n]" using upt_add_eq_append[of 0 k "n - k"] assms(2) by simp
  also have "[k..<n] = k # [Suc k..<n]" using assms(2) by (rule upt_conv_Cons)
  finally have "[0..<n] = [0..<k] @ k # [Suc k..<n]" .
  then have "rev [0..<n] = rev [Suc k..<n] @ k # rev [0..<k]" by simp
  moreover have "find P (rev [Suc k..<n]) = None" using assms(3) by (auto simp: find_None_iff)
  ultimately show ?thesis using assms(1) by (simp add: find_append)
qed

lemma LastIndex_suffix:
  assumes "\<forall>c\<in>set ds. is_digit c"
  shows "LastIndex (a @ evidenceTokenSuffix @ ds) evidenceTokenSuffix = Some (length a)"
  unfolding LastIndex_def
proof (rule find_rev_upt)
  fix i assume "length a < i"
  then have "drop i (a @ evidenceTokenSuffix @ ds) = drop (i - length a) (evidenceTokenSuffix @ ds)" by simp
  with suffix_after_digits[OF assms, of "i - length a"] \<open>length a < i\<close>
  show "\<not> prefix evidenceTokenSuffix (drop i (a @ evidenceTokenSuffix @ ds))" by simp
qed simp_all

lemma tokenGeneration_name:
  assumes "1 \<le> g" "g < 2 ^ 63"
  shows "tokenGeneration (a @ evidenceTokenSuffix @ Itoa g) = g"
proof -
  have Ig: "Itoa g = digits (nat g)" using assms(1) by (simp add: Itoa_def)
  then have "Atoi (Itoa g) = Some g" using assms by (simp add: Atoi_def ParseInt_digits)
  then show ?thesis
    using assms(1) digits_all_digit[of _ "nat g"] LastIndex_suffix[of "Itoa g" a]
    by (simp add: tokenGeneration_def Ig)
qed

lemma evidence_name_fits:
  "length (consoleName @ ''-pgconsole'' @ evidenceTokenSuffix @ Itoa g) \<le> 63 \<Longrightarrow>
     evidenceTokenSecretName G consoleName g = (consoleName @ ''-pgconsole'') @ evidenceTokenSuffix @ Itoa g"
  by (simp add: evidenceTokenSecretName_def ResourceName_def BoundedName_def PgConsoleApplication_def
      maxResourceNameLength_def)

text \<open>Names short enough for every counter below the bound.\<close>

lemma tokenGeneration_range: "0 \<le> tokenGeneration n \<and> tokenGeneration n < 2 ^ 63"
  by (auto simp: tokenGeneration_def Atoi_def ParseInt_def Let_def split: option.splits prod.splits if_splits)

section \<open>Resolving the token\<close>

lemma mint_token_Inr:
  assumes "mint_token G K secrets consoles rnd console g s = (Inr (name, console'), s')"
  shows "name = evidenceTokenSecretName G (con_Name console) g
     \<and> console' = (if rotation_requested console then without_rotation console else console)"
  using assms by (auto simp: mint_token_def Let_def split: prod.splits sum.splits if_splits option.splits)

text \<open>The generation a pass starts from: status, floored by the live Deployment outside a rotation.\<close>

definition start_generation :: "golib \<Rightarrow> ('s, Deployment) client \<Rightarrow> PgConsole \<Rightarrow> 's \<Rightarrow> int \<Rightarrow> bool" where
  "start_generation G deployments console s g =
     (let status = tokenGeneration (es_TokenSecretName (ct_Evidence (con_Status console))) in
      if rotation_requested console then g = status
      else \<exists>deployed. deployedTokenGeneration G deployments console s = Inr deployed \<and> g = max status deployed)"

lemma reconcileEvidenceToken_start:
  assumes "reconcileEvidenceToken G K secrets deployments consoles rnd console s = (Inr out, s')"
  obtains g where "start_generation G deployments console s g"
    "resolve_token G K secrets consoles rnd console g s = (Inr out, s')"
proof (cases "rotation_requested console")
  case True
  with assms that show ?thesis by (simp add: reconcileEvidenceToken_def start_generation_def Let_def)
next
  case False
  with assms obtain d where d: "deployedTokenGeneration G deployments console s = Inr d"
    by (cases "deployedTokenGeneration G deployments console s") (simp_all add: reconcileEvidenceToken_def)
  let ?g = "tokenGeneration (es_TokenSecretName (ct_Evidence (con_Status console)))"
  have "(if d > ?g then d else ?g) = max ?g d" by simp
  with False d assms that[of "max ?g d"] show ?thesis
    by (simp add: reconcileEvidenceToken_def start_generation_def Let_def del: max_def)
qed

lemma resolve_token_cases:
  assumes "resolve_token G K secrets consoles rnd console g s = (Inr (name, console'), s')"
  obtains (Kept) x where "g \<noteq> 0" "\<not> rotation_requested console" "name = evidenceTokenSecretName G (con_Name console) g"
      "api_Live secrets s (con_Namespace console, name) = Inr x" "at (se_Data x) evidenceTokenKey \<noteq> []" "s' = s"
      "console' = console"
    | (First) "g = 0" "mint_token G K secrets consoles rnd console 1 s = (Inr (name, console'), s')"
    | (Next) "g \<noteq> 0" "mint_token G K secrets consoles rnd console (next_generation g) s = (Inr (name, console'), s')"
      "rotation_requested console
       \<or> api_Live secrets s (con_Namespace console, evidenceTokenSecretName G (con_Name console) g) = Inl NotFound"
proof (cases "g = 0 \<or> rotation_requested console")
  case True
  with assms First Next show ?thesis by (auto simp: resolve_token_def split: if_splits)
next
  case False
  let ?r = "api_Live secrets s (con_Namespace console, evidenceTokenSecretName G (con_Name console) g)"
  show ?thesis
  proof (cases ?r)
    case (Inl e)
    with False assms have "e = NotFound" by (cases e) (simp_all add: resolve_token_def Let_def)
    with Inl False assms show ?thesis by (intro Next) (simp_all add: resolve_token_def Let_def)
  next
    case (Inr x)
    with False assms have x: "at (se_Data x) evidenceTokenKey \<noteq> []" by (auto simp: resolve_token_def Let_def)
    with Inr False assms have "name = evidenceTokenSecretName G (con_Name console) g" "s' = s" "console' = console"
      by (auto simp: resolve_token_def Let_def)
    with Inr False x Kept show ?thesis by simp
  qed
qed

text \<open>Every name up to the next generation fits the limit and the counter stays below its width.\<close>

definition names_fit :: "string \<Rightarrow> int \<Rightarrow> bool" where
  "names_fit consoleName g =
     (0 \<le> g \<and> g < 2 ^ 63 - 1
      \<and> length (consoleName @ ''-pgconsole'' @ evidenceTokenSuffix @ Itoa g) \<le> 63
      \<and> length (consoleName @ ''-pgconsole'' @ evidenceTokenSuffix @ Itoa (g + 1)) \<le> 63)"

lemma generation_of_name:
  assumes "names_fit n g"
  shows "1 \<le> g \<Longrightarrow> tokenGeneration (evidenceTokenSecretName G n g) = g"
    and "tokenGeneration (evidenceTokenSecretName G n (g + 1)) = g + 1"
  using assms evidence_name_fits[of n g G] evidence_name_fits[of n "g + 1" G]
    tokenGeneration_name[of g "n @ ''-pgconsole''"] tokenGeneration_name[of "g + 1" "n @ ''-pgconsole''"]
  by (simp_all add: names_fit_def)

section \<open>Collecting superseded tokens\<close>

text \<open>What a delete documents: other objects stay.\<close>

definition delete_ok :: "('s, Secret) client \<Rightarrow> bool" where
  "delete_ok secrets = (\<forall>s k k'. k' \<noteq> k \<longrightarrow> api_Live secrets (snd (api_Delete secrets s k)) k' = api_Live secrets s k')"

lemma delete_superseded_keeps:
  assumes "delete_ok secrets"
    and "\<forall>m\<in>set items. key_of m = k \<longrightarrow> m_Name m = activeName \<or> controller_uid K m \<noteq> Some (con_UID console)"
  shows "api_Live secrets (snd (delete_superseded K secrets console activeName items s)) k = api_Live secrets s k"
  using assms(2)
proof (induction items arbitrary: s)
  case (Cons item items)
  show ?case
  proof (cases "m_Name item = activeName \<or> controller_uid K item \<noteq> Some (con_UID console)")
    case True
    with Cons show ?thesis by auto
  next
    case False
    with Cons.prems have "key_of item \<noteq> k" by auto
    obtain e s' where del: "api_Delete secrets s (key_of item) = (e, s')" by fastforce
    with \<open>key_of item \<noteq> k\<close> assms(1) have "api_Live secrets s' k = api_Live secrets s k"
      unfolding delete_ok_def by (metis snd_conv)
    with False Cons.IH[of s'] Cons.prems del show ?thesis by (auto split: option.splits api_error.splits)
  qed
qed simp

section \<open>Properties\<close>


text \<open>
  a rotation of a console with a long name is lost. For a console whose name has 45 bytes
  the token Secret's name is truncated, the counter cannot be read back from it, and a
  requested rotation resolves to the very Secret that is already active, while the request
  is acknowledged by removing its annotation.
\<close>

theorem rotation_lost_on_long_names:
  assumes "con_Name console = replicate 45 (CHR ''a'')" "rotation_requested console"
    and "es_TokenSecretName (ct_Evidence (con_Status console)) = evidenceTokenSecretName G (con_Name console) 1"
    and "reconcileEvidenceToken G K secrets deployments consoles rnd console s = (Inr (name, console'), s')"
  shows "name = es_TokenSecretName (ct_Evidence (con_Status console)) \<and> \<not> rotation_requested console'"
proof -
  let ?n = "evidenceTokenSecretName G (con_Name console) 1"
  have full: "con_Name console @ ap_ResourceInfix application @ evidenceTokenSuffix @ Itoa 1
      = replicate 45 (CHR ''a'') @ ''-pgconsole-evidence-t'' @ Itoa 1"
    by (simp add: assms(1) PgConsoleApplication_def evidenceTokenSuffix_def)
  have long: "63 < length (con_Name console @ ap_ResourceInfix application @ evidenceTokenSuffix @ Itoa 1)"
    unfolding full using digits_not_Nil[of 1] by (simp add: Itoa_def Suc_le_eq flip: length_greater_0_conv)
  define h where "h = hex_EncodeToString (take 4 (sha256_Sum256 G
      (con_Name console @ ap_ResourceInfix application @ evidenceTokenSuffix @ Itoa 1)))"
  have n: "?n = replicate 45 (CHR ''a'') @ ''-pgconsol'' @ ''-'' @ h"
    unfolding evidenceTokenSecretName_def ResourceName_def BoundedName_long[OF long] h_def[symmetric]
    unfolding full by (simp add: numeral_eq_Suc)
  have "CHR ''v'' \<notin> set ?n"
    unfolding n h_def by (auto simp: hex_EncodeToString_def less_mult_imp_div_less
        dest!: sym[of "CHR ''v''"] hex_digit_not_v[rotated])
  then have "\<not> prefix evidenceTokenSuffix (drop i ?n)" for i
    by (auto simp: prefix_def evidenceTokenSuffix_def dest!: arg_cong[of _ _ set] in_set_dropD)
  then have "LastIndex ?n evidenceTokenSuffix = None" by (auto simp: LastIndex_def find_None_iff)
  then have "tokenGeneration ?n = 0" by (simp add: tokenGeneration_def)
  with assms(2-4) have "mint_token G K secrets consoles rnd console 1 s = (Inr (name, console'), s')"
    by (simp add: reconcileEvidenceToken_def resolve_token_def Let_def)
  from mint_token_Inr[OF this] assms(2,3) show ?thesis
    by (simp add: rotation_requested_def without_rotation_def at_def)
qed

text \<open>
  C34: collection deletes only what nobody needs. Before the rollout is complete nothing is
  deleted; afterwards the active token, Secrets without this console's label and Secrets of
  other owners are still there.
\<close>

theorem collection_keeps_active:
  assumes "delete_ok secrets" "api_List secrets s (con_Namespace console) = Inr items"
  shows "((\<forall>d. deployment = Some d \<longrightarrow> \<not> rolloutComplete d) \<longrightarrow>
           collectSupersededTokens K secrets console activeName deployment s = (Inr (), s))
     \<and> (let s' = snd (collectSupersededTokens K secrets console activeName deployment s) in
        (\<forall>ns. api_Live secrets s' (ns, activeName) = api_Live secrets s (ns, activeName))
        \<and> (\<forall>x. x \<in> set items \<and> distinct (map (\<lambda>i. key_of (se_Meta i)) items)
              \<and> (controller_uid K (se_Meta x) \<noteq> Some (con_UID console)
                 \<or> fmlookup (m_Labels (se_Meta x)) EvidenceTokenLabelKey \<noteq> Some (con_Name console))
              \<longrightarrow> api_Live secrets s' (key_of (se_Meta x)) = api_Live secrets s (key_of (se_Meta x))))"
proof -
  let ?items = "filter (\<lambda>m. fmlookup (m_Labels m) EvidenceTokenLabelKey = Some (con_Name console)) (map se_Meta items)"
  have keep: "api_Live secrets (snd (collectSupersededTokens K secrets console activeName deployment s)) k = api_Live secrets s k"
    if "\<forall>m\<in>set ?items. key_of m = k \<longrightarrow> m_Name m = activeName \<or> controller_uid K m \<noteq> Some (con_UID console)" for k
    using delete_superseded_keeps[OF assms(1) that] assms(2)
    by (simp add: collectSupersededTokens_def split: option.splits)
  have "api_Live secrets (snd (collectSupersededTokens K secrets console activeName deployment s)) (ns, activeName)
      = api_Live secrets s (ns, activeName)" for ns
    by (rule keep) (simp add: key_of_def)
  moreover have "api_Live secrets (snd (collectSupersededTokens K secrets console activeName deployment s)) (key_of (se_Meta x))
      = api_Live secrets s (key_of (se_Meta x))"
    if "x \<in> set items" "distinct (map (\<lambda>i. key_of (se_Meta i)) items)"
      "controller_uid K (se_Meta x) \<noteq> Some (con_UID console)
       \<or> fmlookup (m_Labels (se_Meta x)) EvidenceTokenLabelKey \<noteq> Some (con_Name console)" for x
  proof (rule keep, intro ballI impI)
    fix m assume "m \<in> set ?items" "key_of m = key_of (se_Meta x)"
    then obtain y where y: "y \<in> set items" "m = se_Meta y"
      "fmlookup (m_Labels m) EvidenceTokenLabelKey = Some (con_Name console)" by auto
    with that(1,2) \<open>key_of m = key_of (se_Meta x)\<close> have "y = x" by (auto simp: distinct_map dest: inj_onD)
    with that(3) y show "m_Name m = activeName \<or> controller_uid K m \<noteq> Some (con_UID console)" by auto
  qed
  moreover have "collectSupersededTokens K secrets console activeName deployment s = (Inr (), s)"
    if "\<forall>d. deployment = Some d \<longrightarrow> \<not> rolloutComplete d"
    using that by (simp add: collectSupersededTokens_def split: option.splits)
  ultimately show ?thesis unfolding Let_def by blast
qed

section \<open>Witnesses\<close>

definition token_secret :: "string \<Rightarrow> Secret" where
  "token_secret name =
     \<lparr>se_Meta = (new_meta name ''db'' (fmupd EvidenceTokenLabelKey ''pg'' fmempty))
        \<lparr>m_OwnerReferences := [\<lparr>ow_Name = ''pg'', ow_UID = ''u1'', ow_Controller = True\<rparr>]\<rparr>,
      se_Type = SecretTypeOpaque, se_Immutable = Some True, se_Data = fmupd evidenceTokenKey ''t0ken'' fmempty\<rparr>"

definition token_console :: "string \<Rightarrow> string \<Rightarrow> smap \<Rightarrow> PgConsole" where
  "token_console name token annotations =
     sample_console\<lparr>con_Meta := (con_Meta sample_console)\<lparr>m_Name := name, m_Annotations := annotations\<rparr>,
       con_Status := (con_Status sample_console)\<lparr>ct_Evidence := \<lparr>es_Enabled = True, es_TokenSecretName = token\<rparr>\<rparr>\<rparr>"

lemma token_console_simps [simp]:
  "con_Name (token_console n t a) = n" "con_Namespace (token_console n t a) = ''db''"
  "m_Annotations (con_Meta (token_console n t a)) = a"
  "es_TokenSecretName (ct_Evidence (con_Status (token_console n t a))) = t"
  by (simp_all add: token_console_def)

lemma Itoa_small: "0 \<le> i \<Longrightarrow> i < 10 \<Longrightarrow> length (Itoa i) = 1"
  by (simp add: Itoa_def digits.simps)

lemma sample_token_name:
  "evidenceTokenSecretName G ''pg'' 1 = ''pg-pgconsole'' @ evidenceTokenSuffix @ Itoa 1"
  using evidence_name_fits[of "''pg''" 1 G] Itoa_small[of 1] by (simp add: evidenceTokenSuffix_def)


theorem rotation_lost_on_long_names_witness:
  "let n = replicate 45 (CHR ''a''); token = evidenceTokenSecretName (sample_lib JNull) n 1;
       console = token_console n token (fmupd RotateEvidenceTokenAnnotation ''now'' fmempty) in
   \<exists>console'. fst (reconcileEvidenceToken (sample_lib JNull) sample_kube (store_client secret_key)
                 (fixed_client (\<lambda>_. Inl NotFound) [])
                 ((fixed_client (\<lambda>_. Inl NotFound) [])\<lparr>api_Patch := (\<lambda>s b x. (None, s))\<rparr>)
                 (Some (replicate 32 NUL)) console fmempty) = Inr (token, console')
     \<and> \<not> rotation_requested console'"
proof -
  define n where "n = replicate 45 (CHR ''a'')"
  define token where "token = evidenceTokenSecretName (sample_lib JNull) n 1"
  let ?c = "token_console n token (fmupd RotateEvidenceTokenAnnotation ''now'' fmempty)"
  let ?run = "reconcileEvidenceToken (sample_lib JNull) sample_kube (store_client secret_key)
                 (fixed_client (\<lambda>_. Inl NotFound) [])
                 ((fixed_client (\<lambda>_. Inl NotFound) [])\<lparr>api_Patch := (\<lambda>s b x. (None, s))\<rparr>)
                 (Some (replicate 32 NUL)) ?c fmempty"
  have rot: "rotation_requested ?c" by (simp add: rotation_requested_def)
  have "\<exists>name c' s'. mint_token (sample_lib JNull) sample_kube (store_client secret_key)
       ((fixed_client (\<lambda>_. Inl NotFound) [])\<lparr>api_Patch := (\<lambda>s b x. (None, s))\<rparr>) (Some (replicate 32 NUL)) ?c g fmempty
       = (Inr (name, c'), s')" for g
    using rot by (simp add: mint_token_def createEvidenceTokenSecret_def sample_kube_def Let_def)
  then obtain name c' s' where run: "?run = (Inr (name, c'), s')"
    using rot by (fastforce simp: reconcileEvidenceToken_def resolve_token_def Let_def)
  have "name = token \<and> \<not> rotation_requested c'"
    using rotation_lost_on_long_names[OF _ rot _ run] by (simp add: n_def token_def)
  with run show ?thesis unfolding Let_def n_def[symmetric] token_def[symmetric] by auto
qed

theorem collection_keeps_active_witness:
  "let s = fmupd (''db'', ''t2'') (token_secret ''t2'') fmempty;
       d = bare_deployment (new_meta ''pg'' ''db'' fmempty) fmempty in
   api_Live (store_client secret_key)
     (snd (collectSupersededTokens sample_kube (store_client secret_key) sample_console ''t2'' (Some d) s)) (''db'', ''t2'')
   = Inr (token_secret ''t2'')"
proof -
  have "delete_ok (store_client secret_key)" by (simp add: delete_ok_def store_Get_def)
  moreover have "api_List (store_client secret_key) (fmupd (''db'', ''t2'') (token_secret ''t2'') fmempty)
      (con_Namespace sample_console) = Inr [token_secret ''t2'']"
    by (simp add: store_client_def)
  ultimately show ?thesis
    unfolding Let_def using collection_keeps_active[of "store_client secret_key"] by (simp add: Let_def)
qed

end
