(* ===== verification/Rbac.thy ===== *)
theory Rbac
  imports Console_Config
begin

text \<open>
  The authority of a console's Pod (\<open>internal/controller/pgconsole/rbac.go\<close>): the rules of
  the read Role, the operate Role and the opt-in catalog ClusterRole, and their convergence.
  \<open>allows\<close> is how Kubernetes reads rules without wildcards.
\<close>

section \<open>Rules\<close>

record PolicyRule =
  pr_APIGroups :: "string list"
  pr_Resources :: "string list"
  pr_Verbs :: "string list"
  pr_ResourceNames :: "string list"

abbreviation policy_rule :: "string \<Rightarrow> string list \<Rightarrow> string list \<Rightarrow> PolicyRule" where
  "policy_rule grp resources verbs \<equiv>
     \<lparr>pr_APIGroups = [grp], pr_Resources = resources, pr_Verbs = verbs, pr_ResourceNames = []\<rparr>"

abbreviation pinned_rule :: "string \<Rightarrow> string list \<Rightarrow> string list \<Rightarrow> string \<Rightarrow> PolicyRule" where
  "pinned_rule grp resources verbs name \<equiv>
     \<lparr>pr_APIGroups = [grp], pr_Resources = resources, pr_Verbs = verbs, pr_ResourceNames = [name]\<rparr>"

definition get_list_watch :: "string list" where
  "get_list_watch = [''get'', ''list'', ''watch'']"

definition cluster_name :: "PgConsole \<Rightarrow> string" where
  "cluster_name console = lor_Name (sp_CNPGClusterRef (con_Spec console))"

definition read_rules :: "bool \<Rightarrow> PgConsole \<Rightarrow> PolicyRule list" where
  "read_rules barmanObjectStoreAvailable console =
     [pinned_rule ''postgresql.cnpg.io'' [''clusters''] [''get''] (cluster_name console),
      policy_rule ''postgresql.cnpg.io'' [''clusters''] [''watch''],
      policy_rule ''postgresql.cnpg.io'' [''backups'', ''scheduledbackups''] get_list_watch,
      policy_rule ''postgresql.cnpg.io'' [''poolers''] get_list_watch,
      policy_rule ''postgresql.cnpg.io'' [''databases'', ''databaseroles'', ''publications'', ''subscriptions''] get_list_watch,
      policy_rule ''apps'' [''replicasets'', ''deployments''] [''get''],
      pinned_rule ''postgresql.cnpg.io'' [''failoverquorums''] [''get''] (cluster_name console),
      policy_rule ''postgresql.cnpg.io'' [''failoverquorums''] [''watch''],
      policy_rule ''postgresql.cnpg.io'' [''imagecatalogs''] get_list_watch,
      policy_rule '''' [''pods''] get_list_watch,
      policy_rule '''' [''services''] get_list_watch,
      policy_rule '''' [''persistentvolumeclaims''] get_list_watch,
      policy_rule '''' [''events''] [''list'', ''watch''],
      policy_rule '''' [''resourcequotas''] [''list'', ''watch'']]
     @ (if consoleAllowLogs console then [policy_rule '''' [''pods/log''] [''get'']] else [])
     @ [policy_rule '''' [''configmaps'', ''serviceaccounts''] get_list_watch,
        policy_rule ''policy'' [''poddisruptionbudgets''] get_list_watch,
        policy_rule ''rbac.authorization.k8s.io'' [''roles'', ''rolebindings''] get_list_watch,
        policy_rule ''batch'' [''jobs''] get_list_watch,
        policy_rule ''pgtoolbox.fyannk.dev'' [''pgtoolboxaccessrequests''] [''create'']]
     @ (if barmanObjectStoreAvailable then [policy_rule ''barmancloud.cnpg.io'' [''objectstores''] [''get'']] else [])"

definition operateRules :: "PgConsole \<Rightarrow> PolicyRule list" where
  "operateRules console =
     (if consoleAllowOperations console
      then [policy_rule ''postgresql.cnpg.io'' [''backups''] [''create''],
            pinned_rule ''postgresql.cnpg.io'' [''clusters''] [''patch''] (cluster_name console),
            pinned_rule ''postgresql.cnpg.io'' [''clusters/status''] [''patch''] (cluster_name console)]
      else [])
     @ (if consoleAllowAccessReview console
        then [policy_rule ''pgtoolbox.fyannk.dev'' [''pgtoolboxaccessrequests''] get_list_watch,
              policy_rule ''pgtoolbox.fyannk.dev'' [''pgtoolboxaccessrequests/status''] [''update'', ''patch'']]
        else [])"

definition catalog_rules :: "PolicyRule list" where
  "catalog_rules = [policy_rule ''postgresql.cnpg.io'' [''clusterimagecatalogs''] [''get'']]"

section \<open>Objects\<close>

record Role =
  ro_Meta :: ObjectMeta
  ro_Rules :: "PolicyRule list"

record RoleRef =
  rf_APIGroup :: string
  rf_Kind :: string
  rf_Name :: string

record Subject =
  su_Kind :: string
  su_Name :: string
  su_Namespace :: string

record RoleBinding =
  rb_Meta :: ObjectMeta
  rb_RoleRef :: RoleRef
  rb_Subjects :: "Subject list"

definition console_meta :: "golib \<Rightarrow> PgConsole \<Rightarrow> string \<Rightarrow> ObjectMeta" where
  "console_meta G console sfx =
     new_meta (ResourceName G application (con_Name console) sfx) (con_Namespace console)
       (CommonLabels application (con_Name console))"

definition owned_meta :: "golib \<Rightarrow> kube \<Rightarrow> PgConsole \<Rightarrow> string \<Rightarrow> ObjectMeta reconciled" where
  "owned_meta G K console sfx =
     (case SetControllerReference K (con_Meta console) (console_meta G console sfx) of
        Inl e \<Rightarrow> Inl (Failed e) | Inr m \<Rightarrow> Inr m)"

definition readRole :: "golib \<Rightarrow> kube \<Rightarrow> bool \<Rightarrow> PgConsole \<Rightarrow> Role reconciled" where
  "readRole G K barman console =
     bind_result (owned_meta G K console []) (\<lambda>m. Inr \<lparr>ro_Meta = m, ro_Rules = read_rules barman console\<rparr>)"

definition operateRole :: "golib \<Rightarrow> kube \<Rightarrow> PgConsole \<Rightarrow> Role option reconciled" where
  "operateRole G K console =
     (let rules = operateRules console in
      if rules = [] then Inr None
      else bind_result (owned_meta G K console ''-operate'') (\<lambda>m. Inr (Some \<lparr>ro_Meta = m, ro_Rules = rules\<rparr>)))"

definition workload_subject :: "golib \<Rightarrow> PgConsole \<Rightarrow> Subject" where
  "workload_subject G console =
     \<lparr>su_Kind = ''ServiceAccount'', su_Name = ResourceName G application (con_Name console) [],
      su_Namespace = con_Namespace console\<rparr>"

definition roleBinding :: "golib \<Rightarrow> kube \<Rightarrow> PgConsole \<Rightarrow> string \<Rightarrow> RoleBinding reconciled" where
  "roleBinding G K console sfx =
     bind_result (owned_meta G K console sfx) (\<lambda>m.
       Inr \<lparr>rb_Meta = m,
            rb_RoleRef = \<lparr>rf_APIGroup = ''rbac.authorization.k8s.io'', rf_Kind = ''Role'',
                          rf_Name = ResourceName G application (con_Name console) sfx\<rparr>,
            rb_Subjects = [workload_subject G console]\<rparr>)"

definition catalogClusterRoleName :: "golib \<Rightarrow> PgConsole \<Rightarrow> string" where
  "catalogClusterRoleName G console =
     BoundedName G (con_Namespace console @ ''-'' @ con_Name console) ''-pgconsole-catalogs''"

definition catalogClusterRole :: "golib \<Rightarrow> PgConsole \<Rightarrow> Role" where
  "catalogClusterRole G console =
     \<lparr>ro_Meta = new_meta (catalogClusterRoleName G console) [] (CommonLabels application (con_Name console)),
      ro_Rules = catalog_rules\<rparr>"

definition catalogClusterRoleBinding :: "golib \<Rightarrow> PgConsole \<Rightarrow> RoleBinding" where
  "catalogClusterRoleBinding G console =
     \<lparr>rb_Meta = new_meta (catalogClusterRoleName G console) [] (CommonLabels application (con_Name console)),
      rb_RoleRef = \<lparr>rf_APIGroup = ''rbac.authorization.k8s.io'', rf_Kind = ''ClusterRole'',
                    rf_Name = catalogClusterRoleName G console\<rparr>,
      rb_Subjects = [workload_subject G console]\<rparr>"

definition metadataMatches :: "kube \<Rightarrow> ObjectMeta \<Rightarrow> ObjectMeta \<Rightarrow> bool" where
  "metadataMatches K existing desired =
     (LabelsContain (m_Labels existing) (m_Labels desired)
      \<and> LabelsContain (m_Annotations existing) (m_Annotations desired)
      \<and> ControllerOwnerMatches K existing desired)"

section \<open>Applying objects\<close>

definition ApplyObject :: "('s, 'o) client \<Rightarrow> 'o \<Rightarrow> 's \<Rightarrow> unit reconciled \<times> 's" where
  "ApplyObject C desired s =
     (case api_Apply C s desired of
        (None, s') \<Rightarrow> (Inr (), s')
      | (Some e, s') \<Rightarrow> (Inl (FailedApi ''apply'' e), s'))"

text \<open>The shape all four appliers share: read, compare on the rendered fields, apply if different.\<close>

definition apply_if_changed ::
  "('s, 'o) client \<Rightarrow> ('o \<Rightarrow> ObjectMeta) \<Rightarrow> ('o \<Rightarrow> 'o \<Rightarrow> bool) \<Rightarrow> 'o \<Rightarrow> 's \<Rightarrow> unit reconciled \<times> 's" where
  "apply_if_changed C meta same desired s =
     (case api_Get C s (key_of (meta desired)) of
        Inr existing \<Rightarrow> if same existing desired then (Inr (), s) else ApplyObject C desired s
      | Inl NotFound \<Rightarrow> ApplyObject C desired s
      | Inl e \<Rightarrow> (Inl (FailedApi ''get'' e), s))"

definition applyRole :: "kube \<Rightarrow> ('s, Role) client \<Rightarrow> Role \<Rightarrow> 's \<Rightarrow> unit reconciled \<times> 's" where
  "applyRole K roles =
     apply_if_changed roles ro_Meta (\<lambda>existing desired.
       metadataMatches K (ro_Meta existing) (ro_Meta desired) \<and> ro_Rules existing = ro_Rules desired)"

definition applyClusterRole :: "('s, Role) client \<Rightarrow> Role \<Rightarrow> 's \<Rightarrow> unit reconciled \<times> 's" where
  "applyClusterRole clusterRoles =
     apply_if_changed clusterRoles ro_Meta (\<lambda>existing desired.
       LabelsContain (m_Labels (ro_Meta existing)) (m_Labels (ro_Meta desired))
       \<and> ro_Rules existing = ro_Rules desired)"

definition applyRoleBinding :: "kube \<Rightarrow> ('s, RoleBinding) client \<Rightarrow> RoleBinding \<Rightarrow> 's \<Rightarrow> unit reconciled \<times> 's" where
  "applyRoleBinding K bindings =
     apply_if_changed bindings rb_Meta (\<lambda>existing desired.
       metadataMatches K (rb_Meta existing) (rb_Meta desired)
       \<and> rb_RoleRef existing = rb_RoleRef desired \<and> rb_Subjects existing = rb_Subjects desired)"

definition applyClusterRoleBinding :: "('s, RoleBinding) client \<Rightarrow> RoleBinding \<Rightarrow> 's \<Rightarrow> unit reconciled \<times> 's" where
  "applyClusterRoleBinding clusterBindings =
     apply_if_changed clusterBindings rb_Meta (\<lambda>existing desired.
       LabelsContain (m_Labels (rb_Meta existing)) (m_Labels (rb_Meta desired))
       \<and> rb_RoleRef existing = rb_RoleRef desired \<and> rb_Subjects existing = rb_Subjects desired)"

definition delete_object :: "('s, 'o) client \<Rightarrow> object_key \<Rightarrow> 's \<Rightarrow> unit reconciled \<times> 's" where
  "delete_object C k s =
     (case api_Delete C s k of
        (None, s') \<Rightarrow> (Inr (), s')
      | (Some NotFound, s') \<Rightarrow> (Inr (), s')
      | (Some e, s') \<Rightarrow> (Inl (FailedApi ''delete'' e), s'))"

abbreviation lift_result :: "'a reconciled \<Rightarrow> 's \<Rightarrow> 'a reconciled \<times> 's" where
  "lift_result r \<equiv> \<lambda>s. (r, s)"

record 's rbac_clients =
  rc_roles :: "('s, Role) client"
  rc_bindings :: "('s, RoleBinding) client"
  rc_clusterRoles :: "('s, Role) client"
  rc_clusterBindings :: "('s, RoleBinding) client"

definition deleteOperateRBAC :: "golib \<Rightarrow> 's rbac_clients \<Rightarrow> PgConsole \<Rightarrow> 's \<Rightarrow> unit reconciled \<times> 's" where
  "deleteOperateRBAC G C console =
     (let key = (con_Namespace console, ResourceName G application (con_Name console) ''-operate'') in
      and_then (delete_object (rc_roles C) key) (\<lambda>_. delete_object (rc_bindings C) key))"

definition deleteCatalogClusterRBAC :: "golib \<Rightarrow> 's rbac_clients \<Rightarrow> PgConsole \<Rightarrow> 's \<Rightarrow> unit reconciled \<times> 's" where
  "deleteCatalogClusterRBAC G C console =
     (let key = ([], catalogClusterRoleName G console) in
      and_then (delete_object (rc_clusterRoles C) key) (\<lambda>_. delete_object (rc_clusterBindings C) key))"

definition reconcileRBAC :: "golib \<Rightarrow> kube \<Rightarrow> bool \<Rightarrow> 's rbac_clients \<Rightarrow> PgConsole \<Rightarrow> 's \<Rightarrow> unit reconciled \<times> 's" where
  "reconcileRBAC G K barman C console =
     and_then (lift_result (readRole G K barman console)) (\<lambda>role.
     and_then (applyRole K (rc_roles C) role) (\<lambda>_.
     and_then (lift_result (roleBinding G K console [])) (\<lambda>binding.
     and_then (applyRoleBinding K (rc_bindings C) binding) (\<lambda>_.
     and_then (lift_result (operateRole G K console)) (\<lambda>operate.
     and_then
       (case operate of
          None \<Rightarrow> deleteOperateRBAC G C console
        | Some role \<Rightarrow>
            and_then (applyRole K (rc_roles C) role) (\<lambda>_.
            and_then (lift_result (roleBinding G K console ''-operate'')) (\<lambda>binding.
              applyRoleBinding K (rc_bindings C) binding))) (\<lambda>_.
     if \<not> consoleAllowClusterCatalogs console then deleteCatalogClusterRBAC G C console
     else and_then (applyClusterRole (rc_clusterRoles C) (catalogClusterRole G console)) (\<lambda>_.
            applyClusterRoleBinding (rc_clusterBindings C) (catalogClusterRoleBinding G console))))))))"

section \<open>What the rules allow\<close>

definition rule_allows :: "string \<Rightarrow> string \<Rightarrow> string \<Rightarrow> string \<Rightarrow> PolicyRule \<Rightarrow> bool" where
  "rule_allows grp resource verb name r =
     (grp \<in> set (pr_APIGroups r) \<and> resource \<in> set (pr_Resources r) \<and> verb \<in> set (pr_Verbs r)
      \<and> (pr_ResourceNames r = [] \<or> name \<in> set (pr_ResourceNames r)))"

definition allows :: "PolicyRule list \<Rightarrow> string \<Rightarrow> string \<Rightarrow> string \<Rightarrow> string \<Rightarrow> bool" where
  "allows rules grp resource verb name = list_ex (rule_allows grp resource verb name) rules"

text \<open>Everything the generated Roles of one console grant its ServiceAccount.\<close>

definition granted_rules :: "bool \<Rightarrow> PgConsole \<Rightarrow> PolicyRule list" where
  "granted_rules barman console =
     read_rules barman console @ operateRules console
     @ (if consoleAllowClusterCatalogs console then catalog_rules else [])"

lemma allows_append [simp]: "allows (as @ bs) g r v n \<longleftrightarrow> allows as g r v n \<or> allows bs g r v n"
  by (simp add: allows_def)

lemma allows_Cons [simp]: "allows (a # as) g r v n \<longleftrightarrow> rule_allows g r v n a \<or> allows as g r v n"
  by (simp add: allows_def)

lemma allows_Nil [simp]: "\<not> allows [] g r v n"
  by (simp add: allows_def)

lemma allows_if: "allows (if b then as else []) g r v n \<longleftrightarrow> b \<and> allows as g r v n"
  by simp

lemmas allows_defs = granted_rules_def read_rules_def operateRules_def catalog_rules_def get_list_watch_def
  allows_if rule_allows_def

lemma read_verbs:
  "list_all (\<lambda>p. set (pr_Verbs p) \<subseteq> {''get'', ''list'', ''watch''}
      \<or> p = policy_rule ''pgtoolbox.fyannk.dev'' [''pgtoolboxaccessrequests''] [''create'']) (read_rules barman console)"
  by (simp add: read_rules_def get_list_watch_def)

text \<open>The verbs that change something, and the only objects they are granted on.\<close>

lemma granted_writes:
  assumes "allows (granted_rules barman console) g r v n" "v \<notin> {''get'', ''list'', ''watch''}"
  shows "(g, r, v) = (''pgtoolbox.fyannk.dev'', ''pgtoolboxaccessrequests'', ''create'')
    \<or> (consoleAllowOperations console \<and> g = ''postgresql.cnpg.io''
        \<and> ((r, v) = (''backups'', ''create'')
           \<or> r \<in> {''clusters'', ''clusters/status''} \<and> v = ''patch'' \<and> n = cluster_name console))
    \<or> (consoleAllowAccessReview console \<and> g = ''pgtoolbox.fyannk.dev''
        \<and> r = ''pgtoolboxaccessrequests/status'' \<and> v \<in> {''update'', ''patch''})"
proof -
  have catalog: "\<not> allows (if consoleAllowClusterCatalogs console then catalog_rules else []) g r v n"
    using assms(2) by (simp add: allows_if catalog_rules_def rule_allows_def)
  have read: "(g, r, v) = (''pgtoolbox.fyannk.dev'', ''pgtoolboxaccessrequests'', ''create'')"
    if "allows (read_rules barman console) g r v n"
  proof -
    obtain p where p: "p \<in> set (read_rules barman console)" "rule_allows g r v n p"
      using \<open>allows (read_rules barman console) g r v n\<close> by (auto simp: allows_def list_ex_iff)
    with read_verbs assms(2) have "p = policy_rule ''pgtoolbox.fyannk.dev'' [''pgtoolboxaccessrequests''] [''create'']"
      unfolding list_all_iff rule_allows_def by blast
    with p(2) show ?thesis by (simp add: rule_allows_def)
  qed
  have operate: "allows (operateRules console) g r v n \<Longrightarrow>
      (consoleAllowOperations console \<and> g = ''postgresql.cnpg.io''
        \<and> ((r, v) = (''backups'', ''create'')
           \<or> r \<in> {''clusters'', ''clusters/status''} \<and> v = ''patch'' \<and> n = cluster_name console))
      \<or> (consoleAllowAccessReview console \<and> g = ''pgtoolbox.fyannk.dev''
        \<and> r = ''pgtoolboxaccessrequests/status'' \<and> v \<in> {''update'', ''patch''})"
    using assms(2) by (auto simp: operateRules_def get_list_watch_def allows_if rule_allows_def)
  from assms(1) consider "allows (read_rules barman console) g r v n" | "allows (operateRules console) g r v n"
    unfolding granted_rules_def allows_append using catalog by blast
  then show ?thesis
  proof cases
    case 1
    from read[OF 1] show ?thesis by (rule disjI1)
  next
    case 2
    from operate[OF 2] show ?thesis by (rule disjI2)
  qed
qed

lemma never_secrets: "\<not> allows (granted_rules barman console) g ''secrets'' v n"
  by (simp add: allows_defs)

section \<open>Convergence of an applied object\<close>

text \<open>Server-side apply, as documented, leaves the applied fields as desired.\<close>

definition applies :: "('s, 'o) client \<Rightarrow> ('o \<Rightarrow> ObjectMeta) \<Rightarrow> ('o \<Rightarrow> 'o \<Rightarrow> bool) \<Rightarrow> 'o \<Rightarrow> 's \<Rightarrow> bool" where
  "applies C meta same desired s =
     (\<forall>s'. api_Apply C s desired = (None, s') \<longrightarrow>
        (\<exists>y. api_Get C s' (key_of (meta desired)) = Inr y \<and> same y desired))"

definition in_place :: "('s, 'o) client \<Rightarrow> ('o \<Rightarrow> ObjectMeta) \<Rightarrow> ('o \<Rightarrow> 'o \<Rightarrow> bool) \<Rightarrow> 'o \<Rightarrow> 's \<Rightarrow> bool" where
  "in_place C meta same desired s = (\<exists>y. api_Get C s (key_of (meta desired)) = Inr y \<and> same y desired)"

lemma apply_in_place: "in_place C meta same desired s \<Longrightarrow> apply_if_changed C meta same desired s = (Inr (), s)"
  by (auto simp: in_place_def apply_if_changed_def)

interpretation applied: convergence
  "apply_if_changed C meta same desired" "applies C meta same desired" "in_place C meta same desired"
  for C meta same desired
proof
  show "in_place C meta same desired s'"
    if "applies C meta same desired s" "apply_if_changed C meta same desired s = (Inr r, s')" for s r s'
  proof (cases "in_place C meta same desired s")
    case True
    with that(2) show ?thesis by (simp add: apply_in_place)
  next
    case False
    with that(2) have "api_Apply C s desired = (None, s')"
      by (auto simp: apply_if_changed_def in_place_def ApplyObject_def
          split: sum.splits if_splits api_error.splits prod.splits option.splits)
    with that(1) show ?thesis by (simp add: applies_def in_place_def)
  qed
  show "\<exists>r. apply_if_changed C meta same desired s = (Inr r, s)" if "in_place C meta same desired s" for s
    using apply_in_place[OF that] by blast
qed

section \<open>Properties\<close>


text \<open>
  A steady state is left alone. When the live Roles and bindings carry what the spec
  renders to, and what it no longer asks for is gone, a pass over the console's authority
  succeeds without changing anything on the API server.
\<close>

theorem rbac_steady_state:
  assumes "readRole G K barman console = Inr role" "roleBinding G K console [] = Inr binding"
    and "in_place (rc_roles C) ro_Meta
           (\<lambda>e d. metadataMatches K (ro_Meta e) (ro_Meta d) \<and> ro_Rules e = ro_Rules d) role s"
    and "in_place (rc_bindings C) rb_Meta
           (\<lambda>e d. metadataMatches K (rb_Meta e) (rb_Meta d) \<and> rb_RoleRef e = rb_RoleRef d \<and> rb_Subjects e = rb_Subjects d)
           binding s"
    and "operateRules console = []" "\<not> consoleAllowClusterCatalogs console"
    and "\<forall>k. api_Delete (rc_roles C) s k = (Some NotFound, s) \<and> api_Delete (rc_bindings C) s k = (Some NotFound, s)
            \<and> api_Delete (rc_clusterRoles C) s k = (Some NotFound, s) \<and> api_Delete (rc_clusterBindings C) s k = (Some NotFound, s)"
  shows "reconcileRBAC G K barman C console s = (Inr (), s)"
  using assms apply_in_place[OF assms(3)] apply_in_place[OF assms(4)]
  by (simp add: reconcileRBAC_def and_then_def applyRole_def applyRoleBinding_def operateRole_def
      deleteOperateRBAC_def deleteCatalogClusterRBAC_def delete_object_def Let_def)

section \<open>Witness\<close>


end
