(* ===== verification/Network_Policy.thy ===== *)
theory Network_Policy
  imports Rbac
begin

text \<open>
  The NetworkPolicy around a console's Pod (\<open>internal/controller/pgconsole/networkpolicy.go\<close>):
  what is rendered and how the live object converges to it. \<open>sidecar\<close> says whether the
  operator knows its own image, and so injects the admin-sync sidecar.
\<close>

section \<open>Model\<close>

definition dnsPort :: int where "dnsPort = 53"
definition openshiftDNSPort :: int where "openshiftDNSPort = 5353"
definition httpsPort :: int where "httpsPort = 443"
definition kubeAPIServerPort :: int where "kubeAPIServerPort = 6443"
definition postgresPort :: int where "postgresPort = 5432"
definition SidecarPort :: int where "SidecarPort = 9600"
definition cnpgClusterLabel :: string where "cnpgClusterLabel = ''cnpg.io/cluster''"

lemmas policy_ports = dnsPort_def openshiftDNSPort_def httpsPort_def kubeAPIServerPort_def postgresPort_def
  SidecarPort_def consolePort_def proxyPort_def pgAdminPort_def

record NetworkPolicy =
  nw_Meta :: ObjectMeta
  nw_PodSelector :: smap
  nw_PolicyTypes :: "string list"
  nw_Ingress :: "NetworkPolicyPort list list"
  nw_Egress :: "NetworkPolicyEgressRule list"

definition tcpPort :: "int \<Rightarrow> NetworkPolicyPort" where
  "tcpPort portNumber = \<lparr>npp_Protocol = Some ''TCP'', npp_Port = Some portNumber\<rparr>"

definition egress_to :: "NetworkPolicyPort list \<Rightarrow> NetworkPolicyPeer list \<Rightarrow> NetworkPolicyEgressRule" where
  "egress_to ports peers = \<lparr>eg_Ports = ports, eg_To = peers, eg_Other = []\<rparr>"

definition dnsEgressRule :: NetworkPolicyEgressRule where
  "dnsEgressRule =
     egress_to
       [\<lparr>npp_Protocol = Some ''UDP'', npp_Port = Some dnsPort\<rparr>, \<lparr>npp_Protocol = Some ''TCP'', npp_Port = Some dnsPort\<rparr>,
        \<lparr>npp_Protocol = Some ''UDP'', npp_Port = Some openshiftDNSPort\<rparr>,
        \<lparr>npp_Protocol = Some ''TCP'', npp_Port = Some openshiftDNSPort\<rparr>] []"

definition issuerPort :: "string \<Rightarrow> int" where
  "issuerPort issuerURL =
     (case url_Parse issuerURL of
        None \<Rightarrow> httpsPort
      | Some parsed \<Rightarrow>
          (if url_Port parsed = [] then httpsPort
           else case ParseInt 32 (url_Port parsed) of None \<Rightarrow> httpsPort | Some p \<Rightarrow> p))"

definition authenticationEgressPorts :: "PgConsole \<Rightarrow> NetworkPolicyPort list" where
  "authenticationEgressPorts console =
     tcpPort kubeAPIServerPort #
     (case au_OIDC (con_auth console) of
        None \<Rightarrow> []
      | Some oidc \<Rightarrow>
          (if issuerPort (po_IssuerURL oidc) \<noteq> kubeAPIServerPort then [tcpPort (issuerPort (po_IssuerURL oidc))] else []))"

definition networkPolicyEnabled :: "PgConsole \<Rightarrow> bool" where
  "networkPolicyEnabled console = default_true (np_Enabled (sp_NetworkPolicy (con_Spec console)))"

definition ingressPorts :: "bool \<Rightarrow> PgConsole \<Rightarrow> NetworkPolicyPort list" where
  "ingressPorts sidecar console =
     tcpPort proxyPort # (if pgAdminEnabled console \<and> sidecar then [tcpPort SidecarPort] else [])"

definition materialize :: "NetworkPolicyEgressRule \<Rightarrow> NetworkPolicyEgressRule" where
  "materialize rule =
     rule\<lparr>eg_Ports := map (\<lambda>p. if npp_Protocol p = None then p\<lparr>npp_Protocol := Some ''TCP''\<rparr> else p) (eg_Ports rule)\<rparr>"

definition full_egress :: "PgConsole \<Rightarrow> NetworkPolicyEgressRule list" where
  "full_egress console =
     [dnsEgressRule, egress_to (authenticationEgressPorts console) []]
     @ (if pgAdminEnabled console
        then [egress_to [tcpPort postgresPort]
                [\<lparr>npe_PodSelector = Some (fmupd cnpgClusterLabel (lor_Name (sp_CNPGClusterRef (con_Spec console))) fmempty),
                  npe_NamespaceSelector = None\<rparr>]]
        else [])
     @ map materialize (np_ExtraEgress (sp_NetworkPolicy (con_Spec console)))"

definition networkPolicy :: "golib \<Rightarrow> kube \<Rightarrow> bool \<Rightarrow> PgConsole \<Rightarrow> NetworkPolicy reconciled" where
  "networkPolicy G K sidecar console =
     (let ingress_only = np_PolicyTypes (sp_NetworkPolicy (con_Spec console)) = NetworkPolicyTypesIngress in
      bind_result (owned_meta G K console []) (\<lambda>m.
        Inr \<lparr>nw_Meta = m, nw_PodSelector = SelectorLabels application (con_Name console),
             nw_PolicyTypes = (if ingress_only then [''Ingress''] else [''Ingress'', ''Egress'']),
             nw_Ingress = [ingressPorts sidecar console],
             nw_Egress = (if ingress_only then [] else full_egress console)\<rparr>))"

definition same_policy_spec :: "NetworkPolicy \<Rightarrow> NetworkPolicy \<Rightarrow> bool" where
  "same_policy_spec a b =
     (nw_PodSelector a = nw_PodSelector b \<and> nw_PolicyTypes a = nw_PolicyTypes b
      \<and> nw_Ingress a = nw_Ingress b \<and> nw_Egress a = nw_Egress b)"

definition networkPolicyMatches :: "kube \<Rightarrow> NetworkPolicy \<Rightarrow> NetworkPolicy \<Rightarrow> bool" where
  "networkPolicyMatches K existing desired =
     (LabelsContain (m_Labels (nw_Meta existing)) (m_Labels (nw_Meta desired))
      \<and> ControllerOwnerMatches K (nw_Meta existing) (nw_Meta desired) \<and> same_policy_spec existing desired)"

definition deleteNetworkPolicyIfOwned ::
  "golib \<Rightarrow> kube \<Rightarrow> ('s, NetworkPolicy) client \<Rightarrow> PgConsole \<Rightarrow> 's \<Rightarrow> unit reconciled \<times> 's" where
  "deleteNetworkPolicyIfOwned G K policies console s =
     (let key = (con_Namespace console, ResourceName G application (con_Name console) []) in
      case api_Get policies s key of
        Inl NotFound \<Rightarrow> (Inr (), s)
      | Inl e \<Rightarrow> (Inl (FailedApi ''get network policy'' e), s)
      | Inr existing \<Rightarrow>
          (if controller_uid K (nw_Meta existing) \<noteq> Some (con_UID console) then (Inr (), s)
           else delete_object policies (key_of (nw_Meta existing)) s))"

text \<open>The live object with the rendered labels and spec.\<close>

definition updated_policy :: "NetworkPolicy \<Rightarrow> NetworkPolicy \<Rightarrow> NetworkPolicy" where
  "updated_policy existing desired = desired\<lparr>nw_Meta := (nw_Meta existing)\<lparr>m_Labels := m_Labels (nw_Meta desired)\<rparr>\<rparr>"

definition write_result :: "string \<Rightarrow> api_error option \<times> 's \<Rightarrow> unit reconciled \<times> 's" where
  "write_result what r = (case r of (None, s') \<Rightarrow> (Inr (), s') | (Some e, s') \<Rightarrow> (Inl (FailedApi what e), s'))"

definition reconcileNetworkPolicy ::
  "golib \<Rightarrow> kube \<Rightarrow> bool \<Rightarrow> ('s, NetworkPolicy) client \<Rightarrow> PgConsole \<Rightarrow> 's \<Rightarrow> unit reconciled \<times> 's" where
  "reconcileNetworkPolicy G K sidecar policies console s =
     (if \<not> networkPolicyEnabled console then deleteNetworkPolicyIfOwned G K policies console s
      else case networkPolicy G K sidecar console of
        Inl e \<Rightarrow> (Inl e, s)
      | Inr desired \<Rightarrow>
          (case api_Get policies s (key_of (nw_Meta desired)) of
             Inl NotFound \<Rightarrow> write_result ''create network policy'' (api_Create policies s desired)
           | Inl e \<Rightarrow> (Inl (FailedApi ''get network policy'' e), s)
           | Inr existing \<Rightarrow>
               (if networkPolicyMatches K existing desired then (Inr (), s)
                else write_result ''update network policy''
                       (api_Update policies s (updated_policy existing desired)))))"

section \<open>What the policy admits\<close>

text \<open>A rule without peers admits its ports towards every destination.\<close>

definition egress_anywhere :: "NetworkPolicy \<Rightarrow> int \<Rightarrow> bool" where
  "egress_anywhere p port =
     list_ex (\<lambda>r. eg_To r = [] \<and> list_ex (\<lambda>q. npp_Port q = Some port) (eg_Ports r)) (nw_Egress p)"

definition ingress_admits :: "NetworkPolicy \<Rightarrow> int \<Rightarrow> bool" where
  "ingress_admits p port = list_ex (list_ex (\<lambda>q. npp_Port q = Some port)) (nw_Ingress p)"

lemma networkPolicy_Inr:
  assumes "networkPolicy G K sidecar console = Inr p"
  shows "nw_PodSelector p = SelectorLabels application (con_Name console)
    \<and> ''Ingress'' \<in> set (nw_PolicyTypes p)
    \<and> nw_Ingress p = [ingressPorts sidecar console]
    \<and> (np_PolicyTypes (sp_NetworkPolicy (con_Spec console)) \<noteq> NetworkPolicyTypesIngress \<longrightarrow>
         ''Egress'' \<in> set (nw_PolicyTypes p) \<and> nw_Egress p = full_egress console)"
  using assms by (auto simp: networkPolicy_def Let_def)

lemma ingress_exact:
  assumes "networkPolicy G K sidecar console = Inr p"
  shows "ingress_admits p port \<longleftrightarrow> port = proxyPort \<or> (pgAdminEnabled console \<and> sidecar \<and> port = SidecarPort)"
  using networkPolicy_Inr[OF assms] by (auto simp: ingress_admits_def ingressPorts_def tcpPort_def)

lemma egress_exact:
  assumes "networkPolicy G K sidecar console = Inr p"
    and "np_PolicyTypes (sp_NetworkPolicy (con_Spec console)) \<noteq> NetworkPolicyTypesIngress"
    and "np_ExtraEgress (sp_NetworkPolicy (con_Spec console)) = []"
  shows "egress_anywhere p port \<longleftrightarrow>
     port \<in> {dnsPort, openshiftDNSPort, kubeAPIServerPort}
     \<or> (\<exists>oidc. au_OIDC (con_auth console) = Some oidc \<and> port = issuerPort (po_IssuerURL oidc))"
  using networkPolicy_Inr[OF assms(1)] assms(2,3)
  by (auto simp: egress_anywhere_def full_egress_def egress_to_def dnsEgressRule_def tcpPort_def
      authenticationEgressPorts_def split: option.splits)

section \<open>Convergence of an owned policy\<close>

definition policy_key :: "NetworkPolicy \<Rightarrow> object_key" where
  "policy_key p = key_of (nw_Meta p)"

definition policy_content :: "NetworkPolicy \<Rightarrow> smap \<times> OwnerReference list \<times> smap \<times> string list
    \<times> NetworkPolicyPort list list \<times> NetworkPolicyEgressRule list" where
  "policy_content p = (m_Labels (nw_Meta p), m_OwnerReferences (nw_Meta p), nw_PodSelector p,
     nw_PolicyTypes p, nw_Ingress p, nw_Egress p)"

definition console_key :: "golib \<Rightarrow> PgConsole \<Rightarrow> object_key" where
  "console_key G console = (con_Namespace console, ResourceName G application (con_Name console) [])"

text \<open>
  The API answers as documented, an object read under a key carries it, and a policy that
  exists under the generated name is the console's own.
\<close>

definition policy_good ::
  "golib \<Rightarrow> kube \<Rightarrow> ('s, NetworkPolicy) client \<Rightarrow> PgConsole \<Rightarrow> 's \<Rightarrow> bool" where
  "policy_good G K policies console s =
     (owners_ok K \<and> client_ok policies policy_key policy_content \<and> networkPolicyEnabled console
      \<and> (\<forall>p. api_Get policies s (console_key G console) = Inr p \<longrightarrow>
            policy_key p = console_key G console \<and> controller_uid K (nw_Meta p) = Some (con_UID console)))"

definition policy_settled ::
  "golib \<Rightarrow> kube \<Rightarrow> bool \<Rightarrow> ('s, NetworkPolicy) client \<Rightarrow> PgConsole \<Rightarrow> 's \<Rightarrow> bool" where
  "policy_settled G K sidecar policies console s =
     (networkPolicyEnabled console
      \<and> (\<exists>desired p. networkPolicy G K sidecar console = Inr desired \<and> key_of (nw_Meta desired) = console_key G console
             \<and> api_Get policies s (console_key G console) = Inr p \<and> networkPolicyMatches K p desired))"

lemma owned_meta_ok:
  assumes "owners_ok K"
  obtains m where "owned_meta G K console sfx = Inr m"
    "key_of m = (con_Namespace console, ResourceName G application (con_Name console) sfx)"
    "m_Labels m = CommonLabels application (con_Name console)" "controller_uid K m = Some (con_UID console)"
proof -
  let ?m = "console_meta G console sfx"
  have "m_OwnerReferences ?m = []" by (simp add: console_meta_def)
  with assms obtain r where "SetControllerReference K (con_Meta console) ?m = Inr (?m\<lparr>m_OwnerReferences := [r]\<rparr>)"
    "controller_uid K (?m\<lparr>m_OwnerReferences := [r]\<rparr>) = Some (con_UID console)"
    unfolding owners_ok_def by blast
  then show thesis
    by (intro that[of "?m\<lparr>m_OwnerReferences := [r]\<rparr>"]) (simp_all add: owned_meta_def key_of_def console_meta_def)
qed

lemma written_matches:
  assumes "owners_ok K" "writes policies policy_key policy_content s p s'" "policy_key p = console_key G console"
    and "controller_uid K (nw_Meta p) = Some (con_UID console)" "controller_uid K (nw_Meta desired) = Some (con_UID console)"
    and "m_Labels (nw_Meta p) = m_Labels (nw_Meta desired)" "same_policy_spec p desired"
  shows "\<exists>q. api_Get policies s' (console_key G console) = Inr q \<and> networkPolicyMatches K q desired"
proof -
  obtain q where q: "api_Get policies s' (console_key G console) = Inr q" "policy_content q = policy_content p"
    using assms(2,3) by (auto simp: writes_def stores_def)
  then have "m_OwnerReferences (nw_Meta q) = m_OwnerReferences (nw_Meta p)"
    "m_Labels (nw_Meta q) = m_Labels (nw_Meta desired)" "same_policy_spec q desired"
    using assms(6,7) by (auto simp: policy_content_def same_policy_spec_def)
  with controller_uid_cong[OF assms(1), of "nw_Meta q" "nw_Meta p"] assms(4,5) q(1) show ?thesis
    by (auto simp: networkPolicyMatches_def LabelsContain_refl ControllerOwnerMatches_iff)
qed

lemma policy_settles:
  assumes "policy_good G K policies console s" "reconcileNetworkPolicy G K sidecar policies console s = (Inr r, s')"
  shows "policy_settled G K sidecar policies console s'"
proof -
  from assms(1) have K: "owners_ok K" and cl: "client_ok policies policy_key policy_content"
    and en: "networkPolicyEnabled console"
    and own: "\<And>p. api_Get policies s (console_key G console) = Inr p \<Longrightarrow>
            policy_key p = console_key G console \<and> controller_uid K (nw_Meta p) = Some (con_UID console)"
    by (auto simp: policy_good_def)
  obtain m where m: "owned_meta G K console [] = Inr m" "key_of m = console_key G console"
    "controller_uid K m = Some (con_UID console)"
    by (rule owned_meta_ok[OF K, of G console "[]"]) (simp add: console_key_def)
  then obtain d where d: "networkPolicy G K sidecar console = Inr d" and dm: "nw_Meta d = m"
    by (simp add: networkPolicy_def Let_def)
  have "\<exists>q. api_Get policies s' (console_key G console) = Inr q \<and> networkPolicyMatches K q d"
  proof (cases "api_Get policies s (console_key G console)")
    case (Inl e)
    with assms(2) en d dm m(2) have "e = NotFound"
      by (cases e) (simp_all add: reconcileNetworkPolicy_def)
    with Inl assms(2) en d dm m(2) have "api_Create policies s d = (None, s')"
      by (auto simp: reconcileNetworkPolicy_def write_result_def split: prod.splits option.splits)
    from written_matches[OF K client_ok_writes(1)[OF cl this]] m dm show ?thesis
      by (simp add: policy_key_def same_policy_spec_def)
  next
    case (Inr p)
    show ?thesis
    proof (cases "networkPolicyMatches K p d")
      case True
      with Inr assms(2) en d dm m(2) show ?thesis by (simp add: reconcileNetworkPolicy_def)
    next
      case False
      with Inr assms(2) en d dm m(2) have "api_Update policies s (updated_policy p d) = (None, s')"
        by (auto simp: reconcileNetworkPolicy_def write_result_def split: prod.splits option.splits)
      moreover have "controller_uid K (nw_Meta (updated_policy p d)) = controller_uid K (nw_Meta p)"
        by (rule controller_uid_cong[OF K]) (simp add: updated_policy_def)
      moreover have "policy_key (updated_policy p d) = policy_key p"
        by (simp add: policy_key_def updated_policy_def key_of_def)
      ultimately show ?thesis
        using written_matches[OF K client_ok_writes(2)[OF cl]] own[OF Inr] m dm
        by (simp add: updated_policy_def same_policy_spec_def)
    qed
  qed
  with en d dm m(2) show ?thesis by (auto simp: policy_settled_def)
qed

interpretation policy: convergence
  "reconcileNetworkPolicy G K sidecar policies console" "policy_good G K policies console"
  "policy_settled G K sidecar policies console"
  for G K sidecar policies console
proof
  show "policy_settled G K sidecar policies console s'"
    if "policy_good G K policies console s" "reconcileNetworkPolicy G K sidecar policies console s = (Inr r, s')" for s r s'
    using that by (rule policy_settles)
  show "\<exists>r. reconcileNetworkPolicy G K sidecar policies console s = (Inr r, s)"
    if "policy_settled G K sidecar policies console s" for s
    using that by (auto simp: policy_settled_def reconcileNetworkPolicy_def)
qed

section \<open>Properties\<close>


text \<open>
  a policy of somebody else under the generated name is overwritten on every pass. When
  the live policy is not controlled by this console, even one that already carries the
  rendered labels and spec, an enabled pass always issues an update, and the update leaves
  the foreign owner in place, so the next pass does the same; while a disabled pass leaves
  such a policy alone.
\<close>

theorem foreign_policy_rewritten:
  assumes "owners_ok K" "api_Get policies s (console_key G console) = Inr p"
    and "controller_uid K (nw_Meta p) \<noteq> Some (con_UID console)" "networkPolicy G K sidecar console = Inr d"
  shows "(networkPolicyEnabled console \<longrightarrow>
      snd (reconcileNetworkPolicy G K sidecar policies console s) = snd (api_Update policies s (updated_policy p d))
      \<and> controller_uid K (nw_Meta (updated_policy p d)) \<noteq> Some (con_UID console))
   \<and> (\<not> networkPolicyEnabled console \<longrightarrow> reconcileNetworkPolicy G K sidecar policies console s = (Inr (), s))"
proof -
  obtain m where m: "owned_meta G K console [] = Inr m" "key_of m = console_key G console"
    "controller_uid K m = Some (con_UID console)"
    by (rule owned_meta_ok[OF assms(1), of G console "[]"]) (simp add: console_key_def)
  with assms(4) have dm: "nw_Meta d = m" by (auto simp: networkPolicy_def Let_def)
  have "\<not> networkPolicyMatches K p d"
    using assms(3) m dm by (auto simp: networkPolicyMatches_def ControllerOwnerMatches_iff)
  moreover have "controller_uid K (nw_Meta (updated_policy p d)) = controller_uid K (nw_Meta p)"
    by (rule controller_uid_cong[OF assms(1)]) (simp add: updated_policy_def)
  ultimately show ?thesis
    using assms(2-4) m dm
    by (auto simp: reconcileNetworkPolicy_def deleteNetworkPolicyIfOwned_def console_key_def write_result_def
        split: prod.splits option.splits)
qed

text \<open>
  the OpenShift login cannot reach its token endpoint on the standard port. For a console
  that only enables the integrated OpenShift provider, the full policy without extra rules
  admits no egress to port 443, where the cluster's OAuth server is published.
\<close>

theorem openshift_egress_blocked:
  assumes "networkPolicy G K sidecar console = Inr p"
    and "au_OIDC (con_auth console) = None" "au_OpenShift (con_auth console) \<noteq> None"
    and "np_PolicyTypes (sp_NetworkPolicy (con_Spec console)) \<noteq> NetworkPolicyTypesIngress"
    and "np_ExtraEgress (sp_NetworkPolicy (con_Spec console)) = []"
  shows "\<not> egress_anywhere p httpsPort
   \<and> list_all (\<lambda>r. eg_To r \<noteq> [] \<longrightarrow> list_all (\<lambda>q. npp_Port q \<noteq> Some httpsPort) (eg_Ports r)) (nw_Egress p)"
proof -
  have "\<not> egress_anywhere p httpsPort"
    using egress_exact[OF assms(1,4,5), of httpsPort] assms(2) by (simp add: policy_ports)
  moreover have "nw_Egress p = full_egress console" using networkPolicy_Inr[OF assms(1)] assms(4) by blast
  ultimately show ?thesis
    using assms(5) by (simp add: full_egress_def egress_to_def tcpPort_def dnsEgressRule_def policy_ports)
qed

section \<open>Witnesses\<close>

lemma sample_policy: "\<exists>p. networkPolicy (sample_lib JNull) sample_kube sidecar console = Inr p"
  by (rule owned_meta_ok[OF sample_kube_owners, of "sample_lib JNull" console "[]"]) (simp add: networkPolicy_def Let_def)


definition foreign_policy :: NetworkPolicy where
  "foreign_policy =
     \<lparr>nw_Meta = new_meta ''pg-pgconsole'' ''db'' fmempty, nw_PodSelector = fmempty, nw_PolicyTypes = [],
      nw_Ingress = [], nw_Egress = []\<rparr>"

theorem foreign_policy_rewritten_witness:
  "\<exists>d. networkPolicy (sample_lib JNull) sample_kube False sample_console = Inr d
     \<and> snd (reconcileNetworkPolicy (sample_lib JNull) sample_kube False (store_client policy_key) sample_console
              (fmupd (console_key (sample_lib JNull) sample_console) foreign_policy fmempty))
       = snd (api_Update (store_client policy_key)
                (fmupd (console_key (sample_lib JNull) sample_console) foreign_policy fmempty)
                (updated_policy foreign_policy d))"
proof -
  obtain d where d: "networkPolicy (sample_lib JNull) sample_kube False sample_console = Inr d"
    using sample_policy by blast
  let ?s = "fmupd (console_key (sample_lib JNull) sample_console) foreign_policy fmempty"
  have get: "api_Get (store_client policy_key) ?s (console_key (sample_lib JNull) sample_console) = Inr foreign_policy"
    by simp
  have "controller_uid sample_kube (nw_Meta foreign_policy) \<noteq> Some (con_UID sample_console)"
    by (simp add: controller_uid_def sample_kube_def foreign_policy_def)
  moreover have "networkPolicyEnabled sample_console"
    by (simp add: networkPolicyEnabled_def sample_spec_def default_true_def)
  ultimately show ?thesis
    using foreign_policy_rewritten[OF sample_kube_owners get _ d] d by blast
qed

definition openshift_console :: PgConsole where
  "openshift_console =
     sample_console\<lparr>con_Spec := sample_spec\<lparr>sp_Proxy := (sp_Proxy sample_spec)
        \<lparr>px_Authentication := (px_Authentication (sp_Proxy sample_spec))\<lparr>au_Local := None, au_OpenShift := Some ProxyOpenShiftSpec\<rparr>\<rparr>\<rparr>\<rparr>"

theorem openshift_egress_blocked_witness:
  "\<exists>p. networkPolicy (sample_lib JNull) sample_kube True openshift_console = Inr p \<and> \<not> egress_anywhere p 443"
proof -
  obtain p where p: "networkPolicy (sample_lib JNull) sample_kube True openshift_console = Inr p"
    using sample_policy by blast
  have "au_OIDC (con_auth openshift_console) = None" "au_OpenShift (con_auth openshift_console) \<noteq> None"
    "np_PolicyTypes (sp_NetworkPolicy (con_Spec openshift_console)) \<noteq> NetworkPolicyTypesIngress"
    "np_ExtraEgress (sp_NetworkPolicy (con_Spec openshift_console)) = []"
    by (simp_all add: openshift_console_def sample_spec_def policy_type_defs)
  from openshift_egress_blocked[OF p this] p show ?thesis by (auto simp: httpsPort_def)
qed

end
