(* ===== verification/Sidecar.thy ===== *)
theory Sidecar
  imports Server Kube
begin

text \<open>
  The admin-sync sidecar inside the pgAdmin pod (\<open>internal/adminsync/sidecar_server.go\<close>):
  its token check and \<open>apply\<close>, which provisions every pgAdmin account with the desired
  connections and keeps a revision file per account as change detection.

  The pod's file system, pgAdmin's settings database and \<open>setup.py\<close> are a \<open>host\<close>: the
  operations the sidecar calls, over a state the model does not look into. \<open>host_ok\<close> is
  what those operations document. \<open>imported\<close> names, for the statements, the document an
  account's servers were last imported from.
\<close>

section \<open>Connections\<close>

record pg_Server =
  ps_Name :: string
  ps_Group :: string
  ps_Host :: string
  ps_Port :: int
  ps_MaintenanceDB :: string
  ps_Username :: string
  ps_PassFile :: string
  ps_SSLMode :: string
  ps_Password :: string

text \<open>A slice that may be nil: the two differ in JSON only.\<close>

type_synonym servers = "pg_Server list option"

definition elements :: "'a list option \<Rightarrow> 'a list" where
  "elements xs = (case xs of None \<Rightarrow> [] | Some ys \<Rightarrow> ys)"

lemma elements_simps [simp]: "elements None = []" "elements (Some xs) = xs"
  by (simp_all add: elements_def)

definition server_json :: "pg_Server \<Rightarrow> json" where
  "server_json x =
     JObj [(''name'', JStr (ps_Name x)), (''group'', JStr (ps_Group x)), (''host'', JStr (ps_Host x)),
           (''port'', JInt (ps_Port x)), (''maintenanceDB'', JStr (ps_MaintenanceDB x)),
           (''username'', JStr (ps_Username x)), (''passFile'', JStr (ps_PassFile x)),
           (''sslMode'', JStr (ps_SSLMode x)), (''password'', JStr (ps_Password x))]"

definition servers_json :: "servers \<Rightarrow> json" where
  "servers_json xs = (case xs of None \<Rightarrow> JNull | Some ys \<Rightarrow> JArr (map server_json ys))"

definition serversRevision :: "golib \<Rightarrow> servers \<Rightarrow> string" where
  "serversRevision G xs = hex_EncodeToString (sha256_Sum256 G (json_text G (servers_json xs)))"

section \<open>The credential file\<close>

definition pgpassAnyHost :: string where "pgpassAnyHost = ''*''"

definition pgpassEscape :: "string \<Rightarrow> string" where
  "pgpassEscape s = ReplaceAll (ReplaceAll s BACKSLASH [BACKSLASH, BACKSLASH]) (CHR '':'') [BACKSLASH, CHR '':'']"

definition pgpassLine :: "string \<Rightarrow> int \<Rightarrow> string \<Rightarrow> string \<Rightarrow> string \<Rightarrow> string" where
  "pgpassLine host port database username password =
     pgpassEscape host @ '':'' @ Itoa port @ '':'' @ pgpassEscape database @ '':'' @ pgpassEscape username
     @ '':'' @ pgpassEscape password"

definition passfile_content :: "servers \<Rightarrow> string" where
  "passfile_content xs =
     (let content = Join (map (\<lambda>x. pgpassLine pgpassAnyHost (ps_Port x) (ps_MaintenanceDB x) (ps_Username x)
                                   (ps_Password x)) (elements xs)) [NL] in
      if content \<noteq> [] then content @ [NL] else content)"

section \<open>The document for \<open>setup.py load-servers\<close>\<close>

definition storageRelativePassFile :: string where "storageRelativePassFile = ''/pgpass''"

definition serverEntry :: "pg_Server \<Rightarrow> json" where
  "serverEntry x =
     JObj [(''Name'', JStr (ps_Name x)), (''Group'', JStr (ps_Group x)), (''Host'', JStr (ps_Host x)),
           (''Port'', JInt (ps_Port x)), (''MaintenanceDB'', JStr (ps_MaintenanceDB x)),
           (''Username'', JStr (ps_Username x)),
           (''ConnectionParameters'',
            JObj [(''passfile'', JStr storageRelativePassFile), (''sslmode'', JStr (ps_SSLMode x))])]"

text \<open>The document's map is keyed by position and marshalled in the order of its keys.\<close>

definition serverDocument :: "servers \<Rightarrow> json" where
  "serverDocument xs =
     (let ys = elements xs in
      JObj [(''Servers'',
        JObj (sort_key fst (zip (map (\<lambda>i. Itoa (int i + 1)) [0..<length ys]) (map serverEntry ys))))])"

section \<open>Paths\<close>

text \<open>\<open>filepath.Join\<close> below a rooted directory, which cleans its result.\<close>

definition rooted_path :: "string list \<Rightarrow> string" where
  "rooted_path segs = CHR ''/'' # Join segs ''/''"

definition filepath_Join :: "string \<Rightarrow> string \<Rightarrow> string" where
  "filepath_Join dir name = rooted_path (clean_segments [] (Split (dir @ ''/'' @ name) CHR ''/''))"

text \<open>\<open>filepath.Dir\<close> of a rooted path.\<close>

definition filepath_Dir :: "string \<Rightarrow> string" where
  "filepath_Dir p = rooted_path (clean_segments [] (butlast (Split p CHR ''/'')))"

definition pgAdminStorageRoot :: string where "pgAdminStorageRoot = ''/var/lib/pgadmin/storage''"

definition userStorageDirectory :: "string \<Rightarrow> string" where
  "userStorageDirectory subject = filepath_Join pgAdminStorageRoot (ReplaceAll subject CHR ''@'' ''_'')"

definition revisionFileName :: string where "revisionFileName = ''.pgtoolbox-revision''"

definition pgpass_path :: "string \<Rightarrow> string" where
  "pgpass_path account = filepath_Join (userStorageDirectory account) ''pgpass''"

definition revision_path :: "string \<Rightarrow> string" where
  "revision_path account = filepath_Join (userStorageDirectory account) revisionFileName"

section \<open>The host\<close>

record 's host =
  ho_ReadFile :: "'s \<Rightarrow> string \<Rightarrow> string option"
  ho_WriteFile :: "'s \<Rightarrow> string \<Rightarrow> string \<Rightarrow> bool \<times> 's"
  ho_Rename :: "'s \<Rightarrow> string \<Rightarrow> string \<Rightarrow> bool \<times> 's"
  ho_MkdirAll :: "'s \<Rightarrow> string \<Rightarrow> bool \<times> 's"
  ho_CreateTemp :: "'s \<Rightarrow> string \<Rightarrow> string option \<times> 's"
  ho_Remove :: "'s \<Rightarrow> string \<Rightarrow> 's"
  ho_Output :: "'s \<Rightarrow> string list \<Rightarrow> string option \<times> string"
  ho_Run :: "'s \<Rightarrow> string list \<Rightarrow> bool \<times> 's"
  ho_Decode :: "string \<Rightarrow> servers option"

record SidecarOptions =
  so_Addr :: string
  so_CertDir :: string
  so_TokenFile :: string
  so_PythonPath :: string
  so_SetupPath :: string
  so_PassFile :: string
  so_SettingsDB :: string

definition DefaultPassFilePath :: string where "DefaultPassFilePath = ''/run/pgadmin/passfile/pgpass''"
definition DefaultSettingsDBPath :: string where "DefaultSettingsDBPath = ''/var/lib/pgadmin/pgadmin4.db''"
definition pythonPath :: string where "pythonPath = ''/venv/bin/python3''"
definition setupPath :: string where "setupPath = ''/pgadmin4/setup.py''"

definition sidecar_defaults :: "SidecarOptions \<Rightarrow> SidecarOptions" where
  "sidecar_defaults o' =
     \<lparr>so_Addr = (if so_Addr o' = [] then '':9600'' else so_Addr o'), so_CertDir = so_CertDir o',
      so_TokenFile = so_TokenFile o',
      so_PythonPath = (if so_PythonPath o' = [] then pythonPath else so_PythonPath o'),
      so_SetupPath = (if so_SetupPath o' = [] then setupPath else so_SetupPath o'),
      so_PassFile = (if so_PassFile o' = [] then DefaultPassFilePath else so_PassFile o'),
      so_SettingsDB = (if so_SettingsDB o' = [] then DefaultSettingsDBPath else so_SettingsDB o')\<rparr>"

datatype sync_error =
    AccountsUnknown | DirectoryFailed string | PassfileFailed string | DocumentFailed string | LoadFailed string
  | RevisionFailed string | LegacyFailed

type_synonym 's sync_step = "'s \<Rightarrow> (sync_error, unit) result \<times> 's"

definition fallible :: "sync_error \<Rightarrow> bool \<times> 's \<Rightarrow> (sync_error, unit) result \<times> 's" where
  "fallible e r = (if fst r then (Inr (), snd r) else (Inl e, snd r))"

section \<open>Applying the desired state\<close>

definition accounts_query :: string where
  "accounts_query = ''SELECT username FROM user WHERE auth_source = '' @ [CHR 0x27] @ ''webserver'' @ [CHR 0x27]"

text \<open>
  One query, run by the interpreter pgAdmin ships: what the command printed, or on failure an
  error that carries it.
\<close>

definition query_script :: string where
  "query_script =
     ''import sqlite3,sys'' @ [NL] @ ''c=sqlite3.connect(sys.argv[1])'' @ [NL]
     @ ''print('' @ [CHR 0x27, BACKSLASH] @ ''n'' @ [CHR 0x27]
     @ ''.join(str(r[0]) for r in c.execute(sys.argv[2]) if r[0] is not None))'' @ [NL]"

definition querySettingsDB :: "'s host \<Rightarrow> SidecarOptions \<Rightarrow> string \<Rightarrow> 's \<Rightarrow> (string, string) result" where
  "querySettingsDB H o' query s =
     (case ho_Output H s [so_PythonPath o', ''-c'', query_script, so_SettingsDB o', query] of
        (Some err, output) \<Rightarrow> Inl (err @ '': '' @ output)
      | (None, output) \<Rightarrow> Inr output)"

definition list_accounts :: "'s host \<Rightarrow> SidecarOptions \<Rightarrow> 's \<Rightarrow> (sync_error, string list) result" where
  "list_accounts H o' s =
     (case querySettingsDB H o' accounts_query s of
        Inl e \<Rightarrow> if Contains e ''no such table'' then Inr [] else Inl AccountsUnknown
      | Inr output \<Rightarrow> Inr (filter (\<lambda>a. a \<noteq> []) (map TrimSpace (Split (TrimSpace output) NL))))"

definition appliedRevision :: "'s host \<Rightarrow> string \<Rightarrow> 's \<Rightarrow> string option" where
  "appliedRevision H account s = map_option TrimSpace (ho_ReadFile H s (revision_path account))"

definition recordRevision :: "'s host \<Rightarrow> string \<Rightarrow> string \<Rightarrow> 's sync_step" where
  "recordRevision H account revision s =
     fallible (RevisionFailed account) (ho_WriteFile H s (revision_path account) (revision @ [NL]))"

definition replace_file :: "'s host \<Rightarrow> sync_error \<Rightarrow> string \<Rightarrow> string \<Rightarrow> 's sync_step" where
  "replace_file H e target content =
     and_then (\<lambda>s. fallible e (ho_WriteFile H s (target @ ''.tmp'') content))
       (\<lambda>_ s. fallible e (ho_Rename H s (target @ ''.tmp'') target))"

definition writePassfile :: "'s host \<Rightarrow> string \<Rightarrow> servers \<Rightarrow> 's sync_step" where
  "writePassfile H account servers =
     and_then (\<lambda>s. fallible (DirectoryFailed account) (ho_MkdirAll H s (userStorageDirectory account)))
       (\<lambda>_. replace_file H (PassfileFailed account) (pgpass_path account) (passfile_content servers))"

definition load_command :: "SidecarOptions \<Rightarrow> string \<Rightarrow> string \<Rightarrow> string list" where
  "load_command o' file account =
     [so_PythonPath o', so_SetupPath o', ''load-servers'', file, ''--user'', account,
      ''--auth-source'', ''webserver'', ''--replace'']"

text \<open>The temporary file is removed on every path that created it.\<close>

definition loadServers :: "golib \<Rightarrow> 's host \<Rightarrow> SidecarOptions \<Rightarrow> string \<Rightarrow> servers \<Rightarrow> 's sync_step" where
  "loadServers G H o' account servers s =
     (case ho_CreateTemp H s ''pgadmin-servers-*.json'' of
        (None, s') \<Rightarrow> (Inl (DocumentFailed account), s')
      | (Some file, s') \<Rightarrow>
          (case and_then
                  (\<lambda>s. fallible (DocumentFailed account) (ho_WriteFile H s file (json_text G (serverDocument servers))))
                  (\<lambda>_ s. fallible (LoadFailed account) (ho_Run H s (load_command o' file account))) s' of
             (r, s'') \<Rightarrow> (r, ho_Remove H s'' file)))"

definition provision :: "golib \<Rightarrow> 's host \<Rightarrow> SidecarOptions \<Rightarrow> servers \<Rightarrow> string \<Rightarrow> 's sync_step" where
  "provision G H o' servers account =
     and_then (writePassfile H account servers) (\<lambda>_.
     and_then (loadServers G H o' account servers) (\<lambda>_.
       recordRevision H account (serversRevision G servers)))"

fun apply_accounts :: "golib \<Rightarrow> 's host \<Rightarrow> SidecarOptions \<Rightarrow> servers \<Rightarrow> string list \<Rightarrow> 's sync_step" where
  "apply_accounts G H o' servers [] s = (Inr (), s)"
| "apply_accounts G H o' servers (account # accounts) s =
     (if appliedRevision H account s = Some (serversRevision G servers)
      then apply_accounts G H o' servers accounts s
      else and_then (provision G H o' servers account) (\<lambda>_. apply_accounts G H o' servers accounts) s)"

definition writeLegacyPassfile :: "'s host \<Rightarrow> SidecarOptions \<Rightarrow> servers \<Rightarrow> 's sync_step" where
  "writeLegacyPassfile H o' servers =
     and_then (\<lambda>s. fallible LegacyFailed (ho_MkdirAll H s (filepath_Dir (so_PassFile o'))))
       (\<lambda>_. replace_file H LegacyFailed (so_PassFile o') (passfile_content servers))"

definition apply_sync :: "golib \<Rightarrow> 's host \<Rightarrow> SidecarOptions \<Rightarrow> servers \<Rightarrow> 's sync_step" where
  "apply_sync G H o' servers s =
     (case list_accounts H o' s of
        Inl e \<Rightarrow> (Inl e, s)
      | Inr accounts \<Rightarrow>
          and_then (apply_accounts G H o' servers accounts) (\<lambda>_. writeLegacyPassfile H o' servers) s)"

section \<open>The API\<close>

definition sidecar_token :: "string option \<Rightarrow> string option" where
  "sidecar_token file =
     (case file of
        None \<Rightarrow> None
      | Some text' \<Rightarrow> (let expected = TrimSpace text' in if length expected < 32 then None else Some expected))"

definition max_body :: nat where "max_body = 2 ^ 20"

definition handle_sync ::
  "golib \<Rightarrow> 's host \<Rightarrow> SidecarOptions \<Rightarrow> string \<Rightarrow> request \<Rightarrow> string \<Rightarrow> 's \<Rightarrow> nat \<times> 's" where
  "handle_sync G H o' expected r body s =
     (if TrimPrefix (Header_Get (rq_Header r) ''Authorization'') ''Bearer '' \<noteq> expected then (401, s)
      else case ho_Decode H (take max_body body) of
             None \<Rightarrow> (400, s)
           | Some servers \<Rightarrow>
               (case apply_sync G H o' servers s of (Inl _, s') \<Rightarrow> (500, s') | (Inr _, s') \<Rightarrow> (204, s')))"

section \<open>Reading the credential file\<close>

text \<open>
  How libpq documents the file: one entry per line, fields separated by colons, and a
  backslash makes the next byte literal.
\<close>

fun pgpass_fields :: "string \<Rightarrow> string \<Rightarrow> string list" where
  "pgpass_fields cur [] = [cur]"
| "pgpass_fields cur [c] =
     (if c = BACKSLASH then [cur] else if c = CHR '':'' then [cur, []] else [cur @ [c]])"
| "pgpass_fields cur (c # d # cs) =
     (if c = BACKSLASH then pgpass_fields (cur @ [d]) cs
      else if c = CHR '':'' then cur # pgpass_fields [] (d # cs)
      else pgpass_fields (cur @ [c]) (d # cs))"

definition read_pgpass :: "string \<Rightarrow> string list list" where
  "read_pgpass content = map (pgpass_fields []) (filter (\<lambda>l. l \<noteq> []) (Split content NL))"

lemma pgpassEscape_simps [simp]:
  "pgpassEscape [] = []"
  "pgpassEscape (c # s) =
     (if c = BACKSLASH \<or> c = CHR '':'' then [BACKSLASH, c] else [c]) @ pgpassEscape s"
proof -
  have "BACKSLASH \<noteq> CHR '':''" by (simp add: BACKSLASH_def char_of_def bit_0)
  then show "pgpassEscape (c # s) =
     (if c = BACKSLASH \<or> c = CHR '':'' then [BACKSLASH, c] else [c]) @ pgpassEscape s"
    by (auto simp: pgpassEscape_def ReplaceAll_def)
qed (simp add: pgpassEscape_def ReplaceAll_def)

lemma backslash_neq [simp]:
  "BACKSLASH \<noteq> CHR '':''" "CHR '':'' \<noteq> BACKSLASH" "BACKSLASH \<noteq> NL" "NL \<noteq> BACKSLASH" "CHR '':'' \<noteq> NL" "NL \<noteq> CHR '':''"
  by (simp_all add: BACKSLASH_def NL_def char_of_def bit_0)

lemma pgpass_fields_Cons:
  "c \<noteq> BACKSLASH \<Longrightarrow> pgpass_fields cur (c # s) = (if c = CHR '':'' then cur # pgpass_fields [] s else pgpass_fields (cur @ [c]) s)"
  by (cases s) simp_all

lemma pgpass_fields_escape:
  "pgpass_fields cur (pgpassEscape f @ CHR '':'' # s) = (cur @ f) # pgpass_fields [] s"
proof (induction f arbitrary: cur)
  case Nil
  show ?case by (simp add: pgpass_fields_Cons)
next
  case (Cons c f)
  then show ?case by (auto simp: pgpass_fields_Cons)
qed

lemma pgpass_fields_last: "pgpass_fields cur (pgpassEscape f) = [cur @ f]"
proof (induction f arbitrary: cur)
  case (Cons c f)
  then show ?case by (auto simp: pgpass_fields_Cons)
qed simp

lemma pgpassEscape_plain: "BACKSLASH \<notin> set f \<Longrightarrow> CHR '':'' \<notin> set f \<Longrightarrow> pgpassEscape f = f"
  by (induction f) auto

lemma pgpassEscape_set: "NL \<notin> set f \<Longrightarrow> NL \<notin> set (pgpassEscape f)"
  by (induction f) (auto dest: sym)

lemma Itoa_plain: "pgpassEscape (Itoa i) = Itoa i" "NL \<notin> set (Itoa i)"
proof -
  have "\<not> is_digit c \<and> c \<noteq> CHR ''-''" if "c \<in> {BACKSLASH, CHR '':'', NL}" for c
    using that by (auto simp: is_digit_def BACKSLASH_def NL_def char_of_def bit_0 byte_def)
  then show "NL \<notin> set (Itoa i)" "pgpassEscape (Itoa i) = Itoa i"
    using Itoa_chars[of _ i] by (blast, intro pgpassEscape_plain) blast+
qed

lemma pgpass_fields_line:
  "pgpass_fields [] (pgpassLine h p d u w) = [h, Itoa p, d, u, w]"
  unfolding pgpassLine_def
  by (subst Itoa_plain(1)[symmetric]) (simp only: append.simps append_assoc pgpass_fields_escape pgpass_fields_last self_append_conv2)

lemma Split_lines:
  "\<forall>l\<in>set ls. NL \<notin> set l \<Longrightarrow> ls \<noteq> [] \<Longrightarrow> Split (Join ls [NL] @ [NL]) NL = ls @ [[]]"
proof (induction ls rule: induct_list012)
  case (2 x)
  then show ?case by (simp add: Split_append)
next
  case (3 x y zs)
  then show ?case by (simp add: Split_append)
qed simp

section \<open>Paths of different accounts\<close>

definition storage_segments :: "string \<Rightarrow> string list" where
  "storage_segments account =
     clean_segments [] (Split (pgAdminStorageRoot @ ''/'' @ ReplaceAll account CHR ''@'' ''_'') CHR ''/'')"

definition segment :: "string \<Rightarrow> bool" where
  "segment x = (x \<noteq> [] \<and> x \<noteq> ''.'' \<and> x \<noteq> ''..'' \<and> CHR ''/'' \<notin> set x)"

lemma Split_no_sep: "x \<in> set (Split s c) \<Longrightarrow> c \<notin> set x"
  by (induction s arbitrary: x) (auto split: if_splits list.splits)

lemma clean_segments_segment:
  "list_all (\<lambda>x. CHR ''/'' \<notin> set x) ss \<Longrightarrow> list_all segment out \<Longrightarrow> list_all segment (clean_segments out ss)"
proof (induction out ss rule: clean_segments.induct)
  case (2 out s ss)
  then show ?case by (cases out) (auto simp: segment_def)
qed (simp add: list_all_rev)

lemma storage_segments_ok: "list_all segment (storage_segments a)"
  unfolding storage_segments_def
  by (rule clean_segments_segment) (auto simp: list_all_iff dest: Split_no_sep)

lemma clean_segments_clean: "list_all segment ss \<Longrightarrow> clean_segments out ss = rev out @ ss"
  by (induction ss arbitrary: out) (auto simp: segment_def)

lemma Split_Join: "list_all segment ss \<Longrightarrow> ss \<noteq> [] \<Longrightarrow> Split (Join ss ''/'') CHR ''/'' = ss"
proof (induction ss rule: induct_list012)
  case (2 x)
  then show ?case by (simp add: segment_def Split_absent)
next
  case (3 x y zs)
  then show ?case by (simp add: segment_def Split_append)
qed simp

lemma Split_snoc: "CHR ''/'' \<notin> set f \<Longrightarrow> Split (s @ ''/'' @ f) CHR ''/'' = Split s CHR ''/'' @ [f]"
  by (induction s) (auto simp: Split_absent split: list.splits)

lemma rooted_path_inj:
  assumes "list_all segment xs" "list_all segment ys" "rooted_path xs = rooted_path ys"
  shows "xs = ys"
proof -
  have split: "Split (Join zs ''/'') CHR ''/'' = (if zs = [] then [[]] else zs)" if "list_all segment zs" for zs
    using that Split_Join by auto
  have "Join xs ''/'' = Join ys ''/''" using assms(3) by (simp add: rooted_path_def)
  then have "(if xs = [] then [[]] else xs) = (if ys = [] then [[]] else ys)"
    using split[OF assms(1)] split[OF assms(2)] by metis
  moreover have "xs \<noteq> [[]]" "ys \<noteq> [[]]" using assms(1,2) by (auto simp: segment_def)
  ultimately show ?thesis by (simp split: if_splits)
qed

lemma Join_account:
  assumes "segment f"
  shows "filepath_Join (userStorageDirectory a) f = rooted_path (storage_segments a @ [f])"
proof -
  let ?ss = "storage_segments a"
  have dir: "userStorageDirectory a = rooted_path ?ss"
    by (simp add: userStorageDirectory_def filepath_Join_def storage_segments_def)
  have "Split (rooted_path ?ss @ ''/'' @ f) CHR ''/'' = Split (rooted_path ?ss) CHR ''/'' @ [f]"
    using assms by (intro Split_snoc) (simp add: segment_def)
  also have "Split (rooted_path ?ss) CHR ''/'' = [] # (if ?ss = [] then [[]] else ?ss)"
    using Split_Join[OF storage_segments_ok, of a] by (simp add: rooted_path_def)
  finally show ?thesis
    using storage_segments_ok[of a] assms unfolding filepath_Join_def dir
    by (auto simp: clean_segments_clean segment_def)
qed

lemma managed_segments: "segment ''pgpass''" "segment revisionFileName" "segment ''pgpass.tmp''"
  by (simp_all add: segment_def revisionFileName_def)

lemma account_paths:
  "pgpass_path a = rooted_path (storage_segments a @ [''pgpass''])"
  "revision_path a = rooted_path (storage_segments a @ [revisionFileName])"
  by (simp_all add: pgpass_path_def revision_path_def Join_account managed_segments)

lemma Join_snoc: "Join (ss @ [f]) ''/'' @ g = Join (ss @ [f @ g]) ''/''"
  by (induction ss rule: induct_list012) auto

lemma pgpass_tmp: "pgpass_path a @ ''.tmp'' = rooted_path (storage_segments a @ [''pgpass.tmp''])"
  using Join_snoc[of "storage_segments a" "''pgpass''" "''.tmp''"] by (simp add: account_paths rooted_path_def)

lemma storage_directory_inj: "userStorageDirectory a = userStorageDirectory b \<longleftrightarrow> storage_segments a = storage_segments b"
  using rooted_path_inj[OF storage_segments_ok storage_segments_ok, of a b]
  by (auto simp: userStorageDirectory_def filepath_Join_def storage_segments_def)

lemma segments_neq:
  "segment f \<Longrightarrow> segment g \<Longrightarrow> rooted_path (storage_segments a @ [f]) = rooted_path (storage_segments b @ [g])
     \<longleftrightarrow> storage_segments a = storage_segments b \<and> f = g"
  using rooted_path_inj[of "storage_segments a @ [f]" "storage_segments b @ [g]"] storage_segments_ok by auto

lemma managed_paths:
  "pgpass_path a \<noteq> revision_path b" "pgpass_path a @ ''.tmp'' \<noteq> revision_path b"
  "pgpass_path a @ ''.tmp'' \<noteq> pgpass_path b"
  "pgpass_path a = pgpass_path b \<longleftrightarrow> userStorageDirectory a = userStorageDirectory b"
  "revision_path a = revision_path b \<longleftrightarrow> userStorageDirectory a = userStorageDirectory b"
  unfolding pgpass_tmp unfolding account_paths storage_directory_inj segments_neq[OF managed_segments(1,2)]
    segments_neq[OF managed_segments(3,2)] segments_neq[OF managed_segments(3,1)]
    segments_neq[OF managed_segments(1,1)] segments_neq[OF managed_segments(2,2)]
  by (auto simp: revisionFileName_def)

section \<open>What the host documents\<close>

text \<open>Files outside \<open>P\<close> and the servers of accounts outside \<open>A\<close> are as before.\<close>

definition frame ::
  "'s host \<Rightarrow> ('s \<Rightarrow> string \<Rightarrow> string option) \<Rightarrow> string set \<Rightarrow> string set \<Rightarrow> 's \<Rightarrow> 's \<Rightarrow> bool" where
  "frame H imported P A s s' \<longleftrightarrow>
     (\<forall>q. q \<notin> P \<longrightarrow> ho_ReadFile H s' q = ho_ReadFile H s q) \<and> (\<forall>a. a \<notin> A \<longrightarrow> imported s' a = imported s a)"

text \<open>
  A written file is read back, even a failed write touches no other file; a rename moves or
  does nothing; directories and temporary files do not disturb other files, and a temporary
  file's name follows its pattern; a successful import replaces that account's servers by the
  document, a failed one touches only that account.
\<close>

definition host_ok :: "'s host \<Rightarrow> ('s \<Rightarrow> string \<Rightarrow> string option) \<Rightarrow> bool" where
  "host_ok H imported \<longleftrightarrow>
     (\<forall>s p c b s'. ho_WriteFile H s p c = (b, s') \<longrightarrow>
        frame H imported {p} {} s s' \<and> (b \<longrightarrow> ho_ReadFile H s' p = Some c))
   \<and> (\<forall>s p q b s'. ho_Rename H s p q = (b, s') \<longrightarrow>
        frame H imported (if b then {p, q} else {}) {} s s' \<and> (b \<longrightarrow> ho_ReadFile H s' q = ho_ReadFile H s p))
   \<and> (\<forall>s d b s'. ho_MkdirAll H s d = (b, s') \<longrightarrow> frame H imported {} {} s s')
   \<and> (\<forall>s f s'. ho_CreateTemp H s ''pgadmin-servers-*.json'' = (f, s') \<longrightarrow>
        frame H imported (set_option f) {} s s' \<and> (\<forall>g. f = Some g \<longrightarrow> suffix ''.json'' g))
   \<and> (\<forall>s f. frame H imported {f} {} s (ho_Remove H s f))
   \<and> (\<forall>s o' f a b s'. ho_Run H s (load_command o' f a) = (b, s') \<longrightarrow>
        frame H imported {} {a} s s' \<and> (b \<longrightarrow> imported s' a = ho_ReadFile H s f))"

lemma host_okD:
  assumes "host_ok H imported"
  shows "ho_WriteFile H s p c = (b, s') \<Longrightarrow> frame H imported {p} {} s s' \<and> (b \<longrightarrow> ho_ReadFile H s' p = Some c)"
    and "ho_Rename H s p q = (b, s') \<Longrightarrow>
       frame H imported (if b then {p, q} else {}) {} s s' \<and> (b \<longrightarrow> ho_ReadFile H s' q = ho_ReadFile H s p)"
    and "ho_MkdirAll H s p = (b, s') \<Longrightarrow> frame H imported {} {} s s'"
    and "ho_CreateTemp H s ''pgadmin-servers-*.json'' = (f, s') \<Longrightarrow>
       frame H imported (set_option f) {} s s' \<and> (\<forall>g. f = Some g \<longrightarrow> suffix ''.json'' g)"
    and "frame H imported {p} {} s (ho_Remove H s p)"
    and "ho_Run H s (load_command o' p a) = (b, s') \<Longrightarrow>
       frame H imported {} {a} s s' \<and> (b \<longrightarrow> imported s' a = ho_ReadFile H s p)"
proof -
  note laws = assms[unfolded host_ok_def]
  from laws[THEN conjunct1] show "ho_WriteFile H s p c = (b, s') \<Longrightarrow> frame H imported {p} {} s s' \<and> (b \<longrightarrow> ho_ReadFile H s' p = Some c)"
    by blast
  from laws[THEN conjunct2, THEN conjunct1] show "ho_Rename H s p q = (b, s') \<Longrightarrow>
       frame H imported (if b then {p, q} else {}) {} s s' \<and> (b \<longrightarrow> ho_ReadFile H s' q = ho_ReadFile H s p)"
    by blast
  from laws[THEN conjunct2, THEN conjunct2, THEN conjunct1] show "ho_MkdirAll H s p = (b, s') \<Longrightarrow> frame H imported {} {} s s'"
    by blast
  from laws[THEN conjunct2, THEN conjunct2, THEN conjunct2, THEN conjunct1] show "ho_CreateTemp H s ''pgadmin-servers-*.json'' = (f, s') \<Longrightarrow>
       frame H imported (set_option f) {} s s' \<and> (\<forall>g. f = Some g \<longrightarrow> suffix ''.json'' g)"
    by blast
  from laws[THEN conjunct2, THEN conjunct2, THEN conjunct2, THEN conjunct2, THEN conjunct1] show "frame H imported {p} {} s (ho_Remove H s p)"
    by blast
  from laws[THEN conjunct2, THEN conjunct2, THEN conjunct2, THEN conjunct2, THEN conjunct2] show "ho_Run H s (load_command o' p a) = (b, s') \<Longrightarrow>
       frame H imported {} {a} s s' \<and> (b \<longrightarrow> imported s' a = ho_ReadFile H s p)"
    by blast
qed

lemma frame_refl: "frame H imported P A s s"
  by (simp add: frame_def)

lemma frame_trans:
  "frame H imported P A s s1 \<Longrightarrow> frame H imported Q B s1 s2 \<Longrightarrow> frame H imported (P \<union> Q) (A \<union> B) s s2"
  by (simp add: frame_def)

lemma frame_mono: "frame H imported P A s s' \<Longrightarrow> P \<subseteq> Q \<Longrightarrow> A \<subseteq> B \<Longrightarrow> frame H imported Q B s s'"
  by (auto simp: frame_def)

lemma frame_read: "frame H imported P A s s' \<Longrightarrow> q \<notin> P \<Longrightarrow> ho_ReadFile H s' q = ho_ReadFile H s q"
  by (simp add: frame_def)

lemma frame_imported: "frame H imported P A s s' \<Longrightarrow> a \<notin> A \<Longrightarrow> imported s' a = imported s a"
  by (simp add: frame_def)

lemma fallible_cases:
  assumes "fallible e r = (x, s')"
  obtains "x = Inr ()" "r = (True, s')" | "x = Inl e" "r = (False, s')"
  using assms by (cases r) (auto simp: fallible_def split: if_splits)

lemma replace_file_ok:
  assumes "host_ok H imported" "replace_file H e target content s = (r, s')"
  shows "frame H imported {target, target @ ''.tmp''} {} s s' \<and> (r = Inr () \<longrightarrow> ho_ReadFile H s' target = Some content)"
proof -
  obtain b s1 where w: "ho_WriteFile H s (target @ ''.tmp'') content = (b, s1)" by fastforce
  note w' = host_okD(1)[OF assms(1) w]
  show ?thesis
  proof (cases b)
    case False
    with w assms(2) have "r = Inl e" "s' = s1" by (auto simp: replace_file_def and_then_def fallible_def)
    with w' show ?thesis by (auto intro: frame_mono)
  next
    case True
    obtain b' s2 where m: "ho_Rename H s1 (target @ ''.tmp'') target = (b', s2)" by fastforce
    with w True assms(2) have r: "r = (if b' then Inr () else Inl e)" "s' = s2"
      by (auto simp: replace_file_def and_then_def fallible_def split: if_splits)
    note m' = host_okD(2)[OF assms(1) m]
    have "frame H imported ({target @ ''.tmp''} \<union> (if b' then {target @ ''.tmp'', target} else {})) ({} \<union> {}) s s2"
      by (rule frame_trans) (use w' m' in blast)+
    then have "frame H imported {target, target @ ''.tmp''} {} s s2" by (rule frame_mono) auto
    with r w' m' True show ?thesis by auto
  qed
qed

lemma writePassfile_ok:
  assumes "host_ok H imported" "writePassfile H a servers s = (r, s')"
  shows "frame H imported {pgpass_path a, pgpass_path a @ ''.tmp''} {} s s'
     \<and> (r = Inr () \<longrightarrow> ho_ReadFile H s' (pgpass_path a) = Some (passfile_content servers))"
proof -
  obtain b s1 where m: "ho_MkdirAll H s (userStorageDirectory a) = (b, s1)" by fastforce
  note m' = host_okD(3)[OF assms(1) m]
  show ?thesis
  proof (cases b)
    case False
    with m assms(2) have "r = Inl (DirectoryFailed a)" "s' = s1"
      by (auto simp: writePassfile_def and_then_def fallible_def)
    with m' show ?thesis by (auto intro: frame_mono)
  next
    case True
    with m assms(2)
    have "replace_file H (PassfileFailed a) (pgpass_path a) (passfile_content servers) s1 = (r, s')"
      by (simp add: writePassfile_def and_then_def fallible_def)
    from replace_file_ok[OF assms(1) this] frame_trans[OF m', of "{pgpass_path a, pgpass_path a @ ''.tmp''}" "{}" s']
    show ?thesis by simp
  qed
qed

lemma loadServers_ok:
  assumes "host_ok H imported" "loadServers G H o' a servers s = (r, s')"
  shows "\<exists>f. suffix ''.json'' f \<and> frame H imported {f} {a} s s'
     \<and> (r = Inr () \<longrightarrow> imported s' a = Some (json_text G (serverDocument servers)))"
proof -
  obtain t s1 where t: "ho_CreateTemp H s ''pgadmin-servers-*.json'' = (t, s1)" by fastforce
  note t' = host_okD(4)[OF assms(1) t]
  show ?thesis
  proof (cases t)
    case None
    with t assms(2) have "r = Inl (DocumentFailed a)" "s' = s1" by (auto simp: loadServers_def)
    with t' None show ?thesis by (intro exI[of _ "''.json''"]) (auto intro: frame_mono)
  next
    case (Some f)
    obtain b s2 where w: "ho_WriteFile H s1 f (json_text G (serverDocument servers)) = (b, s2)" by fastforce
    obtain b' s3 where c: "ho_Run H s2 (load_command o' f a) = (b', s3)" by fastforce
    note w' = host_okD(1)[OF assms(1) w] and c' = host_okD(6)[OF assms(1) c]
    have f1: "frame H imported {f} {} s s2"
      using frame_trans[of H imported "{f}" "{}" s s1 "{f}" "{}" s2] t' w' Some by simp
    have res: "r = (if b then if b' then Inr () else Inl (LoadFailed a) else Inl (DocumentFailed a))"
      "s' = ho_Remove H (if b then s3 else s2) f"
      using assms(2) t Some w c by (auto simp: loadServers_def and_then_def fallible_def split: if_splits prod.splits)
    have "frame H imported {f} {a} s (if b then s3 else s2)"
      using f1 frame_trans[OF f1, of "{}" "{a}" s3] c' by (auto intro: frame_mono)
    from frame_trans[OF this host_okD(5)[OF assms(1), of f]]
    have fr: "frame H imported {f} {a} s s'" using res(2) by simp
    moreover have "r = Inr () \<longrightarrow> imported s' a = Some (json_text G (serverDocument servers))"
      using res w' c' frame_imported[OF host_okD(5)[OF assms(1), of f s3], of a] by auto
    ultimately show ?thesis using t' Some by blast
  qed
qed

section \<open>Provisioning\<close>

definition provisioned ::
  "golib \<Rightarrow> 's host \<Rightarrow> ('s \<Rightarrow> string \<Rightarrow> string option) \<Rightarrow> servers \<Rightarrow> string \<Rightarrow> 's \<Rightarrow> bool" where
  "provisioned G H imported servers a s \<longleftrightarrow>
     ho_ReadFile H s (pgpass_path a) = Some (passfile_content servers)
     \<and> imported s a = Some (json_text G (serverDocument servers))"

definition marked :: "golib \<Rightarrow> 's host \<Rightarrow> servers \<Rightarrow> string \<Rightarrow> 's \<Rightarrow> bool" where
  "marked G H servers a s \<longleftrightarrow> appliedRevision H a s = Some (serversRevision G servers)"

lemma suffix_rooted: "suffix f (rooted_path (ss @ [f]))"
proof -
  have "suffix f (Join (ss @ [f]) ''/'')"
    by (induction ss rule: induct_list012) (auto intro: suffix_appendI suffix_ConsI)
  then show ?thesis by (simp add: rooted_path_def suffix_ConsI)
qed

lemma managed_not_json: "\<not> suffix ''.json'' (pgpass_path a)" "\<not> suffix ''.json'' (revision_path a)"
proof -
  have "suffix ''.json'' f" if "suffix ''.json'' (rooted_path (ss @ [f]))" "5 \<le> length f" for f ss
    using suffix_length_suffix[OF that(1) suffix_rooted] that(2) by simp
  moreover have "\<not> suffix ''.json'' ''pgpass''" "\<not> suffix ''.json'' revisionFileName"
    by (simp_all add: suffix_to_prefix revisionFileName_def)
  ultimately show "\<not> suffix ''.json'' (pgpass_path a)" "\<not> suffix ''.json'' (revision_path a)"
    unfolding account_paths by (auto simp: revisionFileName_def)
qed

lemma TrimSpace_newline:
  assumes "is_ascii t" "list_all (\<lambda>c. \<not> IsSpace (byte c)) t"
  shows "TrimSpace (t @ [NL]) = t"
proof -
  have "is_ascii (t @ [NL])" using assms(1) by (simp add: is_ascii_def)
  then have "runes (t @ [NL]) = map (\<lambda>c. (byte c, [c])) t @ [(10, [NL])]" by (simp add: runes_ascii)
  moreover have "dropWhile (IsSpace \<circ> fst) (map (\<lambda>c. (byte c, [c])) t @ ys)
      = (if t = [] then dropWhile (IsSpace \<circ> fst) ys else map (\<lambda>c. (byte c, [c])) t @ ys)" for ys
    using assms(2) by (cases t) auto
  moreover have "dropWhile (IsSpace \<circ> fst) (rev (map (\<lambda>c. (byte c, [c])) t)) = rev (map (\<lambda>c. (byte c, [c])) t)"
    using assms(2) by (cases t rule: rev_cases) auto
  moreover have "IsSpace 10" by (simp add: IsSpace_def)
  ultimately show ?thesis by (simp add: TrimSpace_def comp_def)
qed

lemma hex_plain: "is_ascii (hex_EncodeToString x)" "list_all (\<lambda>c. \<not> IsSpace (byte c)) (hex_EncodeToString x)"
proof -
  have "byte (hex_digit n) < 128 \<and> \<not> IsSpace (byte (hex_digit n))" if "n < 16" for n
    using that by (auto simp: hex_digit_def IsSpace_def)
  then show "is_ascii (hex_EncodeToString x)" "list_all (\<lambda>c. \<not> IsSpace (byte c)) (hex_EncodeToString x)"
    by (auto simp: is_ascii_def list_all_iff hex_EncodeToString_def less_mult_imp_div_less)
qed

lemma hex_inj: "hex_EncodeToString x = hex_EncodeToString y \<Longrightarrow> x = y"
  by (metis hex_roundtrip option.inject)

lemmas revision_trimmed = TrimSpace_newline[OF hex_plain]

text \<open>One account: success provisions and marks it; in any case other accounts keep theirs.\<close>

lemma provision_ok:
  assumes H: "host_ok H imported" and run: "provision G H o' servers a s = (r, s')"
  shows "(r = Inr () \<longrightarrow> provisioned G H imported servers a s' \<and> marked G H servers a s')
     \<and> (\<exists>f. suffix ''.json'' f
          \<and> frame H imported {pgpass_path a, pgpass_path a @ ''.tmp'', revision_path a, f} {a} s s')"
proof -
  obtain r1 s1 where w: "writePassfile H a servers s = (r1, s1)" by fastforce
  obtain r2 s2 where l: "loadServers G H o' a servers s1 = (r2, s2)" by fastforce
  obtain r3 s3 where v: "recordRevision H a (serversRevision G servers) s2 = (r3, s3)" by fastforce
  note w' = writePassfile_ok[OF H w]
  obtain f where f: "suffix ''.json'' f" "frame H imported {f} {a} s1 s2"
    "r2 = Inr () \<longrightarrow> imported s2 a = Some (json_text G (serverDocument servers))"
    using loadServers_ok[OF H l] by blast
  obtain b where b: "ho_WriteFile H s2 (revision_path a) (serversRevision G servers @ [NL]) = (b, s3)" "b \<longleftrightarrow> r3 = Inr ()"
    using v unfolding recordRevision_def by (cases rule: fallible_cases) auto
  have v': "frame H imported {revision_path a} {} s2 s3"
    "r3 = Inr () \<longrightarrow> ho_ReadFile H s3 (revision_path a) = Some (serversRevision G servers @ [NL])"
    using host_okD(1)[OF H b(1)] b(2) by auto
  let ?P = "{pgpass_path a, pgpass_path a @ ''.tmp'', revision_path a, f}"
  have f1: "frame H imported ?P {a} s s1" by (rule frame_mono[OF w'[THEN conjunct1]]) auto
  have f2: "frame H imported ?P {a} s s2" using frame_trans[OF f1 f(2)] by (rule frame_mono) auto
  have f3: "frame H imported ?P {a} s s3" using frame_trans[OF f2 v'(1)] by (rule frame_mono) auto
  have cases: "(r, s') = (case (r1, r2) of (Inl e, _) \<Rightarrow> (Inl e, s1) | (Inr _, Inl e) \<Rightarrow> (Inl e, s2) | _ \<Rightarrow> (r3, s3))"
    using run w l v by (auto simp: provision_def and_then_def split: sum.splits)
  have "provisioned G H imported servers a s' \<and> marked G H servers a s'" if "r = Inr ()"
  proof -
    from cases that have ok: "r1 = Inr ()" "r2 = Inr ()" "r3 = Inr ()" "s' = s3"
      by (auto split: sum.splits)
    have "ho_ReadFile H s3 (pgpass_path a) = ho_ReadFile H s2 (pgpass_path a)"
      by (rule frame_read[OF v'(1)]) (use managed_paths(1) in simp)
    also have "\<dots> = ho_ReadFile H s1 (pgpass_path a)"
      by (rule frame_read[OF f(2)]) (use f(1) managed_not_json(1) in auto)
    finally show ?thesis
      using ok w' f(3) v'(2) frame_imported[OF v'(1), of a]
      by (simp add: provisioned_def marked_def appliedRevision_def serversRevision_def revision_trimmed)
  qed
  moreover have "frame H imported ?P {a} s s'" using cases f1 f2 f3 by (auto split: sum.splits)
  ultimately show ?thesis using f(1) by blast
qed

lemma provision_others:
  assumes "host_ok H imported" "provision G H o' servers a s = (r, s')"
    and "userStorageDirectory b \<noteq> userStorageDirectory a"
  shows "ho_ReadFile H s' (pgpass_path b) = ho_ReadFile H s (pgpass_path b)"
    "ho_ReadFile H s' (revision_path b) = ho_ReadFile H s (revision_path b)" "imported s' b = imported s b"
proof -
  obtain f where f: "suffix ''.json'' f"
    "frame H imported {pgpass_path a, pgpass_path a @ ''.tmp'', revision_path a, f} {a} s s'"
    using provision_ok[OF assms(1,2)] by blast
  show "ho_ReadFile H s' (pgpass_path b) = ho_ReadFile H s (pgpass_path b)"
    by (rule frame_read[OF f(2)])
      (use managed_paths[of b a] managed_paths[of a b] managed_not_json[of b] f(1) assms(3) in auto)
  show "ho_ReadFile H s' (revision_path b) = ho_ReadFile H s (revision_path b)"
    by (rule frame_read[OF f(2)])
      (use managed_paths[of b a] managed_paths[of a b] managed_not_json[of b] f(1) assms(3) in auto)
  show "imported s' b = imported s b" by (rule frame_imported[OF f(2)]) (use assms(3) in auto)
qed

text \<open>The loop, for accounts that keep their state in directories of their own.\<close>

lemma apply_accounts_others:
  assumes "host_ok H imported" "userStorageDirectory b \<notin> userStorageDirectory ` set as"
    and "apply_accounts G H o' servers as s = (r, s')"
  shows "ho_ReadFile H s' (pgpass_path b) = ho_ReadFile H s (pgpass_path b)
     \<and> ho_ReadFile H s' (revision_path b) = ho_ReadFile H s (revision_path b) \<and> imported s' b = imported s b"
  using assms(2,3)
proof (induction as arbitrary: s)
  case (Cons a as)
  obtain r1 s1 where p: "provision G H o' servers a s = (r1, s1)" by fastforce
  note others = provision_others[OF assms(1) p, of b]
  show ?case
  proof (cases "appliedRevision H a s = Some (serversRevision G servers)")
    case True
    with Cons show ?thesis by simp
  next
    case False
    show ?thesis
    proof (cases r1)
      case (Inl e)
      with False Cons.prems p have "s' = s1" by (simp add: and_then_def)
      with others Cons.prems show ?thesis by auto
    next
      case (Inr u)
      with False Cons.prems p have "apply_accounts G H o' servers as s1 = (r, s')" by (simp add: and_then_def)
      with Cons.IH[of s1] others Cons.prems show ?thesis by auto
    qed
  qed
qed simp

lemma apply_accounts_marked:
  assumes "\<forall>a\<in>set as. marked G H servers a s"
  shows "apply_accounts G H o' servers as s = (Inr (), s)"
  using assms by (induction as) (auto simp: marked_def)

definition honest ::
  "golib \<Rightarrow> 's host \<Rightarrow> ('s \<Rightarrow> string \<Rightarrow> string option) \<Rightarrow> servers \<Rightarrow> string \<Rightarrow> 's \<Rightarrow> bool" where
  "honest G H imported servers a s \<longleftrightarrow> (marked G H servers a s \<longrightarrow> provisioned G H imported servers a s)"

lemma apply_accounts_provisions:
  assumes "host_ok H imported" "distinct (map userStorageDirectory as)" "\<forall>a\<in>set as. honest G H imported servers a s"
    and "apply_accounts G H o' servers as s = (Inr (), s')"
  shows "\<forall>a\<in>set as. provisioned G H imported servers a s' \<and> marked G H servers a s'"
  using assms(2-4)
proof (induction as arbitrary: s)
  case (Cons a as)
  obtain s1 where first: "provisioned G H imported servers a s1" "marked G H servers a s1"
    and rest: "apply_accounts G H o' servers as s1 = (Inr (), s')"
    and honest: "\<forall>b\<in>set as. honest G H imported servers b s1"
  proof (cases "marked G H servers a s")
    case True
    with Cons.prems that[of s] show ?thesis by (auto simp: honest_def marked_def)
  next
    case False
    then obtain s1 where p: "provision G H o' servers a s = (Inr (), s1)" and rest: "apply_accounts G H o' servers as s1 = (Inr (), s')"
      using Cons.prems by (auto simp: marked_def elim: and_then_Inr)
    have "honest G H imported servers b s1" if "b \<in> set as" for b
    proof -
      from that have "userStorageDirectory b \<in> userStorageDirectory ` set as" by (rule imageI)
      with Cons.prems(1) have "userStorageDirectory b \<noteq> userStorageDirectory a"
        by (metis distinct.simps(2) list.simps(9) list.set_map)
      from provision_others[OF assms(1) p this] show ?thesis
        using Cons.prems(2) that by (simp add: honest_def marked_def provisioned_def appliedRevision_def)
    qed
    with that[of s1] rest provision_ok[OF assms(1) p] show ?thesis by blast
  qed
  from Cons.prems(1) have "userStorageDirectory a \<notin> userStorageDirectory ` set as" by simp
  from apply_accounts_others[OF assms(1) this rest] first
  have "provisioned G H imported servers a s' \<and> marked G H servers a s'"
    by (auto simp: marked_def provisioned_def appliedRevision_def)
  with Cons.IH[of s1] Cons.prems(1) honest rest show ?case by simp
qed simp

definition sync_good ::
  "golib \<Rightarrow> 's host \<Rightarrow> ('s \<Rightarrow> string \<Rightarrow> string option) \<Rightarrow> servers \<Rightarrow> string list \<Rightarrow> 's \<Rightarrow> bool" where
  "sync_good G H imported servers as s \<longleftrightarrow>
     host_ok H imported \<and> distinct (map userStorageDirectory as) \<and> (\<forall>a\<in>set as. honest G H imported servers a s)"

interpretation sync: convergence
  "apply_accounts G H o' servers as" "sync_good G H imported servers as" "\<lambda>s. \<forall>a\<in>set as. marked G H servers a s"
  for G H o' servers as imported
proof unfold_locales
  show "sync_good G H imported servers as s \<Longrightarrow> apply_accounts G H o' servers as s = (Inr r, s')
      \<Longrightarrow> \<forall>a\<in>set as. marked G H servers a s'" for s r s'
    using apply_accounts_provisions[of H imported as G servers s o' s'] by (simp add: sync_good_def)
  show "\<forall>a\<in>set as. marked G H servers a s \<Longrightarrow> \<exists>r. apply_accounts G H o' servers as s = (Inr r, s)" for s
    by (rule exI) (rule apply_accounts_marked)
qed

section \<open>Properties\<close>

text \<open>
  C40: the credential file says what the cluster published. Read back as libpq documents the
  format, the file holds one entry per connection, in order, matching any host, with exactly
  the port, database, user and password of that connection, whatever colons and backslashes
  they contain.
\<close>

theorem pgpass_roundtrip:
  assumes "\<forall>x\<in>set (elements servers). NL \<notin> set (ps_MaintenanceDB x @ ps_Username x @ ps_Password x)"
  shows "read_pgpass (passfile_content servers)
    = map (\<lambda>x. [''*'', Itoa (ps_Port x), ps_MaintenanceDB x, ps_Username x, ps_Password x]) (elements servers)"
proof -
  let ?line = "\<lambda>x. pgpassLine pgpassAnyHost (ps_Port x) (ps_MaintenanceDB x) (ps_Username x) (ps_Password x)"
  let ?ls = "map ?line (elements servers)"
  have "NL \<noteq> CHR ''*''" by (simp add: NL_def char_of_def bit_0)
  then have host: "NL \<notin> set (pgpassEscape pgpassAnyHost)" by (intro pgpassEscape_set) (simp add: pgpassAnyHost_def)
  have nl: "\<forall>l\<in>set ?ls. NL \<notin> set l"
    using assms host Itoa_plain(2) by (auto simp: pgpassLine_def dest: pgpassEscape_set)
  have ne: "?line x \<noteq> []" for x by (simp add: pgpassLine_def)
  show ?thesis
  proof (cases "elements servers = []")
    case False
    have "Join (l # ls) sep \<noteq> []" if "l \<noteq> []" for l ls sep using that by (cases ls) auto
    with False ne have "Join ?ls [NL] \<noteq> []" by (cases "elements servers") auto
    with Split_lines[OF nl] False have "Split (passfile_content servers) NL = ?ls @ [[]]"
      by (simp add: passfile_content_def Let_def)
    moreover have "filter (\<lambda>l. l \<noteq> []) ?ls = ?ls" by (rule filter_True) (use ne in auto)
    ultimately have "read_pgpass (passfile_content servers) = map (pgpass_fields []) ?ls" by (simp add: read_pgpass_def)
    then show ?thesis by (simp add: pgpass_fields_line pgpassAnyHost_def)
  qed (simp add: passfile_content_def read_pgpass_def)
qed

lemma apply_sync_provisions:
  assumes "sync_good G H imported servers as s" "list_accounts H o' s = Inr as"
    and "apply_sync G H o' servers s = (Inr (), s')"
    and "\<forall>a\<in>set as. {so_PassFile o', so_PassFile o' @ ''.tmp''} \<inter> {pgpass_path a, revision_path a} = {}"
  shows "(\<forall>a\<in>set as. provisioned G H imported servers a s' \<and> marked G H servers a s')
     \<and> ho_ReadFile H s' (so_PassFile o') = Some (passfile_content servers)
     \<and> (\<forall>b. userStorageDirectory b \<notin> userStorageDirectory ` set as \<longrightarrow> imported s' b = imported s b)"
proof -
  have H: "host_ok H imported" using assms(1) by (simp add: sync_good_def)
  obtain s1 where loop: "apply_accounts G H o' servers as s = (Inr (), s1)"
    and legacy: "writeLegacyPassfile H o' servers s1 = (Inr (), s')"
    using assms(2,3) by (auto simp: apply_sync_def elim: and_then_Inr)
  obtain s2 where dir: "ho_MkdirAll H s1 (filepath_Dir (so_PassFile o')) = (True, s2)"
    and swap: "replace_file H LegacyFailed (so_PassFile o') (passfile_content servers) s2 = (Inr (), s')"
    using legacy unfolding writeLegacyPassfile_def by (elim and_then_Inr) (auto elim: fallible_cases)
  note replaced = replace_file_ok[OF H swap]
  have fr: "frame H imported {so_PassFile o', so_PassFile o' @ ''.tmp''} {} s1 s'"
    using frame_trans[OF host_okD(3)[OF H dir] replaced[THEN conjunct1]] by simp
  have keep: "ho_ReadFile H s' (pgpass_path a) = ho_ReadFile H s1 (pgpass_path a)"
    "ho_ReadFile H s' (revision_path a) = ho_ReadFile H s1 (revision_path a)" if "a \<in> set as" for a
    using assms(4) that by (auto intro!: frame_read[OF fr])
  have keep': "imported s' a = imported s1 a" for a by (rule frame_imported[OF fr]) simp
  have all: "\<forall>a\<in>set as. provisioned G H imported servers a s' \<and> marked G H servers a s'"
    using apply_accounts_provisions[OF H _ _ loop] assms(1) keep keep'
    by (simp add: sync_good_def provisioned_def marked_def appliedRevision_def)
  moreover have "imported s' b = imported s b"
    if "userStorageDirectory b \<notin> userStorageDirectory ` set as" for b
    using apply_accounts_others[OF H that loop] keep' by simp
  ultimately show ?thesis using replaced by blast
qed


text \<open>
  of two accounts that share a storage directory only the first is served. Accounts whose
  names differ only in an \<open>@\<close> and an \<open>_\<close> have one revision file between them, so after
  the first was provisioned the second counts as current and its connections stay what they
  were.
\<close>

theorem colliding_account_skipped:
  assumes "host_ok H imported" "ReplaceAll a CHR ''@'' ''_'' = ReplaceAll b CHR ''@'' ''_''" "a \<noteq> b"
    and "\<not> marked G H servers a s" "apply_accounts G H o' servers [a, b] s = (Inr (), s')"
  shows "imported s' a = Some (json_text G (serverDocument servers)) \<and> imported s' b = imported s b
     \<and> marked G H servers b s'"
proof -
  have dir: "userStorageDirectory b = userStorageDirectory a" using assms(2) by (simp add: userStorageDirectory_def)
  then have paths: "revision_path b = revision_path a" by (simp add: revision_path_def)
  obtain s1 where p: "provision G H o' servers a s = (Inr (), s1)"
    and rest: "apply_accounts G H o' servers [b] s1 = (Inr (), s')"
    using assms(4,5) by (auto simp: marked_def elim: and_then_Inr)
  note first = provision_ok[OF assms(1) p]
  then have m: "marked G H servers a s1" and pr: "provisioned G H imported servers a s1" by auto
  from m paths have mb: "marked G H servers b s1" by (simp add: marked_def appliedRevision_def)
  with rest have "s' = s1" by (simp add: marked_def)
  moreover have "imported s1 b = imported s b"
    using first assms(3) frame_imported by (metis singletonD)
  ultimately show ?thesis using mb pr by (simp add: provisioned_def)
qed

text \<open>
  a change that failed half-way and is then taken back leaves the wrong credentials behind
  and looks current. When an account is marked with the old state and the import of the new
  one fails, the credential file is already the new one while the mark is still the old one;
  the next sync of the old state finds nothing to do and reports success.
\<close>

theorem reverted_change_looks_current:
  assumes H: "host_ok H imported" and old: "marked G H old a s" "serversRevision G new \<noteq> serversRevision G old"
    and failed: "apply_accounts G H o' new [a] s = (Inl (LoadFailed a), s1)"
  shows "apply_accounts G H o' old [a] s1 = (Inr (), s1)
     \<and> ho_ReadFile H s1 (pgpass_path a) = Some (passfile_content new)"
proof -
  obtain r1 t1 where w: "writePassfile H a new s = (r1, t1)" by fastforce
  obtain r2 t2 where l: "loadServers G H o' a new t1 = (r2, t2)" by fastforce
  have run: "provision G H o' new a s = (Inl (LoadFailed a), s1)"
    using failed old by (auto simp: marked_def and_then_def split: prod.splits sum.splits)
  have r1: "r1 = Inr ()"
  proof (cases r1)
    case (Inl e)
    with w have "e = DirectoryFailed a \<or> e = PassfileFailed a"
      by (auto simp: writePassfile_def replace_file_def and_then_def fallible_def split: if_splits)
    moreover from run w Inl have "e = LoadFailed a" by (simp add: provision_def and_then_def)
    ultimately show ?thesis by simp
  qed simp
  have "s1 = t2"
    using run w l r1
    by (auto simp: provision_def and_then_def recordRevision_def fallible_def split: sum.splits prod.splits if_splits)
  obtain f where f: "suffix ''.json'' f" "frame H imported {f} {a} t1 t2" using loadServers_ok[OF H l] by blast
  note w' = writePassfile_ok[OF H w]
  have "ho_ReadFile H t2 (pgpass_path a) = ho_ReadFile H t1 (pgpass_path a)"
    by (rule frame_read[OF f(2)]) (use f(1) managed_not_json(1) in auto)
  moreover have "ho_ReadFile H t2 (revision_path a) = ho_ReadFile H t1 (revision_path a)"
    by (rule frame_read[OF f(2)]) (use f(1) managed_not_json(2) in auto)
  moreover have "ho_ReadFile H t1 (revision_path a) = ho_ReadFile H s (revision_path a)"
    by (rule frame_read[OF w'[THEN conjunct1]]) (use managed_paths(1,2)[of a a] in auto)
  ultimately show ?thesis
    using w' r1 old(1) \<open>s1 = t2\<close> by (simp add: marked_def appliedRevision_def)
qed

section \<open>Witnesses\<close>

text \<open>A pod in memory: its files, the imported documents, and whether imports fail.\<close>

type_synonym pod = "smap \<times> smap"

definition temp_name :: string where "temp_name = ''/tmp/pgadmin-servers-1.json''"

definition mem_host :: "(string \<Rightarrow> servers option) \<Rightarrow> bool \<Rightarrow> string \<Rightarrow> pod host" where
  "mem_host decode works listing =
     \<lparr>ho_ReadFile = (\<lambda>(f, i) p. fmlookup f p),
      ho_WriteFile = (\<lambda>(f, i) p c. (True, (fmupd p c f, i))),
      ho_Rename = (\<lambda>(f, i) p q. case fmlookup f p of None \<Rightarrow> (False, (f, i)) | Some c \<Rightarrow> (True, (fmupd q c (fmdrop p f), i))),
      ho_MkdirAll = (\<lambda>s p. (True, s)),
      ho_CreateTemp = (\<lambda>(f, i) p. (Some temp_name, (fmupd temp_name [] f, i))),
      ho_Remove = (\<lambda>(f, i) p. (fmdrop p f, i)),
      ho_Output = (\<lambda>s argv. (None, listing)),
      ho_Run = (\<lambda>(f, i) args. if works
         then (True, (f, case fmlookup f (args ! 3) of None \<Rightarrow> fmdrop (args ! 5) i | Some c \<Rightarrow> fmupd (args ! 5) c i))
         else (False, (f, i))),
      ho_Decode = decode\<rparr>"

definition mem_imported :: "pod \<Rightarrow> string \<Rightarrow> string option" where
  "mem_imported s a = fmlookup (snd s) a"

lemma mem_host_ok: "host_ok (mem_host decode works listing) mem_imported"
  unfolding host_ok_def
proof (intro conjI allI impI, goal_cases)
  case (7 s f s' g)
  then show ?case by (cases s) (auto simp: mem_host_def temp_name_def suffix_to_prefix)
qed (auto simp: mem_host_def frame_def mem_imported_def load_command_def split: prod.splits option.splits if_splits)

definition sample_server :: "string \<Rightarrow> pg_Server" where
  "sample_server password =
     \<lparr>ps_Name = ''application (app)'', ps_Group = ''PgToolBox'', ps_Host = ''pg-rw.db.svc'', ps_Port = 5432,
      ps_MaintenanceDB = ''app'', ps_Username = ''app'', ps_PassFile = DefaultPassFilePath, ps_SSLMode = ''prefer'',
      ps_Password = password\<rparr>"

definition sync_lib :: golib where
  "sync_lib = (sample_lib JNull)\<lparr>json_text := (\<lambda>j. case j of JArr [] \<Rightarrow> ''none'' | _ \<Rightarrow> ''some'')\<rparr>"

definition sample_options :: SidecarOptions where
  "sample_options = sidecar_defaults
     \<lparr>so_Addr = [], so_CertDir = [], so_TokenFile = [], so_PythonPath = [], so_SetupPath = [], so_PassFile = [],
      so_SettingsDB = []\<rparr>"

theorem pgpass_roundtrip_witness:
  "read_pgpass (passfile_content (Some [sample_server [CHR ''a'', CHR '':'', BACKSLASH]]))
     = [[''*'', Itoa 5432, ''app'', ''app'', [CHR ''a'', CHR '':'', BACKSLASH]]]"
proof -
  have "NL \<notin> set (''appapp'' @ [CHR ''a'', CHR '':'', BACKSLASH])"
    by (simp add: NL_def BACKSLASH_def char_of_def bit_0)
  then show ?thesis
    using pgpass_roundtrip[of "Some [sample_server [CHR ''a'', CHR '':'', BACKSLASH]]"]
    by (simp add: sample_server_def)
qed

lemma mem_provision: "\<exists>s'. provision G (mem_host decode True l) o' servers a s = (Inr (), s')"
  by (cases s) (simp add: provision_def and_then_def writePassfile_def replace_file_def loadServers_def
      recordRevision_def fallible_def mem_host_def)

lemma mem_apply: "\<exists>s'. apply_accounts G (mem_host decode True l) o' servers as s = (Inr (), s')"
proof (induction as arbitrary: s)
  case (Cons a as)
  obtain t where "provision G (mem_host decode True l) o' servers a s = (Inr (), t)" using mem_provision by blast
  with Cons[of t] Cons[of s] show ?case by (simp add: and_then_def)
qed simp

lemma jane_paths:
  "pgpass_path ''jane'' = ''/var/lib/pgadmin/storage/jane/pgpass''"
  "revision_path ''jane'' = ''/var/lib/pgadmin/storage/jane/.pgtoolbox-revision''"
  by (simp_all add: account_paths storage_segments_def pgAdminStorageRoot_def ReplaceAll_def rooted_path_def
      revisionFileName_def)

lemma jane_listed: "list_accounts (mem_host decode works ''jane'') o' s = Inr [''jane'']"
proof -
  have "TrimSpace ''jane'' = ''jane''" by (rule TrimSpace_plain) (simp_all add: is_ascii_def IsSpace_def byte_def)
  moreover have "Split ''jane'' NL = [''jane'']" by (rule Split_absent) (simp add: NL_def char_of_def bit_0)
  ultimately show ?thesis by (simp add: list_accounts_def querySettingsDB_def mem_host_def)
qed

lemma jane_synced: "\<exists>s'. apply_sync G (mem_host decode True ''jane'') o' servers s = (Inr (), s')"
proof -
  obtain s1 where "apply_accounts G (mem_host decode True ''jane'') o' servers [''jane''] s = (Inr (), s1)"
    using mem_apply by blast
  moreover obtain s2 where "writeLegacyPassfile (mem_host decode True ''jane'') o' servers s1 = (Inr (), s2)"
    by (cases s1) (simp add: writeLegacyPassfile_def and_then_def replace_file_def fallible_def mem_host_def)
  ultimately show ?thesis by (simp add: apply_sync_def jane_listed and_then_def del: apply_accounts.simps)
qed

lemma jane_apart:
  "\<forall>a\<in>set [''jane'']. {so_PassFile sample_options, so_PassFile sample_options @ ''.tmp''}
      \<inter> {pgpass_path a, revision_path a} = {}"
  by (simp add: jane_paths sample_options_def sidecar_defaults_def DefaultPassFilePath_def)

lemma empty_good: "sync_good G (mem_host decode works listing) mem_imported servers [''jane''] (fmempty, fmempty)"
  by (simp add: sync_good_def mem_host_ok honest_def marked_def appliedRevision_def) (simp add: mem_host_def)


theorem colliding_account_skipped_witness:
  "\<exists>s'. apply_accounts sync_lib (mem_host (\<lambda>_. None) True []) sample_options (Some []) [''a@b'', ''a_b''] (fmempty, fmempty)
          = (Inr (), s')
     \<and> mem_imported s' ''a@b'' = Some ''some'' \<and> mem_imported s' ''a_b'' = None"
proof -
  obtain s' where run: "apply_accounts sync_lib (mem_host (\<lambda>_. None) True []) sample_options (Some []) [''a@b'', ''a_b'']
      (fmempty, fmempty) = (Inr (), s')"
    using mem_apply by blast
  have "\<not> marked sync_lib (mem_host (\<lambda>_. None) True []) (Some []) ''a@b'' (fmempty, fmempty)"
    by (simp add: marked_def appliedRevision_def) (simp add: mem_host_def)
  from colliding_account_skipped[OF mem_host_ok _ _ this run] run show ?thesis
    by (simp add: ReplaceAll_def sync_lib_def serverDocument_def mem_imported_def)
qed

theorem reverted_change_looks_current_witness:
  "let H = mem_host (\<lambda>_. None) False []; rev = serversRevision sync_lib (Some []) @ [NL];
       s = (fmupd (revision_path ''jane'') rev fmempty, fmempty);
       s1 = snd (apply_accounts sync_lib H sample_options (Some [sample_server ''new'']) [''jane''] s) in
   apply_accounts sync_lib H sample_options (Some []) [''jane''] s1 = (Inr (), s1)
   \<and> ho_ReadFile H s1 (pgpass_path ''jane'') = Some (passfile_content (Some [sample_server ''new'']))"
proof -
  let ?H = "mem_host (\<lambda>_. None) False []" and ?x = "Some [sample_server ''new'']"
  let ?s = "(fmupd (revision_path ''jane'') (serversRevision sync_lib (Some []) @ [NL]) fmempty, fmempty) :: pod"
  have texts: "json_text sync_lib (servers_json (Some [])) = ''none''" "json_text sync_lib (servers_json ?x) = ''some''"
    by (simp_all add: sync_lib_def servers_json_def)
  have "sha256_Sum256 sync_lib ''none'' \<noteq> sha256_Sum256 sync_lib ''some''" by (simp add: sync_lib_def)
  then have neq: "serversRevision sync_lib ?x \<noteq> serversRevision sync_lib (Some [])"
    unfolding serversRevision_def texts using hex_inj by metis
  have old: "marked sync_lib ?H (Some []) ''jane'' ?s"
    by (simp add: marked_def appliedRevision_def serversRevision_def revision_trimmed mem_host_def)
  have "fst (provision sync_lib ?H sample_options ?x ''jane'' ?s) = Inl (LoadFailed ''jane'')"
    by (simp add: provision_def and_then_def writePassfile_def replace_file_def loadServers_def fallible_def mem_host_def)
  then obtain s1 where run: "apply_accounts sync_lib ?H sample_options ?x [''jane''] ?s = (Inl (LoadFailed ''jane''), s1)"
    using old neq by (cases "provision sync_lib ?H sample_options ?x ''jane'' ?s") (simp add: and_then_def marked_def)
  from reverted_change_looks_current[OF mem_host_ok old neq run] show ?thesis
    unfolding Let_def run snd_conv .
qed

end
