(* ===== verification/Admin_Sync.thy ===== *)
theory Admin_Sync
  imports Evidence_Token Network_Policy Sidecar
begin

text \<open>
  The operator's half of the pgAdmin synchronization: which connections a cluster's
  credentials give (\<open>internal/controller/pgconsole/clustercredentials.go\<close>), when they are
  sent and what is reported (\<open>pgadmin_sync.go\<close>), and the client that posts them to the
  sidecar of the pod that runs the current configuration
  (\<open>internal/adminsync/adminsync.go\<close>, \<open>sidecar_client.go\<close>).

  CloudNativePG's objects are given by the fields read from them. \<open>sort.Slice\<close> is a
  parameter, for it orders by name only and names may repeat; the HTTPS exchange is one too.
\<close>

section \<open>Clusters and roles\<close>

record PluginConfiguration =
  pg_Name :: string
  pg_Enabled :: "bool option"
  pg_Parameters :: smap

record cluster =
  cl_Name :: string
  cl_Namespace :: string
  cl_WriteService :: string
  cl_InitDBSecret :: "string option"
  cl_SuperuserSecret :: "string option"
  cl_UID :: string
  cl_Plugins :: "PluginConfiguration list"

record DatabaseRole =
  dr_Cluster :: string
  dr_PasswordSecret :: "string option"
  dr_Name :: string

definition postgresServicePort :: int where "postgresServicePort = 5432"
definition serverGroup :: string where "serverGroup = ''PgToolBox''"
definition credentialUsernameKey :: string where "credentialUsernameKey = ''username''"
definition credentialPasswordKey :: string where "credentialPasswordKey = ''password''"
definition credentialDatabaseKey :: string where "credentialDatabaseKey = ''dbname''"

definition clusterServiceHost :: "cluster \<Rightarrow> string \<Rightarrow> string" where
  "clusterServiceHost cl clusterName =
     (if cl_WriteService cl \<noteq> [] then cl_WriteService cl @ ''.'' @ cl_Namespace cl @ ''.svc''
      else clusterName @ ''-rw.'' @ cl_Namespace cl @ ''.svc'')"

definition named_or :: "string option \<Rightarrow> string \<Rightarrow> string" where
  "named_or ref fallback = (case ref of None \<Rightarrow> fallback | Some n \<Rightarrow> if n \<noteq> [] then n else fallback)"

definition applicationSecretName :: "cluster \<Rightarrow> string" where
  "applicationSecretName cl = named_or (cl_InitDBSecret cl) (cl_Name cl @ ''-app'')"

definition superuserSecretName :: "cluster \<Rightarrow> string" where
  "superuserSecretName cl = named_or (cl_SuperuserSecret cl) (cl_Name cl @ ''-superuser'')"

section \<open>Connections from credentials\<close>

definition server_of :: "string \<Rightarrow> string \<Rightarrow> Secret \<Rightarrow> pg_Server option" where
  "server_of host label secret =
     (let username = at (se_Data secret) credentialUsernameKey;
          password = at (se_Data secret) credentialPasswordKey;
          database = at (se_Data secret) credentialDatabaseKey in
      if username = [] \<or> password = [] then None
      else Some \<lparr>ps_Name = label @ '' ('' @ username @ '')'', ps_Group = serverGroup, ps_Host = host,
        ps_Port = postgresServicePort, ps_MaintenanceDB = (if database = [] then ''postgres'' else database),
        ps_Username = username, ps_PassFile = DefaultPassFilePath, ps_SSLMode = ''prefer'', ps_Password = password\<rparr>)"

definition credentialServer ::
  "('s, Secret) client \<Rightarrow> 's \<Rightarrow> string \<Rightarrow> string \<Rightarrow> string \<Rightarrow> string \<Rightarrow> pg_Server option reconciled" where
  "credentialServer secrets s namespace secretName host label =
     (case api_Live secrets s (namespace, secretName) of
        Inl NotFound \<Rightarrow> Inr None
      | Inl e \<Rightarrow> Inl (FailedApi ''get credential'' e)
      | Inr secret \<Rightarrow> Inr (server_of host label secret))"

definition renamed :: "DatabaseRole \<Rightarrow> pg_Server \<Rightarrow> pg_Server" where
  "renamed role x =
     (if ps_Username x \<noteq> dr_Name role \<and> dr_Name role \<noteq> []
      then x\<lparr>ps_Username := dr_Name role, ps_Name := ''role ('' @ dr_Name role @ '')''\<rparr> else x)"

fun role_servers ::
  "('s, Secret) client \<Rightarrow> 's \<Rightarrow> string \<Rightarrow> cluster \<Rightarrow> string \<Rightarrow> DatabaseRole list \<Rightarrow> pg_Server list reconciled" where
  "role_servers secrets s namespace cl host [] = Inr []"
| "role_servers secrets s namespace cl host (role # roles) =
     (if dr_Cluster role \<noteq> cl_Name cl then role_servers secrets s namespace cl host roles
      else case dr_PasswordSecret role of
        None \<Rightarrow> role_servers secrets s namespace cl host roles
      | Some secretName \<Rightarrow>
          bind_result (credentialServer secrets s namespace secretName host ''role'') (\<lambda>x.
          bind_result (role_servers secrets s namespace cl host roles) (\<lambda>xs.
            Inr (case x of None \<Rightarrow> xs | Some server \<Rightarrow> renamed role server # xs))))"

definition databaseRoleServers ::
  "(api_error \<Rightarrow> bool) \<Rightarrow> ('s, DatabaseRole) client \<Rightarrow> ('s, Secret) client \<Rightarrow> 's \<Rightarrow> string \<Rightarrow> cluster \<Rightarrow> string
   \<Rightarrow> pg_Server list reconciled" where
  "databaseRoleServers IsNoMatch roles secrets s namespace cl host =
     (case api_List roles s namespace of
        Inl e \<Rightarrow> if e = NotFound \<or> IsNoMatch e then Inr [] else Inl (FailedApi ''list database roles'' e)
      | Inr items \<Rightarrow> role_servers secrets s namespace cl host items)"

definition clusterCredentials ::
  "(pg_Server list \<Rightarrow> pg_Server list) \<Rightarrow> (api_error \<Rightarrow> bool) \<Rightarrow> ('s, DatabaseRole) client \<Rightarrow> ('s, Secret) client \<Rightarrow> 's
   \<Rightarrow> PgConsole \<Rightarrow> cluster \<Rightarrow> pg_Server list reconciled" where
  "clusterCredentials sortByName IsNoMatch roles secrets s console cl =
     (let host = clusterServiceHost cl (cl_Name cl); ns = con_Namespace console in
      bind_result (credentialServer secrets s ns (applicationSecretName cl) host ''application'') (\<lambda>app.
      bind_result (credentialServer secrets s ns (superuserSecretName cl) host ''superuser'') (\<lambda>super.
      bind_result (databaseRoleServers IsNoMatch roles secrets s ns cl host) (\<lambda>rs.
        Inr (sortByName ((case app of None \<Rightarrow> [] | Some x \<Rightarrow> [x]) @ (case super of None \<Rightarrow> [] | Some x \<Rightarrow> [x]) @ rs))))))"

section \<open>The client of the sidecar\<close>

record pod_info =
  pi_Name :: string
  pi_Namespace :: string
  pi_Annotations :: smap
  pi_Phase :: string
  pi_Conditions :: "(string \<times> string) list"
  pi_PodIP :: string

definition podReady :: "pod_info \<Rightarrow> bool" where
  "podReady pod =
     (pi_Phase pod = ''Running''
      \<and> (case find (\<lambda>c. fst c = ''Ready'') (pi_Conditions pod) of None \<Rightarrow> False | Some c \<Rightarrow> snd c = ''True''))"

text \<open>Names of pods in a namespace are distinct, so their order is determined.\<close>

definition selectReadyPod :: "pod_info list \<Rightarrow> string \<Rightarrow> pod_info option" where
  "selectReadyPod pods checksum =
     find (\<lambda>pod. at (pi_Annotations pod) ConfigChecksumAnnotation = checksum \<and> podReady pod) (sort_key pi_Name pods)"

record Request =
  ar_Namespace :: string
  ar_ConsoleName :: string
  ar_Selector :: smap
  ar_Checksum :: string
  ar_Servers :: servers

definition SidecarServerName :: string where "SidecarServerName = ''pgadmin-admin-sync''"
definition SidecarSecretCAKey :: string where "SidecarSecretCAKey = ''ca.crt''"
definition SidecarSecretTokenKey :: string where "SidecarSecretTokenKey = ''token''"

definition SidecarSecretName :: "string \<Rightarrow> string" where
  "SidecarSecretName consoleName = consoleName @ ''-pgconsole-pgadmin-sync''"

text \<open>
  What the client calls: the pods under a selector, the usable CA bundles, and one POST with
  the pinned CA, server name, authorization and body, which returns a status or fails.
\<close>

record 's sidecar_net =
  sn_Pods :: "'s \<Rightarrow> string \<Rightarrow> smap \<Rightarrow> (string, pod_info list) result"
  sn_CAUsable :: "string \<Rightarrow> bool"
  sn_Post :: "'s \<Rightarrow> string \<Rightarrow> string \<Rightarrow> string \<Rightarrow> string \<Rightarrow> string \<Rightarrow> nat option \<times> 's"

definition sync_url :: "string \<Rightarrow> string" where
  "sync_url ip = ''https://'' @ ip @ '':'' @ Itoa SidecarPort @ ''/v1/sync''"

definition readyPod :: "'s sidecar_net \<Rightarrow> Request \<Rightarrow> 's \<Rightarrow> (string, pod_info) result" where
  "readyPod net request s =
     (case sn_Pods net s (ar_Namespace request) (ar_Selector request) of
        Inl e \<Rightarrow> Inl (''list pgAdmin pods for admin sync: '' @ e)
      | Inr pods \<Rightarrow>
          (case selectReadyPod pods (ar_Checksum request) of
             None \<Rightarrow> Inl ''no ready pgAdmin pod found at requested configuration revision''
           | Some pod \<Rightarrow> Inr pod))"

definition Sync ::
  "golib \<Rightarrow> 's sidecar_net \<Rightarrow> ('s, Secret) client \<Rightarrow> Request \<Rightarrow> 's \<Rightarrow> string option \<times> 's" where
  "Sync G net secrets request s =
     (case readyPod net request s of
        Inl e \<Rightarrow> (Some e, s)
      | Inr pod \<Rightarrow>
               (if pi_PodIP pod = [] then (Some ''pgAdmin pod has no IP yet'', s)
                else case api_Live secrets s (ar_Namespace request, SidecarSecretName (ar_ConsoleName request)) of
                  Inl e \<Rightarrow> (Some ''read admin-sync secret'', s)
                | Inr secret \<Rightarrow>
                    (if \<not> sn_CAUsable net (at (se_Data secret) SidecarSecretCAKey)
                     then (Some ''admin-sync secret has no usable CA'', s)
                     else let token = TrimSpace (at (se_Data secret) SidecarSecretTokenKey);
                              body = json_text G (JObj [(''servers'', servers_json (ar_Servers request))]) in
                       case sn_Post net s (sync_url (pi_PodIP pod)) (at (se_Data secret) SidecarSecretCAKey)
                              SidecarServerName (''Bearer '' @ token) body of
                         (None, s') \<Rightarrow> (Some ''call pgAdmin admin-sync API'', s')
                       | (Some status, s') \<Rightarrow>
                           (if status \<noteq> 204 then (Some ''pgAdmin admin-sync API returned an error'', s')
                            else (None, s')))))"

text \<open>The synchronization of a console that has none, and two helpers nothing in the program calls.\<close>

definition Disabled_Sync :: "Request \<Rightarrow> 's \<Rightarrow> string option \<times> 's" where
  "Disabled_Sync request s = (None, s)"

definition pgAdminRoleForLevel :: "string \<Rightarrow> string" where
  "pgAdminRoleForLevel level = (if level = RoleLevelDBA then ''Administrator'' else ''User'')"

definition syncRevision :: "golib \<Rightarrow> servers \<Rightarrow> string" where
  "syncRevision G xs = hex_EncodeToString (sha256_Sum256 G (json_text G (JObj [(''servers'', servers_json xs)])))"

section \<open>When the operator syncs\<close>

definition synced_condition ::
  "kube \<Rightarrow> condition_status \<Rightarrow> string \<Rightarrow> string \<Rightarrow> PgConsole \<Rightarrow> PgConsole reconciled" where
  "synced_condition K st reason message console =
     mark K console_conditions console PgConsoleConditionPgAdminSynced st reason message"

definition reconcilePgAdminSync ::
  "kube \<Rightarrow> bool \<Rightarrow> (Request \<Rightarrow> 's \<Rightarrow> string option \<times> 's) option \<Rightarrow> ('s, cluster) client
   \<Rightarrow> ('s \<Rightarrow> PgConsole \<Rightarrow> cluster \<Rightarrow> pg_Server list reconciled) \<Rightarrow> PgConsole \<Rightarrow> Deployment \<Rightarrow> string \<Rightarrow> 's
   \<Rightarrow> PgConsole reconciled \<times> 's" where
  "reconcilePgAdminSync K sidecar AdminSync clusters credentials console deployment checksum s =
     (case AdminSync of
        None \<Rightarrow> (synced_condition K ConditionUnknown ReasonNoneConfigured
                   ''pgAdmin sync is not configured for this console'' console, s)
      | Some sync \<Rightarrow>
     if \<not> pgAdminEnabled console \<or> \<not> sidecar
     then (synced_condition K ConditionUnknown ReasonNoneConfigured
             ''pgAdmin sync is not configured for this console'' console, s)
     else if \<not> rolloutComplete deployment
     then (synced_condition K ConditionFalse ReasonPendingRollout
             ''waiting for console rollout to complete before syncing pgAdmin'' console, s)
     else if at (dp_TemplateAnnotations deployment) ConfigChecksumAnnotation \<noteq> checksum
     then (synced_condition K ConditionFalse ReasonPendingRollout
             ''deployment is not at the current configuration revision'' console, s)
     else case api_Live clusters s (con_Namespace console, lor_Name (sp_CNPGClusterRef (con_Spec console))) of
       Inl NotFound \<Rightarrow>
         (synced_condition K ConditionFalse ReasonClusterNotFound
            (''CNPG Cluster '' @ lor_Name (sp_CNPGClusterRef (con_Spec console)) @ '' was not found'') console, s)
     | Inl e \<Rightarrow> (Inl (FailedApi ''get cluster'' e), s)
     | Inr cl \<Rightarrow>
         (case credentials s console cl of
            Inl e \<Rightarrow> (Inl e, s)
          | Inr [] \<Rightarrow>
              (synced_condition K ConditionFalse ReasonSomeDegraded
                 (''cluster '' @ cl_Name cl @ '' publishes no credential pgAdmin could connect with'') console, s)
          | Inr (x # xs) \<Rightarrow>
              (case sync \<lparr>ar_Namespace = con_Namespace console, ar_ConsoleName = con_Name console,
                          ar_Selector = SelectorLabels application (con_Name console), ar_Checksum = checksum,
                          ar_Servers = Some (x # xs)\<rparr> s of
                 (Some e, s') \<Rightarrow>
                   (synced_condition K ConditionFalse ReasonSyncFailed (''pgAdmin sync failed: '' @ e) console, s')
               | (None, s') \<Rightarrow>
                   (synced_condition K ConditionTrue ReasonAsExpected
                      (''pgAdmin offers '' @ Itoa (int (length (x # xs))) @ '' connection(s) from the cluster's credentials'')
                      console, s'))))"

section \<open>Which connections are offered\<close>

text \<open>A readable, complete credential under that name gives the connection \<open>x\<close>.\<close>

definition offers :: "('s, Secret) client \<Rightarrow> 's \<Rightarrow> string \<Rightarrow> string \<Rightarrow> string \<Rightarrow> string \<Rightarrow> pg_Server \<Rightarrow> bool" where
  "offers secrets s ns name host label x \<longleftrightarrow>
     (\<exists>secret. api_Live secrets s (ns, name) = Inr secret \<and> server_of host label secret = Some x)"

definition sorts_by_name :: "(pg_Server list \<Rightarrow> pg_Server list) \<Rightarrow> bool" where
  "sorts_by_name f \<longleftrightarrow> (\<forall>xs. mset (f xs) = mset xs \<and> sorted (map ps_Name (f xs)))"

lemma credentialServer_offers:
  assumes "credentialServer secrets s ns name host label = Inr r"
  shows "r = Some x \<longleftrightarrow> offers secrets s ns name host label x"
  using assms by (auto simp: credentialServer_def offers_def split: sum.splits api_error.splits)

lemma role_servers_set:
  assumes "role_servers secrets s ns cl host roles = Inr xs"
  shows "x \<in> set xs \<longleftrightarrow> (\<exists>role\<in>set roles. dr_Cluster role = cl_Name cl
     \<and> (\<exists>name y. dr_PasswordSecret role = Some name \<and> offers secrets s ns name host ''role'' y \<and> x = renamed role y))"
  using assms
proof (induction roles arbitrary: xs)
  case (Cons role roles)
  show ?case
  proof (cases "dr_Cluster role = cl_Name cl \<and> dr_PasswordSecret role \<noteq> None")
    case False
    then have "role_servers secrets s ns cl host roles = Inr xs" using Cons.prems by (auto split: if_splits option.splits)
    from Cons.IH[OF this] False show ?thesis by (simp only: set_simps bex_simps insert_iff) (auto simp: Bex_def)
  next
    case True
    then obtain name where name: "dr_PasswordSecret role = Some name" by blast
    with True Cons.prems obtain r ys where r: "credentialServer secrets s ns name host ''role'' = Inr r"
      and ys: "role_servers secrets s ns cl host roles = Inr ys"
      and xs: "xs = (case r of None \<Rightarrow> ys | Some server \<Rightarrow> renamed role server # ys)" by auto
    have "x \<in> set xs \<longleftrightarrow> x \<in> set ys \<or> (\<exists>y. r = Some y \<and> x = renamed role y)"
      unfolding xs by (cases r) auto
    then show ?thesis using Cons.IH[OF ys] credentialServer_offers[OF r] True name by auto
  qed
qed simp

lemma server_of_fields:
  assumes "server_of host label secret = Some x"
  shows "ps_Host x = host" "ps_Port x = postgresServicePort" "ps_Group x = serverGroup"
    "ps_Username x \<noteq> []" "ps_Password x \<noteq> []" "ps_Password x = at (se_Data secret) credentialPasswordKey"
  using assms by (auto simp: server_of_def Let_def split: if_splits)

lemma renamed_fields [simp]:
  "ps_Host (renamed role x) = ps_Host x" "ps_Port (renamed role x) = ps_Port x" "ps_Group (renamed role x) = ps_Group x"
  "ps_Password (renamed role x) = ps_Password x"
  "ps_Username (renamed role x) = (if dr_Name role = [] then ps_Username x else dr_Name role)"
  by (auto simp: renamed_def)

text \<open>
  pgAdmin is offered the cluster's credentials and nothing else. The connections are those
  of the application and superuser Secrets and of the roles declared for this very cluster,
  as far as those Secrets exist and carry a user and a password, ordered by name; each points
  at this cluster's write service and uses a password read from a Secret of the console's
  own namespace; a declared role connects under its declared name.
\<close>

theorem credentials_offered_exactly:
  assumes "sorts_by_name sortByName" "api_List roles s (con_Namespace console) = Inr items"
    and "clusterCredentials sortByName IsNoMatch roles secrets s console cl = Inr xs"
  shows "let ns = con_Namespace console; host = clusterServiceHost cl (cl_Name cl) in
     sorted (map ps_Name xs)
     \<and> (\<forall>x. x \<in> set xs \<longleftrightarrow> offers secrets s ns (applicationSecretName cl) host ''application'' x
           \<or> offers secrets s ns (superuserSecretName cl) host ''superuser'' x
           \<or> (\<exists>role\<in>set items. dr_Cluster role = cl_Name cl \<and> (\<exists>name y. dr_PasswordSecret role = Some name
                 \<and> offers secrets s ns name host ''role'' y \<and> x = renamed role y)))
     \<and> (\<forall>x\<in>set xs. ps_Host x = host \<and> ps_Port x = 5432 \<and> ps_Username x \<noteq> [] \<and> ps_Password x \<noteq> []
           \<and> (\<exists>name secret. api_Live secrets s (ns, name) = Inr secret
                 \<and> ps_Password x = at (se_Data secret) credentialPasswordKey))"
proof -
  let ?ns = "con_Namespace console" and ?host = "clusterServiceHost cl (cl_Name cl)"
  obtain app super rs where app: "credentialServer secrets s ?ns (applicationSecretName cl) ?host ''application'' = Inr app"
    and super: "credentialServer secrets s ?ns (superuserSecretName cl) ?host ''superuser'' = Inr super"
    and rs: "role_servers secrets s ?ns cl ?host items = Inr rs"
    and xs: "xs = sortByName ((case app of None \<Rightarrow> [] | Some x \<Rightarrow> [x]) @ (case super of None \<Rightarrow> [] | Some x \<Rightarrow> [x]) @ rs)"
    using assms(2,3) by (auto simp: clusterCredentials_def databaseRoleServers_def Let_def)
  have sorted: "sorted (map ps_Name xs)" using assms(1) xs by (simp add: sorts_by_name_def)
  have "set xs = set ((case app of None \<Rightarrow> [] | Some x \<Rightarrow> [x]) @ (case super of None \<Rightarrow> [] | Some x \<Rightarrow> [x]) @ rs)"
    unfolding xs using assms(1) by (metis sorts_by_name_def set_mset_mset)
  then have "x \<in> set xs \<longleftrightarrow> app = Some x \<or> super = Some x \<or> x \<in> set rs" for x
    by (cases app; cases super) auto
  then have exact: "x \<in> set xs \<longleftrightarrow> offers secrets s ?ns (applicationSecretName cl) ?host ''application'' x
           \<or> offers secrets s ?ns (superuserSecretName cl) ?host ''superuser'' x
           \<or> (\<exists>role\<in>set items. dr_Cluster role = cl_Name cl \<and> (\<exists>name y. dr_PasswordSecret role = Some name
                 \<and> offers secrets s ?ns name ?host ''role'' y \<and> x = renamed role y))" for x
    using credentialServer_offers[OF app] credentialServer_offers[OF super] role_servers_set[OF rs] by simp
  have fields: "ps_Host x = ?host \<and> ps_Port x = 5432 \<and> ps_Username x \<noteq> [] \<and> ps_Password x \<noteq> []
      \<and> (\<exists>name secret. api_Live secrets s (?ns, name) = Inr secret \<and> ps_Password x = at (se_Data secret) credentialPasswordKey)"
    if "offers secrets s ?ns name ?host label y" "x = y \<or> x = renamed role y" for x y name label role
  proof -
    from that(1) obtain secret where secret: "api_Live secrets s (?ns, name) = Inr secret" "server_of ?host label secret = Some y"
      unfolding offers_def by blast
    note f = server_of_fields[OF secret(2)]
    from that(2) have "ps_Host x = ps_Host y" "ps_Port x = ps_Port y" "ps_Password x = ps_Password y"
      "ps_Username x \<noteq> []" using f(4) by (auto split: if_splits)
    with f secret(1) show ?thesis by (auto simp: postgresServicePort_def)
  qed
  have "ps_Host x = ?host \<and> ps_Port x = 5432 \<and> ps_Username x \<noteq> [] \<and> ps_Password x \<noteq> []
      \<and> (\<exists>name secret. api_Live secrets s (?ns, name) = Inr secret \<and> ps_Password x = at (se_Data secret) credentialPasswordKey)"
    if "x \<in> set xs" for x
    using that[unfolded exact] fields by blast
  with sorted exact show ?thesis unfolding Let_def by blast
qed

section \<open>From the operator to the pod\<close>

text \<open>
  The network between the two halves: an answered POST is what the sidecar's handler answers
  to a request with that authorization and body, and the decoder undoes the encoder on it.
\<close>

definition delivers ::
  "golib \<Rightarrow> 's sidecar_net \<Rightarrow> 's host \<Rightarrow> SidecarOptions \<Rightarrow> string \<Rightarrow> bool" where
  "delivers G net H o' expected \<longleftrightarrow>
     (\<forall>s url ca name auth body status s'. sn_Post net s url ca name auth body = (Some status, s') \<longrightarrow>
        (\<exists>r. Header_Get (rq_Header r) ''Authorization'' = auth \<and> handle_sync G H o' expected r body s = (status, s')))
   \<and> (\<forall>xs ys. ho_Decode H (take max_body (json_text G (JObj [(''servers'', servers_json xs)]))) = Some ys \<longrightarrow> ys = xs)"

lemma Sync_delivered:
  assumes "delivers G net H o' expected" "Sync G net secrets request s = (None, s')"
  shows "apply_sync G H o' (ar_Servers request) s = (Inr (), s')"
proof -
  let ?body = "json_text G (JObj [(''servers'', servers_json (ar_Servers request))])"
  obtain url ca auth where "sn_Post net s url ca SidecarServerName auth ?body = (Some 204, s')"
    using assms(2) by (auto simp: Sync_def readyPod_def Let_def split: sum.splits option.splits if_splits prod.splits)
  then obtain r where r: "handle_sync G H o' expected r ?body s = (204, s')"
    using assms(1) unfolding delivers_def by blast
  then obtain ys where "ho_Decode H (take max_body ?body) = Some ys" "apply_sync G H o' ys s = (Inr (), s')"
    by (auto simp: handle_sync_def split: if_splits option.splits prod.splits sum.splits)
  moreover from this have "ys = ar_Servers request" using assms(1) unfolding delivers_def by blast
  ultimately show ?thesis by simp
qed

lemma synced_condition_status:
  assumes "conditions_ok K" "synced_condition K st reason m console = Inr y"
  shows "\<exists>c. FindStatusCondition (ct_Conditions (con_Status y)) PgConsoleConditionPgAdminSynced = Some c \<and> co_Status c = st"
  using console_cond.mark_published[OF assms(1) assms(2)[unfolded synced_condition_def]]
  by (auto simp: console_conditions_def)

lemma reconcilePgAdminSync_True:
  assumes "conditions_ok K"
    and run: "reconcilePgAdminSync K sidecar (Some sync) clusters credentials console d checksum s = (Inr console', s')"
    and true: "FindStatusCondition (ct_Conditions (con_Status console')) PgConsoleConditionPgAdminSynced = Some c"
      "co_Status c = ConditionTrue"
  obtains cl xs where "pgAdminEnabled console" "rolloutComplete d"
    "at (dp_TemplateAnnotations d) ConfigChecksumAnnotation = checksum"
    "api_Live clusters s (con_Namespace console, lor_Name (sp_CNPGClusterRef (con_Spec console))) = Inr cl"
    "credentials s console cl = Inr xs" "xs \<noteq> []"
    "sync \<lparr>ar_Namespace = con_Namespace console, ar_ConsoleName = con_Name console,
       ar_Selector = SelectorLabels application (con_Name console), ar_Checksum = checksum, ar_Servers = Some xs\<rparr> s
     = (None, s')"
proof -
  have no: False if "synced_condition K st reason m console = Inr console'" "st \<noteq> ConditionTrue" for st reason m
    using synced_condition_status[OF assms(1) that(1)] true that(2) by auto
  have gates: "pgAdminEnabled console" "rolloutComplete d" "at (dp_TemplateAnnotations d) ConfigChecksumAnnotation = checksum"
    using run no by (auto simp: reconcilePgAdminSync_def split: if_splits)
  with run no obtain cl where cl: "api_Live clusters s (con_Namespace console, lor_Name (sp_CNPGClusterRef (con_Spec console))) = Inr cl"
    by (auto simp: reconcilePgAdminSync_def split: if_splits sum.splits api_error.splits)
  with run no gates obtain x xs where xs: "credentials s console cl = Inr (x # xs)"
    by (auto simp: reconcilePgAdminSync_def split: if_splits sum.splits list.splits)
  let ?q = "\<lparr>ar_Namespace = con_Namespace console, ar_ConsoleName = con_Name console,
       ar_Selector = SelectorLabels application (con_Name console), ar_Checksum = checksum, ar_Servers = Some (x # xs)\<rparr>"
  obtain r t where q: "sync ?q s = (r, t)" by fastforce
  have "r = None \<and> t = s'"
    using run no gates cl xs q by (cases r) (auto simp: reconcilePgAdminSync_def split: if_splits)
  with that[OF gates cl xs] q show thesis by simp
qed


section \<open>Witnesses\<close>

definition sample_cluster :: cluster where
  "sample_cluster = \<lparr>cl_Name = ''pg'', cl_Namespace = ''db'', cl_WriteService = [], cl_InitDBSecret = None,
     cl_SuperuserSecret = None, cl_UID = ''cu1'', cl_Plugins = []\<rparr>"

definition app_secret :: Secret where
  "app_secret = \<lparr>se_Meta = new_meta ''pg-app'' ''db'' fmempty, se_Type = SecretTypeOpaque, se_Immutable = None,
     se_Data = fmap_of_list [(''username'', ''app''), (''password'', ''secret''), (''dbname'', ''app'')]\<rparr>"

definition app_server :: pg_Server where
  "app_server = \<lparr>ps_Name = ''application (app)'', ps_Group = serverGroup, ps_Host = ''pg-rw.db.svc'', ps_Port = postgresServicePort,
     ps_MaintenanceDB = ''app'', ps_Username = ''app'', ps_PassFile = DefaultPassFilePath, ps_SSLMode = ''prefer'',
     ps_Password = ''secret''\<rparr>"

definition sample_secrets :: "('s, Secret) client" where
  "sample_secrets = fixed_client (\<lambda>k. if k = (''db'', ''pg-app'') then Inr app_secret else Inl NotFound) []"

definition no_roles :: "('s, DatabaseRole) client" where
  "no_roles = fixed_client (\<lambda>k. Inl NotFound) []"

lemma app_server_of: "server_of ''pg-rw.db.svc'' ''application'' app_secret = Some app_server"
  by (simp add: server_of_def app_secret_def app_server_def at_of_list credentialUsernameKey_def
      credentialPasswordKey_def credentialDatabaseKey_def Let_def)

lemma sample_credentials:
  "clusterCredentials (sort_key ps_Name) (\<lambda>_. False) no_roles sample_secrets s sample_console sample_cluster
     = Inr [app_server]"
  by (simp add: clusterCredentials_def databaseRoleServers_def credentialServer_def no_roles_def sample_secrets_def
      applicationSecretName_def superuserSecretName_def named_or_def clusterServiceHost_def sample_cluster_def
      app_server_of Let_def)

theorem credentials_offered_exactly_witness:
  "clusterCredentials (sort_key ps_Name) (\<lambda>_. False) no_roles sample_secrets () sample_console sample_cluster
     = Inr [app_server] \<and> ps_Host app_server = ''pg-rw.db.svc''"
proof -
  have "sorts_by_name (sort_key ps_Name)" by (simp add: sorts_by_name_def)
  moreover have "api_List no_roles () (con_Namespace sample_console) = Inr []" by (simp add: no_roles_def)
  ultimately have "\<forall>x\<in>set [app_server]. ps_Host x = clusterServiceHost sample_cluster (cl_Name sample_cluster)"
    using credentials_offered_exactly[OF _ _ sample_credentials[of "()"]] unfolding Let_def by blast
  then have "ps_Host app_server = ''pg-rw.db.svc''" by (simp add: clusterServiceHost_def sample_cluster_def)
  with sample_credentials[of "()"] show ?thesis by blast
qed

text \<open>A pod with one account, and a network that hands every POST to its sidecar.\<close>

definition sync_body :: json where
  "sync_body = JObj [(''servers'', servers_json (Some [app_server]))]"

definition wire_lib :: golib where
  "wire_lib = (sample_lib JNull)\<lparr>json_text := (\<lambda>j. if j = sync_body then ''body'' else ''other'')\<rparr>"

definition wire_host :: "pod host" where
  "wire_host = mem_host (\<lambda>t. if t = ''body'' then Some (Some [app_server]) else None) True ''jane''"

definition sync_token :: string where "sync_token = replicate 32 CHR ''t''"

definition token_secrets :: "('s, Secret) client" where
  "token_secrets = fixed_client (\<lambda>k. Inr (app_secret\<lparr>se_Data := fmupd SidecarSecretTokenKey sync_token fmempty\<rparr>)) []"

definition sample_pod :: pod_info where
  "sample_pod = \<lparr>pi_Name = ''pg-0'', pi_Namespace = ''db'', pi_Annotations = fmupd ConfigChecksumAnnotation ''c1'' fmempty,
     pi_Phase = ''Running'', pi_Conditions = [(''Ready'', ''True'')], pi_PodIP = ''10.0.0.9''\<rparr>"

definition wire_net :: "pod sidecar_net" where
  "wire_net = \<lparr>sn_Pods = (\<lambda>s ns sel. Inr [sample_pod]), sn_CAUsable = (\<lambda>_. True),
     sn_Post = (\<lambda>s url ca name auth body.
       case handle_sync wire_lib wire_host sample_options sync_token
              (sample_request\<lparr>rq_Header := Header_Set (\<lambda>_. []) ''Authorization'' auth\<rparr>) body s of
         (status, s') \<Rightarrow> (Some status, s'))\<rparr>"

definition sample_deployment :: Deployment where
  "sample_deployment = bare_deployment (new_meta ''pg-pgconsole'' ''db'' fmempty) (fmupd ConfigChecksumAnnotation ''c1'' fmempty)"

lemma server_json_inj: "server_json x = server_json y \<Longrightarrow> x = y"
  by (simp add: server_json_def)

lemma servers_json_one: "servers_json xs = servers_json (Some [x]) \<Longrightarrow> xs = Some [x]"
  by (auto simp: servers_json_def dest: server_json_inj split: option.splits)

lemma wire_delivers: "delivers wire_lib wire_net wire_host sample_options sync_token"
  unfolding delivers_def
proof (intro conjI allI impI)
  fix s :: pod and url ca name auth body status s'
  assume "sn_Post wire_net s url ca name auth body = (Some status, s')"
  then have "handle_sync wire_lib wire_host sample_options sync_token
      (sample_request\<lparr>rq_Header := Header_Set (\<lambda>_. []) ''Authorization'' auth\<rparr>) body s = (status, s')"
    by (simp add: wire_net_def split: prod.splits)
  then show "\<exists>r. Header_Get (rq_Header r) ''Authorization'' = auth
      \<and> handle_sync wire_lib wire_host sample_options sync_token r body s = (status, s')"
    by (intro exI[of _ "sample_request\<lparr>rq_Header := Header_Set (\<lambda>_. []) ''Authorization'' auth\<rparr>"])
      (simp add: Header_Get_def Header_Set_def)
next
  fix xs ys
  assume "ho_Decode wire_host (take max_body (json_text wire_lib (JObj [(''servers'', servers_json xs)]))) = Some ys"
  then show "ys = xs"
    by (auto simp: wire_host_def mem_host_def wire_lib_def max_body_def sync_body_def dest: servers_json_one split: if_splits)
qed

lemma wire_sync:
  "\<exists>s'. Sync wire_lib wire_net token_secrets
     \<lparr>ar_Namespace = ''db'', ar_ConsoleName = ''pg'', ar_Selector = sel, ar_Checksum = ''c1'', ar_Servers = Some [app_server]\<rparr> s
     = (None, s')"
proof -
  have ready: "selectReadyPod [sample_pod] ''c1'' = Some sample_pod"
    by (simp add: selectReadyPod_def podReady_def sample_pod_def)
  have "TrimSpace sync_token = sync_token"
    by (rule TrimSpace_plain) (simp_all add: sync_token_def is_ascii_def list_all_iff IsSpace_def byte_def)
  moreover have "TrimPrefix (''Bearer '' @ sync_token) ''Bearer '' = sync_token" by (simp add: TrimPrefix_def)
  moreover obtain s' where "apply_sync wire_lib wire_host sample_options (Some [app_server]) s = (Inr (), s')"
    unfolding wire_host_def using jane_synced by blast
  ultimately show ?thesis
    by (simp add: Sync_def readyPod_def wire_net_def ready token_secrets_def handle_sync_def Header_Get_def Header_Set_def
        wire_lib_def max_body_def flip: sync_body_def)
      (simp add: sample_pod_def wire_host_def mem_host_def)
qed


end
