(* ===== verification/Evidence.thy ===== *)
theory Evidence
  imports Admin_Sync
begin

text \<open>
  The evidence sidecar: what a console may learn about its cluster's object store
  (\<open>internal/controller/pgconsole/evidence.go\<close>, \<open>evidence_compose.go\<close>,
  \<open>internal/evidence/evidence.go\<close>). The shared fingerprint of the viewer's module, the decoding
  of an unstructured ObjectStore and Go's quoting are parameters.
\<close>

section \<open>Destinations\<close>

record Destination =
  de_Bucket :: string
  de_Prefix :: string

record S3FingerprintInput =
  fi_Endpoint :: string
  fi_Region :: string
  fi_Bucket :: string
  fi_Prefix :: string
  fi_Format :: string
  fi_ScopeKind :: string
  fi_ScopeName :: string

definition ParseDestination :: "(string \<Rightarrow> string) \<Rightarrow> string \<Rightarrow> (string, Destination) result" where
  "ParseDestination Quote destinationPath =
     (case CutPrefix destinationPath ''s3://'' of
        None \<Rightarrow> Inl (''destination '' @ Quote destinationPath @ '' is not an s3:// path'')
      | Some remainder \<Rightarrow>
          (let (bucket, prefix, _) = Cut remainder CHR ''/'' in
           if bucket = [] then Inl (''destination '' @ Quote destinationPath @ '' names no bucket'')
           else Inr \<lparr>de_Bucket = bucket, de_Prefix = prefix\<rparr>))"

definition Fingerprint ::
  "(S3FingerprintInput \<Rightarrow> (string, string) result) \<Rightarrow> Destination \<Rightarrow> string \<Rightarrow> string \<Rightarrow> (string, string) result" where
  "Fingerprint FingerprintS3 destination endpointURL serverName =
     FingerprintS3 \<lparr>fi_Endpoint = endpointURL, fi_Region = [], fi_Bucket = de_Bucket destination,
       fi_Prefix = de_Prefix destination, fi_Format = ''barman-cloud'', fi_ScopeKind = ''barman-server'',
       fi_ScopeName = serverName\<rparr>"

section \<open>From the ObjectStore to the composition\<close>

definition barmanPluginName :: string where "barmanPluginName = ''barman-cloud.cloudnative-pg.io''"
definition barmanObjectParameter :: string where "barmanObjectParameter = ''barmanObjectName''"

record secretKeyRef =
  kr_Name :: string
  kr_Key :: string

record S3Credentials =
  s3_AccessKeyIDReference :: "secretKeyRef option"
  s3_SecretAccessKeyReference :: "secretKeyRef option"
  s3_SessionToken :: "secretKeyRef option"
  s3_InheritFromIAMRole :: bool

record BarmanConfiguration =
  bm_AWS :: "S3Credentials option"
  bm_Azure :: bool
  bm_Google :: bool
  bm_DestinationPath :: string
  bm_EndpointURL :: string
  bm_EndpointCA :: "secretKeyRef option"
  bm_ServerName :: string

record evidenceComposition =
  ec_ObjectStoreName :: string
  ec_ClusterUID :: string
  ec_ServerName :: string
  ec_DestinationPath :: string
  ec_Destination :: Destination
  ec_EndpointURL :: string
  ec_EndpointCA :: "secretKeyRef option"
  ec_AccessKeyID :: secretKeyRef
  ec_SecretAccessKey :: secretKeyRef
  ec_SessionToken :: "secretKeyRef option"
  ec_Fingerprint :: string

record evidenceUnavailable =
  eu_reason :: string
  eu_message :: string

text \<open>What the sidecar's resolution reads: an ObjectStore is its raw \<open>spec.configuration\<close>, absent or not.\<close>

record ('s, 'raw) evidence_env =
  ee_clusters :: "('s, cluster) client"
  ee_stores :: "('s, 'raw option) client"
  ee_decode :: "'raw \<Rightarrow> BarmanConfiguration option"
  ee_FingerprintS3 :: "S3FingerprintInput \<Rightarrow> (string, string) result"
  ee_Quote :: "string \<Rightarrow> string"
  ee_Available :: bool
  ee_DefaultViewer :: string

abbreviation con_cluster :: "PgConsole \<Rightarrow> string" where
  "con_cluster console \<equiv> lor_Name (sp_CNPGClusterRef (con_Spec console))"

definition evidenceEnabled :: "PgConsole \<Rightarrow> bool" where
  "evidenceEnabled console = (ev_Enabled (sp_Evidence (con_Spec console)) = Some True)"

fun barman_stanza :: "PluginConfiguration list \<Rightarrow> string" where
  "barman_stanza [] = []"
| "barman_stanza (plugin # plugins) =
     (if pg_Name plugin \<noteq> barmanPluginName then barman_stanza plugins
      else if pg_Enabled plugin = Some False then []
      else at (pg_Parameters plugin) barmanObjectParameter)"

definition barmanObjectStoreName :: "cluster \<Rightarrow> string" where
  "barmanObjectStoreName cl = barman_stanza (cl_Plugins cl)"

definition unsupported :: "string \<Rightarrow> string \<Rightarrow> evidenceUnavailable" where
  "unsupported name why = \<lparr>eu_reason = ReasonUnsupportedCredentialMode, eu_message = ''ObjectStore '' @ name @ why\<rparr>"

definition static_keys :: "string \<Rightarrow> BarmanConfiguration \<Rightarrow> (evidenceUnavailable, S3Credentials \<times> secretKeyRef \<times> secretKeyRef) result" where
  "static_keys name configuration =
     (if bm_Azure configuration \<or> bm_Google configuration
      then Inl (unsupported name '' uses a non-S3 provider; the initial evidence profile is s3 only'')
      else case bm_AWS configuration of
        None \<Rightarrow> Inl (unsupported name '' declares no s3Credentials'')
      | Some aws \<Rightarrow>
          (if s3_InheritFromIAMRole aws
           then Inl (unsupported name '' inherits IAM credentials; the static-files profile needs explicit keys'')
           else case (s3_AccessKeyIDReference aws, s3_SecretAccessKeyReference aws) of
             (Some key, Some secret) \<Rightarrow> Inr (aws, key, secret)
           | _ \<Rightarrow> Inl (unsupported name '' names no static access key pair'')))"

definition composeFromConfiguration ::
  "('s, 'raw) evidence_env \<Rightarrow> cluster \<Rightarrow> string \<Rightarrow> BarmanConfiguration \<Rightarrow> (evidenceUnavailable, evidenceComposition) result" where
  "composeFromConfiguration E cl objectStoreName configuration =
     bind_result (static_keys objectStoreName configuration) (\<lambda>(aws, key, secret).
     case ParseDestination (ee_Quote E) (bm_DestinationPath configuration) of
       Inl err \<Rightarrow> Inl (unsupported objectStoreName ('': '' @ err))
     | Inr destination \<Rightarrow>
         (let serverName = (if bm_ServerName configuration = [] then cl_Name cl else bm_ServerName configuration) in
          case Fingerprint (ee_FingerprintS3 E) destination (bm_EndpointURL configuration) serverName of
            Inl err \<Rightarrow> Inl (unsupported objectStoreName ('': destination rejected by the shared canonicalization: '' @ err))
          | Inr fingerprint \<Rightarrow>
              Inr \<lparr>ec_ObjectStoreName = objectStoreName, ec_ClusterUID = cl_UID cl, ec_ServerName = serverName,
                   ec_DestinationPath = bm_DestinationPath configuration, ec_Destination = destination,
                   ec_EndpointURL = bm_EndpointURL configuration, ec_EndpointCA = bm_EndpointCA configuration,
                   ec_AccessKeyID = key, ec_SecretAccessKey = secret, ec_SessionToken = s3_SessionToken aws,
                   ec_Fingerprint = fingerprint\<rparr>))"

text \<open>
  An outcome of the resolution: a composition, a reason why there is none, or an error.
  Reading the ObjectStore distinguishes an absent object from an unreadable one.
\<close>

type_synonym resolved = "(evidenceUnavailable, evidenceComposition) result reconciled"

definition no_store :: "string \<Rightarrow> resolved" where
  "no_store message = Inr (Inl \<lparr>eu_reason = ReasonObjectStoreNotFound, eu_message = message\<rparr>)"

definition readObjectStoreConfiguration ::
  "('s, 'raw) evidence_env \<Rightarrow> 's \<Rightarrow> string \<Rightarrow> string \<Rightarrow> BarmanConfiguration option reconciled" where
  "readObjectStoreConfiguration E s namespace name =
     (case api_Live (ee_stores E) s (namespace, name) of
        Inl NotFound \<Rightarrow> Inr None
      | Inl e \<Rightarrow> Inl (FailedApi ''get ObjectStore'' e)
      | Inr None \<Rightarrow> Inl (Failed (''ObjectStore '' @ namespace @ ''/'' @ name @ '' carries no spec.configuration''))
      | Inr (Some raw) \<Rightarrow>
          (case ee_decode E raw of
             None \<Rightarrow> Inl (Failed (''decode ObjectStore '' @ namespace @ ''/'' @ name @ '' configuration''))
           | Some configuration \<Rightarrow> Inr (Some configuration)))"

definition resolveEvidence :: "('s, 'raw) evidence_env \<Rightarrow> PgConsole \<Rightarrow> 's \<Rightarrow> resolved" where
  "resolveEvidence E console s =
     (if \<not> evidenceEnabled console
      then Inr (Inl \<lparr>eu_reason = ReasonEvidenceDisabled, eu_message = ''evidence sidecar is disabled by spec.evidence.enabled''\<rparr>)
      else case api_Live (ee_clusters E) s (con_Namespace console, con_cluster console) of
        Inl NotFound \<Rightarrow> no_store (''target cluster '' @ con_cluster console @ '' was not found'')
      | Inl e \<Rightarrow> Inl (FailedApi (''read target cluster '' @ con_cluster console) e)
      | Inr cl \<Rightarrow>
          (let name = barmanObjectStoreName cl in
           if name = [] then no_store (''cluster '' @ cl_Name cl @ '' declares no Barman Cloud Plugin object store'')
           else if \<not> ee_Available E
           then no_store ''the barmancloud.cnpg.io ObjectStore API is not served on this cluster''
           else case readObjectStoreConfiguration E s (con_Namespace console) name of
             Inl e \<Rightarrow> Inl e
           | Inr None \<Rightarrow> no_store (''ObjectStore '' @ name @ '' referenced by cluster '' @ cl_Name cl @ '' was not found'')
           | Inr (Some configuration) \<Rightarrow> Inr (composeFromConfiguration E cl name configuration)))"

definition viewerImage :: "('s, 'raw) evidence_env \<Rightarrow> PgConsole \<Rightarrow> string" where
  "viewerImage E console =
     (case ev_Image (sp_Evidence (con_Spec console)) of None \<Rightarrow> ee_DefaultViewer E | Some i \<Rightarrow> imageReference i)"

definition image_required :: "PgConsole \<Rightarrow> evidenceComposition \<Rightarrow> evidenceUnavailable" where
  "image_required console composition =
     \<lparr>eu_reason = ReasonImageRequired,
      eu_message = ''cluster '' @ con_cluster console @ '' archives to ObjectStore '' @ ec_ObjectStoreName composition
        @ '', but no viewer image is configured (spec.evidence.image or --default-objectstoreviewer-image)''\<rparr>"

definition need_image :: "('s, 'raw) evidence_env \<Rightarrow> PgConsole \<Rightarrow> (evidenceUnavailable, evidenceComposition) result
   \<Rightarrow> (evidenceUnavailable, evidenceComposition) result" where
  "need_image E console r =
     bind_result r (\<lambda>c. if viewerImage E console = [] then Inl (image_required console c) else Inr c)"

definition with_evidence :: "EvidenceStatus \<Rightarrow> PgConsole \<Rightarrow> PgConsole" where
  "with_evidence e console = console\<lparr>con_Status := (con_Status console)\<lparr>ct_Evidence := e\<rparr>\<rparr>"

definition evidence_condition :: "kube \<Rightarrow> condition_status \<Rightarrow> string \<Rightarrow> string \<Rightarrow> PgConsole \<Rightarrow> PgConsole reconciled" where
  "evidence_condition K st reason message console =
     mark K console_conditions console PgConsoleConditionRepositoryEvidenceReady st reason message"

definition no_evidence :: EvidenceStatus where
  "no_evidence = \<lparr>es_Enabled = False, es_TokenSecretName = []\<rparr>"

text \<open>The result carries the composition with the token's Secret, or nothing, and the console with its status.\<close>

definition reconcileEvidence ::
  "golib \<Rightarrow> kube \<Rightarrow> ('s, Secret) client \<Rightarrow> ('s, Deployment) client \<Rightarrow> ('s, PgConsole) client \<Rightarrow> string option
   \<Rightarrow> ('s, 'raw) evidence_env \<Rightarrow> PgConsole \<Rightarrow> 's \<Rightarrow> ((evidenceComposition \<times> string) option \<times> PgConsole) reconciled \<times> 's" where
  "reconcileEvidence G K secrets deployments consoles rnd E console s =
     (case resolveEvidence E console s of
        Inl e \<Rightarrow> (Inl e, s)
      | Inr r \<Rightarrow>
          (case need_image E console r of
             Inl whyNot \<Rightarrow>
               (bind_result (evidence_condition K ConditionFalse (eu_reason whyNot) (eu_message whyNot)
                               (with_evidence no_evidence console)) (\<lambda>c. Inr (None, c)), s)
           | Inr composition \<Rightarrow>
               and_then (reconcileEvidenceToken G K secrets deployments consoles rnd console) (\<lambda>(tokenSecretName, console').
                 lift_result (bind_result
                   (evidence_condition K ConditionTrue ReasonAsExpected
                      (''evidence sidecar composed for ObjectStore '' @ ec_ObjectStoreName composition
                        @ '', server '' @ ec_ServerName composition)
                      (with_evidence \<lparr>es_Enabled = True, es_TokenSecretName = tokenSecretName\<rparr> console'))
                   (\<lambda>c. Inr (Some (composition, tokenSecretName), c)))) s))"

section \<open>The composed pod\<close>

definition evidenceSocketURL :: string where "evidenceSocketURL = ''unix:///var/run/objectstoreviewer/evidence.sock''"
definition evidenceSocketDirectory :: string where "evidenceSocketDirectory = ''/var/run/objectstoreviewer''"
definition evidenceTokenFilePath :: string where "evidenceTokenFilePath = ''/run/secrets/pgtoolbox/evidence-token''"
definition storeCredentialDirectory :: string where "storeCredentialDirectory = ''/run/secrets/pgtoolbox/store''"
definition storeAccessKeyFile :: string where "storeAccessKeyFile = ''access-key-id''"
definition storeSecretKeyFile :: string where "storeSecretKeyFile = ''secret-access-key''"
definition storeSessionTokenFile :: string where "storeSessionTokenFile = ''session-token''"
definition endpointCADirectory :: string where "endpointCADirectory = ''/run/secrets/pgtoolbox/endpoint-ca''"
definition endpointCAFile :: string where "endpointCAFile = ''ca.crt''"
definition evidenceSocketVolume :: string where "evidenceSocketVolume = ''evidence-socket''"
definition storeCredentialVolume :: string where "storeCredentialVolume = ''evidence-store-credentials''"
definition endpointCAVolume :: string where "endpointCAVolume = ''evidence-endpoint-ca''"
definition viewerScratchVolume :: string where "viewerScratchVolume = ''viewer-tmp''"

lemmas evidence_volumes = evidenceSocketVolume_def evidenceTokenVolume_def storeCredentialVolume_def
  endpointCAVolume_def viewerScratchVolume_def

definition hardened :: SecurityContext where
  "hardened = \<lparr>sx_AllowPrivilegeEscalation = False, sx_ReadOnlyRootFilesystem = Some True, sx_Drop = [''ALL'']\<rparr>"

definition mount_at :: "string \<Rightarrow> string \<Rightarrow> bool \<Rightarrow> VolumeMount" where
  "mount_at name path readOnly = \<lparr>vm_Name = name, vm_MountPath = path, vm_SubPath = [], vm_ReadOnly = readOnly\<rparr>"

definition probe_of :: "probe_handler \<Rightarrow> Probe" where
  "probe_of h = \<lparr>pb_Handler = h, pb_InitialDelaySeconds = 0, pb_PeriodSeconds = 0\<rparr>"

definition socketMount :: VolumeMount where
  "socketMount = mount_at evidenceSocketVolume evidenceSocketDirectory False"

definition tokenMount :: VolumeMount where
  "tokenMount = (mount_at evidenceTokenVolume evidenceTokenFilePath True)\<lparr>vm_SubPath := evidenceTokenKey\<rparr>"

definition key_projection :: "secretKeyRef \<Rightarrow> string \<Rightarrow> projection" where
  "key_projection ref path = SecretProjection (kr_Name ref) [(kr_Key ref, path)]"

definition credentialProjections :: "evidenceComposition \<Rightarrow> projection list" where
  "credentialProjections composition =
     [key_projection (ec_AccessKeyID composition) storeAccessKeyFile,
      key_projection (ec_SecretAccessKey composition) storeSecretKeyFile]
     @ (case ec_SessionToken composition of None \<Rightarrow> [] | Some ref \<Rightarrow> [key_projection ref storeSessionTokenFile])"

definition secret_volume :: "string \<Rightarrow> string \<Rightarrow> int \<Rightarrow> key_path list \<Rightarrow> volume" where
  "secret_volume name secret mode items =
     \<lparr>vo_Name = name, vo_Source = SecretVolume \<lparr>vs_SecretName = secret, vs_DefaultMode = mode, vs_Items = items\<rparr>\<rparr>"

definition empty_volume :: "string \<Rightarrow> volume" where
  "empty_volume name = \<lparr>vo_Name = name, vo_Source = EmptyDir\<rparr>"

text \<open>File modes are octal in the source: 0o440 is 288 and 0o444 is 292.\<close>

definition mode0440 :: int where "mode0440 = 288"
definition mode0444 :: int where "mode0444 = 292"

definition viewerContainer :: "PgConsole \<Rightarrow> string \<Rightarrow> evidenceComposition \<Rightarrow> Container" where
  "viewerContainer console viewer composition =
     \<lparr>cn_Name = ''objectstoreviewer'', cn_Image = viewer,
      cn_ImagePullPolicy = imagePullPolicy (ev_Image (sp_Evidence (con_Spec console))),
      cn_Command = [], cn_Args = [],
      cn_Env =
        [(''RUNTIME_MODE'', ''pgconsole-sidecar''), (''EVIDENCE_TOKEN_FILE'', evidenceTokenFilePath),
         (''CNPG_CLUSTER_NAMESPACE'', con_Namespace console), (''CNPG_CLUSTER_UID'', ec_ClusterUID composition),
         (''CNPG_CLUSTER_NAME'', con_cluster console), (''REPOSITORY_FORMAT'', ''barman-cloud''),
         (''PROVIDER'', ''s3''), (''DESTINATION_PATH'', ec_DestinationPath composition)]
        @ (if ec_EndpointURL composition \<noteq> [] then [(''ENDPOINT_URL'', ec_EndpointURL composition)] else [])
        @ (if ec_EndpointCA composition \<noteq> None
           then [(''ENDPOINT_CA_FILE'', endpointCADirectory @ ''/'' @ endpointCAFile)] else [])
        @ [(''BARMAN_SERVER_NAMES'', ec_ServerName composition), (''STORE_CREDENTIAL_MODE'', ''static-files''),
           (''AWS_ACCESS_KEY_ID_FILE'', storeCredentialDirectory @ ''/'' @ storeAccessKeyFile),
           (''AWS_SECRET_ACCESS_KEY_FILE'', storeCredentialDirectory @ ''/'' @ storeSecretKeyFile)]
        @ (if ec_SessionToken composition \<noteq> None
           then [(''AWS_SESSION_TOKEN_FILE'', storeCredentialDirectory @ ''/'' @ storeSessionTokenFile)] else []),
      cn_Ports = [], cn_LivenessProbe = Some (probe_of (ExecProbe [''/objectstoreviewer'', ''probe''])),
      cn_ReadinessProbe = None,
      cn_Resources = containerResources (ev_Resources (sp_Evidence (con_Spec console))),
      cn_SecurityContext = hardened,
      cn_VolumeMounts =
        [socketMount, tokenMount, mount_at viewerScratchVolume ''/tmp'' False,
         mount_at storeCredentialVolume storeCredentialDirectory True]
        @ (if ec_EndpointCA composition \<noteq> None then [mount_at endpointCAVolume endpointCADirectory True] else [])\<rparr>"

definition evidence_volume_list :: "evidenceComposition \<Rightarrow> string \<Rightarrow> volume list" where
  "evidence_volume_list composition tokenSecretName =
     [empty_volume evidenceSocketVolume,
      secret_volume evidenceTokenVolume tokenSecretName mode0440 [(evidenceTokenKey, evidenceTokenKey)],
      empty_volume viewerScratchVolume,
      \<lparr>vo_Name = storeCredentialVolume, vo_Source = ProjectedVolume mode0440 (credentialProjections composition)\<rparr>]
     @ (case ec_EndpointCA composition of None \<Rightarrow> []
        | Some ca \<Rightarrow> [secret_volume endpointCAVolume (kr_Name ca) mode0444 [(kr_Key ca, endpointCAFile)]])"

text \<open>\<open>findContainer\<close> returns a pointer into the list, so the update is in place on the first match.\<close>

fun update_container :: "string \<Rightarrow> (Container \<Rightarrow> Container) \<Rightarrow> Container list \<Rightarrow> Container list option" where
  "update_container name f [] = None"
| "update_container name f (c # cs) =
     (if cn_Name c = name then Some (f c # cs) else map_option ((#) c) (update_container name f cs))"

definition consume_evidence :: "evidenceComposition \<Rightarrow> Container \<Rightarrow> Container" where
  "consume_evidence composition c =
     c\<lparr>cn_Env := cn_Env c @ [(''REPOSITORY_EVIDENCE_URL'', evidenceSocketURL),
           (''REPOSITORY_EVIDENCE_TOKEN_FILE'', evidenceTokenFilePath),
           (''REPOSITORY_EXPECTED_FINGERPRINT'', ec_Fingerprint composition),
           (''REPOSITORY_BARMAN_SERVER'', ec_ServerName composition)],
       cn_VolumeMounts := cn_VolumeMounts c @ [socketMount, tokenMount]\<rparr>"

definition composeEvidence :: "PgConsole \<Rightarrow> string \<Rightarrow> evidenceComposition \<Rightarrow> string \<Rightarrow> PodSpec \<Rightarrow> PodSpec" where
  "composeEvidence console viewer composition tokenSecretName template =
     (let with_volumes = template\<lparr>pd_Volumes := pd_Volumes template @ evidence_volume_list composition tokenSecretName\<rparr> in
      case update_container ''pgconsole'' (consume_evidence composition) (pd_Containers template) of
        None \<Rightarrow> with_volumes
      | Some cs \<Rightarrow> with_volumes\<lparr>pd_Containers := cs @ [viewerContainer console viewer composition]\<rparr>)"

section \<open>Resolution, taken apart\<close>

lemma ParseDestination_Inr:
  "ParseDestination Q path = Inr d \<longleftrightarrow>
     de_Bucket d \<noteq> [] \<and> CHR ''/'' \<notin> set (de_Bucket d)
     \<and> (path = ''s3://'' @ de_Bucket d @ ''/'' @ de_Prefix d \<or> de_Prefix d = [] \<and> path = ''s3://'' @ de_Bucket d)"
  (is "?l \<longleftrightarrow> ?r")
proof
  assume ?l
  then obtain rest where rest: "CutPrefix path ''s3://'' = Some rest"
    by (auto simp: ParseDestination_def split: option.splits)
  then have path: "path = ''s3://'' @ rest" by (auto simp: CutPrefix_def prefix_def split: if_splits)
  from \<open>?l\<close> rest have d: "de_Bucket d = takeWhile (\<lambda>c. c \<noteq> CHR ''/'') rest"
    "de_Prefix d = drop 1 (dropWhile (\<lambda>c. c \<noteq> CHR ''/'') rest)" "de_Bucket d \<noteq> []"
    by (auto simp: ParseDestination_def Cut_def Let_def split: if_splits)
  have slash: "CHR ''/'' \<notin> set (de_Bucket d)" using set_takeWhileD[of "CHR ''/''" "\<lambda>c. c \<noteq> CHR ''/''" rest] unfolding d(1) by blast
  show ?r
  proof (cases "dropWhile (\<lambda>c. c \<noteq> CHR ''/'') rest")
    case Nil
    have "de_Bucket d = rest" "de_Prefix d = []"
      using takeWhile_dropWhile_id[of "\<lambda>c. c \<noteq> CHR ''/''" rest] unfolding d(1,2) Nil by simp_all
    with d(3) slash path show ?thesis by simp
  next
    case (Cons c cs)
    have "c = CHR ''/''" using hd_dropWhile[of "\<lambda>c. c \<noteq> CHR ''/''" rest] by (simp add: Cons)
    then have "rest = de_Bucket d @ ''/'' @ de_Prefix d"
      using Cons takeWhile_dropWhile_id[of "\<lambda>c. c \<noteq> CHR ''/''" rest] by (simp add: d(1,2))
    with d(3) slash path show ?thesis by simp
  qed
next
  assume ?r
  moreover have "Cut (de_Bucket d) CHR ''/'' = (de_Bucket d, [], False)" if "CHR ''/'' \<notin> set (de_Bucket d)"
  proof -
    have "\<forall>x\<in>set (de_Bucket d). x \<noteq> CHR ''/''" using that by auto
    then have "dropWhile (\<lambda>x. x \<noteq> CHR ''/'') (de_Bucket d) = []" "takeWhile (\<lambda>x. x \<noteq> CHR ''/'') (de_Bucket d) = de_Bucket d"
      by simp_all
    then show ?thesis using that by (simp only: Cut_def drop_Nil simp_thms)
  qed
  ultimately show ?l
    using Cut_append[of "CHR ''/''" "de_Bucket d" "de_Prefix d"] CutPrefix_append[of "''s3://''"]
    by (auto simp: ParseDestination_def Let_def)
qed

lemma static_keys_Inr:
  "static_keys name cfg = Inr (aws, key, secret) \<longleftrightarrow>
     \<not> bm_Azure cfg \<and> \<not> bm_Google cfg \<and> bm_AWS cfg = Some aws \<and> \<not> s3_InheritFromIAMRole aws
     \<and> s3_AccessKeyIDReference aws = Some key \<and> s3_SecretAccessKeyReference aws = Some secret"
  by (auto simp: static_keys_def split: option.splits)

text \<open>The profile the evidence sidecar supports, and the composition it then gets.\<close>

definition supported ::
  "('s, 'raw) evidence_env \<Rightarrow> cluster \<Rightarrow> BarmanConfiguration \<Rightarrow> evidenceComposition \<Rightarrow> bool" where
  "supported E cl cfg e \<longleftrightarrow>
     \<not> bm_Azure cfg \<and> \<not> bm_Google cfg
   \<and> (\<exists>aws. bm_AWS cfg = Some aws \<and> \<not> s3_InheritFromIAMRole aws
        \<and> s3_AccessKeyIDReference aws = Some (ec_AccessKeyID e) \<and> s3_SecretAccessKeyReference aws = Some (ec_SecretAccessKey e)
        \<and> ec_SessionToken e = s3_SessionToken aws)
   \<and> ParseDestination (ee_Quote E) (bm_DestinationPath cfg) = Inr (ec_Destination e)
   \<and> Fingerprint (ee_FingerprintS3 E) (ec_Destination e) (bm_EndpointURL cfg) (ec_ServerName e) = Inr (ec_Fingerprint e)
   \<and> ec_ServerName e = (if bm_ServerName cfg = [] then cl_Name cl else bm_ServerName cfg)
   \<and> ec_ObjectStoreName e = barmanObjectStoreName cl \<and> ec_ClusterUID e = cl_UID cl
   \<and> ec_DestinationPath e = bm_DestinationPath cfg \<and> ec_EndpointURL e = bm_EndpointURL cfg \<and> ec_EndpointCA e = bm_EndpointCA cfg"

lemma composeFromConfiguration_Inr:
  "composeFromConfiguration E cl (barmanObjectStoreName cl) cfg = Inr e \<longleftrightarrow> supported E cl cfg e"
proof (cases "static_keys (barmanObjectStoreName cl) cfg")
  case (Inl x)
  then have "\<nexists>aws key secret. static_keys (barmanObjectStoreName cl) cfg = Inr (aws, key, secret)" by simp
  with Inl show ?thesis unfolding static_keys_Inr by (auto simp: composeFromConfiguration_def supported_def)
next
  case (Inr k)
  obtain aws key secret where k: "k = (aws, key, secret)" by (cases k)
  note keys = Inr[unfolded k static_keys_Inr]
  let ?parse = "ParseDestination (ee_Quote E) (bm_DestinationPath cfg)"
  let ?server = "if bm_ServerName cfg = [] then cl_Name cl else bm_ServerName cfg"
  show ?thesis
  proof (cases ?parse)
    case (Inl x)
    with Inr k show ?thesis by (simp add: composeFromConfiguration_def supported_def)
  next
    case dest: (Inr dest)
    show ?thesis
    proof (cases "Fingerprint (ee_FingerprintS3 E) dest (bm_EndpointURL cfg) ?server")
      case (Inl x)
      with Inr k dest show ?thesis
        by (simp add: composeFromConfiguration_def supported_def Let_def del: if_split) (metis Inl_Inr_False)
    next
      case fp: (Inr fp)
      with Inr k dest keys show ?thesis
        by (cases e) (auto simp: composeFromConfiguration_def supported_def Let_def simp del: if_split)
    qed
  qed
qed

lemma resolveEvidence_Inr:
  assumes "resolveEvidence E console s = Inr (Inr e)"
  obtains cl raw cfg where "evidenceEnabled console" "ee_Available E"
    "api_Live (ee_clusters E) s (con_Namespace console, con_cluster console) = Inr cl"
    "api_Live (ee_stores E) s (con_Namespace console, ec_ObjectStoreName e) = Inr (Some raw)"
    "ee_decode E raw = Some cfg" "supported E cl cfg e"
proof -
  from assms have en: "evidenceEnabled console" by (auto simp: resolveEvidence_def split: if_splits)
  from assms en obtain cl where cl: "api_Live (ee_clusters E) s (con_Namespace console, con_cluster console) = Inr cl"
    by (auto simp: resolveEvidence_def no_store_def split: sum.splits api_error.splits)
  let ?n = "barmanObjectStoreName cl"
  from assms en cl have av: "ee_Available E" and n: "?n \<noteq> []"
    by (auto simp: resolveEvidence_def no_store_def Let_def split: if_splits)
  from assms en cl av n obtain cfg where cfg: "readObjectStoreConfiguration E s (con_Namespace console) ?n = Inr (Some cfg)"
    "composeFromConfiguration E cl ?n cfg = Inr e"
    by (auto simp: resolveEvidence_def no_store_def Let_def split: sum.splits option.splits)
  then have sup: "supported E cl cfg e" by (simp add: composeFromConfiguration_Inr)
  moreover from sup have "?n = ec_ObjectStoreName e" by (simp add: supported_def)
  moreover from cfg(1) obtain raw where "api_Live (ee_stores E) s (con_Namespace console, ?n) = Inr (Some raw)"
    "ee_decode E raw = Some cfg"
    by (auto simp: readObjectStoreConfiguration_def split: sum.splits api_error.splits option.splits)
  ultimately show thesis using that en av cl by metis
qed

lemma mark_console_frame:
  assumes "mark K console_conditions x t st reason m = Inr y"
  shows "con_Meta y = con_Meta x \<and> con_Spec y = con_Spec x \<and> ct_Evidence (con_Status y) = ct_Evidence (con_Status x)
    \<and> ct_URL (con_Status y) = ct_URL (con_Status x)"
  using assms by (auto simp: mark_def console_conditions_def)

lemma resolveEvidence_reasons:
  assumes "resolveEvidence E console s = Inr (Inl why)"
  shows "eu_reason why \<in> {ReasonEvidenceDisabled, ReasonObjectStoreNotFound, ReasonUnsupportedCredentialMode}"
proof -
  have compose: "eu_reason w = ReasonUnsupportedCredentialMode"
    if "composeFromConfiguration E cl name cfg = Inl w" for cl name cfg w
  proof (cases "static_keys name cfg")
    case (Inl x)
    with that show ?thesis by (auto simp: composeFromConfiguration_def static_keys_def unsupported_def split: if_splits option.splits)
  next
    case (Inr k)
    with that show ?thesis
      by (auto simp: composeFromConfiguration_def unsupported_def Let_def simp del: if_split split: prod.splits sum.splits)
  qed
  show ?thesis
    using assms compose
    by (auto simp: resolveEvidence_def no_store_def Let_def split: if_splits sum.splits api_error.splits option.splits)
qed

section \<open>Properties\<close>

text \<open>
  C29: evidence is reported ready exactly when it is composed, and only for what the cluster
  itself declares. A successful pass that returns a composition has read the target Cluster
  and the ObjectStore its Barman plugin names, found the supported profile there (S3, static
  keys, no IAM role, a destination with a bucket, a fingerprint of exactly that destination,
  endpoint and server), has a viewer image, and publishes RepositoryEvidenceReady True with
  the token's Secret. A pass that returns none changes nothing in the cluster, withdraws the
  evidence from the status and publishes False with one of the four documented reasons.
\<close>

theorem evidence_outcome:
  assumes K: "conditions_ok K"
    and run: "reconcileEvidence G K secrets deployments consoles rnd E console s = (Inr (r, c), s')"
  shows "(\<exists>rc. FindStatusCondition (ct_Conditions (con_Status c)) PgConsoleConditionRepositoryEvidenceReady = Some rc
       \<and> (case r of
            Some (e, token) \<Rightarrow> co_Status rc = ConditionTrue
          | None \<Rightarrow> co_Status rc = ConditionFalse
              \<and> co_Reason rc \<in> {ReasonEvidenceDisabled, ReasonObjectStoreNotFound, ReasonUnsupportedCredentialMode, ReasonImageRequired}))
    \<and> (case r of
         Some (e, token) \<Rightarrow> ct_Evidence (con_Status c) = \<lparr>es_Enabled = True, es_TokenSecretName = token\<rparr>
           \<and> viewerImage E console \<noteq> [] \<and> evidenceEnabled console
           \<and> (\<exists>cl raw cfg. api_Live (ee_clusters E) s (con_Namespace console, con_cluster console) = Inr cl
                 \<and> api_Live (ee_stores E) s (con_Namespace console, ec_ObjectStoreName e) = Inr (Some raw)
                 \<and> ee_decode E raw = Some cfg \<and> supported E cl cfg e)
       | None \<Rightarrow> ct_Evidence (con_Status c) = no_evidence \<and> s' = s)"
proof -
  from run obtain q where q: "resolveEvidence E console s = Inr q"
    by (cases "resolveEvidence E console s") (simp_all add: reconcileEvidence_def)
  show ?thesis
  proof (cases "need_image E console q")
    case (Inl why)
    with run q have r: "r = None" "s' = s" and m: "evidence_condition K ConditionFalse (eu_reason why) (eu_message why) (with_evidence no_evidence console) = Inr c"
      by (auto simp: reconcileEvidence_def)
    have "eu_reason why \<in> {ReasonEvidenceDisabled, ReasonObjectStoreNotFound, ReasonUnsupportedCredentialMode, ReasonImageRequired}"
      using Inl q resolveEvidence_reasons[of E console s] by (cases q) (auto simp: need_image_def image_required_def split: if_splits)
    with r console_cond.mark_published[OF K m[unfolded evidence_condition_def]] mark_console_frame[OF m[unfolded evidence_condition_def]]
    show ?thesis by (auto simp: console_conditions_def with_evidence_def)
  next
    case (Inr e)
    then have e: "q = Inr e" "viewerImage E console \<noteq> []" by (cases q; auto simp: need_image_def split: if_splits)+
    from run q Inr obtain token c0 where r: "r = Some (e, token)"
      and m: "evidence_condition K ConditionTrue ReasonAsExpected (''evidence sidecar composed for ObjectStore '' @ ec_ObjectStoreName e
        @ '', server '' @ ec_ServerName e) (with_evidence \<lparr>es_Enabled = True, es_TokenSecretName = token\<rparr> c0) = Inr c"
      by (auto simp: reconcileEvidence_def elim!: and_then_Inr split: prod.splits)
    have "evidenceEnabled console \<and> (\<exists>cl raw cfg. api_Live (ee_clusters E) s (con_Namespace console, con_cluster console) = Inr cl
        \<and> api_Live (ee_stores E) s (con_Namespace console, ec_ObjectStoreName e) = Inr (Some raw)
        \<and> ee_decode E raw = Some cfg \<and> supported E cl cfg e)"
      using q e(1) by (auto elim!: resolveEvidence_Inr)
    with r e(2) console_cond.mark_published[OF K m[unfolded evidence_condition_def]] mark_console_frame[OF m[unfolded evidence_condition_def]]
    show ?thesis by (auto simp: console_conditions_def with_evidence_def)
  qed
qed

section \<open>Witness\<close>

definition archived_cluster :: cluster where
  "archived_cluster = sample_cluster\<lparr>cl_Plugins :=
     [\<lparr>pg_Name = barmanPluginName, pg_Enabled = None, pg_Parameters = fmupd barmanObjectParameter ''store'' fmempty\<rparr>]\<rparr>"

definition archive_configuration :: BarmanConfiguration where
  "archive_configuration =
     \<lparr>bm_AWS = Some \<lparr>s3_AccessKeyIDReference = Some \<lparr>kr_Name = ''s3'', kr_Key = ''id''\<rparr>,
        s3_SecretAccessKeyReference = Some \<lparr>kr_Name = ''s3'', kr_Key = ''key''\<rparr>, s3_SessionToken = None,
        s3_InheritFromIAMRole = False\<rparr>,
      bm_Azure = False, bm_Google = False, bm_DestinationPath = ''s3://backups/pg'', bm_EndpointURL = [],
      bm_EndpointCA = None, bm_ServerName = []\<rparr>"

definition archive_env :: "(unit, BarmanConfiguration) evidence_env" where
  "archive_env =
     \<lparr>ee_clusters = fixed_client (\<lambda>_. Inr archived_cluster) [], ee_stores = fixed_client (\<lambda>_. Inr (Some archive_configuration)) [],
      ee_decode = Some, ee_FingerprintS3 = (\<lambda>i. Inr (''sha256:'' @ fi_Bucket i @ fi_Prefix i @ fi_ScopeName i)),
      ee_Quote = (\<lambda>x. x), ee_Available = True, ee_DefaultViewer = ''viewer:1''\<rparr>"

definition archive_composition :: evidenceComposition where
  "archive_composition =
     \<lparr>ec_ObjectStoreName = ''store'', ec_ClusterUID = ''cu1'', ec_ServerName = ''pg'',
      ec_DestinationPath = ''s3://backups/pg'', ec_Destination = \<lparr>de_Bucket = ''backups'', de_Prefix = ''pg''\<rparr>,
      ec_EndpointURL = [], ec_EndpointCA = None, ec_AccessKeyID = \<lparr>kr_Name = ''s3'', kr_Key = ''id''\<rparr>,
      ec_SecretAccessKey = \<lparr>kr_Name = ''s3'', kr_Key = ''key''\<rparr>, ec_SessionToken = None,
      ec_Fingerprint = ''sha256:backupspgpg''\<rparr>"

definition evidence_console :: "string \<Rightarrow> PgConsole" where
  "evidence_console token = (token_console ''pg'' token fmempty)
     \<lparr>con_Spec := sample_spec\<lparr>sp_Evidence := (sp_Evidence sample_spec)\<lparr>ev_Enabled := Some True\<rparr>\<rparr>\<rparr>"

lemma archive_resolved: "resolveEvidence archive_env (evidence_console token) () = Inr (Inr archive_composition)"
proof -
  have name: "barmanObjectStoreName archived_cluster = ''store''"
    by (simp add: barmanObjectStoreName_def archived_cluster_def)
  have "ParseDestination (\<lambda>x. x) ''s3://backups/pg'' = Inr \<lparr>de_Bucket = ''backups'', de_Prefix = ''pg''\<rparr>"
    unfolding ParseDestination_Inr by simp
  then have "supported archive_env archived_cluster archive_configuration archive_composition"
    by (simp add: supported_def archive_env_def archive_configuration_def archive_composition_def name Fingerprint_def)
       (simp add: archived_cluster_def sample_cluster_def)
  then show ?thesis
    unfolding composeFromConfiguration_Inr[symmetric] name
    by (simp add: resolveEvidence_def evidenceEnabled_def evidence_console_def name Let_def readObjectStoreConfiguration_def)
       (simp add: archive_env_def name readObjectStoreConfiguration_def)
qed

theorem evidence_outcome_witness:
  "\<exists>c token. fst (reconcileEvidence (sample_lib JNull) sample_kube (fixed_client (\<lambda>_. Inr (token_secret token)) [])
       (fixed_client (\<lambda>_. Inl NotFound) []) (fixed_client (\<lambda>_. Inl NotFound) []) None archive_env (evidence_console token) ())
     = Inr (Some (archive_composition, token), c)
     \<and> ct_Evidence (con_Status c) = \<lparr>es_Enabled = True, es_TokenSecretName = token\<rparr>"
proof -
  define token where "token = evidenceTokenSecretName (sample_lib JNull) ''pg'' 1"
  let ?c = "evidence_console token"
  have "tokenGeneration token = 1"
    using tokenGeneration_name[of 1 "''pg-pgconsole''"] by (simp add: token_def sample_token_name)
  then have minted: "reconcileEvidenceToken (sample_lib JNull) sample_kube (fixed_client (\<lambda>_. Inr (token_secret token)) [])
     (fixed_client (\<lambda>_. Inl NotFound) []) (fixed_client (\<lambda>_. Inl NotFound) []) None ?c () = (Inr (token, ?c), ())"
    by (simp add: reconcileEvidenceToken_def resolve_token_def Let_def token_def token_secret_def evidence_console_def
        rotation_requested_def deployedTokenGeneration_def token_console_def)
  have "viewerImage archive_env ?c = ''viewer:1''" by (simp add: viewerImage_def archive_env_def evidence_console_def sample_spec_def)
  then have image: "need_image archive_env ?c (Inr archive_composition) = Inr archive_composition" by (simp add: need_image_def)
  define m where "m = ''evidence sidecar composed for ObjectStore '' @ ec_ObjectStoreName archive_composition
      @ '', server '' @ ec_ServerName archive_composition"
  obtain c where "evidence_condition sample_kube ConditionTrue ReasonAsExpected m
      (with_evidence \<lparr>es_Enabled = True, es_TokenSecretName = token\<rparr> ?c) = Inr c"
    by (simp add: evidence_condition_def mark_known)
  then have run: "reconcileEvidence (sample_lib JNull) sample_kube (fixed_client (\<lambda>_. Inr (token_secret token)) [])
       (fixed_client (\<lambda>_. Inl NotFound) []) (fixed_client (\<lambda>_. Inl NotFound) []) None archive_env ?c ()
     = (Inr (Some (archive_composition, token), c), ())"
    using minted image by (simp add: reconcileEvidence_def archive_resolved and_then_def m_def)
  from evidence_outcome[OF sample_kube_conditions run] run show ?thesis by (intro exI[of _ c] exI[of _ token]) simp
qed

end
