(* ===== verification/Workload.thy ===== *)
theory Workload
  imports Evidence
begin

text \<open>
  The workload of a console (\<open>internal/controller/pgconsole/workload.go\<close>): ServiceAccount,
  Service, settings claim and the Deployment with its containers, and how the operator decides
  whether a live object still matches.
\<close>

section \<open>Constants\<close>

definition oauthRedirectAnnotation :: string where
  "oauthRedirectAnnotation = ''serviceaccounts.openshift.io/oauth-redirecturi.pgconsole''"
definition pgAdminSettingsMountPath :: string where "pgAdminSettingsMountPath = ''/var/lib/pgadmin''"
definition pgAdminSettingsSuffix :: string where "pgAdminSettingsSuffix = ''-pgadmin''"
definition defaultPgAdminSettingsSize :: string where "defaultPgAdminSettingsSize = ''1Gi''"
definition proxyConfigVolume :: string where "proxyConfigVolume = ''proxy-config''"
definition oidcClientVolume :: string where "oidcClientVolume = ''oidc-client''"
definition pgAdminSettingsVolume :: string where "pgAdminSettingsVolume = ''pgadmin-settings''"
definition adminSyncBinVolume :: string where "adminSyncBinVolume = ''admin-sync-bin''"
definition adminSyncTLSVolume :: string where "adminSyncTLSVolume = ''admin-sync-tls''"
definition adminSyncPassfileVolume :: string where "adminSyncPassfileVolume = ''admin-sync-passfile''"
definition adminSyncBinMountPath :: string where "adminSyncBinMountPath = ''/run/pgadmin/admin-sync''"
definition adminSyncTLSMountPath :: string where "adminSyncTLSMountPath = ''/run/secrets/pgadmin-sync''"
definition adminSyncPassfileMountPath :: string where "adminSyncPassfileMountPath = ''/run/pgadmin/passfile''"
definition kubeAPIAccessVolume :: string where "kubeAPIAccessVolume = ''kube-api-access''"
definition projectedTokenExpiration :: int where "projectedTokenExpiration = 3600"
definition proxyConfigMountPath :: string where "proxyConfigMountPath = ''/etc/pgtoolbox-proxy''"

definition pgAdminBootstrapSuffix :: string where "pgAdminBootstrapSuffix = ''-pgadmin-bootstrap''"
definition pgAdminBootstrapEmail :: string where "pgAdminBootstrapEmail = ''pgtoolbox@pgtoolbox.fyannk.dev''"
definition pgAdminBootstrapPasswordKey :: string where "pgAdminBootstrapPasswordKey = ''password''"
definition pgAdminBootstrapMountPath :: string where "pgAdminBootstrapMountPath = ''/run/secrets/pgadmin-bootstrap''"
definition pgAdminBootstrapVolume :: string where "pgAdminBootstrapVolume = ''pgadmin-bootstrap''"

definition pgAdminBootstrapSecretName :: "golib \<Rightarrow> string \<Rightarrow> string" where
  "pgAdminBootstrapSecretName G consoleName = ResourceName G application consoleName pgAdminBootstrapSuffix"

lemmas volume_names = evidence_volumes proxyConfigVolume_def oidcClientVolume_def pgAdminSettingsVolume_def
  adminSyncBinVolume_def adminSyncTLSVolume_def adminSyncPassfileVolume_def kubeAPIAccessVolume_def
  pgAdminBootstrapVolume_def

section \<open>Inputs\<close>

record workloadInputs =
  wi_ProxyImage :: string
  wi_ConsoleImage :: string
  wi_PgAdminImage :: string
  wi_ViewerImage :: string
  wi_ConfigChecksum :: string
  wi_AdminSyncSecretVersion :: string
  wi_Composition :: "evidenceComposition option"
  wi_TokenSecretName :: string

section \<open>ServiceAccount, Service and claim\<close>

definition with_owner :: "kube \<Rightarrow> PgConsole \<Rightarrow> ObjectMeta \<Rightarrow> ObjectMeta reconciled" where
  "with_owner K console m = (case SetControllerReference K (con_Meta console) m of Inl e \<Rightarrow> Inl (Failed e) | Inr m' \<Rightarrow> Inr m')"

definition oauth_annotations :: "PgConsole \<Rightarrow> smap" where
  "oauth_annotations console =
     (if au_OpenShift (con_auth console) \<noteq> None \<and> ex_Hostname (sp_Exposure (con_Spec console)) \<noteq> []
      then fmupd oauthRedirectAnnotation (''https://'' @ ex_Hostname (sp_Exposure (con_Spec console))) fmempty
      else fmempty)"

record ServiceAccount =
  sk_Meta :: ObjectMeta

definition serviceAccount :: "golib \<Rightarrow> kube \<Rightarrow> PgConsole \<Rightarrow> ServiceAccount reconciled" where
  "serviceAccount G K console =
     bind_result (with_owner K console ((console_meta G console [])\<lparr>m_Annotations := oauth_annotations console\<rparr>))
       (\<lambda>m. Inr \<lparr>sk_Meta = m\<rparr>)"

record ServicePort =
  sq_Name :: string
  sq_Protocol :: string
  sq_Port :: int
  sq_TargetPort :: int

record Service =
  sw_Meta :: ObjectMeta
  sw_Type :: string
  sw_Selector :: smap
  sw_Ports :: "ServicePort list"

definition service :: "golib \<Rightarrow> kube \<Rightarrow> PgConsole \<Rightarrow> Service reconciled" where
  "service G K console =
     bind_result (owned_meta G K console []) (\<lambda>m.
       Inr \<lparr>sw_Meta = m, sw_Type = ''ClusterIP'', sw_Selector = SelectorLabels application (con_Name console),
            sw_Ports = [\<lparr>sq_Name = ''http'', sq_Protocol = ''TCP'', sq_Port = 80, sq_TargetPort = proxyPort\<rparr>,
                        \<lparr>sq_Name = ''https'', sq_Protocol = ''TCP'', sq_Port = 443, sq_TargetPort = proxyPort\<rparr>]\<rparr>)"

record PersistentVolumeClaim =
  vc_Meta :: ObjectMeta
  vc_AccessModes :: "string list"
  vc_Storage :: string
  vc_StorageClassName :: "string option"

text \<open>\<open>IsZero\<close> of a quantity is a parameter: an absent size and an explicit zero both count.\<close>

definition pgAdminSettingsPVC ::
  "golib \<Rightarrow> kube \<Rightarrow> (string \<Rightarrow> bool) \<Rightarrow> PgConsole \<Rightarrow> PersistentVolumeClaim reconciled" where
  "pgAdminSettingsPVC G K IsZero console =
     (let storage = pa_Storage (sp_PgAdmin (con_Spec console)) in
      bind_result (owned_meta G K console pgAdminSettingsSuffix) (\<lambda>m.
        Inr \<lparr>vc_Meta = m, vc_AccessModes = [''ReadWriteOnce''],
             vc_Storage = (if IsZero (sg_Size storage) then defaultPgAdminSettingsSize else sg_Size storage),
             vc_StorageClassName = (if sg_StorageClass storage \<noteq> [] then Some (sg_StorageClass storage) else None)\<rparr>))"

section \<open>Containers\<close>

definition http_port :: "int \<Rightarrow> ContainerPort" where
  "http_port port = \<lparr>pp_Name = ''http'', pp_ContainerPort = port, pp_Protocol = ''TCP''\<rparr>"

definition proxyContainer :: "PgConsole \<Rightarrow> string \<Rightarrow> Container" where
  "proxyContainer console img =
     \<lparr>cn_Name = ''proxy'', cn_Image = img, cn_ImagePullPolicy = imagePullPolicy (px_Image (sp_Proxy (con_Spec console))),
      cn_Command = [], cn_Args = [], cn_Env = [(''PROXY_CONFIG_FILE'', proxyConfigMountPath @ ''/'' @ proxyConfigFileName)],
      cn_Ports = [http_port proxyPort],
      cn_LivenessProbe = Some (probe_of (HTTPGet ''/healthz'' proxyPort)),
      cn_ReadinessProbe = Some (probe_of (HTTPGet ''/healthz'' proxyPort)),
      cn_Resources = containerResources (px_Resources (sp_Proxy (con_Spec console))),
      cn_SecurityContext = hardened,
      cn_VolumeMounts =
        [mount_at proxyConfigVolume proxyConfigMountPath True, mount_at kubeAPIAccessVolume serviceAccountRoot True]
        @ (if au_OIDC (con_auth console) \<noteq> None then [mount_at oidcClientVolume oidcClientSecretMountPath True] else [])\<rparr>"

definition consoleContainer :: "PgConsole \<Rightarrow> string \<Rightarrow> Container" where
  "consoleContainer console img =
     \<lparr>cn_Name = ''pgconsole'', cn_Image = img, cn_ImagePullPolicy = imagePullPolicy (sp_Image (con_Spec console)),
      cn_Command = [], cn_Args = [], cn_Env = consoleEnv console, cn_Ports = [http_port consolePort],
      cn_LivenessProbe = Some (probe_of (HTTPGet ''/healthz'' consolePort)),
      cn_ReadinessProbe = Some (probe_of (HTTPGet ''/readyz'' consolePort)),
      cn_Resources = containerResources (sp_Resources (con_Spec console)), cn_SecurityContext = hardened,
      cn_VolumeMounts = [mount_at ''tmp'' ''/tmp'' False, mount_at kubeAPIAccessVolume serviceAccountRoot True]\<rparr>"

definition pgAdminContainer :: "bool \<Rightarrow> PgConsole \<Rightarrow> string \<Rightarrow> Container" where
  "pgAdminContainer sidecar console img =
     \<lparr>cn_Name = ''pgadmin'', cn_Image = img, cn_ImagePullPolicy = imagePullPolicy (pa_Image (sp_PgAdmin (con_Spec console))),
      cn_Command = [], cn_Args = [],
      cn_Env =
        [(''PGADMIN_LISTEN_ADDRESS'', ''127.0.0.1''), (''PGADMIN_LISTEN_PORT'', portString pgAdminPort),
         (''SCRIPT_NAME'', pgAdminLinkPath), (''PGADMIN_DEFAULT_EMAIL'', pgAdminBootstrapEmail),
         (''PGADMIN_DEFAULT_PASSWORD_FILE'', pgAdminBootstrapMountPath @ ''/'' @ pgAdminBootstrapPasswordKey),
         (''PGADMIN_CONFIG_AUTHENTICATION_SOURCES'', ''['' @ [CHR 0x27] @ ''webserver'' @ [CHR 0x27] @ '']''),
         (''PGADMIN_CONFIG_WEBSERVER_REMOTE_USER'', [CHR 0x27] @ consoleTrustedUserHeader @ [CHR 0x27]),
         (''PGADMIN_CONFIG_WEBSERVER_AUTO_CREATE_USER'', ''True''),
         (''PGADMIN_CONFIG_MASTER_PASSWORD_REQUIRED'', ''False''),
         (''PGPASSFILE'', adminSyncPassfileMountPath @ ''/pgpass'')],
      cn_Ports = [http_port pgAdminPort], cn_LivenessProbe = None, cn_ReadinessProbe = None,
      cn_Resources = adminSyncResources (pa_Resources (sp_PgAdmin (con_Spec console))),
      cn_SecurityContext = hardened\<lparr>sx_ReadOnlyRootFilesystem := None\<rparr>,
      cn_VolumeMounts =
        [mount_at pgAdminSettingsVolume pgAdminSettingsMountPath False,
         mount_at pgAdminBootstrapVolume pgAdminBootstrapMountPath True]
        @ (if sidecar then [mount_at adminSyncPassfileVolume adminSyncPassfileMountPath False] else [])
        @ [mount_at ''tmp'' ''/tmp'' False]\<rparr>"

definition no_budget :: ResourceRequirements where
  "no_budget = \<lparr>rr_Limits = fmempty, rr_Requests = fmempty\<rparr>"

definition adminSyncInitContainer :: "string \<Rightarrow> Container" where
  "adminSyncInitContainer OperatorImage =
     \<lparr>cn_Name = ''admin-sync-init'', cn_Image = OperatorImage, cn_ImagePullPolicy = ''IfNotPresent'',
      cn_Command = [''/manager'', ''admin-sync-init'', ''--target'', adminSyncBinMountPath @ ''/manager''],
      cn_Args = [], cn_Env = [], cn_Ports = [], cn_LivenessProbe = None, cn_ReadinessProbe = None,
      cn_Resources = no_budget, cn_SecurityContext = hardened,
      cn_VolumeMounts = [mount_at adminSyncBinVolume adminSyncBinMountPath False]\<rparr>"

definition adminSyncSidecarContainer :: "PgConsole \<Rightarrow> string \<Rightarrow> Container" where
  "adminSyncSidecarContainer console img =
     \<lparr>cn_Name = ''admin-sync'', cn_Image = img,
      cn_ImagePullPolicy = imagePullPolicy (pa_Image (sp_PgAdmin (con_Spec console))),
      cn_Command = [adminSyncBinMountPath @ ''/manager'', ''admin-sync-sidecar'', ''--cert-dir'', adminSyncTLSMountPath,
        ''--token-file'', adminSyncTLSMountPath @ ''/token'', ''--pass-file'', adminSyncPassfileMountPath @ ''/pgpass''],
      cn_Args = [], cn_Env = [],
      cn_Ports = [\<lparr>pp_Name = ''admin-sync'', pp_ContainerPort = SidecarPort, pp_Protocol = ''TCP''\<rparr>],
      cn_LivenessProbe = None,
      cn_ReadinessProbe = Some \<lparr>pb_Handler = TCPSocket SidecarPort, pb_InitialDelaySeconds = 2, pb_PeriodSeconds = 10\<rparr>,
      cn_Resources = adminSyncResources (pa_Resources (sp_PgAdmin (con_Spec console))),
      cn_SecurityContext = hardened,
      cn_VolumeMounts =
        [mount_at adminSyncBinVolume adminSyncBinMountPath True, mount_at adminSyncTLSVolume adminSyncTLSMountPath True,
         mount_at adminSyncPassfileVolume adminSyncPassfileMountPath False,
         mount_at pgAdminSettingsVolume pgAdminSettingsMountPath False, mount_at ''tmp'' ''/tmp'' False]\<rparr>"

section \<open>The Deployment\<close>

definition kubeAPIAccessProjection :: volume where
  "kubeAPIAccessProjection =
     \<lparr>vo_Name = kubeAPIAccessVolume,
      vo_Source = ProjectedVolume mode0444
        [TokenProjection ''token'' projectedTokenExpiration,
         ConfigMapProjection ''kube-root-ca.crt'' [(''ca.crt'', ''ca.crt'')],
         DownwardAPIProjection [(''namespace'', ''v1'', ''metadata.namespace'')]]\<rparr>"

definition oidc_volumes :: "PgConsole \<Rightarrow> volume list" where
  "oidc_volumes console =
     (case au_OIDC (con_auth console) of
        None \<Rightarrow> []
      | Some oidc \<Rightarrow> [secret_volume oidcClientVolume (skr_Name (po_ClientSecretRef oidc)) mode0444
                         [(oidcClientSecretKey (po_ClientSecretRef oidc), oidcClientSecretFile)]])"

definition pgadmin_volumes :: "golib \<Rightarrow> bool \<Rightarrow> PgConsole \<Rightarrow> volume list" where
  "pgadmin_volumes G sidecar console =
     [\<lparr>vo_Name = pgAdminSettingsVolume,
       vo_Source = ClaimVolume (ResourceName G application (con_Name console) pgAdminSettingsSuffix)\<rparr>,
      secret_volume pgAdminBootstrapVolume (pgAdminBootstrapSecretName G (con_Name console)) mode0440 []]
     @ (if sidecar
        then [empty_volume adminSyncBinVolume,
              secret_volume adminSyncTLSVolume (SidecarSecretName (con_Name console)) mode0440 [],
              empty_volume adminSyncPassfileVolume]
        else [])"

definition base_pod :: "golib \<Rightarrow> string \<Rightarrow> PgConsole \<Rightarrow> workloadInputs \<Rightarrow> PodSpec" where
  "base_pod G OperatorImage console inputs =
     (let pgadmin = pgAdminEnabled console; sidecar = (OperatorImage \<noteq> []) in
      \<lparr>pd_ServiceAccountName = ResourceName G application (con_Name console) [],
       pd_AutomountServiceAccountToken = False, pd_RestartPolicy = ''Always'', pd_DNSPolicy = ''ClusterFirst'',
       pd_SecurityContext = \<lparr>sy_RunAsNonRoot = True, sy_SeccompProfile = ''RuntimeDefault'',
         sy_FSGroup = ps_FSGroup (sp_PodSecurityContext (con_Spec console))\<rparr>,
       pd_InitContainers = (if pgadmin \<and> sidecar then [adminSyncInitContainer OperatorImage] else []),
       pd_Containers =
         [proxyContainer console (wi_ProxyImage inputs), consoleContainer console (wi_ConsoleImage inputs)]
         @ (if pgadmin
            then pgAdminContainer sidecar console (wi_PgAdminImage inputs)
                 # (if sidecar then [adminSyncSidecarContainer console (wi_PgAdminImage inputs)] else [])
            else []),
       pd_Volumes =
         [empty_volume ''tmp'', kubeAPIAccessProjection,
          secret_volume proxyConfigVolume (ResourceName G application (con_Name console) proxyConfigSecretSuffix) mode0444
            [(proxyConfigFileName, proxyConfigFileName)]]
         @ oidc_volumes console @ (if pgadmin then pgadmin_volumes G sidecar console else [])\<rparr>)"

definition pod_annotations :: "workloadInputs \<Rightarrow> smap" where
  "pod_annotations inputs =
     (let checksum = fmupd ConfigChecksumAnnotation (wi_ConfigChecksum inputs) fmempty in
      if wi_AdminSyncSecretVersion inputs \<noteq> []
      then fmupd AdminSyncSecretVersionAnnotation (wi_AdminSyncSecretVersion inputs) checksum else checksum)"

definition deployment :: "golib \<Rightarrow> kube \<Rightarrow> string \<Rightarrow> PgConsole \<Rightarrow> workloadInputs \<Rightarrow> Deployment reconciled" where
  "deployment G K OperatorImage console inputs =
     (let pod = base_pod G OperatorImage console inputs in
      bind_result (owned_meta G K console []) (\<lambda>m.
        Inr \<lparr>dp_Meta = m, dp_Replicas = 1, dp_Strategy = ''Recreate'',
             dp_Selector = SelectorLabels application (con_Name console),
             dp_TemplateLabels = CommonLabels application (con_Name console),
             dp_TemplateAnnotations = pod_annotations inputs,
             dp_Pod = (case wi_Composition inputs of
                         None \<Rightarrow> pod
                       | Some composition \<Rightarrow>
                           composeEvidence console (wi_ViewerImage inputs) composition (wi_TokenSecretName inputs) pod),
             dp_ObservedGeneration = 0, dp_UpdatedReplicas = 0, dp_ReadyReplicas = 0\<rparr>))"

section \<open>Convergence\<close>

definition containerMatches :: "Container \<Rightarrow> Container \<Rightarrow> bool" where
  "containerMatches existing desired =
     (cn_Name existing = cn_Name desired \<and> cn_Image existing = cn_Image desired
      \<and> cn_ImagePullPolicy existing = cn_ImagePullPolicy desired \<and> cn_Args existing = cn_Args desired
      \<and> cn_Env existing = cn_Env desired \<and> cn_Resources existing = cn_Resources desired
      \<and> cn_SecurityContext existing = cn_SecurityContext desired \<and> cn_VolumeMounts existing = cn_VolumeMounts desired)"

definition deploymentMatches :: "kube \<Rightarrow> Deployment \<Rightarrow> Deployment \<Rightarrow> bool" where
  "deploymentMatches K existing desired =
     (metadataMatches K (dp_Meta existing) (dp_Meta desired)
      \<and> dp_Replicas existing = dp_Replicas desired \<and> dp_Selector existing = dp_Selector desired
      \<and> dp_Strategy existing = dp_Strategy desired \<and> dp_TemplateLabels existing = dp_TemplateLabels desired
      \<and> dp_TemplateAnnotations existing = dp_TemplateAnnotations desired
      \<and> pd_ServiceAccountName (dp_Pod existing) = pd_ServiceAccountName (dp_Pod desired)
      \<and> pd_AutomountServiceAccountToken (dp_Pod existing) = pd_AutomountServiceAccountToken (dp_Pod desired)
      \<and> pd_SecurityContext (dp_Pod existing) = pd_SecurityContext (dp_Pod desired)
      \<and> length (dp_Volumes existing) = length (dp_Volumes desired)
      \<and> length (pd_Containers (dp_Pod existing)) = length (pd_Containers (dp_Pod desired))
      \<and> dp_Volumes existing = dp_Volumes desired
      \<and> list_all2 containerMatches (pd_Containers (dp_Pod existing)) (pd_Containers (dp_Pod desired)))"

text \<open>A patch fills the object it was given with the server's answer, as for the exposure objects.\<close>

definition reconcileDeployment :: "kube \<Rightarrow> ('s, Deployment) client \<Rightarrow> Deployment \<Rightarrow> 's \<Rightarrow> Deployment reconciled \<times> 's" where
  "reconcileDeployment K deployments desired s =
     (let apply = and_then (ApplyObject deployments desired) (\<lambda>_ s'.
            (Inr (case api_Live deployments s' (key_of (dp_Meta desired)) of Inr x \<Rightarrow> x | Inl _ \<Rightarrow> desired), s')) in
      case api_Live deployments s (key_of (dp_Meta desired)) of
        Inr existing \<Rightarrow> if deploymentMatches K existing desired then (Inr existing, s) else apply s
      | Inl NotFound \<Rightarrow> apply s
      | Inl e \<Rightarrow> (Inl (FailedApi ''get deployment'' e), s))"

definition applyServiceAccount :: "kube \<Rightarrow> ('s, ServiceAccount) client \<Rightarrow> ServiceAccount \<Rightarrow> 's \<Rightarrow> unit reconciled \<times> 's" where
  "applyServiceAccount K accounts =
     apply_if_changed accounts sk_Meta (\<lambda>existing desired. metadataMatches K (sk_Meta existing) (sk_Meta desired))"

definition applyService :: "kube \<Rightarrow> ('s, Service) client \<Rightarrow> Service \<Rightarrow> 's \<Rightarrow> unit reconciled \<times> 's" where
  "applyService K services =
     apply_if_changed services sw_Meta (\<lambda>existing desired. metadataMatches K (sw_Meta existing) (sw_Meta desired)
       \<and> sw_Selector existing = sw_Selector desired \<and> sw_Ports existing = sw_Ports desired)"

definition reconcilePgAdminSettingsPVC ::
  "golib \<Rightarrow> kube \<Rightarrow> (string \<Rightarrow> bool) \<Rightarrow> ('s, PersistentVolumeClaim) client \<Rightarrow> PgConsole \<Rightarrow> 's \<Rightarrow> unit reconciled \<times> 's" where
  "reconcilePgAdminSettingsPVC G K IsZero claims console =
     (if \<not> pgAdminEnabled console then lift_result (Inr ())
      else and_then (lift_result (pgAdminSettingsPVC G K IsZero console)) (\<lambda>pvc s.
        case api_Get claims s (key_of (vc_Meta pvc)) of
          Inr existing \<Rightarrow> (Inr (), s)
        | Inl NotFound \<Rightarrow> ApplyObject claims pvc s
        | Inl e \<Rightarrow> (Inl (FailedApi ''get claim'' e), s)))"

section \<open>The shape of the pod\<close>

definition pod_containers :: "PodSpec \<Rightarrow> Container list" where
  "pod_containers p = pd_InitContainers p @ pd_Containers p"

definition mounts_volume :: "string \<Rightarrow> Container \<Rightarrow> bool" where
  "mounts_volume v c = list_ex (\<lambda>m. vm_Name m = v) (cn_VolumeMounts c)"

definition holders :: "PodSpec \<Rightarrow> string \<Rightarrow> string list" where
  "holders p v = map cn_Name (filter (mounts_volume v) (pod_containers p))"

text \<open>What the API server requires of a pod: unique names, and no mount of an undeclared volume.\<close>

definition mounts_declared :: "string list \<Rightarrow> Container \<Rightarrow> bool" where
  "mounts_declared names c \<longleftrightarrow>
     list_all (\<lambda>m. vm_Name m \<in> set names) (cn_VolumeMounts c) \<and> distinct (map vm_MountPath (cn_VolumeMounts c))"

definition pod_ok :: "PodSpec \<Rightarrow> bool" where
  "pod_ok p \<longleftrightarrow> distinct (map vo_Name (pd_Volumes p)) \<and> distinct (map cn_Name (pod_containers p))
     \<and> list_all (mounts_declared (map vo_Name (pd_Volumes p))) (pod_containers p)"

definition rendered_pod :: "golib \<Rightarrow> string \<Rightarrow> PgConsole \<Rightarrow> workloadInputs \<Rightarrow> PodSpec" where
  "rendered_pod G OperatorImage console inputs =
     (let pod = base_pod G OperatorImage console inputs in
      case wi_Composition inputs of None \<Rightarrow> pod
      | Some composition \<Rightarrow> composeEvidence console (wi_ViewerImage inputs) composition (wi_TokenSecretName inputs) pod)"

lemma deployment_Inr:
  assumes "deployment G K o' console inputs = Inr d"
  shows "dp_Pod d = rendered_pod G o' console inputs \<and> dp_TemplateAnnotations d = pod_annotations inputs
    \<and> owned_meta G K console [] = Inr (dp_Meta d) \<and> dp_Replicas d = 1 \<and> dp_Strategy d = ''Recreate''
    \<and> dp_Selector d = SelectorLabels application (con_Name console)
    \<and> dp_TemplateLabels d = CommonLabels application (con_Name console)"
  using assms by (cases "owned_meta G K console []") (auto simp: deployment_def rendered_pod_def Let_def)

text \<open>The volumes in their order, each present or not.\<close>

definition volume_order :: "string list" where
  "volume_order = [''tmp'', kubeAPIAccessVolume, proxyConfigVolume, oidcClientVolume, pgAdminSettingsVolume,
     pgAdminBootstrapVolume, adminSyncBinVolume, adminSyncTLSVolume, adminSyncPassfileVolume,
     evidenceSocketVolume, evidenceTokenVolume, viewerScratchVolume, storeCredentialVolume, endpointCAVolume]"

lemma volume_order_distinct: "distinct volume_order"
  by (simp add: volume_order_def volume_names)

lemma rendered_volumes:
  "map vo_Name (pd_Volumes (rendered_pod G o' console inputs)) =
     [''tmp'', kubeAPIAccessVolume, proxyConfigVolume]
     @ (if au_OIDC (con_auth console) \<noteq> None then [oidcClientVolume] else [])
     @ (if pgAdminEnabled console then [pgAdminSettingsVolume, pgAdminBootstrapVolume] else [])
     @ (if pgAdminEnabled console \<and> o' \<noteq> [] then [adminSyncBinVolume, adminSyncTLSVolume, adminSyncPassfileVolume] else [])
     @ (case wi_Composition inputs of None \<Rightarrow> []
        | Some composition \<Rightarrow> [evidenceSocketVolume, evidenceTokenVolume, viewerScratchVolume, storeCredentialVolume]
            @ (if ec_EndpointCA composition \<noteq> None then [endpointCAVolume] else []))"
  by (auto simp: rendered_pod_def Let_def base_pod_def composeEvidence_def evidence_volume_list_def pgadmin_volumes_def
      oidc_volumes_def kubeAPIAccessProjection_def empty_volume_def secret_volume_def split: option.splits)

lemma rendered_volumes_order: "subseq (map vo_Name (pd_Volumes (rendered_pod G o' console inputs))) volume_order"
proof -
  have order: "volume_order = [''tmp'', kubeAPIAccessVolume, proxyConfigVolume] @ [oidcClientVolume]
      @ [pgAdminSettingsVolume, pgAdminBootstrapVolume] @ [adminSyncBinVolume, adminSyncTLSVolume, adminSyncPassfileVolume]
      @ [evidenceSocketVolume, evidenceTokenVolume, viewerScratchVolume, storeCredentialVolume] @ [endpointCAVolume]"
    by (simp add: volume_order_def)
  have optional: "subseq (if b then xs else []) xs" for b and xs :: "string list" by simp
  have evidence: "subseq (case c of None \<Rightarrow> [] | Some x \<Rightarrow> xs @ (if f x then ys else [])) (xs @ ys)"
    for c :: "evidenceComposition option" and f and xs ys :: "string list"
    by (cases c) (auto intro: list_emb_append_mono)
  show ?thesis
    unfolding rendered_volumes order by (intro list_emb_append_mono optional evidence subseq_order.refl)
qed

lemma rendered_containers:
  "pod_containers (rendered_pod G o' console inputs) =
     (if pgAdminEnabled console \<and> o' \<noteq> [] then [adminSyncInitContainer o'] else [])
     @ [proxyContainer console (wi_ProxyImage inputs),
        (case wi_Composition inputs of None \<Rightarrow> id | Some composition \<Rightarrow> consume_evidence composition)
          (consoleContainer console (wi_ConsoleImage inputs))]
     @ (if pgAdminEnabled console then [pgAdminContainer (o' \<noteq> []) console (wi_PgAdminImage inputs)] else [])
     @ (if pgAdminEnabled console \<and> o' \<noteq> [] then [adminSyncSidecarContainer console (wi_PgAdminImage inputs)] else [])
     @ (case wi_Composition inputs of None \<Rightarrow> []
        | Some composition \<Rightarrow> [viewerContainer console (wi_ViewerImage inputs) composition])"
  by (simp add: rendered_pod_def pod_containers_def Let_def base_pod_def composeEvidence_def proxyContainer_def
      consoleContainer_def split: option.splits)

lemmas container_defs = proxyContainer_def consoleContainer_def pgAdminContainer_def adminSyncInitContainer_def
  adminSyncSidecarContainer_def viewerContainer_def consume_evidence_def

lemma mounts_volume_simps:
  "mounts_volume v (proxyContainer console i) =
     (v \<in> {proxyConfigVolume, kubeAPIAccessVolume} \<or> v = oidcClientVolume \<and> au_OIDC (con_auth console) \<noteq> None)"
  "mounts_volume v (consoleContainer console i) = (v \<in> {''tmp'', kubeAPIAccessVolume})"
  "mounts_volume v (consume_evidence e c) = (mounts_volume v c \<or> v \<in> {evidenceSocketVolume, evidenceTokenVolume})"
  "mounts_volume v (pgAdminContainer b console i) =
     (v \<in> {pgAdminSettingsVolume, pgAdminBootstrapVolume, ''tmp''} \<or> v = adminSyncPassfileVolume \<and> b)"
  "mounts_volume v (adminSyncInitContainer i) = (v = adminSyncBinVolume)"
  "mounts_volume v (adminSyncSidecarContainer console i) =
     (v \<in> {adminSyncBinVolume, adminSyncTLSVolume, adminSyncPassfileVolume, pgAdminSettingsVolume, ''tmp''})"
  "mounts_volume v (viewerContainer console i e) =
     (v \<in> {evidenceSocketVolume, evidenceTokenVolume, viewerScratchVolume, storeCredentialVolume}
      \<or> v = endpointCAVolume \<and> ec_EndpointCA e \<noteq> None)"
  by (auto simp: mounts_volume_def container_defs mount_at_def socketMount_def tokenMount_def)

lemma container_names [simp]:
  "cn_Name (proxyContainer console i) = ''proxy''" "cn_Name (consoleContainer console i) = ''pgconsole''"
  "cn_Name (consume_evidence e c) = cn_Name c" "cn_Name (pgAdminContainer b console i) = ''pgadmin''"
  "cn_Name (adminSyncInitContainer i) = ''admin-sync-init''" "cn_Name (adminSyncSidecarContainer console i) = ''admin-sync''"
  "cn_Name (viewerContainer console i e) = ''objectstoreviewer''"
  by (simp_all add: container_defs)

lemma mounts_declared_iff:
  "mounts_declared names c \<longleftrightarrow> (\<forall>v. mounts_volume v c \<longrightarrow> v \<in> set names) \<and> distinct (map vm_MountPath (cn_VolumeMounts c))"
  by (auto simp: mounts_declared_def mounts_volume_def list_all_iff list_ex_iff)

lemmas mount_paths = proxyConfigMountPath_def serviceAccountRoot_def oidcClientSecretMountPath_def
  pgAdminSettingsMountPath_def pgAdminBootstrapMountPath_def adminSyncPassfileMountPath_def adminSyncBinMountPath_def
  adminSyncTLSMountPath_def evidenceSocketDirectory_def evidenceTokenFilePath_def storeCredentialDirectory_def
  endpointCADirectory_def

lemma container_paths:
  "distinct (map vm_MountPath (cn_VolumeMounts (proxyContainer console i)))"
  "distinct (map vm_MountPath (cn_VolumeMounts (consoleContainer console i)))"
  "distinct (map vm_MountPath (cn_VolumeMounts (consume_evidence e (consoleContainer console i))))"
  "distinct (map vm_MountPath (cn_VolumeMounts (pgAdminContainer b console i)))"
  "distinct (map vm_MountPath (cn_VolumeMounts (adminSyncInitContainer i)))"
  "distinct (map vm_MountPath (cn_VolumeMounts (adminSyncSidecarContainer console i)))"
  "distinct (map vm_MountPath (cn_VolumeMounts (viewerContainer console i e)))"
  by (simp_all add: container_defs mount_at_def socketMount_def tokenMount_def mount_paths)

section \<open>Properties\<close>

text \<open>
  C23: whatever the specification and the inputs, the rendered pod is one the API server can
  accept: volumes and containers (the init container included) have distinct names, every
  mount names a volume the pod declares, and no container mounts two volumes at one path. In
  particular the optional parts (OIDC, pgAdmin, its sidecar, the evidence viewer, an endpoint
  CA) always bring their volumes with them.
\<close>

theorem rendered_pod_ok:
  assumes "deployment G K o' console inputs = Inr d"
  shows "pod_ok (dp_Pod d)"
proof -
  let ?p = "rendered_pod G o' console inputs"
  let ?names = "map vo_Name (pd_Volumes ?p)"
  have names: "distinct ?names"
    using rendered_volumes_order volume_order_distinct by (rule distinct_subseq)
  have declared: "list_all (mounts_declared ?names) (pod_containers ?p)"
    unfolding rendered_containers rendered_volumes
    by (auto simp: mounts_declared_iff mounts_volume_simps container_paths split: option.splits)
  have "distinct (map cn_Name (pod_containers ?p))"
    unfolding rendered_containers by (simp split: option.splits)
  with names declared deployment_Inr[OF assms] show ?thesis by (simp add: pod_ok_def)
qed

text \<open>
  C22: the mount set is the confinement boundary. The credential for the Kubernetes API reaches
  exactly the proxy and the console and is never ambient; the evidence token and its socket
  exactly the console and the viewer; the object-store credentials exactly the viewer; the
  proxy's configuration and the OIDC client secret exactly the proxy; the admin-sync key and
  token exactly the sidecar; the bootstrap password exactly pgAdmin.
\<close>

theorem credentials_confined:
  assumes "deployment G K o' console inputs = Inr d"
  defines "evidence \<equiv> wi_Composition inputs \<noteq> None"
    and "synced \<equiv> pgAdminEnabled console \<and> o' \<noteq> []"
  shows "\<not> pd_AutomountServiceAccountToken (dp_Pod d)
    \<and> holders (dp_Pod d) kubeAPIAccessVolume = [''proxy'', ''pgconsole'']
    \<and> holders (dp_Pod d) evidenceTokenVolume = (if evidence then [''pgconsole'', ''objectstoreviewer''] else [])
    \<and> holders (dp_Pod d) evidenceSocketVolume = (if evidence then [''pgconsole'', ''objectstoreviewer''] else [])
    \<and> holders (dp_Pod d) storeCredentialVolume = (if evidence then [''objectstoreviewer''] else [])
    \<and> holders (dp_Pod d) proxyConfigVolume = [''proxy'']
    \<and> holders (dp_Pod d) oidcClientVolume = (if au_OIDC (con_auth console) \<noteq> None then [''proxy''] else [])
    \<and> holders (dp_Pod d) adminSyncTLSVolume = (if synced then [''admin-sync''] else [])
    \<and> holders (dp_Pod d) pgAdminBootstrapVolume = (if pgAdminEnabled console then [''pgadmin''] else [])"
proof -
  let ?p = "rendered_pod G o' console inputs"
  have ambient: "\<not> pd_AutomountServiceAccountToken ?p"
    by (simp add: rendered_pod_def Let_def base_pod_def composeEvidence_def split: option.splits)
  have *: "holders ?p kubeAPIAccessVolume = [''proxy'', ''pgconsole'']"
    "holders ?p evidenceTokenVolume = (if evidence then [''pgconsole'', ''objectstoreviewer''] else [])"
    "holders ?p evidenceSocketVolume = (if evidence then [''pgconsole'', ''objectstoreviewer''] else [])"
    "holders ?p storeCredentialVolume = (if evidence then [''objectstoreviewer''] else [])"
    "holders ?p proxyConfigVolume = [''proxy'']"
    "holders ?p oidcClientVolume = (if au_OIDC (con_auth console) \<noteq> None then [''proxy''] else [])"
    "holders ?p adminSyncTLSVolume = (if synced then [''admin-sync''] else [])"
    "holders ?p pgAdminBootstrapVolume = (if pgAdminEnabled console then [''pgadmin''] else [])"
    by (simp_all add: holders_def rendered_containers mounts_volume_simps volume_names evidence_def synced_def
        split: option.splits)
  show ?thesis using ambient * deployment_Inr[OF assms(1)] by simp
qed

section \<open>Rollouts\<close>

text \<open>
  What server-side apply documents for a Deployment: the live object carries the applied
  labels, annotations, owners and specification; the server adds to metadata and owns the status.
\<close>

definition carries :: "Deployment \<Rightarrow> Deployment \<Rightarrow> bool" where
  "carries x d \<longleftrightarrow>
     LabelsContain (m_Labels (dp_Meta x)) (m_Labels (dp_Meta d))
   \<and> LabelsContain (m_Annotations (dp_Meta x)) (m_Annotations (dp_Meta d))
   \<and> m_OwnerReferences (dp_Meta x) = m_OwnerReferences (dp_Meta d)
   \<and> dp_Replicas x = dp_Replicas d \<and> dp_Strategy x = dp_Strategy d \<and> dp_Selector x = dp_Selector d
   \<and> dp_TemplateLabels x = dp_TemplateLabels d \<and> dp_TemplateAnnotations x = dp_TemplateAnnotations d
   \<and> dp_Pod x = dp_Pod d"

definition applies_deployment :: "('s, Deployment) client \<Rightarrow> bool" where
  "applies_deployment C \<longleftrightarrow>
     (\<forall>s d s'. api_Apply C s d = (None, s') \<longrightarrow> (\<exists>x. api_Live C s' (key_of (dp_Meta d)) = Inr x \<and> carries x d))"

definition rolled_out :: "kube \<Rightarrow> ('s, Deployment) client \<Rightarrow> Deployment \<Rightarrow> 's \<Rightarrow> bool" where
  "rolled_out K C d s \<longleftrightarrow> (\<exists>x. api_Live C s (key_of (dp_Meta d)) = Inr x \<and> deploymentMatches K x d)"

definition rollout_good :: "kube \<Rightarrow> ('s, Deployment) client \<Rightarrow> Deployment \<Rightarrow> bool" where
  "rollout_good K C d \<longleftrightarrow> owners_ok K \<and> applies_deployment C \<and> controller_uid K (dp_Meta d) \<noteq> None"

lemma containerMatches_refl: "containerMatches c c"
  by (simp add: containerMatches_def)

lemma carries_matches:
  assumes "owners_ok K" "controller_uid K (dp_Meta d) \<noteq> None" "carries x d"
  shows "deploymentMatches K x d"
proof -
  have "controller_uid K (dp_Meta x) = controller_uid K (dp_Meta d)"
    using assms(3) by (intro controller_uid_cong[OF assms(1)]) (simp add: carries_def)
  with assms(2,3) show ?thesis
    by (simp add: deploymentMatches_def carries_def metadataMatches_def ControllerOwnerMatches_iff
        list.rel_refl[OF containerMatches_refl])
qed

lemma reconcileDeployment_Inr:
  assumes "rollout_good K C d" "reconcileDeployment K C d s = (Inr x, s')"
  shows "api_Live C s' (key_of (dp_Meta d)) = Inr x \<and> deploymentMatches K x d"
proof -
  have applied: ?thesis
    if run: "and_then (ApplyObject C d) (\<lambda>_ s'. (Inr (case api_Live C s' (key_of (dp_Meta d)) of Inr x \<Rightarrow> x | Inl _ \<Rightarrow> d), s')) s
      = (Inr x, s')"
  proof -
    from run have "api_Apply C s d = (None, s')"
      and x: "x = (case api_Live C s' (key_of (dp_Meta d)) of Inr x \<Rightarrow> x | Inl _ \<Rightarrow> d)"
      by (auto simp: ApplyObject_def split: prod.splits option.splits elim!: and_then_Inr)
    then obtain y where "api_Live C s' (key_of (dp_Meta d)) = Inr y" "carries y d"
      using assms(1) unfolding rollout_good_def applies_deployment_def by blast
    with x carries_matches assms(1) show ?thesis by (simp add: rollout_good_def)
  qed
  show ?thesis
  proof (cases "api_Live C s (key_of (dp_Meta d))")
    case (Inl e)
    with assms(2) applied show ?thesis by (cases e) (simp_all add: reconcileDeployment_def Let_def)
  next
    case (Inr y)
    with assms(2) applied show ?thesis
      by (cases "deploymentMatches K y d") (simp_all add: reconcileDeployment_def Let_def)
  qed
qed

interpretation rollout: convergence
  "reconcileDeployment K C d" "\<lambda>s. rollout_good K C d" "rolled_out K C d" for K C d
proof
  show "rolled_out K C d s'" if "rollout_good K C d" "reconcileDeployment K C d s = (Inr r, s')" for s r s'
    using reconcileDeployment_Inr[OF that] by (auto simp: rolled_out_def)
  show "\<exists>r. reconcileDeployment K C d s = (Inr r, s)" if "rolled_out K C d s" for s
    using that by (auto simp: rolled_out_def reconcileDeployment_def)
qed

lemma token_volume:
  assumes "wi_Composition inputs = Some composition"
  shows "\<exists>v. find (\<lambda>v. vo_Name v = evidenceTokenVolume \<and> vo_Secret v \<noteq> None) (pd_Volumes (rendered_pod G o' console inputs))
           = Some v \<and> vo_Secret v = Some (wi_TokenSecretName inputs)"
proof -
  let ?P = "\<lambda>v. vo_Name v = evidenceTokenVolume \<and> vo_Secret v \<noteq> None"
  have none: "\<not> ?P v" if "v \<in> set (pd_Volumes (base_pod G o' console inputs))" for v
    using that by (auto simp: base_pod_def Let_def pgadmin_volumes_def oidc_volumes_def kubeAPIAccessProjection_def
        empty_volume_def secret_volume_def volume_names split: if_splits option.splits)
  have "find ?P (xs @ ys) = find ?P ys" if "\<And>v. v \<in> set xs \<Longrightarrow> \<not> ?P v" for xs ys
    using that by (induction xs) auto
  from this[OF none] assms show ?thesis
    by (simp add: rendered_pod_def Let_def composeEvidence_def evidence_volume_list_def secret_volume_def empty_volume_def
        vo_Secret_def evidenceSocketVolume_def evidenceTokenVolume_def split: option.splits)
qed

lemma rendered_good:
  assumes "owners_ok K" "applies_deployment C" "deployment G K o' console inputs = Inr d"
  shows "rollout_good K C d" "key_of (dp_Meta d) = (con_Namespace console, ResourceName G application (con_Name console) [])"
proof -
  obtain m where "owned_meta G K console [] = Inr m" "key_of m = (con_Namespace console, ResourceName G application (con_Name console) [])"
    "controller_uid K m = Some (con_UID console)" using owned_meta_ok[OF assms(1), of G console "[]"] by metis
  with deployment_Inr[OF assms(3)] assms(1,2)
  show "rollout_good K C d" "key_of (dp_Meta d) = (con_Namespace console, ResourceName G application (con_Name console) [])"
    by (simp_all add: rollout_good_def)
qed

lemma deployed_checksum:
  assumes "owners_ok K" "applies_deployment C" "deployment G K o' console inputs = Inr d" "reconcileDeployment K C d s = (Inr x, s')"
  shows "at (dp_TemplateAnnotations x) ConfigChecksumAnnotation = wi_ConfigChecksum inputs"
proof -
  have "dp_TemplateAnnotations x = pod_annotations inputs"
    using reconcileDeployment_Inr[OF rendered_good(1)[OF assms(1-3)] assms(4)] deployment_Inr[OF assms(3)]
    by (simp add: deploymentMatches_def)
  then show ?thesis
    by (simp add: pod_annotations_def Let_def ConfigChecksumAnnotation_def AdminSyncSecretVersionAnnotation_def)
qed


lemma composed_containers:
  "pd_Containers (rendered_pod G o' console inputs) =
     [proxyContainer console (wi_ProxyImage inputs),
      (case wi_Composition inputs of None \<Rightarrow> id | Some composition \<Rightarrow> consume_evidence composition)
        (consoleContainer console (wi_ConsoleImage inputs))]
     @ (if pgAdminEnabled console then [pgAdminContainer (o' \<noteq> []) console (wi_PgAdminImage inputs)] else [])
     @ (if pgAdminEnabled console \<and> o' \<noteq> [] then [adminSyncSidecarContainer console (wi_PgAdminImage inputs)] else [])
     @ (case wi_Composition inputs of None \<Rightarrow> []
        | Some composition \<Rightarrow> [viewerContainer console (wi_ViewerImage inputs) composition])"
  by (simp add: rendered_pod_def Let_def base_pod_def composeEvidence_def proxyContainer_def consoleContainer_def
      split: option.splits)

text \<open>
  upgrading the operator alone never reaches a running console. Two renderings that
  differ only in the operator's own image, which the init container of pgAdmin's sidecar
  copies its binary from, are equal in the eyes of \<open>deploymentMatches\<close>, because it compares
  neither init containers nor commands; a console rendered by the old operator is therefore
  never rewritten by the new one, and its sidecar keeps running the old binary.
\<close>

theorem operator_upgrade_ignored:
  assumes K: "owners_ok K" and old: "deployment G K o1 console inputs = Inr d1"
    and new: "deployment G K o2 console inputs = Inr d2" and images: "o1 \<noteq> []" "o2 \<noteq> []" "o1 \<noteq> o2"
    and pgadmin: "pgAdminEnabled console"
    and live: "api_Live C s (key_of (dp_Meta d2)) = Inr d1"
  shows "pd_InitContainers (dp_Pod d1) \<noteq> pd_InitContainers (dp_Pod d2) \<and> reconcileDeployment K C d2 s = (Inr d1, s)"
proof -
  obtain m where m: "owned_meta G K console [] = Inr m" "controller_uid K m = Some (con_UID console)"
    using owned_meta_ok[OF K, of G console "[]"] by metis
  note f1 = deployment_Inr[OF old] and f2 = deployment_Inr[OF new]
  have init: "pd_InitContainers (rendered_pod G o' console inputs) = (if o' \<noteq> [] then [adminSyncInitContainer o'] else [])" for o'
    using pgadmin by (simp add: rendered_pod_def Let_def base_pod_def composeEvidence_def split: option.splits)
  have "pd_Containers (rendered_pod G o1 console inputs) = pd_Containers (rendered_pod G o2 console inputs)"
    using images by (simp add: composed_containers)
  moreover have "pd_Volumes (rendered_pod G o1 console inputs) = pd_Volumes (rendered_pod G o2 console inputs)"
    "pd_ServiceAccountName (rendered_pod G o1 console inputs) = pd_ServiceAccountName (rendered_pod G o2 console inputs)"
    "pd_AutomountServiceAccountToken (rendered_pod G o1 console inputs) = pd_AutomountServiceAccountToken (rendered_pod G o2 console inputs)"
    "pd_SecurityContext (rendered_pod G o1 console inputs) = pd_SecurityContext (rendered_pod G o2 console inputs)"
    using images by (simp_all add: rendered_pod_def Let_def base_pod_def composeEvidence_def split: option.splits)
  ultimately have "deploymentMatches K d1 d2"
    using f1 f2 m by (simp add: deploymentMatches_def metadataMatches_def LabelsContain_refl ControllerOwnerMatches_iff
        list.rel_refl[OF containerMatches_refl])
  then show ?thesis
    using f1 f2 images live by (simp add: init reconcileDeployment_def adminSyncInitContainer_def)
qed

lemma matched_fields:
  "list_all2 containerMatches xs ys \<Longrightarrow> map cn_Image xs = map cn_Image ys \<and> map cn_Env xs = map cn_Env ys"
  by (induction rule: list_all2_induct) (simp_all add: containerMatches_def)

lemma container_images [simp]:
  "cn_Image (proxyContainer console i) = i" "cn_Image (consoleContainer console i) = i"
  "cn_Image (consume_evidence e c) = cn_Image c" "cn_Image (pgAdminContainer b console i) = i"
  "cn_Image (adminSyncSidecarContainer console i) = i" "cn_Image (viewerContainer console i e) = i"
  "cn_Env (consoleContainer console i) = consoleEnv console"
  "cn_Env (consume_evidence e c) = cn_Env c @ [(''REPOSITORY_EVIDENCE_URL'', evidenceSocketURL),
     (''REPOSITORY_EVIDENCE_TOKEN_FILE'', evidenceTokenFilePath),
     (''REPOSITORY_EXPECTED_FINGERPRINT'', ec_Fingerprint e), (''REPOSITORY_BARMAN_SERVER'', ec_ServerName e)]"
  by (simp_all add: container_defs)

text \<open>
  C28: every other input that changes is rolled out. When the Deployment rendered from new
  inputs passes for the one rendered from old inputs, the two agree on the configuration
  checksum, the version of the admin-sync Secret, every container image, the presence of the
  evidence sidecar and, with it, the token Secret, the expected fingerprint and the server.
\<close>

theorem input_changes_detected:
  assumes old: "deployment G K o' console i1 = Inr d1" and new: "deployment G K o' console i2 = Inr d2"
    and match: "deploymentMatches K d1 d2"
  shows "wi_ConfigChecksum i1 = wi_ConfigChecksum i2 \<and> wi_AdminSyncSecretVersion i1 = wi_AdminSyncSecretVersion i2
    \<and> wi_ProxyImage i1 = wi_ProxyImage i2 \<and> wi_ConsoleImage i1 = wi_ConsoleImage i2
    \<and> (pgAdminEnabled console \<longrightarrow> wi_PgAdminImage i1 = wi_PgAdminImage i2)
    \<and> (wi_Composition i1 = None \<longleftrightarrow> wi_Composition i2 = None)
    \<and> (\<forall>c1 c2. wi_Composition i1 = Some c1 \<and> wi_Composition i2 = Some c2 \<longrightarrow>
         wi_ViewerImage i1 = wi_ViewerImage i2 \<and> wi_TokenSecretName i1 = wi_TokenSecretName i2
         \<and> ec_Fingerprint c1 = ec_Fingerprint c2 \<and> ec_ServerName c1 = ec_ServerName c2)"
proof -
  note f1 = deployment_Inr[OF old] and f2 = deployment_Inr[OF new]
  let ?p = "\<lambda>i. rendered_pod G o' console i"
  have annotations: "pod_annotations i1 = pod_annotations i2" and volumes: "pd_Volumes (?p i1) = pd_Volumes (?p i2)"
    and containers: "list_all2 containerMatches (pd_Containers (?p i1)) (pd_Containers (?p i2))"
    using match f1 f2 by (simp_all add: deploymentMatches_def)
  have "at (pod_annotations i) ConfigChecksumAnnotation = wi_ConfigChecksum i"
    "at (pod_annotations i) AdminSyncSecretVersionAnnotation = wi_AdminSyncSecretVersion i" for i
    by (simp_all add: pod_annotations_def Let_def ConfigChecksumAnnotation_def AdminSyncSecretVersionAnnotation_def)
  then have "wi_ConfigChecksum i1 = wi_ConfigChecksum i2" "wi_AdminSyncSecretVersion i1 = wi_AdminSyncSecretVersion i2"
    using annotations by metis+
  moreover have same: "wi_Composition i1 = None \<longleftrightarrow> wi_Composition i2 = None"
    using list_all2_lengthD[OF containers] by (simp add: composed_containers split: option.splits if_splits)
  moreover note fields = matched_fields[OF containers, unfolded composed_containers]
  have "wi_ProxyImage i1 = wi_ProxyImage i2 \<and> wi_ConsoleImage i1 = wi_ConsoleImage i2
      \<and> (pgAdminEnabled console \<longrightarrow> wi_PgAdminImage i1 = wi_PgAdminImage i2)"
    using conjunct1[OF fields] same by (simp split: option.splits if_splits)
  moreover have "wi_TokenSecretName i1 = wi_TokenSecretName i2"
    if "wi_Composition i1 = Some c1" "wi_Composition i2 = Some c2" for c1 c2
    using token_volume[OF that(1), of G o' console] token_volume[OF that(2), of G o' console] volumes by auto
  moreover have "wi_ViewerImage i1 = wi_ViewerImage i2"
    if "wi_Composition i1 = Some c1" "wi_Composition i2 = Some c2" for c1 c2
    using conjunct1[OF fields] that by (simp split: if_splits)
  moreover have "ec_Fingerprint c1 = ec_Fingerprint c2 \<and> ec_ServerName c1 = ec_ServerName c2"
    if "wi_Composition i1 = Some c1" "wi_Composition i2 = Some c2" for c1 c2
    using conjunct2[OF fields] that by simp
  ultimately show ?thesis by blast
qed

definition env_value :: "Container \<Rightarrow> string \<Rightarrow> string" where
  "env_value c name = (case map_of (cn_Env c) name of None \<Rightarrow> [] | Some v \<Rightarrow> v)"

lemma console_env_free:
  assumes "name \<notin> set env_order"
  shows "map_of (consoleEnv console @ xs) name = map_of xs name"
proof -
  have "x \<in> set env_order" if "x \<in> set (map fst (consoleEnv console))" for x
    using list_emb_set[OF consoleEnv_order that] by auto
  then have "name \<notin> dom (map_of (consoleEnv console))"
    using assms by (auto simp: dom_map_of_conv_image_fst)
  then show ?thesis unfolding map_of_append by (rule map_add_dom_app_simps(3))
qed

lemma viewer_env:
  "env_value (viewerContainer console i e) ''DESTINATION_PATH'' = ec_DestinationPath e"
  "env_value (viewerContainer console i e) ''ENDPOINT_URL'' = ec_EndpointURL e"
  "env_value (viewerContainer console i e) ''BARMAN_SERVER_NAMES'' = ec_ServerName e"
  by (simp_all add: env_value_def viewerContainer_def)

lemma consumer_env:
  "env_value (consume_evidence e (consoleContainer console i)) ''REPOSITORY_EXPECTED_FINGERPRINT'' = ec_Fingerprint e"
  "env_value (consume_evidence e (consoleContainer console i)) ''REPOSITORY_BARMAN_SERVER'' = ec_ServerName e"
proof -
  have "''REPOSITORY_EXPECTED_FINGERPRINT'' \<notin> set env_order" "''REPOSITORY_BARMAN_SERVER'' \<notin> set env_order"
    by (simp_all add: env_order_def)
  note free = this[THEN console_env_free]
  show "env_value (consume_evidence e (consoleContainer console i)) ''REPOSITORY_EXPECTED_FINGERPRINT'' = ec_Fingerprint e"
    "env_value (consume_evidence e (consoleContainer console i)) ''REPOSITORY_BARMAN_SERVER'' = ec_ServerName e"
    by (simp_all only: env_value_def container_images free) simp_all
qed

text \<open>
  C30: the console expects exactly the repository the viewer was given. In a Deployment that
  composes resolved evidence, the destination, endpoint and server in the viewer's
  environment, put through the shared canonicalization, give the fingerprint in the console's
  environment, and both name the same server; so a mismatch the console reports is never of
  the operator's own making.
\<close>

theorem evidence_identity_agrees:
  assumes e: "resolveEvidence E console s = Inr (Inr e)" and d: "deployment G K o' console inputs = Inr d"
    and composed: "wi_Composition inputs = Some e"
  shows "\<exists>viewer con dest. viewer \<in> set (pd_Containers (dp_Pod d)) \<and> cn_Name viewer = ''objectstoreviewer''
    \<and> con \<in> set (pd_Containers (dp_Pod d)) \<and> cn_Name con = ''pgconsole''
    \<and> ParseDestination (ee_Quote E) (env_value viewer ''DESTINATION_PATH'') = Inr dest
    \<and> Fingerprint (ee_FingerprintS3 E) dest (env_value viewer ''ENDPOINT_URL'') (env_value viewer ''BARMAN_SERVER_NAMES'')
        = Inr (env_value con ''REPOSITORY_EXPECTED_FINGERPRINT'')
    \<and> env_value con ''REPOSITORY_BARMAN_SERVER'' = env_value viewer ''BARMAN_SERVER_NAMES''"
proof -
  obtain cl raw cfg where "supported E cl cfg e" using resolveEvidence_Inr[OF e] by metis
  then have parse: "ParseDestination (ee_Quote E) (ec_DestinationPath e) = Inr (ec_Destination e)"
    and print: "Fingerprint (ee_FingerprintS3 E) (ec_Destination e) (ec_EndpointURL e) (ec_ServerName e) = Inr (ec_Fingerprint e)"
    unfolding supported_def by (elim conjE, simp only:)+
  let ?viewer = "viewerContainer console (wi_ViewerImage inputs) e"
  let ?con = "consume_evidence e (consoleContainer console (wi_ConsoleImage inputs))"
  have "?viewer \<in> set (pd_Containers (dp_Pod d))" "?con \<in> set (pd_Containers (dp_Pod d))"
    using deployment_Inr[OF d] composed by (simp_all add: composed_containers)
  with parse print show ?thesis
    by (intro exI[of _ ?viewer] exI[of _ ?con] exI[of _ "ec_Destination e"]) (simp add: viewer_env consumer_env)
qed

section \<open>Witnesses\<close>

definition sample_inputs :: workloadInputs where
  "sample_inputs =
     \<lparr>wi_ProxyImage = ''proxy:1'', wi_ConsoleImage = ''console:1'', wi_PgAdminImage = ''pgadmin:1'', wi_ViewerImage = ''viewer:1'',
      wi_ConfigChecksum = ''c1'', wi_AdminSyncSecretVersion = ''7'',
      wi_Composition = Some \<lparr>ec_ObjectStoreName = ''store'', ec_ClusterUID = ''cu1'', ec_ServerName = ''pg'',
        ec_DestinationPath = ''s3://backups/pg'', ec_Destination = \<lparr>de_Bucket = ''backups'', de_Prefix = ''pg''\<rparr>,
        ec_EndpointURL = [], ec_EndpointCA = None, ec_AccessKeyID = \<lparr>kr_Name = ''s3'', kr_Key = ''id''\<rparr>,
        ec_SecretAccessKey = \<lparr>kr_Name = ''s3'', kr_Key = ''key''\<rparr>, ec_SessionToken = None, ec_Fingerprint = ''sha256:f''\<rparr>,
      wi_TokenSecretName = ''pg-pgconsole-evidence-t1''\<rparr>"

abbreviation sample_render :: "string \<Rightarrow> workloadInputs \<Rightarrow> Deployment reconciled" where
  "sample_render o' inputs \<equiv> deployment (sample_lib JNull) sample_kube o' sample_console inputs"

lemma sample_rendered: "\<exists>d. sample_render o' inputs = Inr d"
  by (rule owned_meta_ok[OF sample_kube_owners, of "sample_lib JNull" sample_console "[]"])
     (simp add: deployment_def Let_def)

lemma deployment_store: "applies_deployment (store_client (\<lambda>d. key_of (dp_Meta d)))"
  by (auto simp: applies_deployment_def carries_def LabelsContain_refl)

theorem rendered_pod_ok_witness: "\<exists>d. sample_render ''operator:1'' sample_inputs = Inr d \<and> pod_ok (dp_Pod d)"
  using sample_rendered rendered_pod_ok by blast

theorem credentials_confined_witness:
  "\<exists>d. sample_render ''operator:1'' sample_inputs = Inr d
     \<and> holders (dp_Pod d) evidenceTokenVolume = [''pgconsole'', ''objectstoreviewer'']
     \<and> holders (dp_Pod d) kubeAPIAccessVolume = [''proxy'', ''pgconsole'']"
proof -
  obtain d where d: "sample_render ''operator:1'' sample_inputs = Inr d" using sample_rendered by blast
  from credentials_confined[OF d] d show ?thesis by (simp add: sample_inputs_def)
qed


theorem operator_upgrade_ignored_witness:
  "\<exists>d1 d2. sample_render ''operator:1'' sample_inputs = Inr d1 \<and> sample_render ''operator:2'' sample_inputs = Inr d2
     \<and> pd_InitContainers (dp_Pod d1) \<noteq> pd_InitContainers (dp_Pod d2)
     \<and> reconcileDeployment sample_kube (fixed_client (\<lambda>_. Inr d1) []) d2 () = (Inr d1, ())"
proof -
  obtain d1 d2 where d: "sample_render ''operator:1'' sample_inputs = Inr d1" "sample_render ''operator:2'' sample_inputs = Inr d2"
    using sample_rendered by blast
  have "pgAdminEnabled sample_console" by (simp add: pgAdminEnabled_def sample_spec_def)
  with operator_upgrade_ignored[OF sample_kube_owners d, of "fixed_client (\<lambda>_. Inr d1) []" "()"] d show ?thesis by simp
qed

theorem input_changes_detected_witness:
  "let i1 = sample_inputs\<lparr>wi_Composition := None\<rparr>; i2 = i1\<lparr>wi_ViewerImage := ''viewer:2''\<rparr> in
   \<exists>d1 d2. sample_render ''operator:1'' i1 = Inr d1 \<and> sample_render ''operator:1'' i2 = Inr d2
     \<and> deploymentMatches sample_kube d1 d2 \<and> wi_ConsoleImage i1 = wi_ConsoleImage i2"
proof -
  define i1 where "i1 = sample_inputs\<lparr>wi_Composition := None\<rparr>"
  define i2 where "i2 = i1\<lparr>wi_ViewerImage := ''viewer:2''\<rparr>"
  obtain d1 d2 where d: "sample_render ''operator:1'' i1 = Inr d1" "sample_render ''operator:1'' i2 = Inr d2"
    using sample_rendered by blast
  have "base_pod (sample_lib JNull) ''operator:1'' sample_console i1 = base_pod (sample_lib JNull) ''operator:1'' sample_console i2"
    "pod_annotations i1 = pod_annotations i2" "wi_Composition i1 = None" "wi_Composition i2 = None"
    by (simp_all add: base_pod_def pod_annotations_def Let_def i2_def) (simp_all add: i1_def)
  then have "sample_render ''operator:1'' i1 = sample_render ''operator:1'' i2" by (simp add: deployment_def)
  with d have "d1 = d2" by simp
  moreover obtain m where "owned_meta (sample_lib JNull) sample_kube sample_console [] = Inr m"
    "controller_uid sample_kube m = Some (con_UID sample_console)"
    using owned_meta_ok[OF sample_kube_owners, of "sample_lib JNull" sample_console "[]"] by metis
  ultimately have "deploymentMatches sample_kube d1 d2"
    using carries_matches[OF sample_kube_owners, of d1 d1] deployment_Inr[OF d(1)]
    by (simp add: carries_def LabelsContain_refl)
  with input_changes_detected[OF d this] d show ?thesis unfolding i1_def i2_def by (auto simp: Let_def)
qed

theorem evidence_identity_agrees_witness:
  "\<exists>d con. deployment (sample_lib JNull) sample_kube ''operator:1'' (evidence_console [])
       (sample_inputs\<lparr>wi_Composition := Some archive_composition\<rparr>) = Inr d
     \<and> con \<in> set (pd_Containers (dp_Pod d)) \<and> cn_Name con = ''pgconsole''"
proof -
  let ?i = "sample_inputs\<lparr>wi_Composition := Some archive_composition\<rparr>"
  obtain d where d: "deployment (sample_lib JNull) sample_kube ''operator:1'' (evidence_console []) ?i = Inr d"
    by (rule owned_meta_ok[OF sample_kube_owners, of "sample_lib JNull" "evidence_console []" "[]"])
       (simp add: deployment_def Let_def)
  from evidence_identity_agrees[OF archive_resolved d] d show ?thesis by auto
qed

end
