(* ===== verification/Console_Secrets.thy ===== *)
theory Console_Secrets
  imports Workload
begin

text \<open>
  The Secrets the operator generates for pgAdmin: the bootstrap account's password
  (\<open>internal/controller/pgconsole/pgadmin_bootstrap.go\<close>) and the certificate and token of the
  admin-sync API (\<open>adminsync_secret.go\<close>). Random bytes, key generation, certificate creation
  and PEM armour are parameters; what the operator asks of them is in the certificate template.
\<close>

section \<open>Material\<close>

definition SidecarSecretCertKey :: string where "SidecarSecretCertKey = ''tls.crt''"
definition SidecarSecretKeyKey :: string where "SidecarSecretKeyKey = ''tls.key''"

record certificate_template =
  xc_SerialNumber :: int
  xc_CommonName :: string
  xc_DNSNames :: "string list"
  xc_NotBefore :: int
  xc_NotAfter :: int
  xc_KeyUsage :: "string list"
  xc_ExtKeyUsage :: "string list"
  xc_BasicConstraintsValid :: bool
  xc_IsCA :: bool

record 'k crypto =
  cy_GenerateKey :: "'k option"
  cy_Serial :: "int option"
  cy_Now :: int
  cy_TenYearsOn :: int
  cy_CreateCertificate :: "certificate_template \<Rightarrow> 'k \<Rightarrow> string option"
  cy_MarshalECPrivateKey :: "'k \<Rightarrow> string option"
  cy_PEM :: "string \<Rightarrow> string \<Rightarrow> string"
  cy_Token :: "string option"

definition serving_template :: "'k crypto \<Rightarrow> int \<Rightarrow> certificate_template" where
  "serving_template R serial =
     \<lparr>xc_SerialNumber = serial, xc_CommonName = SidecarServerName, xc_DNSNames = [SidecarServerName],
      xc_NotBefore = cy_Now R - 300, xc_NotAfter = cy_TenYearsOn R,
      xc_KeyUsage = [''DigitalSignature'', ''CertSign''], xc_ExtKeyUsage = [''ServerAuth''],
      xc_BasicConstraintsValid = True, xc_IsCA = True\<rparr>"

definition or_fail :: "string \<Rightarrow> 'a option \<Rightarrow> 'a reconciled" where
  "or_fail message x = (case x of None \<Rightarrow> Inl (Failed message) | Some v \<Rightarrow> Inr v)"

definition generateAdminSyncMaterial :: "'k crypto \<Rightarrow> smap reconciled" where
  "generateAdminSyncMaterial R =
     bind_result (or_fail ''generate admin-sync key'' (cy_GenerateKey R)) (\<lambda>key.
     bind_result (or_fail ''generate admin-sync serial'' (cy_Serial R)) (\<lambda>serial.
     bind_result (or_fail ''create admin-sync certificate'' (cy_CreateCertificate R (serving_template R serial) key)) (\<lambda>certificate.
     bind_result (or_fail ''encode admin-sync key'' (cy_MarshalECPrivateKey R key)) (\<lambda>privateKey.
     bind_result (or_fail ''generate admin-sync token'' (cy_Token R)) (\<lambda>token.
       let certPEM = cy_PEM R ''CERTIFICATE'' certificate; keyPEM = cy_PEM R ''EC PRIVATE KEY'' privateKey in
       Inr (fmap_of_list [(SidecarSecretCAKey, certPEM), (SidecarSecretCertKey, certPEM), (SidecarSecretKeyKey, keyPEM),
              (SidecarSecretTokenKey, b64_EncodeToString token)]))))))"

definition adminSyncSecretUsable :: "Secret \<Rightarrow> bool" where
  "adminSyncSecretUsable secret =
     (at (se_Data secret) SidecarSecretCAKey \<noteq> [] \<and> at (se_Data secret) SidecarSecretCertKey \<noteq> []
      \<and> at (se_Data secret) SidecarSecretKeyKey \<noteq> [] \<and> length (at (se_Data secret) SidecarSecretTokenKey) \<ge> 32)"

section \<open>Convergence\<close>

definition secret_meta :: "kube \<Rightarrow> PgConsole \<Rightarrow> string \<Rightarrow> ObjectMeta reconciled" where
  "secret_meta K console name =
     with_owner K console (new_meta name (con_Namespace console) (CommonLabels application (con_Name console)))"

text \<open>After a successful create the object given to the client carries the version the server assigned.\<close>

definition created_version :: "('s, Secret) client \<Rightarrow> object_key \<Rightarrow> 's \<Rightarrow> string" where
  "created_version secrets key s = (case api_Live secrets s key of Inr x \<Rightarrow> m_ResourceVersion (se_Meta x) | Inl _ \<Rightarrow> [])"

definition reconcileAdminSyncSecret ::
  "kube \<Rightarrow> 'k crypto \<Rightarrow> ('s, Secret) client \<Rightarrow> PgConsole \<Rightarrow> 's \<Rightarrow> string reconciled \<times> 's" where
  "reconcileAdminSyncSecret K R secrets console s =
     (let name = SidecarSecretName (con_Name console); key = (con_Namespace console, name) in
      case api_Live secrets s key of
        Inr existing \<Rightarrow>
          (if adminSyncSecretUsable existing then (Inr (m_ResourceVersion (se_Meta existing)), s)
           else (Inl (Failed (''admin-sync secret '' @ con_Namespace console @ ''/'' @ name @ '' is invalid; delete it to regenerate'')), s))
      | Inl NotFound \<Rightarrow>
          and_then (lift_result (generateAdminSyncMaterial R)) (\<lambda>data.
          and_then (lift_result (secret_meta K console name)) (\<lambda>m s.
            case api_Create secrets s \<lparr>se_Meta = m, se_Type = SecretTypeOpaque, se_Immutable = None, se_Data = data\<rparr> of
              (None, s') \<Rightarrow> (Inr (created_version secrets key s'), s')
            | (Some e, s') \<Rightarrow> (Inl (FailedApi (''create '' @ con_Namespace console @ ''/'' @ name) e), s'))) s
      | Inl e \<Rightarrow> (Inl (FailedApi ''get admin-sync secret'' e), s))"

definition generatePgAdminBootstrapPassword :: "string option \<Rightarrow> string reconciled" where
  "generatePgAdminBootstrapPassword raw =
     bind_result (or_fail ''generate pgAdmin bootstrap password'' raw) (\<lambda>bytes. Inr (b64_EncodeToString bytes))"

definition reconcilePgAdminBootstrapSecret ::
  "golib \<Rightarrow> kube \<Rightarrow> string option \<Rightarrow> ('s, Secret) client \<Rightarrow> PgConsole \<Rightarrow> 's \<Rightarrow> unit reconciled \<times> 's" where
  "reconcilePgAdminBootstrapSecret G K raw secrets console s =
     (let name = pgAdminBootstrapSecretName G (con_Name console); key = (con_Namespace console, name) in
      case api_Live secrets s key of
        Inr existing \<Rightarrow>
          (if at (se_Data existing) pgAdminBootstrapPasswordKey \<noteq> [] then (Inr (), s)
           else (Inl (Failed (''pgAdmin bootstrap secret '' @ con_Namespace console @ ''/'' @ name @ '' has no ''
                   @ pgAdminBootstrapPasswordKey @ ''; delete it to regenerate'')), s))
      | Inl NotFound \<Rightarrow>
          and_then (lift_result (generatePgAdminBootstrapPassword raw)) (\<lambda>password.
          and_then (lift_result (secret_meta K console name)) (\<lambda>m s.
            case api_Create secrets s \<lparr>se_Meta = m, se_Type = [], se_Immutable = None,
                   se_Data = fmupd pgAdminBootstrapPasswordKey password fmempty\<rparr> of
              (None, s') \<Rightarrow> (Inr (), s')
            | (Some api_error.AlreadyExists, s') \<Rightarrow> (Inr (), s')
            | (Some e, s') \<Rightarrow> (Inl (FailedApi ''create pgAdmin bootstrap secret'' e), s'))) s
      | Inl e \<Rightarrow> (Inl (FailedApi ''get pgAdmin bootstrap secret'' e), s))"

section \<open>Generated once\<close>

text \<open>What the libraries document: PEM armour is never empty, and a read of random bytes fills the buffer.\<close>

definition crypto_ok :: "'k crypto \<Rightarrow> bool" where
  "crypto_ok R \<longleftrightarrow> (\<forall>t b. cy_PEM R t b \<noteq> []) \<and> (\<forall>t. cy_Token R = Some t \<longrightarrow> length t = 36)"

lemma or_fail_Inr [simp]: "or_fail m x = Inr v \<longleftrightarrow> x = Some v"
  by (simp add: or_fail_def split: option.splits)

lemma generated_usable:
  assumes "crypto_ok R" "generateAdminSyncMaterial R = Inr data"
  shows "adminSyncSecretUsable \<lparr>se_Meta = m, se_Type = t, se_Immutable = i, se_Data = data\<rparr>"
  using assms
  by (auto simp: generateAdminSyncMaterial_def Let_def adminSyncSecretUsable_def crypto_ok_def at_of_list b64_length
      SidecarSecretCAKey_def SidecarSecretCertKey_def SidecarSecretKeyKey_def SidecarSecretTokenKey_def)

lemma usable_cong: "se_Data x = se_Data y \<Longrightarrow> adminSyncSecretUsable x = adminSyncSecretUsable y"
  by (simp add: adminSyncSecretUsable_def)

lemma secret_meta_key:
  assumes "owners_ok K" "secret_meta K console name = Inr m"
  shows "key_of m = (con_Namespace console, name)"
proof -
  let ?m = "new_meta name (con_Namespace console) (CommonLabels application (con_Name console))"
  have "m_OwnerReferences ?m = []" by simp
  then obtain r where "SetControllerReference K (con_Meta console) ?m = Inr (?m\<lparr>m_OwnerReferences := [r]\<rparr>)"
    using assms(1) unfolding owners_ok_def by blast
  with assms(2) show ?thesis by (auto simp: secret_meta_def with_owner_def key_of_def)
qed

abbreviation sync_key :: "PgConsole \<Rightarrow> object_key" where
  "sync_key console \<equiv> (con_Namespace console, SidecarSecretName (con_Name console))"

definition sync_good :: "kube \<Rightarrow> 'k crypto \<Rightarrow> ('s, Secret) client \<Rightarrow> bool" where
  "sync_good K R secrets \<longleftrightarrow> owners_ok K \<and> client_ok secrets secret_key secret_content \<and> crypto_ok R"

definition sync_settled :: "('s, Secret) client \<Rightarrow> PgConsole \<Rightarrow> 's \<Rightarrow> bool" where
  "sync_settled secrets console s \<longleftrightarrow> (\<exists>x. api_Live secrets s (sync_key console) = Inr x \<and> adminSyncSecretUsable x)"

lemma reconcileAdminSyncSecret_Inr:
  assumes good: "sync_good K R secrets" and run: "reconcileAdminSyncSecret K R secrets console s = (Inr v, s')"
  shows "\<exists>x. api_Live secrets s' (sync_key console) = Inr x \<and> adminSyncSecretUsable x \<and> v = m_ResourceVersion (se_Meta x)"
proof (cases "api_Live secrets s (sync_key console)")
  case (Inr x)
  with run show ?thesis by (auto simp: reconcileAdminSyncSecret_def Let_def split: if_splits)
next
  case (Inl e)
  with run have "e = NotFound" by (cases e) (simp_all add: reconcileAdminSyncSecret_def Let_def)
  with run Inl obtain data m where data: "generateAdminSyncMaterial R = Inr data"
    and m: "secret_meta K console (SidecarSecretName (con_Name console)) = Inr m"
    and c: "api_Create secrets s \<lparr>se_Meta = m, se_Type = SecretTypeOpaque, se_Immutable = None, se_Data = data\<rparr> = (None, s')"
    and v: "v = created_version secrets (sync_key console) s'"
    by (auto simp: reconcileAdminSyncSecret_def Let_def elim!: and_then_Inr split: prod.splits option.splits)
  let ?x = "\<lparr>se_Meta = m, se_Type = SecretTypeOpaque, se_Immutable = None, se_Data = data\<rparr>"
  have "secret_key ?x = sync_key console" using secret_meta_key[OF _ m] good by (simp add: secret_key_def sync_good_def)
  moreover have "client_ok secrets secret_key secret_content" using good by (simp add: sync_good_def)
  note client_ok_writes(1)[OF this c]
  ultimately obtain y where y: "api_Live secrets s' (sync_key console) = Inr y"
    "secret_content y = secret_content ?x" by (auto simp: writes_def stores_def)
  moreover have "adminSyncSecretUsable ?x" using good data by (auto simp: sync_good_def intro: generated_usable)
  ultimately show ?thesis
    using v usable_cong[of y ?x] by (simp add: created_version_def secret_content_def)
qed

interpretation material: convergence
  "reconcileAdminSyncSecret K R secrets console" "\<lambda>s. sync_good K R secrets" "sync_settled secrets console"
  for K R secrets console
proof
  show "sync_settled secrets console s'"
    if "sync_good K R secrets" "reconcileAdminSyncSecret K R secrets console s = (Inr v, s')" for s v s'
    using reconcileAdminSyncSecret_Inr[OF that] by (auto simp: sync_settled_def)
  show "\<exists>v. reconcileAdminSyncSecret K R secrets console s = (Inr v, s)" if "sync_settled secrets console s" for s
    using that by (auto simp: sync_settled_def reconcileAdminSyncSecret_def Let_def)
qed

section \<open>Properties\<close>

text \<open>
  the admin-sync credentials are generated once and never replaced behind the pod's back.
  A successful pass leaves a Secret with certificate, key and a token of at least 32 bytes,
  and reports the version of exactly that Secret, the one the pod template is annotated with;
  every later pass, whatever randomness it draws, writes nothing and reports the same version.
  An existing Secret is never overwritten: one that is incomplete makes the pass fail.
\<close>

theorem admin_sync_material_stable:
  fixes R :: "'k crypto"
  assumes good: "sync_good K R secrets" and run: "reconcileAdminSyncSecret K R secrets console s = (r, s')"
  shows "(\<forall>x. api_Live secrets s (sync_key console) = Inr x
            \<longrightarrow> s' = s \<and> (if adminSyncSecretUsable x then r = Inr (m_ResourceVersion (se_Meta x)) else \<exists>e. r = Inl e))
    \<and> (\<forall>v. r = Inr v \<longrightarrow>
         (\<exists>x. api_Live secrets s' (sync_key console) = Inr x \<and> adminSyncSecretUsable x \<and> v = m_ResourceVersion (se_Meta x))
       \<and> (\<forall>R' :: 'k crypto. reconcileAdminSyncSecret K R' secrets console s' = (Inr v, s'))
       \<and> ((\<lambda>t. snd (reconcileAdminSyncSecret K R secrets console t)) ^^ n) s' = s')"
proof -
  have "s' = s \<and> (if adminSyncSecretUsable x then r = Inr (m_ResourceVersion (se_Meta x)) else \<exists>e. r = Inl e)"
    if "api_Live secrets s (sync_key console) = Inr x" for x
    using run that by (auto simp: reconcileAdminSyncSecret_def Let_def split: if_splits)
  moreover have "(\<exists>x. api_Live secrets s' (sync_key console) = Inr x \<and> adminSyncSecretUsable x \<and> v = m_ResourceVersion (se_Meta x))
       \<and> (\<forall>R' :: 'k crypto. reconcileAdminSyncSecret K R' secrets console s' = (Inr v, s'))
       \<and> ((\<lambda>t. snd (reconcileAdminSyncSecret K R secrets console t)) ^^ n) s' = s'" if "r = Inr v" for v
  proof -
    note run' = run[unfolded that]
    obtain x where x: "api_Live secrets s' (sync_key console) = Inr x" "adminSyncSecretUsable x" "v = m_ResourceVersion (se_Meta x)"
      using reconcileAdminSyncSecret_Inr[OF good run'] by blast
    moreover have "reconcileAdminSyncSecret K R' secrets console s' = (Inr v, s')" for R' :: "'k crypto"
      using x by (simp add: reconcileAdminSyncSecret_def)
    ultimately show ?thesis using material.runs_quiet[OF good run', of n] by blast
  qed
  ultimately show ?thesis by blast
qed

section \<open>Witness\<close>

definition sample_crypto :: "unit crypto" where
  "sample_crypto =
     \<lparr>cy_GenerateKey = Some (), cy_Serial = Some 1, cy_Now = 0, cy_TenYearsOn = 315360000,
      cy_CreateCertificate = (\<lambda>t k. Some ''cert''), cy_MarshalECPrivateKey = (\<lambda>k. Some ''key''),
      cy_PEM = (\<lambda>t b. t @ '' '' @ b @ ''.''), cy_Token = Some (replicate 36 CHR ''t'')\<rparr>"

theorem admin_sync_material_stable_witness:
  "\<exists>v s'. reconcileAdminSyncSecret sample_kube sample_crypto (store_client secret_key) sample_console fmempty = (Inr v, s')
     \<and> sync_settled (store_client secret_key) sample_console s'
     \<and> reconcileAdminSyncSecret sample_kube sample_crypto (store_client secret_key) sample_console s' = (Inr v, s')"
proof -
  have good: "sync_good sample_kube sample_crypto (store_client secret_key)"
    by (simp add: sync_good_def sample_kube_owners store_client_ok crypto_ok_def sample_crypto_def)
  obtain data where "generateAdminSyncMaterial sample_crypto = Inr data"
    by (simp add: generateAdminSyncMaterial_def sample_crypto_def or_fail_def Let_def)
  moreover obtain m where "secret_meta sample_kube sample_console (SidecarSecretName (con_Name sample_console)) = Inr m"
    by (simp add: secret_meta_def with_owner_def sample_kube_def)
  ultimately obtain v s' where run: "reconcileAdminSyncSecret sample_kube sample_crypto (store_client secret_key) sample_console fmempty = (Inr v, s')"
    by (simp add: reconcileAdminSyncSecret_def Let_def and_then_def)
  from admin_sync_material_stable[OF good run, of 0] run show ?thesis by (auto simp: sync_settled_def)
qed

end
