(* ===== verification/Exposure.thy ===== *)
theory Exposure
  imports Network_Policy
begin

text \<open>
  How a console is reached from outside (\<open>internal/controller/pgconsole/exposure.go\<close>): the
  Ingress, OpenShift Route or Gateway API HTTPRoute of the requested type, the removal of the
  other kinds, and the RouteReady condition derived from what the platform reports.

  The platform's objects are records of the fields the operator writes and reads. A patch
  fills the object it was given with the server's answer, so after an apply the condition is
  derived from the live object (\<open>applied\<close>). Label selectors of listeners are a parameter.
\<close>

section \<open>Objects\<close>

record Ingress =
  ing_Meta :: ObjectMeta
  ing_ClassName :: "string option"
  ing_Host :: string
  ing_Path :: string
  ing_PathType :: string
  ing_ServiceName :: string
  ing_ServicePort :: int
  ing_TLS :: "(string list \<times> string) list"
  ing_LoadBalancer :: "string list"

record RouteIngressCondition =
  ric_Type :: string
  ric_Status :: string
  ric_Reason :: string
  ric_Message :: string

record OpenShiftRoute =
  osr_Meta :: ObjectMeta
  osr_Host :: string
  osr_ToKind :: string
  osr_ToName :: string
  osr_Weight :: int
  osr_TargetPort :: string
  osr_TLS :: "(string \<times> string) option"
  osr_WildcardPolicy :: string
  osr_Ingress :: "(string \<times> RouteIngressCondition list) list"

record ParentReference =
  prf_Group :: "string option"
  prf_Kind :: "string option"
  prf_Name :: string
  prf_Namespace :: "string option"
  prf_SectionName :: "string option"

record BackendRef =
  bkr_Group :: string
  bkr_Kind :: string
  bkr_Name :: string
  bkr_Port :: int
  bkr_Weight :: int

record HTTPRoute =
  htr_Meta :: ObjectMeta
  htr_ParentRefs :: "ParentReference list"
  htr_Hostnames :: "string list"
  htr_BackendRefs :: "BackendRef list list"
  htr_Parents :: "(ParentReference \<times> Condition list) list"

record AllowedRoutes =
  alr_Kinds :: "(string option \<times> string) list"
  alr_From :: "string option"
  alr_Selector :: "string option"

record Listener =
  lis_Name :: string
  lis_Protocol :: string
  lis_Hostname :: "string option"
  lis_AllowedRoutes :: "AllowedRoutes option"

record Gateway =
  gtw_Meta :: ObjectMeta
  gtw_Listeners :: "Listener list"

record 's platform =
  pl_Ingress :: "('s, Ingress) client"
  pl_Route :: "('s, OpenShiftRoute) client"
  pl_HTTPRoute :: "('s, HTTPRoute) client"
  pl_Gateway :: "('s, Gateway) client"
  pl_NamespaceLabels :: "'s \<Rightarrow> string \<Rightarrow> (api_error, smap) result"
  pl_Selector :: "string \<Rightarrow> (smap \<Rightarrow> bool) option"
  pl_RouteAPI :: bool
  pl_GatewayAPI :: bool

abbreviation con_exposure :: "PgConsole \<Rightarrow> ExposureSpec" where
  "con_exposure console \<equiv> sp_Exposure (con_Spec console)"

section \<open>Validation and metadata\<close>

definition validateExposure :: "PgConsole \<Rightarrow> bool" where
  "validateExposure console =
     (ex_Type (con_exposure console) \<noteq> ExposureTypeGateway
      \<or> (case ex_TLS (con_exposure console) of
           None \<Rightarrow> True
         | Some tls \<Rightarrow> \<not> (tls_Termination tls \<noteq> [] \<or> tls_CertificateSecretRef tls \<noteq> None)))"

definition stringPtrOrNil :: "string \<Rightarrow> string option" where
  "stringPtrOrNil value = (if value = [] then None else Some value)"

definition exposureAnnotations :: "ExposureSpec \<Rightarrow> smap" where
  "exposureAnnotations exposure = FilteredOverlay (ex_Annotations exposure)"

definition exposureLabels :: "PgConsole \<Rightarrow> smap" where
  "exposureLabels console = FilteredOverlay (ex_Labels (con_exposure console)) ++\<^sub>f CommonLabels application (con_Name console)"

definition exposure_meta :: "golib \<Rightarrow> kube \<Rightarrow> PgConsole \<Rightarrow> ObjectMeta reconciled" where
  "exposure_meta G K console =
     (case SetControllerReference K (con_Meta console)
             ((new_meta (ResourceName G application (con_Name console) []) (con_Namespace console) (exposureLabels console))
                \<lparr>m_Annotations := exposureAnnotations (con_exposure console)\<rparr>) of
        Inl e \<Rightarrow> Inl (Failed e) | Inr m \<Rightarrow> Inr m)"

definition exposureObjectMatches :: "kube \<Rightarrow> ObjectMeta \<Rightarrow> ObjectMeta \<Rightarrow> bool" where
  "exposureObjectMatches K existing desired =
     (LabelsContain (m_Labels existing) (m_Labels desired) \<and> m_Annotations existing = m_Annotations desired
      \<and> ControllerOwnerMatches K existing desired)"

section \<open>The desired objects\<close>

definition ingress :: "golib \<Rightarrow> kube \<Rightarrow> PgConsole \<Rightarrow> Ingress reconciled" where
  "ingress G K console =
     (let exposure = con_exposure console in
      bind_result (exposure_meta G K console) (\<lambda>m.
        Inr \<lparr>ing_Meta = m, ing_ClassName = stringPtrOrNil (ex_IngressClassName exposure), ing_Host = ex_Hostname exposure,
             ing_Path = ''/'', ing_PathType = ''Prefix'',
             ing_ServiceName = ResourceName G application (con_Name console) [], ing_ServicePort = 80,
             ing_TLS = (case Option.bind (ex_TLS exposure) tls_CertificateSecretRef of
                          None \<Rightarrow> [] | Some ref \<Rightarrow> [([ex_Hostname exposure], lor_Name ref)]),
             ing_LoadBalancer = []\<rparr>))"

definition route :: "golib \<Rightarrow> kube \<Rightarrow> PgConsole \<Rightarrow> OpenShiftRoute reconciled" where
  "route G K console =
     (let exposure = con_exposure console;
          termination = (case ex_TLS exposure of None \<Rightarrow> [] | Some tls \<Rightarrow> tls_Termination tls) in
      bind_result (exposure_meta G K console) (\<lambda>m.
        Inr \<lparr>osr_Meta = m, osr_Host = ex_Hostname exposure, osr_ToKind = ''Service'',
             osr_ToName = ResourceName G application (con_Name console) [], osr_Weight = 100,
             osr_TargetPort = (if termination = ''reencrypt'' then ''https'' else ''http''),
             osr_TLS = (if termination = [] then None else Some (termination, ''Redirect'')),
             osr_WildcardPolicy = ''None'', osr_Ingress = []\<rparr>))"

text \<open>A console of the Gateway type without a gateway reference dereferences nil.\<close>

definition gateway_parent :: "PgConsole \<Rightarrow> GatewayParentRef reconciled" where
  "gateway_parent console =
     (case ex_Gateway (con_exposure console) of
        None \<Rightarrow> Inl (Panicked ''nil pointer dereference'') | Some gw \<Rightarrow> Inr (gw_ParentRef gw))"

definition gatewayGroupName :: string where "gatewayGroupName = ''gateway.networking.k8s.io''"

definition httpRoute :: "golib \<Rightarrow> kube \<Rightarrow> PgConsole \<Rightarrow> HTTPRoute reconciled" where
  "httpRoute G K console =
     bind_result (gateway_parent console) (\<lambda>parent.
     bind_result (exposure_meta G K console) (\<lambda>m.
       Inr \<lparr>htr_Meta = m,
            htr_ParentRefs = [\<lparr>prf_Group = Some gatewayGroupName, prf_Kind = Some ''Gateway'', prf_Name = gp_Name parent,
               prf_Namespace = stringPtrOrNil (gp_Namespace parent), prf_SectionName = stringPtrOrNil (gp_SectionName parent)\<rparr>],
            htr_Hostnames = [ex_Hostname (con_exposure console)],
            htr_BackendRefs = [[\<lparr>bkr_Group = [], bkr_Kind = ''Service'',
               bkr_Name = ResourceName G application (con_Name console) [], bkr_Port = 443, bkr_Weight = 1\<rparr>]],
            htr_Parents = []\<rparr>))"

section \<open>Convergence of one kind\<close>

definition applied :: "('s, 'o) client \<Rightarrow> ('o \<Rightarrow> ObjectMeta) \<Rightarrow> 'o \<Rightarrow> 's \<Rightarrow> 'o" where
  "applied C meta desired s = (case api_Live C s (key_of (meta desired)) of Inr x \<Rightarrow> x | Inl _ \<Rightarrow> desired)"

definition converge_exposed ::
  "kube \<Rightarrow> ('s, 'o) client \<Rightarrow> ('o \<Rightarrow> ObjectMeta) \<Rightarrow> ('o \<Rightarrow> 'o \<Rightarrow> bool) \<Rightarrow> 'o \<Rightarrow> 's \<Rightarrow> 'o reconciled \<times> 's" where
  "converge_exposed K C meta same desired s =
     (let apply = and_then (ApplyObject C desired) (\<lambda>_ s'. (Inr (applied C meta desired s'), s')) in
      case api_Get C s (key_of (meta desired)) of
        Inr existing \<Rightarrow>
          if exposureObjectMatches K (meta existing) (meta desired) \<and> same existing desired then (Inr existing, s)
          else apply s
      | Inl NotFound \<Rightarrow> apply s
      | Inl e \<Rightarrow> (Inl (FailedApi ''get exposure'' e), s))"

definition same_ingress :: "Ingress \<Rightarrow> Ingress \<Rightarrow> bool" where
  "same_ingress a b = (a\<lparr>ing_Meta := ing_Meta b, ing_LoadBalancer := ing_LoadBalancer b\<rparr> = b)"

definition same_route :: "OpenShiftRoute \<Rightarrow> OpenShiftRoute \<Rightarrow> bool" where
  "same_route a b = (a\<lparr>osr_Meta := osr_Meta b, osr_Ingress := osr_Ingress b\<rparr> = b)"

definition same_httpRoute :: "HTTPRoute \<Rightarrow> HTTPRoute \<Rightarrow> bool" where
  "same_httpRoute a b = (a\<lparr>htr_Meta := htr_Meta b, htr_Parents := htr_Parents b\<rparr> = b)"

definition reconcileIngress :: "golib \<Rightarrow> kube \<Rightarrow> 's platform \<Rightarrow> PgConsole \<Rightarrow> 's \<Rightarrow> Ingress reconciled \<times> 's" where
  "reconcileIngress G K P console =
     and_then (lift_result (ingress G K console)) (\<lambda>desired. converge_exposed K (pl_Ingress P) ing_Meta same_ingress desired)"

definition reconcileRoute :: "golib \<Rightarrow> kube \<Rightarrow> 's platform \<Rightarrow> PgConsole \<Rightarrow> 's \<Rightarrow> OpenShiftRoute reconciled \<times> 's" where
  "reconcileRoute G K P console =
     and_then (lift_result (route G K console)) (\<lambda>desired. converge_exposed K (pl_Route P) osr_Meta same_route desired)"

definition reconcileHTTPRoute :: "golib \<Rightarrow> kube \<Rightarrow> 's platform \<Rightarrow> PgConsole \<Rightarrow> 's \<Rightarrow> HTTPRoute reconciled \<times> 's" where
  "reconcileHTTPRoute G K P console =
     and_then (lift_result (httpRoute G K console)) (\<lambda>desired. converge_exposed K (pl_HTTPRoute P) htr_Meta same_httpRoute desired)"

definition deleteExposureIfOwned ::
  "kube \<Rightarrow> ('s, 'o) client \<Rightarrow> ('o \<Rightarrow> ObjectMeta) \<Rightarrow> object_key \<Rightarrow> PgConsole \<Rightarrow> 's \<Rightarrow> unit reconciled \<times> 's" where
  "deleteExposureIfOwned K C meta key console s =
     (case api_Get C s key of
        Inl NotFound \<Rightarrow> (Inr (), s)
      | Inl e \<Rightarrow> (Inl (FailedApi ''get exposure'' e), s)
      | Inr target \<Rightarrow>
          (if controller_uid K (meta target) \<noteq> Some (con_UID console) then (Inr (), s)
           else delete_object C (key_of (meta target)) s))"

definition only_if :: "bool \<Rightarrow> ('s \<Rightarrow> unit reconciled \<times> 's) \<Rightarrow> 's \<Rightarrow> unit reconciled \<times> 's" where
  "only_if b f s = (if b then f s else (Inr (), s))"

definition deleteOtherExposures :: "golib \<Rightarrow> kube \<Rightarrow> 's platform \<Rightarrow> PgConsole \<Rightarrow> string \<Rightarrow> 's \<Rightarrow> unit reconciled \<times> 's" where
  "deleteOtherExposures G K P console keep =
     (let key = (con_Namespace console, ResourceName G application (con_Name console) []) in
      and_then (only_if (keep \<noteq> ''ingress'') (deleteExposureIfOwned K (pl_Ingress P) ing_Meta key console)) (\<lambda>_.
      and_then (only_if (keep \<noteq> ''route'' \<and> pl_RouteAPI P) (deleteExposureIfOwned K (pl_Route P) osr_Meta key console)) (\<lambda>_.
        only_if (keep \<noteq> ''gateway'' \<and> pl_GatewayAPI P) (deleteExposureIfOwned K (pl_HTTPRoute P) htr_Meta key console))))"

section \<open>The RouteReady condition\<close>

definition route_condition ::
  "kube \<Rightarrow> condition_status \<Rightarrow> string \<Rightarrow> string \<Rightarrow> PgConsole \<Rightarrow> PgConsole reconciled" where
  "route_condition K st reason message console =
     mark K console_conditions console PgConsoleConditionRouteReady st reason message"

definition setIngressCondition :: "kube \<Rightarrow> PgConsole \<Rightarrow> Ingress \<Rightarrow> PgConsole reconciled" where
  "setIngressCondition K console i =
     (if ing_LoadBalancer i = []
      then route_condition K ConditionFalse ReasonNotAdmitted ''Ingress has not published a load balancer address'' console
      else route_condition K ConditionTrue ReasonAsExpected
             (''Ingress is admitted for '' @ ex_Hostname (con_exposure console)) console)"

definition routeConditionReportsHostnameConflict :: "golib \<Rightarrow> RouteIngressCondition \<Rightarrow> bool" where
  "routeConditionReportsHostnameConflict G c =
     (let t = lower G (ric_Reason c @ '' '' @ ric_Message c) in
      Contains t ''host'' \<and> (Contains t ''claim'' \<or> Contains t ''conflict'' \<or> Contains t ''duplicate''))"

datatype admission = Admitted | HostnameClaimed

fun condition_verdict :: "golib \<Rightarrow> RouteIngressCondition list \<Rightarrow> admission option" where
  "condition_verdict G [] = None"
| "condition_verdict G (c # cs) =
     (if ric_Type c \<noteq> ''Admitted'' then condition_verdict G cs
      else if ric_Status c = ''True'' then Some Admitted
      else if routeConditionReportsHostnameConflict G c then Some HostnameClaimed
      else condition_verdict G cs)"

fun route_verdict :: "golib \<Rightarrow> string \<Rightarrow> (string \<times> RouteIngressCondition list) list \<Rightarrow> admission option" where
  "route_verdict G hostname [] = None"
| "route_verdict G hostname ((host, cs) # is) =
     (if host \<noteq> hostname then route_verdict G hostname is
      else case condition_verdict G cs of Some v \<Rightarrow> Some v | None \<Rightarrow> route_verdict G hostname is)"

definition setRouteCondition :: "golib \<Rightarrow> kube \<Rightarrow> PgConsole \<Rightarrow> OpenShiftRoute \<Rightarrow> PgConsole reconciled" where
  "setRouteCondition G K console r =
     (let hostname = ex_Hostname (con_exposure console) in
      case route_verdict G hostname (osr_Ingress r) of
        Some Admitted \<Rightarrow> route_condition K ConditionTrue ReasonAsExpected (''Route is admitted for '' @ hostname) console
      | Some HostnameClaimed \<Rightarrow>
          route_condition K ConditionFalse ReasonHostnameConflict ''Route hostname is already claimed'' console
      | None \<Rightarrow> route_condition K ConditionFalse ReasonNotAdmitted (''Route has not been admitted for '' @ hostname) console)"

definition gatewayHostnameMatches :: "string \<Rightarrow> string \<Rightarrow> bool" where
  "gatewayHostnameMatches listenerHostname routeHostname =
     (listenerHostname = routeHostname
      \<or> (HasPrefix listenerHostname ''*.''
         \<and> (let sfx = drop 1 listenerHostname in HasSuffix routeHostname sfx \<and> length routeHostname > length sfx)))"

definition listenerAllowsHTTPRoute :: "Listener \<Rightarrow> bool" where
  "listenerAllowsHTTPRoute l =
     (case lis_AllowedRoutes l of
        None \<Rightarrow> True
      | Some a \<Rightarrow> alr_Kinds a = []
          \<or> list_ex (\<lambda>(grp, kind). (case grp of None \<Rightarrow> gatewayGroupName | Some g \<Rightarrow> g) = gatewayGroupName
                       \<and> kind = ''HTTPRoute'') (alr_Kinds a))"

definition listenerAllowsNamespace ::
  "'s platform \<Rightarrow> 's \<Rightarrow> Listener \<Rightarrow> string \<Rightarrow> string \<Rightarrow> bool reconciled" where
  "listenerAllowsNamespace P s l gatewayNamespace routeNamespace =
     (case Option.bind (lis_AllowedRoutes l) alr_From of
        None \<Rightarrow> Inr (gatewayNamespace = routeNamespace)
      | Some from \<Rightarrow>
          (if from = ''Same'' then Inr (gatewayNamespace = routeNamespace)
           else if from = ''All'' then Inr True
           else if from = ''None'' then Inr False
           else if from = ''Selector''
           then (case Option.bind (lis_AllowedRoutes l) alr_Selector of
                   None \<Rightarrow> Inr False
                 | Some sel \<Rightarrow>
                     (case pl_Selector P sel of
                        None \<Rightarrow> Inl (Failed ''invalid selector'')
                      | Some matches \<Rightarrow>
                          (case pl_NamespaceLabels P s routeNamespace of
                             Inl e \<Rightarrow> Inl (FailedApi ''get namespace'' e)
                           | Inr labels \<Rightarrow> Inr (matches labels))))
           else Inr False))"

definition candidate :: "PgConsole \<Rightarrow> GatewayParentRef \<Rightarrow> Listener \<Rightarrow> bool" where
  "candidate console parent l =
     ((gp_SectionName parent = [] \<or> lis_Name l = gp_SectionName parent)
      \<and> lis_Protocol l \<in> {''HTTP'', ''HTTPS''}
      \<and> (case lis_Hostname l of None \<Rightarrow> True | Some h \<Rightarrow> gatewayHostnameMatches h (ex_Hostname (con_exposure console)))
      \<and> listenerAllowsHTTPRoute l)"

fun gatewayHasCompatibleListener ::
  "'s platform \<Rightarrow> 's \<Rightarrow> PgConsole \<Rightarrow> GatewayParentRef \<Rightarrow> string \<Rightarrow> Listener list \<Rightarrow> bool reconciled" where
  "gatewayHasCompatibleListener P s console parent ns [] = Inr False"
| "gatewayHasCompatibleListener P s console parent ns (l # ls) =
     (if \<not> candidate console parent l then gatewayHasCompatibleListener P s console parent ns ls
      else bind_result (listenerAllowsNamespace P s l ns (con_Namespace console)) (\<lambda>allowed.
             if allowed then Inr True else gatewayHasCompatibleListener P s console parent ns ls))"

definition parentRefMatches :: "PgConsole \<Rightarrow> GatewayParentRef \<Rightarrow> ParentReference \<Rightarrow> bool" where
  "parentRefMatches console desired parent =
     (prf_Name parent = gp_Name desired
      \<and> (case prf_Namespace parent of None \<Rightarrow> con_Namespace console | Some ns \<Rightarrow> ns)
        = (if gp_Namespace desired \<noteq> [] then gp_Namespace desired else con_Namespace console)
      \<and> (case prf_SectionName parent of None \<Rightarrow> [] | Some n \<Rightarrow> n) = gp_SectionName desired)"

definition routeConditionIsTrue :: "Condition list \<Rightarrow> string \<Rightarrow> int \<Rightarrow> bool" where
  "routeConditionIsTrue cs t generation =
     list_ex (\<lambda>c. co_Type c = t \<and> co_Status c = ConditionTrue \<and> co_ObservedGeneration c \<ge> generation) cs"

definition accepted_parent :: "PgConsole \<Rightarrow> GatewayParentRef \<Rightarrow> HTTPRoute \<Rightarrow> ParentReference \<times> Condition list \<Rightarrow> bool" where
  "accepted_parent console parent h = (\<lambda>(ref, cs).
     parentRefMatches console parent ref
     \<and> routeConditionIsTrue cs ''Accepted'' (m_Generation (htr_Meta h))
     \<and> routeConditionIsTrue cs ''ResolvedRefs'' (m_Generation (htr_Meta h)))"

definition referencedGateway :: "'s platform \<Rightarrow> 's \<Rightarrow> PgConsole \<Rightarrow> GatewayParentRef \<Rightarrow> (api_error, Gateway) result" where
  "referencedGateway P s console parent =
     api_Get (pl_Gateway P) s
       (if gp_Namespace parent = [] then con_Namespace console else gp_Namespace parent, gp_Name parent)"

definition setHTTPRouteCondition ::
  "kube \<Rightarrow> 's platform \<Rightarrow> PgConsole \<Rightarrow> HTTPRoute \<Rightarrow> 's \<Rightarrow> PgConsole reconciled" where
  "setHTTPRouteCondition K P console h s =
     bind_result (gateway_parent console) (\<lambda>parent.
     case referencedGateway P s console parent of
       Inl NotFound \<Rightarrow> route_condition K ConditionFalse ReasonGatewayNotFound ''referenced Gateway was not found'' console
     | Inl e \<Rightarrow> Inl (FailedApi ''read referenced Gateway'' e)
     | Inr gateway \<Rightarrow>
         bind_result (gatewayHasCompatibleListener P s console parent (m_Namespace (gtw_Meta gateway)) (gtw_Listeners gateway))
           (\<lambda>compatible.
              if \<not> compatible
              then route_condition K ConditionFalse ReasonNotAccepted ''referenced Gateway has no compatible listener'' console
              else if list_ex (accepted_parent console parent h) (htr_Parents h)
              then route_condition K ConditionTrue ReasonAsExpected ''HTTPRoute is accepted by the referenced Gateway'' console
              else route_condition K ConditionFalse ReasonNotAccepted
                     ''HTTPRoute has not been accepted with resolved references'' console))"

section \<open>The whole step\<close>

definition published_url :: "PgConsole \<Rightarrow> PgConsole" where
  "published_url console =
     console\<lparr>con_Status := (con_Status console)\<lparr>ct_URL :=
       (if ex_Type (con_exposure console) = ExposureTypeClusterIP then []
        else ''https://'' @ ex_Hostname (con_exposure console))\<rparr>\<rparr>"

definition reconcileExposure :: "golib \<Rightarrow> kube \<Rightarrow> 's platform \<Rightarrow> PgConsole \<Rightarrow> 's \<Rightarrow> PgConsole reconciled \<times> 's" where
  "reconcileExposure G K P console0 =
     (let console = published_url console0; type = ex_Type (con_exposure console);
          others = deleteOtherExposures G K P console in
      if type = ExposureTypeClusterIP
      then and_then (others []) (\<lambda>_. lift_result
             (route_condition K ConditionTrue ReasonNotRequested ''external exposure is not requested'' console))
      else if type = ExposureTypeIngress
      then and_then (reconcileIngress G K P console) (\<lambda>i.
           and_then (others ''ingress'') (\<lambda>_. lift_result (setIngressCondition K console i)))
      else if type = ExposureTypeRoute
      then (if \<not> pl_RouteAPI P
            then and_then (others ''route'') (\<lambda>_. lift_result
                   (route_condition K ConditionFalse ReasonNotAdmitted ''OpenShift Route API is not served'' console))
            else and_then (reconcileRoute G K P console) (\<lambda>r.
                 and_then (others ''route'') (\<lambda>_. lift_result (setRouteCondition G K console r))))
      else if type = ExposureTypeGateway
      then (if \<not> pl_GatewayAPI P
            then and_then (others ''gateway'') (\<lambda>_. lift_result
                   (route_condition K ConditionFalse ReasonGatewayNotFound ''Gateway API is not served'' console))
            else and_then (reconcileHTTPRoute G K P console) (\<lambda>h.
                 and_then (others ''gateway'') (\<lambda>_ s. (setHTTPRouteCondition K P console h s, s))))
      else lift_result (Inr console))"

section \<open>One kind at a time\<close>

text \<open>
  What the clients document: a deleted object is gone, an object is read under its own key,
  and writing one kind leaves the other kinds alone.
\<close>

definition deletes :: "('s, 'o) client \<Rightarrow> ('o \<Rightarrow> ObjectMeta) \<Rightarrow> bool" where
  "deletes C meta \<longleftrightarrow>
     (\<forall>s k e s'. api_Delete C s k = (e, s') \<and> (e = None \<or> e = Some NotFound) \<longrightarrow> api_Get C s' k = Inl NotFound)
   \<and> (\<forall>s k x. api_Get C s k = Inr x \<longrightarrow> key_of (meta x) = k)"

definition separate :: "('s, 'a) client \<Rightarrow> ('s, 'b) client \<Rightarrow> bool" where
  "separate C D \<longleftrightarrow> (\<forall>s k. api_Get D (snd (api_Delete C s k)) = api_Get D s)
   \<and> (\<forall>s x. api_Get D (snd (api_Apply C s x)) = api_Get D s)"

definition platform_ok :: "'s platform \<Rightarrow> bool" where
  "platform_ok P \<longleftrightarrow> deletes (pl_Ingress P) ing_Meta \<and> deletes (pl_Route P) osr_Meta \<and> deletes (pl_HTTPRoute P) htr_Meta
   \<and> separate (pl_Ingress P) (pl_Route P) \<and> separate (pl_Ingress P) (pl_HTTPRoute P)
   \<and> separate (pl_Route P) (pl_Ingress P) \<and> separate (pl_Route P) (pl_HTTPRoute P)
   \<and> separate (pl_HTTPRoute P) (pl_Ingress P) \<and> separate (pl_HTTPRoute P) (pl_Route P)"

text \<open>No object of this kind under the generated name is the console's own; a foreign one is as it was.\<close>

definition cleared ::
  "kube \<Rightarrow> ('s, 'o) client \<Rightarrow> ('o \<Rightarrow> ObjectMeta) \<Rightarrow> object_key \<Rightarrow> PgConsole \<Rightarrow> 's \<Rightarrow> 's \<Rightarrow> bool" where
  "cleared K C meta key console s s' \<longleftrightarrow>
     (\<forall>x. api_Get C s' key = Inr x \<longrightarrow> controller_uid K (meta x) \<noteq> Some (con_UID console))
   \<and> (\<forall>x. api_Get C s key = Inr x \<and> controller_uid K (meta x) \<noteq> Some (con_UID console) \<longrightarrow> api_Get C s' key = Inr x)"

lemma deleteExposureIfOwned_cleared:
  assumes "deletes C meta" "deleteExposureIfOwned K C meta key console s = (Inr (), s')"
  shows "cleared K C meta key console s s'"
proof (cases "api_Get C s key")
  case (Inl e)
  with assms(2) have "e = NotFound" "s' = s" by (auto simp: deleteExposureIfOwned_def split: api_error.splits)
  with Inl show ?thesis by (simp add: cleared_def)
next
  case (Inr x)
  show ?thesis
  proof (cases "controller_uid K (meta x) = Some (con_UID console)")
    case False
    with Inr assms(2) show ?thesis by (simp add: deleteExposureIfOwned_def cleared_def)
  next
    case True
    have "key_of (meta x) = key" using assms(1) Inr unfolding deletes_def by blast
    with True Inr assms(2) obtain e where "api_Delete C s key = (e, s')" "e = None \<or> e = Some NotFound"
      by (auto simp: deleteExposureIfOwned_def delete_object_def split: prod.splits option.splits api_error.splits)
    with assms(1) have "api_Get C s' key = Inl NotFound" unfolding deletes_def by blast
    with True Inr show ?thesis by (simp add: cleared_def)
  qed
qed

lemma deleteExposureIfOwned_separate:
  assumes "separate C D"
  shows "api_Get D (snd (deleteExposureIfOwned K C meta key console s)) = api_Get D s"
proof -
  have "snd (delete_object C k s) = snd (api_Delete C s k)" for k
    by (auto simp: delete_object_def split: prod.splits option.splits api_error.splits)
  moreover have "api_Get D (snd (api_Delete C s k)) = api_Get D s" for k using assms unfolding separate_def by blast
  ultimately show ?thesis
    by (auto simp: deleteExposureIfOwned_def simp del: split_paired_All split: sum.splits api_error.splits)
qed

lemma cleared_cong:
  "api_Get C s key = api_Get C t key \<Longrightarrow> api_Get C s' key = api_Get C t' key
     \<Longrightarrow> cleared K C meta key console s s' = cleared K C meta key console t t'"
  by (simp add: cleared_def)

lemma deleteOtherExposures_cleared:
  assumes P: "platform_ok P" and run: "deleteOtherExposures G K P console keep s = (Inr (), s')"
  shows "keep \<noteq> ''ingress'' \<Longrightarrow> cleared K (pl_Ingress P) ing_Meta (console_key G console) console s s'"
    and "keep \<noteq> ''route'' \<Longrightarrow> pl_RouteAPI P \<Longrightarrow> cleared K (pl_Route P) osr_Meta (console_key G console) console s s'"
    and "keep \<noteq> ''gateway'' \<Longrightarrow> pl_GatewayAPI P \<Longrightarrow> cleared K (pl_HTTPRoute P) htr_Meta (console_key G console) console s s'"
proof -
  let ?k = "console_key G console"
  let ?f = "only_if (keep \<noteq> ''ingress'') (deleteExposureIfOwned K (pl_Ingress P) ing_Meta ?k console)"
  let ?g = "only_if (keep \<noteq> ''route'' \<and> pl_RouteAPI P) (deleteExposureIfOwned K (pl_Route P) osr_Meta ?k console)"
  let ?h = "only_if (keep \<noteq> ''gateway'' \<and> pl_GatewayAPI P) (deleteExposureIfOwned K (pl_HTTPRoute P) htr_Meta ?k console)"
  have "and_then ?f (\<lambda>_. and_then ?g (\<lambda>_. ?h)) s = (Inr (), s')"
    using run by (simp add: deleteOtherExposures_def console_key_def Let_def)
  then obtain u v s1 s2 where "?f s = (Inr u, s1)" "?g s1 = (Inr v, s2)" "?h s2 = (Inr (), s')"
    by (elim and_then_Inr)
  then have f: "?f s = (Inr (), s1)" and g: "?g s1 = (Inr (), s2)" and h: "?h s2 = (Inr (), s')" by simp_all
  have sep: "api_Get D (snd (only_if b (deleteExposureIfOwned K C meta ?k console) t)) = api_Get D t"
    if "separate C D" for C D b meta and t :: 'a
    by (simp add: only_if_def deleteExposureIfOwned_separate[OF that])
  note laws = P[unfolded platform_ok_def]
  have s1: "s1 = snd (?f s)" and s2: "s2 = snd (?g s1)" and s': "s' = snd (?h s2)"
    using arg_cong[OF f, of snd] arg_cong[OF g, of snd] arg_cong[OF h, of snd] by (simp_all only: snd_conv)
  note S = laws[THEN conjunct2, THEN conjunct2, THEN conjunct2]
  note S1 = S[THEN conjunct1] note S2 = S[THEN conjunct2, THEN conjunct1]
  note S3 = S[THEN conjunct2, THEN conjunct2, THEN conjunct1]
  note S4 = S[THEN conjunct2, THEN conjunct2, THEN conjunct2, THEN conjunct1]
  note S5 = S[THEN conjunct2, THEN conjunct2, THEN conjunct2, THEN conjunct2]
  have ing: "api_Get (pl_Ingress P) s2 = api_Get (pl_Ingress P) s1" "api_Get (pl_Ingress P) s' = api_Get (pl_Ingress P) s2"
    by (simp_all only: s2 s' sep[OF S3] sep[OF S5[THEN conjunct1]])
  have rou: "api_Get (pl_Route P) s1 = api_Get (pl_Route P) s" "api_Get (pl_Route P) s' = api_Get (pl_Route P) s2"
    by (simp_all only: s1 s' sep[OF S1] sep[OF S5[THEN conjunct2]])
  have htt: "api_Get (pl_HTTPRoute P) s1 = api_Get (pl_HTTPRoute P) s" "api_Get (pl_HTTPRoute P) s2 = api_Get (pl_HTTPRoute P) s1"
    by (simp_all only: s1 s2 sep[OF S2] sep[OF S4])
  note D1 = deleteExposureIfOwned_cleared[OF laws[THEN conjunct1], of K ?k console s s1]
  note D2 = deleteExposureIfOwned_cleared[OF laws[THEN conjunct2, THEN conjunct1], of K ?k console s1 s2]
  note D3 = deleteExposureIfOwned_cleared[OF laws[THEN conjunct2, THEN conjunct2, THEN conjunct1], of K ?k console s2 s']
  have on: "b \<Longrightarrow> only_if b run t = r \<Longrightarrow> run t = r" for b run r and t :: 'a by (simp add: only_if_def)
  show "cleared K (pl_Ingress P) ing_Meta ?k console s s'" if "keep \<noteq> ''ingress''"
    using D1[OF on[OF that f]] cleared_cong[OF refl, of "pl_Ingress P" s1 ?k s'] ing by simp
  show "cleared K (pl_Route P) osr_Meta ?k console s s'" if "keep \<noteq> ''route''" "pl_RouteAPI P"
    using D2[OF on[OF conjI[OF that] g]] cleared_cong[of "pl_Route P" s1 ?k s s2 s'] rou by simp
  show "cleared K (pl_HTTPRoute P) htr_Meta ?k console s s'" if "keep \<noteq> ''gateway''" "pl_GatewayAPI P"
    using D3[OF on[OF conjI[OF that] h]] cleared_cong[of "pl_HTTPRoute P" s2 ?k s s' s'] htt by simp
qed

lemma converge_exposed_separate:
  assumes "separate C D"
  shows "api_Get D (snd (converge_exposed K C meta same desired s)) = api_Get D s"
proof -
  have "api_Get D (snd (ApplyObject C desired t)) = api_Get D t" for t
    using assms unfolding separate_def by (simp add: ApplyObject_def split: prod.splits option.splits) (metis snd_conv)
  then have "api_Get D (snd (and_then (ApplyObject C desired) (\<lambda>_ s'. (Inr (f s'), s')) s)) = api_Get D s" for f
    by (simp add: and_then_def split: prod.splits sum.splits) (metis snd_conv)
  note written = this
  show ?thesis
    unfolding converge_exposed_def Let_def
    by (auto simp only: written snd_conv split: sum.splits api_error.splits if_splits)
qed

lemma reconciled_separate:
  assumes "separate C D" "and_then (lift_result d) (converge_exposed K C meta same) s = (Inr x, t)"
  shows "api_Get D t = api_Get D s"
proof -
  from assms(2) obtain y where "converge_exposed K C meta same y s = (Inr x, t)" by (elim and_then_Inr) auto
  then show ?thesis using converge_exposed_separate[OF assms(1), of K meta same y s] by simp
qed

definition exposed_only ::
  "golib \<Rightarrow> kube \<Rightarrow> 's platform \<Rightarrow> PgConsole \<Rightarrow> string \<Rightarrow> 's \<Rightarrow> 's \<Rightarrow> bool" where
  "exposed_only G K P console type s s' \<longleftrightarrow>
     (type \<noteq> ExposureTypeIngress \<longrightarrow> cleared K (pl_Ingress P) ing_Meta (console_key G console) console s s')
   \<and> (type \<noteq> ExposureTypeRoute \<and> pl_RouteAPI P \<longrightarrow> cleared K (pl_Route P) osr_Meta (console_key G console) console s s')
   \<and> (type \<noteq> ExposureTypeGateway \<and> pl_GatewayAPI P
        \<longrightarrow> cleared K (pl_HTTPRoute P) htr_Meta (console_key G console) console s s')"

definition exposure_keep :: "string \<Rightarrow> string" where
  "exposure_keep type =
     (if type = ExposureTypeIngress then ''ingress'' else if type = ExposureTypeRoute then ''route''
      else if type = ExposureTypeGateway then ''gateway'' else [])"

text \<open>Every branch is a step that touches only the requested kind, then the removal of the others.\<close>

lemma others_after_step:
  assumes P: "platform_ok P" and others: "deleteOtherExposures G K P console (exposure_keep type) t = (Inr (), s')"
    and ing: "type \<noteq> ExposureTypeIngress \<Longrightarrow> api_Get (pl_Ingress P) t = api_Get (pl_Ingress P) s"
    and rou: "type \<noteq> ExposureTypeRoute \<Longrightarrow> api_Get (pl_Route P) t = api_Get (pl_Route P) s"
    and gat: "type \<noteq> ExposureTypeGateway \<Longrightarrow> api_Get (pl_HTTPRoute P) t = api_Get (pl_HTTPRoute P) s"
  shows "exposed_only G K P console type s s'"
  unfolding exposed_only_def
proof (intro conjI impI)
  note C = deleteOtherExposures_cleared[OF P others]
  show "cleared K (pl_Ingress P) ing_Meta (console_key G console) console s s'" if "type \<noteq> ExposureTypeIngress"
    using C(1) ing that cleared_cong[of "pl_Ingress P" t _ s s' s'] by (simp add: exposure_keep_def)
  show "cleared K (pl_Route P) osr_Meta (console_key G console) console s s'" if "type \<noteq> ExposureTypeRoute \<and> pl_RouteAPI P"
    using C(2) rou that cleared_cong[of "pl_Route P" t _ s s' s'] by (simp add: exposure_keep_def)
  show "cleared K (pl_HTTPRoute P) htr_Meta (console_key G console) console s s'"
    if "type \<noteq> ExposureTypeGateway \<and> pl_GatewayAPI P"
    using C(3) gat that cleared_cong[of "pl_HTTPRoute P" t _ s s' s'] by (simp add: exposure_keep_def)
qed

lemma published_url_simps [simp]:
  "con_Spec (published_url c) = con_Spec c" "con_Meta (published_url c) = con_Meta c"
  by (simp_all add: published_url_def)

lemma exposed_only_url [simp]: "exposed_only G K P (published_url c) = exposed_only G K P c"
  by (intro ext) (simp add: exposed_only_def cleared_def console_key_def)

lemma exposure_types_distinct [simp]:
  "ExposureTypeClusterIP \<noteq> ExposureTypeIngress" "ExposureTypeClusterIP \<noteq> ExposureTypeRoute"
  "ExposureTypeClusterIP \<noteq> ExposureTypeGateway" "ExposureTypeIngress \<noteq> ExposureTypeRoute"
  "ExposureTypeIngress \<noteq> ExposureTypeGateway" "ExposureTypeRoute \<noteq> ExposureTypeGateway"
  by (simp_all add: exposure_type_defs)

lemmas exposure_types_distinct' [simp] = exposure_types_distinct[symmetric]

lemma platform_separates:
  assumes "platform_ok P"
  shows "separate (pl_Ingress P) (pl_Route P)" "separate (pl_Ingress P) (pl_HTTPRoute P)"
    "separate (pl_Route P) (pl_Ingress P)" "separate (pl_Route P) (pl_HTTPRoute P)"
    "separate (pl_HTTPRoute P) (pl_Ingress P)" "separate (pl_HTTPRoute P) (pl_Route P)"
  using assms by (simp_all only: platform_ok_def)

lemma reconciled_kinds:
  assumes "platform_ok P"
  shows "reconcileIngress G K P console s = (Inr i, t) \<Longrightarrow>
           api_Get (pl_Route P) t = api_Get (pl_Route P) s \<and> api_Get (pl_HTTPRoute P) t = api_Get (pl_HTTPRoute P) s"
    and "reconcileRoute G K P console s = (Inr r, t) \<Longrightarrow>
           api_Get (pl_Ingress P) t = api_Get (pl_Ingress P) s \<and> api_Get (pl_HTTPRoute P) t = api_Get (pl_HTTPRoute P) s"
    and "reconcileHTTPRoute G K P console s = (Inr h, t) \<Longrightarrow>
           api_Get (pl_Ingress P) t = api_Get (pl_Ingress P) s \<and> api_Get (pl_Route P) t = api_Get (pl_Route P) s"
  unfolding reconcileIngress_def reconcileRoute_def reconcileHTTPRoute_def
  using reconciled_separate platform_separates[OF assms] by metis+

lemma exposure_branches:
  fixes G K P console
  defines "type \<equiv> ex_Type (con_exposure console)" and "c \<equiv> published_url console"
  shows "type = ExposureTypeClusterIP \<Longrightarrow> reconcileExposure G K P console =
      and_then (deleteOtherExposures G K P c []) (\<lambda>_. lift_result
        (route_condition K ConditionTrue ReasonNotRequested ''external exposure is not requested'' c))"
    and "type = ExposureTypeIngress \<Longrightarrow> reconcileExposure G K P console =
      and_then (reconcileIngress G K P c) (\<lambda>i. and_then (deleteOtherExposures G K P c ''ingress'')
        (\<lambda>_. lift_result (setIngressCondition K c i)))"
    and "type = ExposureTypeRoute \<Longrightarrow> \<not> pl_RouteAPI P \<Longrightarrow> reconcileExposure G K P console =
      and_then (deleteOtherExposures G K P c ''route'') (\<lambda>_. lift_result
        (route_condition K ConditionFalse ReasonNotAdmitted ''OpenShift Route API is not served'' c))"
    and "type = ExposureTypeRoute \<Longrightarrow> pl_RouteAPI P \<Longrightarrow> reconcileExposure G K P console =
      and_then (reconcileRoute G K P c) (\<lambda>r. and_then (deleteOtherExposures G K P c ''route'')
        (\<lambda>_. lift_result (setRouteCondition G K c r)))"
    and "type = ExposureTypeGateway \<Longrightarrow> \<not> pl_GatewayAPI P \<Longrightarrow> reconcileExposure G K P console =
      and_then (deleteOtherExposures G K P c ''gateway'') (\<lambda>_. lift_result
        (route_condition K ConditionFalse ReasonGatewayNotFound ''Gateway API is not served'' c))"
    and "type = ExposureTypeGateway \<Longrightarrow> pl_GatewayAPI P \<Longrightarrow> reconcileExposure G K P console =
      and_then (reconcileHTTPRoute G K P c) (\<lambda>h. and_then (deleteOtherExposures G K P c ''gateway'')
        (\<lambda>_ s. (setHTTPRouteCondition K P c h s, s)))"
  by (simp_all add: reconcileExposure_def Let_def type_def c_def)

text \<open>
  A successful reconcile of a console of a known exposure type, taken apart: the step of the
  requested kind, the removal of the other kinds, and the condition.
\<close>

lemma reconcileExposure_Inr:
  assumes "reconcileExposure G K P console s = (Inr c, s')"
    "ex_Type (con_exposure console) \<in> {ExposureTypeClusterIP, ExposureTypeIngress, ExposureTypeRoute, ExposureTypeGateway}"
  obtains (ClusterIP) "ex_Type (con_exposure console) = ExposureTypeClusterIP"
      "deleteOtherExposures G K P (published_url console) [] s = (Inr (), s')"
      "route_condition K ConditionTrue ReasonNotRequested ''external exposure is not requested'' (published_url console) = Inr c"
  | (Ingress) i t where "ex_Type (con_exposure console) = ExposureTypeIngress"
      "reconcileIngress G K P (published_url console) s = (Inr i, t)"
      "deleteOtherExposures G K P (published_url console) ''ingress'' t = (Inr (), s')"
      "setIngressCondition K (published_url console) i = Inr c"
  | (NoRoute) "ex_Type (con_exposure console) = ExposureTypeRoute" "\<not> pl_RouteAPI P"
      "deleteOtherExposures G K P (published_url console) ''route'' s = (Inr (), s')"
      "route_condition K ConditionFalse ReasonNotAdmitted ''OpenShift Route API is not served'' (published_url console) = Inr c"
  | (Route) r t where "ex_Type (con_exposure console) = ExposureTypeRoute"
      "reconcileRoute G K P (published_url console) s = (Inr r, t)"
      "deleteOtherExposures G K P (published_url console) ''route'' t = (Inr (), s')"
      "setRouteCondition G K (published_url console) r = Inr c"
  | (NoGateway) "ex_Type (con_exposure console) = ExposureTypeGateway" "\<not> pl_GatewayAPI P"
      "deleteOtherExposures G K P (published_url console) ''gateway'' s = (Inr (), s')"
      "route_condition K ConditionFalse ReasonGatewayNotFound ''Gateway API is not served'' (published_url console) = Inr c"
  | (Gateway) h t where "ex_Type (con_exposure console) = ExposureTypeGateway"
      "reconcileHTTPRoute G K P (published_url console) s = (Inr h, t)"
      "deleteOtherExposures G K P (published_url console) ''gateway'' t = (Inr (), s')"
      "setHTTPRouteCondition K P (published_url console) h s' = Inr c"
proof -
  let ?type = "ex_Type (con_exposure console)"
  consider "?type = ExposureTypeClusterIP" | "?type = ExposureTypeIngress" | "?type = ExposureTypeRoute" "\<not> pl_RouteAPI P"
    | "?type = ExposureTypeRoute" "pl_RouteAPI P" | "?type = ExposureTypeGateway" "\<not> pl_GatewayAPI P"
    | "?type = ExposureTypeGateway" "pl_GatewayAPI P" using assms(2) by blast
  then show thesis
  proof cases
    case 1
    show thesis by (rule and_then_Inr[OF assms(1)[unfolded exposure_branches(1)[OF 1]]]) (simp add: 1 ClusterIP)
  next
    case 2
    show thesis
      by (rule and_then_Inr[OF assms(1)[unfolded exposure_branches(2)[OF 2]]], erule and_then_Inr) (simp add: 2 Ingress)
  next
    case 3
    show thesis by (rule and_then_Inr[OF assms(1)[unfolded exposure_branches(3)[OF 3]]]) (simp add: 3 NoRoute)
  next
    case 4
    show thesis
      by (rule and_then_Inr[OF assms(1)[unfolded exposure_branches(4)[OF 4]]], erule and_then_Inr) (simp add: 4 Route)
  next
    case 5
    show thesis by (rule and_then_Inr[OF assms(1)[unfolded exposure_branches(5)[OF 5]]]) (simp add: 5 NoGateway)
  next
    case 6
    show thesis
      by (rule and_then_Inr[OF assms(1)[unfolded exposure_branches(6)[OF 6]]], erule and_then_Inr) (simp add: 6 Gateway)
  qed
qed

section \<open>Properties\<close>


lemma condition_verdict_Admitted:
  "condition_verdict G cs = Some Admitted \<Longrightarrow> \<exists>c\<in>set cs. ric_Type c = ''Admitted'' \<and> ric_Status c = ''True''"
  by (induction cs) (auto split: if_splits)

lemma route_verdict_Admitted:
  "route_verdict G hostname is = Some Admitted \<Longrightarrow>
     \<exists>cs. (hostname, cs) \<in> set is \<and> (\<exists>c\<in>set cs. ric_Type c = ''Admitted'' \<and> ric_Status c = ''True'')"
  by (induction G hostname "is" rule: route_verdict.induct)
     (auto split: if_splits option.splits dest: condition_verdict_Admitted)

lemma gatewayHasCompatibleListener_True:
  "gatewayHasCompatibleListener P s console parent ns ls = Inr True \<Longrightarrow>
     \<exists>l\<in>set ls. candidate console parent l \<and> listenerAllowsNamespace P s l ns (con_Namespace console) = Inr True"
  by (induction ls) (auto split: if_splits sum.splits)

text \<open>What is behind a RouteReady condition that is True.\<close>

definition route_admitted :: "PgConsole \<Rightarrow> OpenShiftRoute \<Rightarrow> bool" where
  "route_admitted console r \<longleftrightarrow>
     (\<exists>cs. (ex_Hostname (con_exposure console), cs) \<in> set (osr_Ingress r)
        \<and> (\<exists>c\<in>set cs. ric_Type c = ''Admitted'' \<and> ric_Status c = ''True''))"

definition gateway_accepts :: "'s platform \<Rightarrow> 's \<Rightarrow> PgConsole \<Rightarrow> HTTPRoute \<Rightarrow> bool" where
  "gateway_accepts P s console h \<longleftrightarrow>
     (\<exists>parent gateway. gateway_parent console = Inr parent \<and> referencedGateway P s console parent = Inr gateway
        \<and> (\<exists>l\<in>set (gtw_Listeners gateway). candidate console parent l
             \<and> listenerAllowsNamespace P s l (m_Namespace (gtw_Meta gateway)) (con_Namespace console) = Inr True)
        \<and> list_ex (accepted_parent console parent h) (htr_Parents h))"

lemma setHTTPRouteCondition_True:
  assumes K: "conditions_ok K" and c: "setHTTPRouteCondition K P console h s = Inr c"
    and rc: "FindStatusCondition (ct_Conditions (con_Status c)) PgConsoleConditionRouteReady = Some rc"
            "co_Status rc = ConditionTrue"
  shows "gateway_accepts P s console h"
proof -
  have published: "st = ConditionTrue" if "route_condition K st reason m x = Inr c" for st reason m x
    using console_cond.mark_published[OF K that[unfolded route_condition_def]] rc by (auto simp: console_conditions_def)
  from c obtain parent where p: "gateway_parent console = Inr parent"
    by (cases "gateway_parent console") (simp_all add: setHTTPRouteCondition_def)
  show ?thesis
  proof (cases "referencedGateway P s console parent")
    case (Inl e)
    with p c have "route_condition K ConditionFalse ReasonGatewayNotFound ''referenced Gateway was not found'' console = Inr c"
      by (cases e) (simp_all add: setHTTPRouteCondition_def)
    from published[OF this] show ?thesis by simp
  next
    case (Inr gw)
    let ?has = "gatewayHasCompatibleListener P s console parent (m_Namespace (gtw_Meta gw)) (gtw_Listeners gw)"
    obtain b where b: "?has = Inr b" using c p Inr by (cases ?has) (simp_all add: setHTTPRouteCondition_def)
    have "b \<and> list_ex (accepted_parent console parent h) (htr_Parents h)"
    proof (rule ccontr)
      assume "\<not> ?thesis"
      then have "\<exists>m. route_condition K ConditionFalse ReasonNotAccepted m console = Inr c"
        using c p Inr b by (cases b) (auto simp: setHTTPRouteCondition_def)
      then show False using published by blast
    qed
    with b have "?has = Inr True" "list_ex (accepted_parent console parent h) (htr_Parents h)" by simp_all
    then show ?thesis
      using p Inr gatewayHasCompatibleListener_True[OF \<open>?has = Inr True\<close>] unfolding gateway_accepts_def
      by (intro exI[of _ parent] exI[of _ gw] conjI) assumption+
  qed
qed

lemma route_admitted_url [simp]: "route_admitted (published_url c) = route_admitted c"
  by (intro ext) (simp add: route_admitted_def)

lemma gateway_accepts_url [simp]: "gateway_accepts P s (published_url c) h = gateway_accepts P s c h"
proof -
  have "gateway_parent (published_url c) = gateway_parent c" by (simp add: gateway_parent_def)
  moreover have "referencedGateway P s (published_url c) = referencedGateway P s c" by (simp add: referencedGateway_def fun_eq_iff)
  moreover have "candidate (published_url c) = candidate c" by (simp add: candidate_def fun_eq_iff split: option.splits)
  moreover have "accepted_parent (published_url c) = accepted_parent c"
    by (intro ext) (simp add: accepted_parent_def parentRefMatches_def split: prod.splits option.splits)
  ultimately show ?thesis unfolding gateway_accepts_def by (simp only: published_url_simps)
qed

text \<open>
  C36: RouteReady True is evidence, not intent. When a successful reconcile leaves RouteReady
  True, either no exposure was asked for, or the Ingress it converged reports a load-balancer
  address, or the Route reports an Admitted condition that is True for exactly the console's
  hostname, or the referenced Gateway exists, has a listener compatible with the console (its
  section, an HTTP protocol, its hostname, HTTPRoutes and the console's namespace allowed) and
  has accepted the HTTPRoute with resolved references for its current generation.
\<close>

theorem route_ready_sound:
  assumes K: "conditions_ok K" and run: "reconcileExposure G K P console s = (Inr c, s')"
    and type: "ex_Type (con_exposure console) \<in> {ExposureTypeClusterIP, ExposureTypeIngress, ExposureTypeRoute, ExposureTypeGateway}"
    and rc: "FindStatusCondition (ct_Conditions (con_Status c)) PgConsoleConditionRouteReady = Some rc"
            "co_Status rc = ConditionTrue"
  shows "ex_Type (con_exposure console) = ExposureTypeClusterIP
    \<or> (\<exists>i t. ex_Type (con_exposure console) = ExposureTypeIngress
          \<and> reconcileIngress G K P (published_url console) s = (Inr i, t) \<and> ing_LoadBalancer i \<noteq> [])
    \<or> (\<exists>r t. ex_Type (con_exposure console) = ExposureTypeRoute
          \<and> reconcileRoute G K P (published_url console) s = (Inr r, t) \<and> route_admitted console r)
    \<or> (\<exists>h t. ex_Type (con_exposure console) = ExposureTypeGateway
          \<and> reconcileHTTPRoute G K P (published_url console) s = (Inr h, t) \<and> gateway_accepts P s' console h)"
proof -
  have published: "st = ConditionTrue" if "route_condition K st reason m x = Inr c" for st reason m x
    using console_cond.mark_published[OF K that[unfolded route_condition_def]] rc by (auto simp: console_conditions_def)
  from run type show ?thesis
  proof (cases rule: reconcileExposure_Inr)
    case (Ingress i t)
    then have "ing_LoadBalancer i \<noteq> []"
      using published[of ConditionFalse] unfolding setIngressCondition_def by (metis condition_status.distinct(1))
    with Ingress show ?thesis by blast
  next
    case NoRoute
    then show ?thesis using published by blast
  next
    case (Route r t)
    let ?v = "route_verdict G (ex_Hostname (con_exposure (published_url console))) (osr_Ingress r)"
    have "?v = Some Admitted"
      using Route(4) published by (cases ?v rule: option.exhaust; cases "the ?v") (auto simp: setRouteCondition_def)
    then have "route_admitted (published_url console) r" by (auto simp: route_admitted_def dest: route_verdict_Admitted)
    with Route show ?thesis by auto
  next
    case NoGateway
    then show ?thesis using published by blast
  next
    case (Gateway h t)
    then show ?thesis using setHTTPRouteCondition_True[OF K Gateway(4) rc] by auto
  qed simp
qed

text \<open>
  how deep a wildcard listener reaches. A listener hostname \<open>*.d\<close> accepts exactly the hosts
  \<open>p.d\<close> with a non-empty prefix p (and itself), however many labels p has.
\<close>

theorem wildcard_any_depth:
  "gatewayHostnameMatches (''*.'' @ d) host \<longleftrightarrow>
     host = ''*.'' @ d \<or> (\<exists>p. p \<noteq> [] \<and> host = p @ ''.'' @ d)"
proof -
  have "HasPrefix (''*.'' @ d) ''*.''" by (simp add: HasPrefix_def)
  moreover have "HasSuffix host (''.'' @ d) \<and> length host > length (''.'' @ d) \<longleftrightarrow> (\<exists>p. p \<noteq> [] \<and> host = p @ ''.'' @ d)"
    unfolding HasSuffix_def suffix_def by auto
  ultimately show ?thesis unfolding gatewayHostnameMatches_def Let_def by auto
qed

section \<open>Witnesses\<close>

text \<open>
  A cluster with one slot per kind, whose router admits every Route it is given; the console
  used to be an Ingress and now asks for a Route.
\<close>

definition slot_client ::
  "('o \<Rightarrow> ObjectMeta) \<Rightarrow> ('s \<Rightarrow> 'o option) \<Rightarrow> ('o option \<Rightarrow> 's \<Rightarrow> 's) \<Rightarrow> ('o \<Rightarrow> 'o) \<Rightarrow> ('s, 'o) client" where
  "slot_client meta get put server =
     (let read = (\<lambda>s k. case get s of None \<Rightarrow> Inl NotFound
                        | Some x \<Rightarrow> if key_of (meta x) = k then Inr x else Inl NotFound) in
      (fixed_client (\<lambda>k. Inl NotFound) [])
        \<lparr>api_Get := read, api_Live := read, api_Apply := (\<lambda>s x. (None, put (Some (server x)) s)),
         api_Delete := (\<lambda>s k. case read s k of Inl e \<Rightarrow> (Some e, s) | Inr x \<Rightarrow> (None, put None s))\<rparr>)"

definition admit :: "OpenShiftRoute \<Rightarrow> OpenShiftRoute" where
  "admit r = r\<lparr>osr_Ingress := [(osr_Host r, [\<lparr>ric_Type = ''Admitted'', ric_Status = ''True'', ric_Reason = [], ric_Message = []\<rparr>])]\<rparr>"

definition sample_platform :: "(Ingress option \<times> OpenShiftRoute option) platform" where
  "sample_platform =
     \<lparr>pl_Ingress = slot_client ing_Meta fst (\<lambda>x. map_prod (\<lambda>_. x) id) id,
      pl_Route = slot_client osr_Meta snd (\<lambda>x. map_prod id (\<lambda>_. x)) admit,
      pl_HTTPRoute = fixed_client (\<lambda>k. Inl NotFound) [], pl_Gateway = fixed_client (\<lambda>k. Inl NotFound) [],
      pl_NamespaceLabels = (\<lambda>s ns. Inl NotFound), pl_Selector = (\<lambda>sel. None), pl_RouteAPI = True, pl_GatewayAPI = False\<rparr>"

definition routed_console :: PgConsole where
  "routed_console = sample_console\<lparr>con_Spec := sample_spec\<lparr>sp_Exposure := (sp_Exposure sample_spec)
     \<lparr>ex_Type := ExposureTypeRoute, ex_Hostname := ''pg.example.org''\<rparr>\<rparr>\<rparr>"

definition old_ingress :: Ingress where
  "old_ingress =
     \<lparr>ing_Meta = (new_meta ''pg-pgconsole'' ''db'' fmempty)
        \<lparr>m_OwnerReferences := [\<lparr>ow_Name = con_Name sample_console, ow_UID = con_UID sample_console, ow_Controller = True\<rparr>]\<rparr>,
      ing_ClassName = None, ing_Host = ''pg.example.org'', ing_Path = ''/'', ing_PathType = ''Prefix'',
      ing_ServiceName = ''pg-pgconsole'', ing_ServicePort = 80, ing_TLS = [], ing_LoadBalancer = [''10.0.0.1'']\<rparr>"

lemma slot_client_simps [simp]:
  "api_Get (slot_client meta get put server) s k =
     (case get s of None \<Rightarrow> Inl NotFound | Some x \<Rightarrow> if key_of (meta x) = k then Inr x else Inl NotFound)"
  "api_Live (slot_client meta get put server) s k = api_Get (slot_client meta get put server) s k"
  "api_Apply (slot_client meta get put server) s x = (None, put (Some (server x)) s)"
  "api_Delete (slot_client meta get put server) s k =
     (case api_Get (slot_client meta get put server) s k of Inl e \<Rightarrow> (Some e, s) | Inr x \<Rightarrow> (None, put None s))"
  by (simp_all add: slot_client_def Let_def)

lemma sample_platform_ok: "platform_ok sample_platform"
proof -
  have "deletes (slot_client meta get put server) meta" if "\<And>s. get (put None s) = None" for meta get put server
    unfolding deletes_def using that by (auto split: option.splits if_splits)
  note slot = this
  have "deletes (pl_Ingress sample_platform) ing_Meta" "deletes (pl_Route sample_platform) osr_Meta"
    unfolding sample_platform_def platform.simps by (rule slot, simp)+
  moreover have "deletes (pl_HTTPRoute sample_platform) htr_Meta"
    by (simp add: sample_platform_def deletes_def)
  ultimately show ?thesis
    by (simp add: platform_ok_def) (simp add: sample_platform_def separate_def fixed_client_def fun_eq_iff split: option.splits)
qed

lemma routed_key: "console_key (sample_lib JNull) routed_console = (''db'', ''pg-pgconsole'')"
  by (simp add: console_key_def routed_console_def ResourceName_def BoundedName_def PgConsoleApplication_def
      maxResourceNameLength_def)

lemma routed_meta:
  "\<exists>m. exposure_meta (sample_lib JNull) sample_kube (published_url routed_console) = Inr m
     \<and> key_of m = (''db'', ''pg-pgconsole'')"
  using routed_key
  by (simp add: exposure_meta_def sample_kube_def console_key_def key_of_def)

lemma routed_step:
  "\<exists>r t. reconcileRoute (sample_lib JNull) sample_kube sample_platform (published_url routed_console) (i, None) = (Inr r, t)
      \<and> osr_Ingress r = [(''pg.example.org'', [\<lparr>ric_Type = ''Admitted'', ric_Status = ''True'', ric_Reason = [], ric_Message = []\<rparr>])]
      \<and> t = (i, Some r)"
proof -
  from routed_meta obtain m where m: "exposure_meta (sample_lib JNull) sample_kube (published_url routed_console) = Inr m"
    "key_of m = (''db'', ''pg-pgconsole'')" by blast
  obtain d where d: "route (sample_lib JNull) sample_kube (published_url routed_console) = Inr d" "osr_Meta d = m"
    "osr_Host d = ''pg.example.org''"
    using m by (simp add: route_def Let_def routed_console_def)
  then show ?thesis
    using m by (simp add: reconcileRoute_def and_then_def converge_exposed_def sample_platform_def ApplyObject_def
        applied_def admit_def)
qed

lemma sample_exposed:
  "\<exists>c s' rc. reconcileExposure (sample_lib JNull) sample_kube sample_platform routed_console (Some old_ingress, None) = (Inr c, s')
     \<and> FindStatusCondition (ct_Conditions (con_Status c)) PgConsoleConditionRouteReady = Some rc
     \<and> co_Status rc = ConditionTrue"
proof -
  let ?c = "published_url routed_console"
  from routed_step obtain r where r: "reconcileRoute (sample_lib JNull) sample_kube sample_platform ?c (Some old_ingress, None)
      = (Inr r, (Some old_ingress, Some r))"
    "osr_Ingress r = [(''pg.example.org'', [\<lparr>ric_Type = ''Admitted'', ric_Status = ''True'', ric_Reason = [], ric_Message = []\<rparr>])]"
    by blast
  have others: "deleteOtherExposures (sample_lib JNull) sample_kube sample_platform ?c ''route'' (Some old_ingress, Some r)
      = (Inr (), (None, Some r))"
    using routed_key
    by (simp add: deleteOtherExposures_def Let_def console_key_def and_then_def only_if_def deleteExposureIfOwned_def
        sample_platform_def old_ingress_def key_of_def delete_object_def controller_uid_def sample_kube_def routed_console_def)
  have "\<exists>c. setRouteCondition (sample_lib JNull) sample_kube ?c r = Inr c"
    using r(2) by (simp add: setRouteCondition_def Let_def routed_console_def route_condition_def mark_known)
  then obtain c where c: "setRouteCondition (sample_lib JNull) sample_kube ?c r = Inr c" by blast
  moreover from c r(2) have "route_condition sample_kube ConditionTrue ReasonAsExpected ''Route is admitted for pg.example.org'' ?c = Inr c"
    by (simp add: setRouteCondition_def Let_def routed_console_def)
  note console_cond.mark_published[OF sample_kube_conditions this[unfolded route_condition_def]]
  moreover have "ex_Type (con_exposure routed_console) = ExposureTypeRoute" "pl_RouteAPI sample_platform"
    by (simp_all add: routed_console_def sample_platform_def)
  ultimately show ?thesis using r(1) others by (auto simp: exposure_branches and_then_def console_conditions_def)
qed


theorem route_ready_sound_witness:
  "\<exists>r t. reconcileRoute (sample_lib JNull) sample_kube sample_platform (published_url routed_console) (Some old_ingress, None) = (Inr r, t)
     \<and> route_admitted routed_console r"
proof -
  obtain c s' rc where run: "reconcileExposure (sample_lib JNull) sample_kube sample_platform routed_console (Some old_ingress, None)
      = (Inr c, s')" "FindStatusCondition (ct_Conditions (con_Status c)) PgConsoleConditionRouteReady = Some rc"
      "co_Status rc = ConditionTrue" using sample_exposed by blast
  have "ex_Type (con_exposure routed_console) = ExposureTypeRoute" by (simp add: routed_console_def)
  with route_ready_sound[OF sample_kube_conditions run(1) _ run(2,3)] show ?thesis by simp
qed

end
