(* ===== verification/Console_Controller.thy ===== *)
theory Console_Controller
  imports Console_Secrets Exposure
begin

text \<open>
  The reconcile of one console (\<open>internal/controller/pgconsole/controller.go\<close>): the life of
  the finalizer, the gates before anything is deployed, the order of the steps, and the
  conditions published at the end. The steps are the definitions of the other theories; the
  console is threaded through them because the source mutates one object in memory.
\<close>

section \<open>The operator\<close>

record DefaultImages =
  di_PgConsole :: string
  di_Proxy :: string
  di_PgAdmin :: string

text \<open>
  \<open>Reconciler\<close> with the clients of each kind it touches. The random bytes one pass may draw
  are fields of their own; \<open>rn_Event\<close> is the event recorder.
\<close>

record ('s, 'raw, 'k) Reconciler =
  rn_consoles :: "('s, PgConsole) client"
  rn_users :: "('s, PgToolBoxUser) client"
  rn_secrets :: "('s, Secret) client"
  rn_deployments :: "('s, Deployment) client"
  rn_accounts :: "('s, ServiceAccount) client"
  rn_services :: "('s, Service) client"
  rn_claims :: "('s, PersistentVolumeClaim) client"
  rn_policies :: "('s, NetworkPolicy) client"
  rn_roles :: "('s, DatabaseRole) client"
  rn_rbac :: "'s rbac_clients"
  rn_platform :: "'s platform"
  rn_evidence :: "('s, 'raw) evidence_env"
  rn_render :: render_lib
  rn_ConsoleError :: "console_error \<Rightarrow> string"
  rn_IsZero :: "string \<Rightarrow> bool"
  rn_sortByName :: "pg_Server list \<Rightarrow> pg_Server list"
  rn_IsNoMatch :: "api_error \<Rightarrow> bool"
  rn_Event :: "'s \<Rightarrow> string \<Rightarrow> string \<Rightarrow> 's"
  rn_DefaultImages :: DefaultImages
  rn_OperatorImage :: string
  rn_AdminSync :: "(Request \<Rightarrow> 's \<Rightarrow> string option \<times> 's) option"
  rn_sessionKey :: "string option"
  rn_evidenceToken :: "string option"
  rn_bootstrapPassword :: "string option"
  rn_crypto :: "'k crypto"

abbreviation rn_clusters :: "('s, 'raw, 'k) Reconciler \<Rightarrow> ('s, cluster) client" where
  "rn_clusters R \<equiv> ee_clusters (rn_evidence R)"

definition seconds :: "int \<Rightarrow> int" where "seconds n = n * 1000000000"
definition clusterNotFoundRequeue :: int where "clusterNotFoundRequeue = seconds 30"
definition pgAdminResyncInterval :: int where "pgAdminResyncInterval = seconds 120"

text \<open>Optional steps, and a step that only some consoles take.\<close>

definition run_if :: "bool \<Rightarrow> 'a \<Rightarrow> ('s \<Rightarrow> 'a reconciled \<times> 's) \<Rightarrow> 's \<Rightarrow> 'a reconciled \<times> 's" where
  "run_if b dflt f s = (if b then f s else (Inr dflt, s))"

section \<open>Owned resources\<close>

text \<open>First everything the Pod template depends on, then the workload and what points at it.\<close>

definition prepare_inputs ::
  "golib \<Rightarrow> kube \<Rightarrow> ('s, 'raw, 'k) Reconciler \<Rightarrow> PgConsole \<Rightarrow> string \<Rightarrow> 's \<Rightarrow> (workloadInputs \<times> PgConsole) reconciled \<times> 's" where
  "prepare_inputs G K R console checksum =
     and_then (lift_result (resolveImage (px_Image (sp_Proxy (con_Spec console))) (di_Proxy (rn_DefaultImages R)))) (\<lambda>proxyImage.
     and_then (lift_result (resolveImage (sp_Image (con_Spec console)) (di_PgConsole (rn_DefaultImages R)))) (\<lambda>consoleImage.
     and_then (run_if (pgAdminEnabled console) []
       (lift_result (resolveImage (pa_Image (sp_PgAdmin (con_Spec console))) (di_PgAdmin (rn_DefaultImages R))))) (\<lambda>pgAdminImage.
     and_then (reconcileRBAC G K (ee_Available (rn_evidence R)) (rn_rbac R) console) (\<lambda>_.
     and_then (lift_result (serviceAccount G K console)) (\<lambda>sa.
     and_then (applyServiceAccount K (rn_accounts R) sa) (\<lambda>_.
     and_then (reconcilePgAdminSettingsPVC G K (rn_IsZero R) (rn_claims R) console) (\<lambda>_.
     and_then (run_if (pgAdminEnabled console) ()
       (reconcilePgAdminBootstrapSecret G K (rn_bootstrapPassword R) (rn_secrets R) console)) (\<lambda>_.
     and_then (run_if (pgAdminEnabled console \<and> rn_OperatorImage R \<noteq> []) []
       (reconcileAdminSyncSecret K (rn_crypto R) (rn_secrets R) console)) (\<lambda>adminSyncSecretVersion.
     and_then (reconcileEvidence G K (rn_secrets R) (rn_deployments R) (rn_consoles R) (rn_evidenceToken R) (rn_evidence R) console)
       (\<lambda>(composed, console1). lift_result (Inr
          (\<lparr>wi_ProxyImage = proxyImage, wi_ConsoleImage = consoleImage, wi_PgAdminImage = pgAdminImage,
            wi_ViewerImage = (if composed \<noteq> None then viewerImage (rn_evidence R) console1 else []),
            wi_ConfigChecksum = checksum, wi_AdminSyncSecretVersion = adminSyncSecretVersion,
            wi_Composition = map_option fst composed,
            wi_TokenSecretName = (case composed of None \<Rightarrow> [] | Some (_, token) \<Rightarrow> token)\<rparr>, console1))))))))))))"

definition roll_out ::
  "golib \<Rightarrow> kube \<Rightarrow> ('s, 'raw, 'k) Reconciler \<Rightarrow> workloadInputs \<Rightarrow> PgConsole \<Rightarrow> 's \<Rightarrow> (Deployment \<times> PgConsole) reconciled \<times> 's" where
  "roll_out G K R inputs console =
     and_then (lift_result (deployment G K (rn_OperatorImage R) console inputs)) (\<lambda>desired.
     and_then (reconcileDeployment K (rn_deployments R) desired) (\<lambda>live.
     and_then (collectSupersededTokens K (rn_secrets R) console (wi_TokenSecretName inputs) (Some live)) (\<lambda>_.
     and_then (lift_result (service G K console)) (\<lambda>svc.
     and_then (applyService K (rn_services R) svc) (\<lambda>_.
     and_then (reconcileExposure G K (rn_platform R) console) (\<lambda>console1.
     and_then (reconcileNetworkPolicy G K (rn_OperatorImage R \<noteq> []) (rn_policies R) console1) (\<lambda>_.
       lift_result (Inr (live, console1)))))))))"

definition reconcileResources ::
  "golib \<Rightarrow> kube \<Rightarrow> ('s, 'raw, 'k) Reconciler \<Rightarrow> PgConsole \<Rightarrow> string \<Rightarrow> 's \<Rightarrow> (Deployment \<times> PgConsole) reconciled \<times> 's" where
  "reconcileResources G K R console checksum =
     and_then (prepare_inputs G K R console checksum) (\<lambda>(inputs, console1). roll_out G K R inputs console1)"

section \<open>Status\<close>

definition condition_of ::
  "kube \<Rightarrow> string \<Rightarrow> condition_status \<Rightarrow> string \<Rightarrow> string \<Rightarrow> PgConsole \<Rightarrow> PgConsole reconciled" where
  "condition_of K t st reason message console = mark K console_conditions console t st reason message"

definition publishWorkloadStatus :: "kube \<Rightarrow> Deployment \<Rightarrow> PgConsole \<Rightarrow> PgConsole reconciled" where
  "publishWorkloadStatus K d console =
     (if rolloutComplete d
      then bind_result (condition_of K PgConsoleConditionReady ConditionTrue ReasonAsExpected ''console is available'' console)
             (condition_of K PgConsoleConditionProgressing ConditionFalse ReasonAsExpected ''rollout complete'')
      else bind_result (condition_of K PgConsoleConditionReady ConditionFalse ReasonRolloutInProgress ''console rollout in progress'' console)
             (condition_of K PgConsoleConditionProgressing ConditionTrue ReasonRolloutInProgress ''console rollout in progress''))"

definition console_updateStatus :: "('s, PgConsole) client \<Rightarrow> PgConsole \<Rightarrow> PgConsole \<Rightarrow> 's \<Rightarrow> unit reconciled \<times> 's" where
  "console_updateStatus consoles before after s =
     (if con_Status before = con_Status after then (Inr (), s)
      else case api_StatusPatch consoles s before after of
             (None, s') \<Rightarrow> (Inr (), s')
           | (Some e, s') \<Rightarrow> (Inl (FailedApi ''patch console status'' e), s'))"

text \<open>Publish one condition and stop, the shape of every early exit.\<close>

definition publish ::
  "('s, PgConsole) client \<Rightarrow> PgConsole \<Rightarrow> PgConsole reconciled \<Rightarrow> int option \<Rightarrow> 's \<Rightarrow> int option reconciled \<times> 's" where
  "publish consoles before after requeue =
     and_then (lift_result after) (\<lambda>c. and_then (console_updateStatus consoles before c) (\<lambda>_. lift_result (Inr requeue)))"

section \<open>Reconcile\<close>

definition with_finalizers :: "string list \<Rightarrow> PgConsole \<Rightarrow> PgConsole" where
  "with_finalizers fs console = console\<lparr>con_Meta := (con_Meta console)\<lparr>m_Finalizers := fs\<rparr>\<rparr>"

definition update_console :: "('s, PgConsole) client \<Rightarrow> PgConsole \<Rightarrow> 's \<Rightarrow> int option reconciled \<times> 's" where
  "update_console consoles console s =
     (case api_Update consoles s console of
        (None, s') \<Rightarrow> (Inr None, s') | (Some e, s') \<Rightarrow> (Inl (FailedApi ''update console'' e), s'))"

definition finalize :: "golib \<Rightarrow> ('s, 'raw, 'k) Reconciler \<Rightarrow> PgConsole \<Rightarrow> 's \<Rightarrow> int option reconciled \<times> 's" where
  "finalize G R console =
     (let fs = m_Finalizers (con_Meta console) in
      if ap_Finalizer application \<notin> set fs then lift_result (Inr None)
      else and_then (deleteCatalogClusterRBAC G (rn_rbac R) console) (\<lambda>_.
             update_console (rn_consoles R) (with_finalizers (filter (\<lambda>f. f \<noteq> ap_Finalizer application) fs) console)))"

definition with_status :: "(PgConsoleStatus \<Rightarrow> PgConsoleStatus) \<Rightarrow> PgConsole \<Rightarrow> PgConsole" where
  "with_status f console = console\<lparr>con_Status := f (con_Status console)\<rparr>"

definition observed :: "PgConsole \<Rightarrow> PgConsole" where
  "observed console = with_status (\<lambda>st. st\<lparr>ct_ObservedGeneration := m_Generation (con_Meta console)\<rparr>) console"

text \<open>What is left once the configuration is rendered: resources, pgAdmin, users, status.\<close>

definition deploy ::
  "golib \<Rightarrow> kube \<Rightarrow> ('s, 'raw, 'k) Reconciler \<Rightarrow> PgConsole \<Rightarrow> resolvedConsoleUser list \<Rightarrow> PgConsole \<Rightarrow> string
   \<Rightarrow> 's \<Rightarrow> int option reconciled \<times> 's" where
  "deploy G K R statusBefore users console checksum =
     and_then (reconcileResources G K R console checksum) (\<lambda>(live, console1).
     and_then (reconcilePgAdminSync K (rn_OperatorImage R \<noteq> []) (rn_AdminSync R) (rn_clusters R)
       (clusterCredentials (rn_sortByName R) (rn_IsNoMatch R) (rn_roles R) (rn_secrets R)) console1 live checksum) (\<lambda>console2.
     and_then (applyUserStatuses K (rn_users R) users) (\<lambda>_.
       publish (rn_consoles R) statusBefore
         (bind_result (condition_of K PgConsoleConditionConfigurationValid ConditionTrue ReasonAsExpected ''configuration is valid'' console2)
            (publishWorkloadStatus K live))
         (if pgAdminEnabled console2 then Some pgAdminResyncInterval else None))))"

definition render_and_deploy ::
  "golib \<Rightarrow> kube \<Rightarrow> ('s, 'raw, 'k) Reconciler \<Rightarrow> PgConsole \<Rightarrow> PgConsole \<Rightarrow> 's \<Rightarrow> int option reconciled \<times> 's" where
  "render_and_deploy G K R statusBefore console =
     and_then (reconcileBootstrapAdmin K (rn_users R) console) (\<lambda>_.
     and_then (\<lambda>s. (resolveConsoleUsers G (rl_Quote (rn_render R)) (rn_users R) (rn_secrets R) s console, s)) (\<lambda>users.
     and_then (reconcileProxyConfigSecret G K (rn_render R) (rn_secrets R) (rn_sessionKey R) console (proxyUsers users)) (\<lambda>rendered s.
       case rendered of
         Inl issue \<Rightarrow>
           publish (rn_consoles R) statusBefore
             (condition_of K PgConsoleConditionProxyConfigReady ConditionFalse (is_reason issue) (is_message issue) console) None
             (if is_reason issue = ReasonUnsupportedAuthMode then rn_Event R s (is_reason issue) (is_message issue) else s)
       | Inr checksum \<Rightarrow>
           and_then (lift_result (condition_of K PgConsoleConditionProxyConfigReady ConditionTrue ReasonAsExpected
               ''proxy configuration rendered'' console)) (\<lambda>console1.
             deploy G K R statusBefore users
               (with_status (\<lambda>st. st\<lparr>ct_ConfigRevision := Revision checksum\<rparr>) console1) checksum) s)))"

definition Reconcile_console ::
  "golib \<Rightarrow> kube \<Rightarrow> ('s, 'raw, 'k) Reconciler \<Rightarrow> object_key \<Rightarrow> 's \<Rightarrow> int option reconciled \<times> 's" where
  "Reconcile_console G K R key s =
     (case api_Get (rn_consoles R) s key of
        Inl NotFound \<Rightarrow> (Inr None, s)
      | Inl e \<Rightarrow> (Inl (FailedApi ''get console'' e), s)
      | Inr console \<Rightarrow>
          if m_Deleting (con_Meta console) then finalize G R console s
          else if ap_Finalizer application \<notin> set (m_Finalizers (con_Meta console))
          then update_console (rn_consoles R)
                 (with_finalizers (m_Finalizers (con_Meta console) @ [ap_Finalizer application]) console) s
          else if at (m_Annotations (con_Meta console)) ReconcileAnnotation = ''skip''
          then publish (rn_consoles R) console
                 (condition_of K PgConsoleConditionProgressing ConditionFalse ReasonReconciliationSkipped
                    ''reconciliation skipped by annotation'' console) None s
          else let console1 = observed console in
            if \<not> validateExposure console1
            then publish (rn_consoles R) console
                   (condition_of K PgConsoleConditionConfigurationValid ConditionFalse ReasonConfigurationInvalid
                      ''invalid exposure configuration: gateway exposure TLS is configured on the referenced Gateway'' console1) None s
            else case validateConsoleSpec console1 of
              Some err \<Rightarrow>
                publish (rn_consoles R) console
                  (condition_of K PgConsoleConditionConfigurationValid ConditionFalse ReasonConfigurationInvalid
                     (''invalid console configuration: '' @ rn_ConsoleError R err) console1) None s
            | None \<Rightarrow>
                (case api_Live (rn_clusters R) s (con_Namespace console, con_cluster console) of
                   Inl NotFound \<Rightarrow>
                     publish (rn_consoles R) console
                       (condition_of K PgConsoleConditionClusterReady ConditionFalse ReasonClusterNotFound
                          (''CNPG Cluster '' @ con_cluster console @ '' was not found in namespace '' @ con_Namespace console) console1)
                       (Some clusterNotFoundRequeue) s
                 | Inl e \<Rightarrow> (Inl (FailedApi ''get cluster'' e), s)
                 | Inr cl \<Rightarrow>
                     and_then (lift_result (condition_of K PgConsoleConditionClusterReady ConditionTrue ReasonAsExpected
                         (''CNPG Cluster '' @ cl_Name cl @ '' exists'') console1)) (\<lambda>console2.
                       render_and_deploy G K R console console2) s))"

definition mapToolBoxResourceToConsole :: "PgToolBoxUser \<Rightarrow> object_key list" where
  "mapToolBoxResourceToConsole user = [(m_Namespace (usr_Meta user), lor_Name (tu_PgConsoleRef (usr_Spec user)))]"

section \<open>Frames\<close>

lemma observed_simps [simp]:
  "con_Spec (observed c) = con_Spec c" "con_Meta (observed c) = con_Meta c"
  by (simp_all add: observed_def with_status_def)

lemma validate_observed [simp]:
  "validateExposure (observed c) = validateExposure c" "validateConsoleSpec (observed c) = validateConsoleSpec c"
  unfolding validateExposure_def validateConsoleSpec_def console_durations_def consoleAllowInsecureLinks_def
  by (simp_all only: observed_simps)

lemma condition_of_published:
  assumes "conditions_ok K" "condition_of K t st reason m x = Inr y"
  shows "\<exists>rc. FindStatusCondition (ct_Conditions (con_Status y)) t = Some rc \<and> co_Status rc = st \<and> co_Reason rc = reason
    \<and> co_Message rc = m \<and> co_ObservedGeneration rc = m_Generation (con_Meta y)"
  using console_cond.mark_published[OF assms(1) assms(2)[unfolded condition_of_def]] by (simp add: console_conditions_def)

lemma condition_of_others:
  assumes "conditions_ok K" "condition_of K t st reason m x = Inr y" "t' \<noteq> t"
  shows "FindStatusCondition (ct_Conditions (con_Status y)) t' = FindStatusCondition (ct_Conditions (con_Status x)) t'"
  using console_cond.mark_keeps_others[OF assms(1) assms(2)[unfolded condition_of_def] assms(3)] by (simp add: console_conditions_def)

text \<open>Everything a step may not change of the console it threads: metadata up to annotations, spec, revision.\<close>

definition same_console :: "PgConsole \<Rightarrow> PgConsole \<Rightarrow> bool" where
  "same_console a b \<longleftrightarrow> con_Spec a = con_Spec b \<and> con_Name a = con_Name b \<and> con_Namespace a = con_Namespace b
     \<and> con_UID a = con_UID b \<and> ct_ConfigRevision (con_Status a) = ct_ConfigRevision (con_Status b)"

lemma same_console_refl [simp]: "same_console a a"
  by (simp add: same_console_def)

lemma same_console_trans: "same_console a b \<Longrightarrow> same_console b c \<Longrightarrow> same_console a c"
  by (simp add: same_console_def)

lemma mark_same_console: "mark K console_conditions x t st reason m = Inr y \<Longrightarrow> same_console y x"
  by (auto simp: mark_def console_conditions_def same_console_def)

lemma condition_of_same: "condition_of K t st reason m x = Inr y \<Longrightarrow> same_console y x"
  unfolding condition_of_def by (rule mark_same_console)

lemma publish_Inr:
  assumes "publish consoles before after q s = (r, s')" "r = Inr x \<or> (\<exists>e. after = Inr e)"
  obtains c where "after = Inr c" "s' = s \<or> s' = snd (api_StatusPatch consoles s before c)"
proof -
  from assms obtain c where "after = Inr c"
    by (cases after) (auto simp: publish_def and_then_def)
  moreover from this assms(1) have "s' = s \<or> s' = snd (api_StatusPatch consoles s before c)"
    by (auto simp: publish_def and_then_def console_updateStatus_def split: prod.splits option.splits if_splits sum.splits)
  ultimately show thesis by (rule that)
qed

section \<open>Properties\<close>

text \<open>What deleting and updating leave alone, besides \<open>deletes\<close> of the two cluster-scoped kinds.\<close>

definition catalog_laws :: "('s, 'raw, 'k) Reconciler \<Rightarrow> bool" where
  "catalog_laws R \<longleftrightarrow>
     deletes (rc_clusterRoles (rn_rbac R)) ro_Meta \<and> deletes (rc_clusterBindings (rn_rbac R)) rb_Meta
   \<and> separate (rc_clusterBindings (rn_rbac R)) (rc_clusterRoles (rn_rbac R))
   \<and> (\<forall>s x. api_Get (rc_clusterRoles (rn_rbac R)) (snd (api_Update (rn_consoles R) s x)) = api_Get (rc_clusterRoles (rn_rbac R)) s)
   \<and> (\<forall>s x. api_Get (rc_clusterBindings (rn_rbac R)) (snd (api_Update (rn_consoles R) s x)) = api_Get (rc_clusterBindings (rn_rbac R)) s)"

lemma delete_object_gone:
  assumes "deletes C meta" "delete_object C k s = (Inr u, s')"
  shows "api_Get C s' k = Inl NotFound"
proof -
  obtain e where "api_Delete C s k = (e, s')" "e = None \<or> e = Some NotFound"
    using assms(2) by (auto simp: delete_object_def split: prod.splits option.splits api_error.splits)
  then show ?thesis using assms(1) unfolding deletes_def by blast
qed

lemma delete_object_separate:
  assumes "separate C D" "delete_object C k s = (r, s')"
  shows "api_Get D s' = api_Get D s"
proof -
  have "s' = snd (api_Delete C s k)"
    using assms(2) by (auto simp: delete_object_def split: prod.splits option.splits api_error.splits)
  then show ?thesis using assms(1) unfolding separate_def by blast
qed

lemma catalog_removed:
  assumes "catalog_laws R" "deleteCatalogClusterRBAC G (rn_rbac R) console s = (Inr (), t)"
  shows "api_Get (rc_clusterRoles (rn_rbac R)) t ([], catalogClusterRoleName G console) = Inl NotFound"
    and "api_Get (rc_clusterBindings (rn_rbac R)) t ([], catalogClusterRoleName G console) = Inl NotFound"
proof -
  let ?k = "([], catalogClusterRoleName G console)"
  note laws = assms(1)[unfolded catalog_laws_def]
  obtain u t1 where a: "delete_object (rc_clusterRoles (rn_rbac R)) ?k s = (Inr u, t1)"
    and b: "delete_object (rc_clusterBindings (rn_rbac R)) ?k t1 = (Inr (), t)"
    using assms(2) unfolding deleteCatalogClusterRBAC_def Let_def by (rule and_then_Inr)
  show "api_Get (rc_clusterBindings (rn_rbac R)) t ?k = Inl NotFound"
    using laws b by (blast intro: delete_object_gone)
  have "api_Get (rc_clusterRoles (rn_rbac R)) t1 ?k = Inl NotFound"
    using laws a by (blast intro: delete_object_gone)
  moreover have "api_Get (rc_clusterRoles (rn_rbac R)) t = api_Get (rc_clusterRoles (rn_rbac R)) t1"
    using laws b by (blast intro: delete_object_separate)
  ultimately show "api_Get (rc_clusterRoles (rn_rbac R)) t ?k = Inl NotFound" by simp
qed



section \<open>A complete pass\<close>

lemma same_console_without_rotation [simp]: "same_console (without_rotation c) c"
  by (simp add: same_console_def without_rotation_def)

lemma mint_token_same: "mint_token G K secrets consoles rnd c g s = (Inr (name, c'), s') \<Longrightarrow> same_console c' c"
  by (auto simp: mint_token_def Let_def split: prod.splits sum.splits option.splits if_splits)

lemma resolve_token_same: "resolve_token G K secrets consoles rnd c g s = (Inr (name, c'), s') \<Longrightarrow> same_console c' c"
  by (auto simp: resolve_token_def Let_def dest: mint_token_same split: sum.splits api_error.splits if_splits)

lemma evidence_token_same:
  "reconcileEvidenceToken G K secrets deployments consoles rnd c s = (Inr (name, c'), s') \<Longrightarrow> same_console c' c"
  by (auto simp: reconcileEvidenceToken_def Let_def dest: resolve_token_same split: sum.splits if_splits)

lemma with_evidence_same [simp]: "same_console (with_evidence e c) c"
  by (simp add: same_console_def with_evidence_def)

lemma evidence_same:
  assumes "reconcileEvidence G K secrets deployments consoles rnd E c s = (Inr (r, c'), s')"
  shows "same_console c' c"
proof -
  from assms obtain q where q: "resolveEvidence E c s = Inr q"
    by (cases "resolveEvidence E c s") (simp_all add: reconcileEvidence_def)
  show ?thesis
  proof (cases "need_image E c q")
    case (Inl why)
    with assms q have "mark K console_conditions (with_evidence no_evidence c) PgConsoleConditionRepositoryEvidenceReady
        ConditionFalse (eu_reason why) (eu_message why) = Inr c'"
      by (auto simp: reconcileEvidence_def evidence_condition_def)
    from same_console_trans[OF mark_same_console[OF this] with_evidence_same] show ?thesis .
  next
    case (Inr e)
    with assms q obtain token c0 t x where tok: "reconcileEvidenceToken G K secrets deployments consoles rnd c s = (Inr (token, c0), t)"
      and m: "mark K console_conditions (with_evidence x c0) PgConsoleConditionRepositoryEvidenceReady
        ConditionTrue ReasonAsExpected (''evidence sidecar composed for ObjectStore '' @ ec_ObjectStoreName e
        @ '', server '' @ ec_ServerName e) = Inr c'"
      by (auto simp: reconcileEvidence_def evidence_condition_def elim!: and_then_Inr split: prod.splits)
    show ?thesis
      by (rule same_console_trans[OF mark_same_console[OF m] same_console_trans[OF with_evidence_same evidence_token_same[OF tok]]])
  qed
qed

lemma route_condition_same: "route_condition K st reason m x = Inr y \<Longrightarrow> same_console y x"
  unfolding route_condition_def by (rule mark_same_console)

lemma httpRoute_condition_same:
  assumes "setHTTPRouteCondition K P x h s = Inr y"
  shows "same_console y x"
proof -
  from assms obtain parent where p: "gateway_parent x = Inr parent"
    by (cases "gateway_parent x") (simp_all add: setHTTPRouteCondition_def)
  have "\<exists>st reason m. route_condition K st reason m x = Inr y"
  proof (cases "referencedGateway P s x parent")
    case (Inl e)
    with assms p show ?thesis by (cases e) (auto simp: setHTTPRouteCondition_def)
  next
    case (Inr gw)
    let ?has = "gatewayHasCompatibleListener P s x parent (m_Namespace (gtw_Meta gw)) (gtw_Listeners gw)"
    from assms p Inr obtain b where "?has = Inr b" by (cases ?has) (simp_all add: setHTTPRouteCondition_def)
    with assms p Inr show ?thesis by (auto simp: setHTTPRouteCondition_def split: if_splits)
  qed
  then show ?thesis by (blast intro: route_condition_same)
qed

lemma exposure_same:
  assumes "reconcileExposure G K P c s = (Inr c', s')"
  shows "same_console c' c"
proof (cases "ex_Type (con_exposure c) \<in> {ExposureTypeClusterIP, ExposureTypeIngress, ExposureTypeRoute, ExposureTypeGateway}")
  case True
  have url: "same_console (published_url c) c" by (simp add: same_console_def published_url_def)
  have "same_console c' (published_url c)"
    using assms True
    by (cases rule: reconcileExposure_Inr)
       (auto simp: setIngressCondition_def setRouteCondition_def Let_def
         intro: route_condition_same httpRoute_condition_same split: if_splits option.splits admission.splits)
  then show ?thesis using url by (rule same_console_trans)
next
  case False
  with assms show ?thesis by (simp add: reconcileExposure_def Let_def) (auto simp: same_console_def published_url_def)
qed

lemma pgadmin_sync_same:
  assumes "reconcilePgAdminSync K b sync clusters cr c d k s = (Inr c', s')"
  shows "same_console c' c"
proof -
  have "\<exists>st reason m. synced_condition K st reason m c = Inr c'"
    using assms
    by (auto simp: reconcilePgAdminSync_def split: option.splits if_splits sum.splits api_error.splits list.splits prod.splits)
  then show ?thesis unfolding synced_condition_def by (blast intro: mark_same_console)
qed

lemma prepare_inputs_Inr:
  assumes "prepare_inputs G K R console checksum s = (Inr (inputs, c), t)"
  shows "wi_ConfigChecksum inputs = checksum \<and> same_console c console"
  using assms unfolding prepare_inputs_def
  by (elim and_then_Inr) (auto split: prod.splits dest: evidence_same)

lemma roll_out_Inr:
  assumes "roll_out G K R inputs console s = (Inr (live, c), s')"
  obtains desired t where "deployment G K (rn_OperatorImage R) console inputs = Inr desired"
    "reconcileDeployment K (rn_deployments R) desired s = (Inr live, t)" "same_console c console"
  using assms unfolding roll_out_def
  by (elim and_then_Inr) (auto dest: exposure_same)

lemma resources_current:
  assumes K: "owners_ok K" and C: "applies_deployment (rn_deployments R)"
    and run: "reconcileResources G K R console checksum s = (Inr (live, c), s')"
  shows "at (dp_TemplateAnnotations live) ConfigChecksumAnnotation = checksum \<and> same_console c console"
proof -
  obtain inputs c1 t where a: "prepare_inputs G K R console checksum s = (Inr (inputs, c1), t)"
    and b: "roll_out G K R inputs c1 t = (Inr (live, c), s')"
    using run unfolding reconcileResources_def by (elim and_then_Inr) (auto split: prod.splits)
  obtain desired u where d: "deployment G K (rn_OperatorImage R) c1 inputs = Inr desired"
    and r: "reconcileDeployment K (rn_deployments R) desired t = (Inr live, u)" and same: "same_console c c1"
    using b by (rule roll_out_Inr)
  have "at (dp_TemplateAnnotations live) ConfigChecksumAnnotation = wi_ConfigChecksum inputs"
    using deployed_checksum[OF K C d r] .
  with prepare_inputs_Inr[OF a] same show ?thesis by (auto intro: same_console_trans)
qed

lemma publishWorkloadStatus_Inr:
  assumes K: "conditions_ok K" and run: "publishWorkloadStatus K d x = Inr y"
  shows "\<exists>rc pc. FindStatusCondition (ct_Conditions (con_Status y)) PgConsoleConditionReady = Some rc
      \<and> FindStatusCondition (ct_Conditions (con_Status y)) PgConsoleConditionProgressing = Some pc
      \<and> co_Status rc = (if rolloutComplete d then ConditionTrue else ConditionFalse)
      \<and> co_Status pc = (if rolloutComplete d then ConditionFalse else ConditionTrue)"
    and "same_console y x"
proof -
  define st1 st2 r1 m1 m2 where "st1 = (if rolloutComplete d then ConditionTrue else ConditionFalse)"
    and "st2 = (if rolloutComplete d then ConditionFalse else ConditionTrue)"
    and "r1 = (if rolloutComplete d then ReasonAsExpected else ReasonRolloutInProgress)"
    and "m1 = (if rolloutComplete d then ''console is available'' else ''console rollout in progress'')"
    and "m2 = (if rolloutComplete d then ''rollout complete'' else ''console rollout in progress'')"
  obtain z where z: "condition_of K PgConsoleConditionReady st1 r1 m1 x = Inr z"
    and y: "condition_of K PgConsoleConditionProgressing st2 r1 m2 z = Inr y"
    using run by (cases "rolloutComplete d") (auto simp: publishWorkloadStatus_def st1_def st2_def r1_def m1_def m2_def)
  have "PgConsoleConditionReady \<noteq> PgConsoleConditionProgressing"
    by (simp add: PgConsoleConditionReady_def PgConsoleConditionProgressing_def)
  with condition_of_published[OF K z] condition_of_published[OF K y] condition_of_others[OF K y]
  show "\<exists>rc pc. FindStatusCondition (ct_Conditions (con_Status y)) PgConsoleConditionReady = Some rc
      \<and> FindStatusCondition (ct_Conditions (con_Status y)) PgConsoleConditionProgressing = Some pc
      \<and> co_Status rc = (if rolloutComplete d then ConditionTrue else ConditionFalse)
      \<and> co_Status pc = (if rolloutComplete d then ConditionFalse else ConditionTrue)"
    by (auto simp: st1_def st2_def)
  show "same_console y x" using condition_of_same[OF y] condition_of_same[OF z] by (rule same_console_trans)
qed


section \<open>Witnesses\<close>

text \<open>
  An API server that has nothing of a kind and accepts every write, and one slot for the
  Deployment; with them, a console without pgAdmin or evidence is reconciled to the end.
\<close>

definition open_client :: "('s, 'o) client" where
  "open_client = (fixed_client (\<lambda>_. Inl NotFound) [])
     \<lparr>api_Create := (\<lambda>s x. (None, s)), api_Update := (\<lambda>s x. (None, s)), api_Patch := (\<lambda>s b x. (None, s)),
      api_StatusPatch := (\<lambda>s b x. (None, s)), api_Apply := (\<lambda>s x. (None, s)), api_Delete := (\<lambda>s k. (Some NotFound, s))\<rparr>"

lemma open_client_simps [simp]:
  "api_Get open_client s k = Inl NotFound" "api_Live open_client s k = Inl NotFound" "api_List open_client s ns = Inr []"
  "api_Create open_client s x = (None, s)" "api_Update open_client s x = (None, s)" "api_Patch open_client s b x = (None, s)"
  "api_StatusPatch open_client s b x = (None, s)" "api_Apply open_client s x = (None, s)"
  "api_Delete open_client s k = (Some NotFound, s)"
  by (simp_all add: open_client_def fixed_client_def)

lemma open_steps [simp]:
  "apply_if_changed open_client meta same d s = (Inr (), s)" "delete_object open_client k s = (Inr (), s)"
  by (simp_all add: apply_if_changed_def ApplyObject_def delete_object_def)

definition open_operator :: "PgConsole \<Rightarrow> (Deployment option, unit, unit) Reconciler" where
  "open_operator console =
     \<lparr>rn_consoles = open_client\<lparr>api_Get := (\<lambda>s k. Inr console)\<rparr>, rn_users = open_client, rn_secrets = open_client,
      rn_deployments = slot_client dp_Meta id (\<lambda>x _. x) id, rn_accounts = open_client, rn_services = open_client,
      rn_claims = open_client, rn_policies = open_client, rn_roles = open_client,
      rn_rbac = \<lparr>rc_roles = open_client, rc_bindings = open_client, rc_clusterRoles = open_client, rc_clusterBindings = open_client\<rparr>,
      rn_platform = \<lparr>pl_Ingress = open_client, pl_Route = open_client, pl_HTTPRoute = open_client, pl_Gateway = open_client,
        pl_NamespaceLabels = (\<lambda>s ns. Inl NotFound), pl_Selector = (\<lambda>sel. None), pl_RouteAPI = False, pl_GatewayAPI = False\<rparr>,
      rn_evidence = \<lparr>ee_clusters = open_client, ee_stores = open_client, ee_decode = (\<lambda>_. None), ee_FingerprintS3 = Inl \<circ> fi_Bucket,
        ee_Quote = (\<lambda>x. x), ee_Available = False, ee_DefaultViewer = []\<rparr>,
      rn_render = \<lparr>rl_Quote = (\<lambda>x. x), rl_ErrText = (\<lambda>_. []), rl_Show = (\<lambda>_. []),
        rl_Yaml = \<lparr>yaml_Marshal = (\<lambda>_. Inl []), yaml_Unmarshal = (\<lambda>_. None)\<rparr>\<rparr>,
      rn_ConsoleError = (\<lambda>_. []), rn_IsZero = (\<lambda>_. True), rn_sortByName = (\<lambda>xs. xs), rn_IsNoMatch = (\<lambda>_. False),
      rn_Event = (\<lambda>s _ _. s),
      rn_DefaultImages = \<lparr>di_PgConsole = ''console:1'', di_Proxy = ''proxy:1'', di_PgAdmin = ''pgadmin:1''\<rparr>,
      rn_OperatorImage = [], rn_AdminSync = None, rn_sessionKey = None, rn_evidenceToken = None, rn_bootstrapPassword = None,
      rn_crypto = sample_crypto\<rparr>"

lemma open_operator_laws: "applies_deployment (rn_deployments (open_operator c))" "catalog_laws (open_operator c)"
  by (simp_all add: open_operator_def applies_deployment_def carries_def LabelsContain_refl catalog_laws_def deletes_def separate_def)

definition plain_spec :: PgConsoleSpec where
  "plain_spec = sample_spec\<lparr>sp_PgAdmin := (sp_PgAdmin sample_spec)\<lparr>pa_Enabled := Some False\<rparr>\<rparr>"

definition plain_console :: PgConsole where
  "plain_console = sample_console\<lparr>con_Spec := plain_spec,
     con_Status := (con_Status sample_console)\<lparr>ct_ConfigRevision := Revision ''c1''\<rparr>\<rparr>"

lemma plain_pgadmin [simp]: "con_Spec c = plain_spec \<Longrightarrow> \<not> pgAdminEnabled c"
  by (simp add: pgAdminEnabled_def plain_spec_def)

lemma open_rbac: "reconcileRBAC G sample_kube b (rn_rbac (open_operator x)) c s = (Inr (), s)"
proof -
  obtain m m' where "owned_meta G sample_kube c [] = Inr m" "owned_meta G sample_kube c ''-operate'' = Inr m'"
    using owned_meta_ok[OF sample_kube_owners] by metis
  then show ?thesis
    by (simp add: reconcileRBAC_def and_then_def readRole_def roleBinding_def operateRole_def Let_def open_operator_def
        applyRole_def applyRoleBinding_def applyClusterRole_def applyClusterRoleBinding_def deleteOperateRBAC_def
        deleteCatalogClusterRBAC_def)
qed

lemma and_then_eval: "f s = (Inr x, t) \<Longrightarrow> and_then f g s = g x t"
  by (simp add: and_then_def)

lemma plain_images:
  assumes "con_Spec c = plain_spec"
  shows "resolveImage (px_Image (sp_Proxy (con_Spec c))) (di_Proxy (rn_DefaultImages (open_operator x))) = Inr ''proxy:1''"
    "resolveImage (sp_Image (con_Spec c)) (di_PgConsole (rn_DefaultImages (open_operator x))) = Inr ''console:1''"
  using assms by (simp_all add: resolveImage_def plain_spec_def sample_spec_def open_operator_def)

lemma plain_evidence:
  assumes "con_Spec c = plain_spec"
  shows "\<exists>c1. reconcileEvidence G sample_kube secrets deployments consoles rnd E c s = (Inr (None, c1), s) \<and> con_Spec c1 = plain_spec"
proof -
  have off: "\<not> evidenceEnabled c" using assms by (simp add: evidenceEnabled_def plain_spec_def sample_spec_def)
  obtain c1 where c1: "evidence_condition sample_kube ConditionFalse ReasonEvidenceDisabled
      ''evidence sidecar is disabled by spec.evidence.enabled'' (with_evidence no_evidence c) = Inr c1"
    by (simp add: evidence_condition_def mark_known)
  have "con_Spec c1 = plain_spec"
    using mark_console_frame[OF c1[unfolded evidence_condition_def]] assms by (simp add: with_evidence_def)
  with off c1 show ?thesis by (simp add: reconcileEvidence_def resolveEvidence_def need_image_def)
qed

lemma open_prepared:
  assumes spec: "con_Spec c = plain_spec"
  shows "\<exists>inputs c1. prepare_inputs G sample_kube (open_operator x) c checksum s = (Inr (inputs, c1), s) \<and> con_Spec c1 = plain_spec"
proof -
  let ?R = "open_operator x"
  obtain c1 where ev: "reconcileEvidence G sample_kube (rn_secrets ?R) (rn_deployments ?R) (rn_consoles ?R) (rn_evidenceToken ?R)
      (rn_evidence ?R) c s = (Inr (None, c1), s)" and c1: "con_Spec c1 = plain_spec"
    using plain_evidence[OF spec, of G "rn_secrets ?R" "rn_deployments ?R" "rn_consoles ?R" "rn_evidenceToken ?R" "rn_evidence ?R" s]
    by blast
  obtain a where a: "serviceAccount G sample_kube c = Inr a"
    by (simp add: serviceAccount_def with_owner_def console_meta_def sample_kube_def)
  have sa: "applyServiceAccount sample_kube (rn_accounts ?R) a s = (Inr (), s)"
    by (simp add: applyServiceAccount_def open_operator_def)
  have pvc: "reconcilePgAdminSettingsPVC G sample_kube (rn_IsZero ?R) (rn_claims ?R) c s = (Inr (), s)"
    using spec by (simp add: reconcilePgAdminSettingsPVC_def)
  have skip: "run_if (pgAdminEnabled c) d f s = (Inr d, s)" "run_if (pgAdminEnabled c \<and> b) d f s = (Inr d, s)"
    for d :: 'z and f b using spec by (simp_all add: run_if_def)
  have "\<exists>inputs. prepare_inputs G sample_kube ?R c checksum s = (Inr (inputs, c1), s)"
    unfolding prepare_inputs_def plain_images[OF spec] a
    by (subst and_then_eval, (rule refl skip open_rbac sa pvc ev)+)+ simp
  with c1 show ?thesis by blast
qed

lemma plain_exposure:
  assumes "con_Spec c = plain_spec"
  shows "\<exists>c1. reconcileExposure G sample_kube (rn_platform (open_operator x)) c s = (Inr c1, s) \<and> con_Spec c1 = plain_spec"
proof -
  have type: "ex_Type (con_exposure c) = ExposureTypeClusterIP" using assms by (simp add: plain_spec_def sample_spec_def)
  have others: "deleteOtherExposures G sample_kube (rn_platform (open_operator x)) (published_url c) [] s = (Inr (), s)"
    by (simp add: deleteOtherExposures_def Let_def and_then_def only_if_def deleteExposureIfOwned_def open_operator_def)
  obtain c1 where c1: "route_condition sample_kube ConditionTrue ReasonNotRequested ''external exposure is not requested'' (published_url c) = Inr c1"
    by (simp add: route_condition_def mark_known)
  have "con_Spec c1 = plain_spec" using mark_console_frame[OF c1[unfolded route_condition_def]] assms by simp
  with others c1 show ?thesis by (simp add: exposure_branches(1)[OF type] and_then_eval)
qed

lemma open_rolled_out:
  assumes spec: "con_Spec c = plain_spec"
  shows "\<exists>d c1. roll_out G sample_kube (open_operator x) inputs c None = (Inr (d, c1), Some d) \<and> con_Spec c1 = plain_spec"
proof -
  let ?R = "open_operator x"
  obtain m where m: "owned_meta G sample_kube c [] = Inr m" using owned_meta_ok[OF sample_kube_owners] by metis
  obtain d where d: "deployment G sample_kube (rn_OperatorImage ?R) c inputs = Inr d" using m by (simp add: deployment_def Let_def)
  have run: "reconcileDeployment sample_kube (rn_deployments ?R) d None = (Inr d, Some d)"
    by (simp add: reconcileDeployment_def Let_def and_then_def ApplyObject_def open_operator_def)
  have tokens: "collectSupersededTokens sample_kube (rn_secrets ?R) c (wi_TokenSecretName inputs) (Some d) (Some d) = (Inr (), Some d)"
    by (simp add: collectSupersededTokens_def open_operator_def)
  obtain svc where svc: "service G sample_kube c = Inr svc" using m by (simp add: service_def)
  have applied: "applyService sample_kube (rn_services ?R) svc (Some d) = (Inr (), Some d)"
    by (simp add: applyService_def open_operator_def)
  obtain c1 where ex: "reconcileExposure G sample_kube (rn_platform ?R) c (Some d) = (Inr c1, Some d)" and c1: "con_Spec c1 = plain_spec"
    using plain_exposure[OF spec] by blast
  obtain m1 where m1: "owned_meta G sample_kube c1 [] = Inr m1" using owned_meta_ok[OF sample_kube_owners] by metis
  have policy: "reconcileNetworkPolicy G sample_kube b (rn_policies ?R) c1 (Some d) = (Inr (), Some d)" for b
    using m1 by (simp add: reconcileNetworkPolicy_def networkPolicy_def Let_def open_operator_def deleteNetworkPolicyIfOwned_def write_result_def)
  have "roll_out G sample_kube ?R inputs c None = (Inr (d, c1), Some d)"
    unfolding roll_out_def d svc by (subst and_then_eval, (rule refl run tokens applied ex policy)+)+
  with c1 show ?thesis by blast
qed

lemma open_deployed:
  "\<exists>s'. deploy G sample_kube (open_operator x) before [] plain_console ''c1'' None = (Inr None, s')"
proof -
  let ?R = "open_operator x"
  have spec: "con_Spec plain_console = plain_spec" by (simp add: plain_console_def)
  obtain inputs c1 where a: "prepare_inputs G sample_kube ?R plain_console ''c1'' None = (Inr (inputs, c1), None)" "con_Spec c1 = plain_spec"
    using open_prepared[OF spec] by blast
  obtain d c2 where b: "roll_out G sample_kube ?R inputs c1 None = (Inr (d, c2), Some d)" "con_Spec c2 = plain_spec"
    using open_rolled_out[OF a(2)] by blast
  have res: "reconcileResources G sample_kube ?R plain_console ''c1'' None = (Inr (d, c2), Some d)"
    using a(1) b(1) by (simp add: reconcileResources_def and_then_eval)
  obtain c3 where c3: "synced_condition sample_kube ConditionUnknown ReasonNoneConfigured ''pgAdmin sync is not configured for this console'' c2 = Inr c3"
    by (simp add: synced_condition_def mark_known)
  have sync: "reconcilePgAdminSync sample_kube b (rn_AdminSync ?R) clusters cr c2 d k t = (Inr c3, t)" for b clusters cr k t
    using c3 by (simp add: reconcilePgAdminSync_def open_operator_def)
  have "con_Spec c3 = plain_spec" using mark_console_frame[OF c3[unfolded synced_condition_def]] b(2) by simp
  moreover obtain c4 where c4: "condition_of sample_kube PgConsoleConditionConfigurationValid ConditionTrue ReasonAsExpected ''configuration is valid'' c3 = Inr c4"
    by (simp add: condition_of_def mark_known)
  obtain c5 where c5: "publishWorkloadStatus sample_kube d c4 = Inr c5"
    by (cases "rolloutComplete d") (simp_all add: publishWorkloadStatus_def condition_of_def mark_known)
  have up: "console_updateStatus (rn_consoles ?R) before c5 t = (Inr (), t)" for t
    by (simp add: console_updateStatus_def open_operator_def)
  ultimately show ?thesis
    using res sync by (simp add: deploy_def and_then_eval publish_def c4 c5 up)
qed


definition managed_console :: "bool \<Rightarrow> PgConsole" where
  "managed_console deleting = plain_console\<lparr>con_Meta := (con_Meta plain_console)
     \<lparr>m_Finalizers := [ap_Finalizer application], m_Deleting := deleting\<rparr>\<rparr>"



end
