(* ===== verification/Manager.thy ===== *)
theory Manager
  imports Go_Flag Console_Controller
begin

text \<open>
  The operator's binary (\<open>cmd/manager/main.go\<close>, \<open>cmd/manager/admin_sync.go\<close>) and the start
  of the sidecar it also is (\<open>RunSidecar\<close> in \<open>internal/adminsync/sidecar_server.go\<close>).

  The binary runs as three processes: the manager; \<open>admin-sync-init\<close>, which copies it into
  the pgAdmin pod; and \<open>admin-sync-sidecar\<close>, which serves the synchronization API there.
  \<open>manager_main\<close> is \<open>main\<close> up to the point where each of them serves.

  Parameters: the files of the init container (\<open>files\<close>), the sidecar's \<open>host\<close>, and what
  controller-runtime and client-go provide (\<open>manager_lib\<close>): the manager with its clients,
  API discovery, the client of the sidecar and the registration of controllers and checks.
\<close>

section \<open>Copying the binary\<close>

record 's files =
  fl_Executable :: "'s \<Rightarrow> string option"
  fl_Open :: "'s \<Rightarrow> string \<Rightarrow> bool"
  fl_Stat :: "'s \<Rightarrow> string \<Rightarrow> nat option"
  fl_OpenFile :: "'s \<Rightarrow> string \<Rightarrow> nat \<Rightarrow> bool \<times> 's"
  fl_Copy :: "'s \<Rightarrow> string \<Rightarrow> string \<Rightarrow> bool \<times> 's"
  fl_Close :: "'s \<Rightarrow> string \<Rightarrow> bool \<times> 's"

datatype command_error =
    FlagExit nat | MissingFlag string | NoExecutable | OpenFailed string | StatFailed string | CreateFailed string
  | CopyFailed string string | CloseFailed string | TokenRefused string

text \<open>The target is opened for writing, created or truncated, and closed on every path after that.\<close>

definition copyFile :: "'s files \<Rightarrow> string \<Rightarrow> string \<Rightarrow> 's \<Rightarrow> (command_error, unit) result \<times> 's" where
  "copyFile F src dst s =
     (if \<not> fl_Open F s src then (Inl (OpenFailed src), s)
      else case fl_Stat F s src of
        None \<Rightarrow> (Inl (StatFailed src), s)
      | Some mode \<Rightarrow>
          (case fl_OpenFile F s dst mode of
             (False, s1) \<Rightarrow> (Inl (CreateFailed dst), s1)
           | (True, s1) \<Rightarrow>
               (case fl_Copy F s1 src dst of
                  (False, s2) \<Rightarrow> (Inl (CopyFailed src dst), snd (fl_Close F s2 dst))
                | (True, s2) \<Rightarrow>
                    (case fl_Close F s2 dst of
                       (False, s3) \<Rightarrow> (Inl (CloseFailed dst), s3)
                     | (True, s3) \<Rightarrow> (Inr (), s3)))))"

definition init_flags :: flag_set where "init_flags = [''target'' \<mapsto> StringFlag]"

definition runAdminSyncInit :: "'s files \<Rightarrow> string list \<Rightarrow> 's \<Rightarrow> (command_error, unit) result \<times> 's" where
  "runAdminSyncInit F args s =
     (case flag_Parse init_flags Map.empty args of
        Inl e \<Rightarrow> (Inl (FlagExit (flag_exit e)), s)
      | Inr (vals, _) \<Rightarrow>
          (let target = flag_or vals ''target'' [] in
           if target = [] then (Inl (MissingFlag ''target''), s)
           else case fl_Executable F s of
                  None \<Rightarrow> (Inl NoExecutable, s)
                | Some self \<Rightarrow> copyFile F self target s))"

section \<open>The sidecar's process\<close>

text \<open>What the sidecar listens with: its address, certificate and key files, options and token.\<close>

record listener =
  ls_Addr :: string
  ls_CertFile :: string
  ls_KeyFile :: string
  ls_Options :: SidecarOptions
  ls_Token :: string

definition RunSidecar :: "'s host \<Rightarrow> SidecarOptions \<Rightarrow> 's \<Rightarrow> (command_error, listener) result" where
  "RunSidecar H options s =
     (let o' = sidecar_defaults options in
      case sidecar_token (ho_ReadFile H s (so_TokenFile o')) of
        None \<Rightarrow> Inl (TokenRefused (so_TokenFile o'))
      | Some expected \<Rightarrow>
          Inr \<lparr>ls_Addr = so_Addr o', ls_CertFile = filepath_Join (so_CertDir o') ''tls.crt'',
               ls_KeyFile = filepath_Join (so_CertDir o') ''tls.key'', ls_Options = o', ls_Token = expected\<rparr>)"

definition sidecar_flags :: flag_set where
  "sidecar_flags = [''cert-dir'' \<mapsto> StringFlag, ''token-file'' \<mapsto> StringFlag, ''pass-file'' \<mapsto> StringFlag]"

definition runAdminSyncSidecar :: "'s host \<Rightarrow> string list \<Rightarrow> 's \<Rightarrow> (command_error, listener) result" where
  "runAdminSyncSidecar H args s =
     (case flag_Parse sidecar_flags Map.empty args of
        Inl e \<Rightarrow> Inl (FlagExit (flag_exit e))
      | Inr (vals, _) \<Rightarrow>
          (let certDir = flag_or vals ''cert-dir'' []; tokenFile = flag_or vals ''token-file'' [];
               passFile = flag_or vals ''pass-file'' DefaultPassFilePath in
           if certDir = [] then Inl (MissingFlag ''cert-dir'')
           else if tokenFile = [] then Inl (MissingFlag ''token-file'')
           else RunSidecar H
                  \<lparr>so_Addr = [], so_CertDir = certDir, so_TokenFile = tokenFile, so_PythonPath = [], so_SetupPath = [],
                   so_PassFile = passFile, so_SettingsDB = []\<rparr> s))"

text \<open>
  The sidecar's mux. Matching does not look at the pattern's handler; a path that only another
  method serves is answered 405, any other path 404.
\<close>

datatype sidecar_reply = Answered nat | SentTo string

definition mux_matches :: "string \<Rightarrow> string \<Rightarrow> request \<Rightarrow> bool" where
  "mux_matches m p r = pattern_matches \<lparr>pt_Method = m, pt_Path = p, pt_Handler = EpHealthz\<rparr> r"

definition sidecar_serve ::
  "golib \<Rightarrow> 's host \<Rightarrow> listener \<Rightarrow> request \<Rightarrow> string \<Rightarrow> 's \<Rightarrow> sidecar_reply \<times> 's" where
  "sidecar_serve G H l r body s =
     (if rq_RequestURI r = ''*'' then (Answered 400, s)
      else if rq_Method r \<noteq> ''CONNECT'' \<and> cleanPath (rq_EscapedPath r) \<noteq> rq_EscapedPath r
      then (SentTo (cleanPath (rq_EscapedPath r)), s)
      else if mux_matches ''GET'' ''/healthz'' r then (Answered 200, s)
      else if mux_matches ''POST'' ''/v1/sync'' r
      then (case handle_sync G H (ls_Options l) (ls_Token l) r body s of (status, s') \<Rightarrow> (Answered status, s'))
      else if mux_matches ''GET'' ''/healthz'' (r\<lparr>rq_Method := ''GET''\<rparr>)
              \<or> mux_matches ''POST'' ''/v1/sync'' (r\<lparr>rq_Method := ''POST''\<rparr>)
      then (Answered 405, s)
      else (Answered 404, s))"

section \<open>Optional platform APIs\<close>

record apiAvailability =
  aa_RouteAPI :: bool
  aa_GatewayAPI :: bool
  aa_BarmanObjectStore :: bool

text \<open>Discovery answers a group version with the kinds it serves, or fails.\<close>

type_synonym discovery = "string \<Rightarrow> string list option"

definition apiServed :: "discovery \<Rightarrow> string \<Rightarrow> string \<Rightarrow> bool" where
  "apiServed d groupVersion kind = (case d groupVersion of None \<Rightarrow> False | Some kinds \<Rightarrow> kind \<in> set kinds)"

definition discoverAPIs :: "discovery option \<Rightarrow> apiAvailability" where
  "discoverAPIs d =
     (case d of
        None \<Rightarrow> \<lparr>aa_RouteAPI = False, aa_GatewayAPI = False, aa_BarmanObjectStore = False\<rparr>
      | Some f \<Rightarrow>
          \<lparr>aa_RouteAPI = apiServed f ''route.openshift.io/v1'' ''Route'',
           aa_GatewayAPI = apiServed f ''gateway.networking.k8s.io/v1'' ''HTTPRoute'',
           aa_BarmanObjectStore = apiServed f ''barmancloud.cnpg.io/v1'' ''ObjectStore''\<rparr>)"

section \<open>What the controllers watch\<close>

text \<open>
  The kinds a controller is registered for: its own, those it owns, those it owns of which only
  the metadata is cached, and those mapped to the objects of its own kind.
\<close>

datatype watch = ForKind string | OwnsKind string | OwnsMetadata string | WatchesMapped string

definition console_watches :: "bool \<Rightarrow> bool \<Rightarrow> watch list" where
  "console_watches routeAPI gatewayAPI =
     [ForKind ''PgConsole'', OwnsKind ''Deployment'', OwnsKind ''Service'', OwnsKind ''ServiceAccount'',
      OwnsKind ''PersistentVolumeClaim'', OwnsKind ''Role'', OwnsKind ''RoleBinding'', OwnsKind ''NetworkPolicy'',
      OwnsKind ''Ingress'', OwnsMetadata ''Secret'']
     @ (if routeAPI then [OwnsKind ''Route''] else [])
     @ (if gatewayAPI then [OwnsKind ''HTTPRoute''] else [])
     @ [WatchesMapped ''PgToolBoxUser'']"

definition request_watches :: "watch list" where
  "request_watches = [ForKind ''PgToolBoxAccessRequest'']"

section \<open>The manager\<close>

record ManagerOptions =
  mo_MetricsAddr :: string
  mo_ProbeAddr :: string
  mo_LeaderElection :: bool
  mo_LeaderElectionID :: string

text \<open>
  What the libraries provide. \<open>ml_NewManager\<close> yields a reconciler that holds the manager's
  clients; \<open>ml_flags\<close> are the flags zap and controller-runtime register beside the program's.
\<close>

record ('s, 'raw, 'k) manager_lib =
  ml_flags :: flag_set
  ml_NewManager :: "ManagerOptions \<Rightarrow> ('s, 'raw, 'k) Reconciler option"
  ml_Discovery :: "discovery option"
  ml_SidecarClient :: "(Request \<Rightarrow> 's \<Rightarrow> string option \<times> 's) option"
  ml_Setup :: "string \<Rightarrow> watch list \<Rightarrow> bool"
  ml_AddCheck :: "string \<Rightarrow> bool"

definition manager_flags :: flag_set where
  "manager_flags =
     [''metrics-bind-address'' \<mapsto> StringFlag, ''health-probe-bind-address'' \<mapsto> StringFlag, ''leader-elect'' \<mapsto> BoolFlag,
      ''operator-image'' \<mapsto> StringFlag, ''default-pgconsole-image'' \<mapsto> StringFlag,
      ''default-pgtoolbox-proxy-image'' \<mapsto> StringFlag, ''default-pgadmin-image'' \<mapsto> StringFlag,
      ''default-objectstoreviewer-image'' \<mapsto> StringFlag]"

text \<open>The console controller's reconciler: the manager's clients with what \<open>main\<close> sets beside them.\<close>

definition wire ::
  "('s, 'raw, 'k) Reconciler \<Rightarrow> apiAvailability \<Rightarrow> flag_values \<Rightarrow> string
   \<Rightarrow> (Request \<Rightarrow> 's \<Rightarrow> string option \<times> 's) \<Rightarrow> ('s, 'raw, 'k) Reconciler" where
  "wire R availability vals defaultOperatorImage adminSyncer =
     R\<lparr>rn_platform := (rn_platform R)\<lparr>pl_RouteAPI := aa_RouteAPI availability, pl_GatewayAPI := aa_GatewayAPI availability\<rparr>,
       rn_evidence := (rn_evidence R)\<lparr>ee_Available := aa_BarmanObjectStore availability,
                                      ee_DefaultViewer := flag_or vals ''default-objectstoreviewer-image'' []\<rparr>,
       rn_DefaultImages := \<lparr>di_PgConsole = flag_or vals ''default-pgconsole-image'' [],
                            di_Proxy = flag_or vals ''default-pgtoolbox-proxy-image'' [],
                            di_PgAdmin = flag_or vals ''default-pgadmin-image'' []\<rparr>,
       rn_OperatorImage := flag_or vals ''operator-image'' defaultOperatorImage,
       rn_AdminSync := Some adminSyncer\<rparr>"

datatype ('s, 'raw, 'k) manager_run = Exited nat | SidecarListening listener | Managing "('s, 'raw, 'k) Reconciler"

definition manage ::
  "('s, 'raw, 'k) manager_lib \<Rightarrow> string \<Rightarrow> string list \<Rightarrow> ('s, 'raw, 'k) manager_run" where
  "manage M defaultOperatorImage args =
     (case flag_Parse (ml_flags M ++ manager_flags) Map.empty args of
        Inl e \<Rightarrow> Exited (flag_exit e)
      | Inr (vals, _) \<Rightarrow>
          (case ml_NewManager M \<lparr>mo_MetricsAddr = flag_or vals ''metrics-bind-address'' '':8080'',
                                  mo_ProbeAddr = flag_or vals ''health-probe-bind-address'' '':8081'',
                                  mo_LeaderElection = (flag_or vals ''leader-elect'' ''true'' = ''true''),
                                  mo_LeaderElectionID = ''pgtoolbox.pgtoolbox.fyannk.dev''\<rparr> of
             None \<Rightarrow> Exited 1
           | Some R \<Rightarrow>
               (let availability = discoverAPIs (ml_Discovery M) in
                case ml_SidecarClient M of
                  None \<Rightarrow> Exited 1
                | Some adminSyncer \<Rightarrow>
                    if ml_Setup M ''pgconsole'' (console_watches (aa_RouteAPI availability) (aa_GatewayAPI availability))
                       \<and> ml_Setup M ''pgtoolboxaccessrequest'' request_watches
                       \<and> ml_AddCheck M ''healthz'' \<and> ml_AddCheck M ''readyz''
                    then Managing (wire R availability vals defaultOperatorImage adminSyncer)
                    else Exited 1)))"

fun command_exit :: "command_error \<Rightarrow> nat" where
  "command_exit (FlagExit n) = n"
| "command_exit _ = 1"

text \<open>\<open>main\<close> on its arguments after the program's name.\<close>

definition manager_main ::
  "'f files \<Rightarrow> 'f host \<Rightarrow> ('s, 'raw, 'k) manager_lib \<Rightarrow> string \<Rightarrow> string list \<Rightarrow> 'f \<Rightarrow> ('s, 'raw, 'k) manager_run \<times> 'f" where
  "manager_main F H M defaultOperatorImage args s =
     (case args of
        [] \<Rightarrow> (manage M defaultOperatorImage args, s)
      | command # rest \<Rightarrow>
          if command = ''admin-sync-init''
          then (case runAdminSyncInit F rest s of
                  (Inl e, s') \<Rightarrow> (Exited (command_exit e), s')
                | (Inr _, s') \<Rightarrow> (Exited 0, s'))
          else if command = ''admin-sync-sidecar''
          then (case runAdminSyncSidecar H rest s of
                  Inl e \<Rightarrow> (Exited (command_exit e), s)
                | Inr l \<Rightarrow> (SidecarListening l, s))
          else (manage M defaultOperatorImage args, s))"

section \<open>Copying\<close>

text \<open>
  What the operating system documents of the files, over the content each path has: opening
  for writing truncates, a copy into an empty file writes what the source holds, closing
  changes nothing.
\<close>

definition files_ok :: "'s files \<Rightarrow> ('s \<Rightarrow> string \<Rightarrow> string option) \<Rightarrow> bool" where
  "files_ok F content \<longleftrightarrow>
     (\<forall>s p. fl_Open F s p \<longrightarrow> content s p \<noteq> None)
   \<and> (\<forall>s p m s'. fl_OpenFile F s p m = (True, s') \<longrightarrow> content s' = (content s)(p \<mapsto> []))
   \<and> (\<forall>s p q c s'. fl_Copy F s p q = (True, s') \<longrightarrow> p \<noteq> q \<longrightarrow> content s p = Some c \<longrightarrow> content s q = Some []
        \<longrightarrow> content s' = (content s)(q \<mapsto> c))
   \<and> (\<forall>s p b s'. fl_Close F s p = (b, s') \<longrightarrow> content s' = content s)"

lemma copyFile_copies:
  assumes ok: "files_ok F content" and run: "copyFile F src dst s = (Inr (), s')" and ne: "src \<noteq> dst"
  shows "content s src \<noteq> None" "content s' = (content s)(dst := content s src)"
proof -
  from run obtain mode s1 s2 where "fl_Open F s src" and o: "fl_OpenFile F s dst mode = (True, s1)"
    and c: "fl_Copy F s1 src dst = (True, s2)" and cl: "fl_Close F s2 dst = (True, s')"
    by (auto simp: copyFile_def split: if_splits option.splits prod.splits bool.splits)
  with ok obtain t where t: "content s src = Some t" unfolding files_ok_def by blast
  then show "content s src \<noteq> None" by simp
  have s1: "content s1 = (content s)(dst \<mapsto> [])" using ok o unfolding files_ok_def by blast
  have "content s2 = (content s1)(dst \<mapsto> t)"
    using ok c ne s1 t unfolding files_ok_def by (auto simp: fun_upd_def)
  moreover have "content s' = content s2" using ok cl unfolding files_ok_def by blast
  ultimately show "content s' = (content s)(dst := content s src)" using s1 t by simp
qed

section \<open>The pod's own command lines\<close>

lemma b64_digit_plain: "n < 64 \<Longrightarrow> byte (b64_digit n) < 128 \<and> \<not> IsSpace (byte (b64_digit n))"
  by (auto simp: b64_digit_def IsSpace_def byte_def)

lemma TrimSpace_b64: "TrimSpace (b64_EncodeToString t) = b64_EncodeToString t"
proof (rule TrimSpace_plain)
  have "y < 64" if "y \<in> set (b64_encode (map byte t))" for y
    using b64_encode_lt[of "map byte t"] that by (simp add: list_all_iff)
  then show "is_ascii (b64_EncodeToString t)" "list_all (\<lambda>c. \<not> IsSpace (byte c)) (b64_EncodeToString t)"
    using b64_digit_plain by (auto simp: b64_EncodeToString_def is_ascii_def list_all_iff)
qed

lemma init_command:
  assumes "fl_Executable F s = Some self"
  shows "runAdminSyncInit F (tl (tl (cn_Command (adminSyncInitContainer img)))) s
    = copyFile F self (hd (cn_Command (adminSyncSidecarContainer console img'))) s"
proof -
  have "flag_Parse init_flags Map.empty (tl (tl (cn_Command (adminSyncInitContainer img))))
      = Inr ([''target'' \<mapsto> adminSyncBinMountPath @ ''/manager''], [])"
    using flag_Parse_string[of init_flags "''target''" Map.empty "adminSyncBinMountPath @ ''/manager''" "[]"]
    by (simp add: adminSyncInitContainer_def init_flags_def flag_Parse_Nil)
  with assms show ?thesis
    by (simp add: runAdminSyncInit_def flag_or_def adminSyncSidecarContainer_def adminSyncBinMountPath_def)
qed

lemma init_main:
  assumes ok: "files_ok F content" and exe: "fl_Executable F s = Some ''/manager''"
    and run: "manager_main F H M d (tl (cn_Command (adminSyncInitContainer op))) s = (Exited 0, s')"
  shows "content s ''/manager'' \<noteq> None"
    "content s' = (content s)(hd (cn_Command (adminSyncSidecarContainer console img)) := content s ''/manager'')"
proof -
  let ?target = "hd (cn_Command (adminSyncSidecarContainer console img))"
  have cmd: "tl (cn_Command (adminSyncInitContainer op)) = ''admin-sync-init'' # tl (tl (cn_Command (adminSyncInitContainer op)))"
    by (simp add: adminSyncInitContainer_def)
  obtain r where r: "copyFile F ''/manager'' ?target s = (r, s')"
    and out: "(case r of Inl e \<Rightarrow> command_exit e | Inr _ \<Rightarrow> 0) = 0"
    using run by (subst (asm) cmd)
      (auto simp: manager_main_def init_command[OF exe, of op console img] split: prod.splits sum.splits)
  have "command_exit e \<noteq> 0" if "copyFile F p q s = (Inl e, s')" for p q e s'
    using that by (auto simp: copyFile_def split: if_splits option.splits prod.splits bool.splits)
  with r out have "copyFile F ''/manager'' ?target s = (Inr (), s')" by (cases r) auto
  moreover have "''/manager'' \<noteq> ?target"
    by (simp add: adminSyncSidecarContainer_def adminSyncBinMountPath_def)
  ultimately show "content s ''/manager'' \<noteq> None" "content s' = (content s)(?target := content s ''/manager'')"
    using copyFile_copies[OF ok] by blast+
qed

definition rendered_options :: SidecarOptions where
  "rendered_options =
     \<lparr>so_Addr = [], so_CertDir = adminSyncTLSMountPath, so_TokenFile = adminSyncTLSMountPath @ ''/token'',
      so_PythonPath = [], so_SetupPath = [], so_PassFile = adminSyncPassfileMountPath @ ''/pgpass'', so_SettingsDB = []\<rparr>"

lemma sidecar_command:
  "runAdminSyncSidecar H (tl (tl (cn_Command (adminSyncSidecarContainer console img)))) s = RunSidecar H rendered_options s"
proof -
  let ?v = "[''cert-dir'' \<mapsto> adminSyncTLSMountPath, ''token-file'' \<mapsto> adminSyncTLSMountPath @ ''/token'',
             ''pass-file'' \<mapsto> adminSyncPassfileMountPath @ ''/pgpass'']"
  have "flag_Parse sidecar_flags Map.empty (tl (tl (cn_Command (adminSyncSidecarContainer console img)))) = Inr (?v, [])"
    using flag_Parse_string[of sidecar_flags "''cert-dir''" Map.empty adminSyncTLSMountPath]
      flag_Parse_string[of sidecar_flags "''token-file''" "[''cert-dir'' \<mapsto> adminSyncTLSMountPath]"]
      flag_Parse_string[of sidecar_flags "''pass-file''"
        "[''cert-dir'' \<mapsto> adminSyncTLSMountPath, ''token-file'' \<mapsto> adminSyncTLSMountPath @ ''/token'']"]
    by (simp add: adminSyncSidecarContainer_def sidecar_flags_def flag_Parse_Nil)
  then show ?thesis
    by (simp add: runAdminSyncSidecar_def flag_or_def rendered_options_def adminSyncTLSMountPath_def)
qed

lemma port_text: "Itoa 9600 = ''9600''"
  by (simp add: Itoa_def digits.simps[of 9600] digits.simps[of 960] digits.simps[of 96] digits.simps[of 9] char_of_def bit_0)

lemma rendered_paths:
  "filepath_Join adminSyncTLSMountPath ''tls.crt'' = adminSyncTLSMountPath @ ''/'' @ SidecarSecretCertKey"
  "filepath_Join adminSyncTLSMountPath ''tls.key'' = adminSyncTLSMountPath @ ''/'' @ SidecarSecretKeyKey"
  "adminSyncTLSMountPath @ ''/token'' = adminSyncTLSMountPath @ ''/'' @ SidecarSecretTokenKey"
  by (simp_all add: filepath_Join_def rooted_path_def adminSyncTLSMountPath_def SidecarSecretCertKey_def
      SidecarSecretKeyKey_def SidecarSecretTokenKey_def)

lemma generated_token:
  assumes "generateAdminSyncMaterial R = Inr data" "crypto_ok R"
  shows "sidecar_token (Some (at data SidecarSecretTokenKey)) = Some (at data SidecarSecretTokenKey)"
    "TrimSpace (at data SidecarSecretTokenKey) = at data SidecarSecretTokenKey"
    "{SidecarSecretCAKey, SidecarSecretCertKey, SidecarSecretKeyKey, SidecarSecretTokenKey} \<subseteq> fset (fmdom data)"
proof -
  from assms obtain t where t: "at data SidecarSecretTokenKey = b64_EncodeToString t" "length t = 36"
    and "{SidecarSecretCAKey, SidecarSecretCertKey, SidecarSecretKeyKey, SidecarSecretTokenKey} \<subseteq> fset (fmdom data)"
    by (auto simp: generateAdminSyncMaterial_def or_fail_def crypto_ok_def Let_def bind_result_Inr_iff
        SidecarSecretCAKey_def SidecarSecretCertKey_def SidecarSecretKeyKey_def SidecarSecretTokenKey_def at_def
        split: option.splits)
  then show "{SidecarSecretCAKey, SidecarSecretCertKey, SidecarSecretKeyKey, SidecarSecretTokenKey} \<subseteq> fset (fmdom data)"
    by simp
  from t show "sidecar_token (Some (at data SidecarSecretTokenKey)) = Some (at data SidecarSecretTokenKey)"
    "TrimSpace (at data SidecarSecretTokenKey) = at data SidecarSecretTokenKey"
    by (simp_all add: sidecar_token_def TrimSpace_b64 b64_length)
qed

text \<open>
  C31: the pgAdmin pod the operator renders runs the operator's own binary with command lines
  that binary accepts. The init container's command, when it succeeds, leaves at the path the
  sidecar container executes an exact copy of the image's \<open>/manager\<close> and touches no other
  file, on a volume both containers mount there. The sidecar container's command then serves,
  given the files of the generated Secret at its mount: on the port the container declares and
  the readiness probe dials, with that Secret's certificate, key and token, writing the
  credential file pgAdmin is pointed at; and the operator's client, which presents that
  Secret's token, is never refused as unauthorized.
\<close>

theorem rendered_admin_sync_starts:
  fixes op img :: string and console :: PgConsole
  assumes ok: "files_ok F content" and exe: "fl_Executable F s = Some ''/manager''"
    and mat: "generateAdminSyncMaterial R = Inr data" "crypto_ok R"
    and mounted: "\<And>k. k |\<in>| fmdom data \<Longrightarrow> ho_ReadFile H s2 (adminSyncTLSMountPath @ ''/'' @ k) = Some (at data k)"
  defines "init \<equiv> adminSyncInitContainer op" and "side \<equiv> adminSyncSidecarContainer console img"
  shows "(\<forall>s'. manager_main F H M d (tl (cn_Command init)) s = (Exited 0, s') \<longrightarrow>
            content s ''/manager'' \<noteq> None \<and> content s' = (content s)(hd (cn_Command side) := content s ''/manager''))
    \<and> mount_at adminSyncBinVolume (filepath_Dir (hd (cn_Command side))) False \<in> set (cn_VolumeMounts init)
    \<and> mount_at adminSyncBinVolume (filepath_Dir (hd (cn_Command side))) True \<in> set (cn_VolumeMounts side)
    \<and> (\<exists>l. manager_main F H M d (tl (cn_Command side)) s2 = (SidecarListening l, s2)
        \<and> ls_Addr l = CHR '':'' # Itoa SidecarPort \<and> SidecarPort \<in> pp_ContainerPort ` set (cn_Ports side)
        \<and> map_option pb_Handler (cn_ReadinessProbe side) = Some (TCPSocket SidecarPort)
        \<and> ho_ReadFile H s2 (ls_CertFile l) = Some (at data SidecarSecretCertKey)
        \<and> ho_ReadFile H s2 (ls_KeyFile l) = Some (at data SidecarSecretKeyKey)
        \<and> ls_Token l = at data SidecarSecretTokenKey
        \<and> (''PGPASSFILE'', so_PassFile (ls_Options l)) \<in> set (cn_Env (pgAdminContainer True console img))
        \<and> (\<forall>r body t. Header_Get (rq_Header r) ''Authorization'' = ''Bearer '' @ TrimSpace (at data SidecarSecretTokenKey)
              \<longrightarrow> fst (handle_sync G H (ls_Options l) (ls_Token l) r body t) \<noteq> 401))"
proof -
  have init_ok: "content s ''/manager'' \<noteq> None
      \<and> content s' = (content s)(hd (cn_Command side) := content s ''/manager'')"
    if "manager_main F H M d (tl (cn_Command init)) s = (Exited 0, s')" for s'
    using init_main[OF ok exe that[unfolded init_def]] unfolding side_def by blast
  have dir: "filepath_Dir (hd (cn_Command side)) = adminSyncBinMountPath"
    by (simp add: side_def adminSyncSidecarContainer_def adminSyncBinMountPath_def filepath_Dir_def rooted_path_def)
  note tok = generated_token[OF mat]
  have read: "ho_ReadFile H s2 (adminSyncTLSMountPath @ ''/'' @ k) = Some (at data k)"
    if "k \<in> {SidecarSecretCertKey, SidecarSecretKeyKey, SidecarSecretTokenKey}" for k
    using mounted tok(3) that by blast
  define l where "l = \<lparr>ls_Addr = '':9600'', ls_CertFile = filepath_Join adminSyncTLSMountPath ''tls.crt'',
    ls_KeyFile = filepath_Join adminSyncTLSMountPath ''tls.key'', ls_Options = sidecar_defaults rendered_options,
    ls_Token = at data SidecarSecretTokenKey\<rparr>"
  have run: "RunSidecar H rendered_options s2 = Inr l"
    using read tok(1) by (simp add: RunSidecar_def Let_def l_def sidecar_defaults_def rendered_options_def rendered_paths(3))
  have cmd: "tl (cn_Command side) = ''admin-sync-sidecar'' # tl (tl (cn_Command side))"
    by (simp add: side_def adminSyncSidecarContainer_def)
  have "manager_main F H M d (tl (cn_Command side)) s2 = (SidecarListening l, s2)"
    by (subst cmd) (simp add: manager_main_def side_def sidecar_command run)
  moreover have "fst (handle_sync G H (ls_Options l) (ls_Token l) r body t) \<noteq> 401"
    if "Header_Get (rq_Header r) ''Authorization'' = ''Bearer '' @ TrimSpace (at data SidecarSecretTokenKey)" for r body t
    using that tok(2) by (auto simp: handle_sync_def TrimPrefix_def l_def split: option.splits prod.splits sum.splits)
  moreover have "(''PGPASSFILE'', so_PassFile (ls_Options l)) \<in> set (cn_Env (pgAdminContainer True console img))"
    by (simp add: l_def sidecar_defaults_def rendered_options_def pgAdminContainer_def adminSyncPassfileMountPath_def)
  moreover have "ls_Addr l = CHR '':'' # Itoa SidecarPort" "SidecarPort \<in> pp_ContainerPort ` set (cn_Ports side)"
    "map_option pb_Handler (cn_ReadinessProbe side) = Some (TCPSocket SidecarPort)"
    by (simp_all add: l_def side_def adminSyncSidecarContainer_def SidecarPort_def port_text)
  moreover have "ho_ReadFile H s2 (ls_CertFile l) = Some (at data SidecarSecretCertKey)"
    "ho_ReadFile H s2 (ls_KeyFile l) = Some (at data SidecarSecretKeyKey)"
    "ls_Token l = at data SidecarSecretTokenKey"
    using read by (simp_all add: l_def rendered_paths(1,2))
  ultimately show ?thesis
    using init_ok dir unfolding init_def side_def
    by (auto simp: adminSyncInitContainer_def adminSyncSidecarContainer_def)
qed

text \<open>A pod whose files are a map from paths to contents.\<close>

definition map_files :: "(string \<rightharpoonup> string) files" where
  "map_files =
     \<lparr>fl_Executable = (\<lambda>s. Some ''/manager''), fl_Open = (\<lambda>s p. s p \<noteq> None), fl_Stat = (\<lambda>s p. Some 493),
      fl_OpenFile = (\<lambda>s p m. (True, s(p \<mapsto> []))), fl_Copy = (\<lambda>s p q. (True, s(q := s p))), fl_Close = (\<lambda>s p. (True, s))\<rparr>"

definition map_host :: "(string \<rightharpoonup> string) host" where
  "map_host =
     \<lparr>ho_ReadFile = (\<lambda>s p. s p), ho_WriteFile = (\<lambda>s p c. (True, s(p \<mapsto> c))),
      ho_Rename = (\<lambda>s p q. (True, s(q := s p, p := None))), ho_MkdirAll = (\<lambda>s p. (True, s)),
      ho_CreateTemp = (\<lambda>s p. (Some ''/tmp/x'', s(''/tmp/x'' \<mapsto> []))), ho_Remove = (\<lambda>s p. s(p := None)),
      ho_Output = (\<lambda>s argv. (None, [])), ho_Run = (\<lambda>s argv. (True, s)), ho_Decode = (\<lambda>b. None)\<rparr>"

lemma map_files_ok: "files_ok map_files (\<lambda>s. s)"
  by (simp add: files_ok_def map_files_def)

definition idle_lib :: "(unit, unit, unit) manager_lib" where
  "idle_lib =
     \<lparr>ml_flags = Map.empty, ml_NewManager = (\<lambda>_. None), ml_Discovery = None, ml_SidecarClient = None,
      ml_Setup = (\<lambda>_ _. False), ml_AddCheck = (\<lambda>_. False)\<rparr>"

text \<open>The image's own files, and the generated Secret at its mount.\<close>

definition operator_files :: "string \<rightharpoonup> string" where "operator_files = [''/manager'' \<mapsto> ''elf'']"

definition secret_files :: "smap \<Rightarrow> string \<rightharpoonup> string" where
  "secret_files data p =
     (if take (length adminSyncTLSMountPath + 1) p = adminSyncTLSMountPath @ ''/''
      then Some (at data (drop (length adminSyncTLSMountPath + 1) p)) else None)"

theorem rendered_admin_sync_starts_witness:
  "\<exists>s' l. manager_main map_files map_host idle_lib [] (tl (cn_Command (adminSyncInitContainer ''op:1''))) operator_files
        = (Exited 0, s')
     \<and> s' ''/run/pgadmin/admin-sync/manager'' = Some ''elf''
     \<and> manager_main map_files map_host idle_lib [] (tl (cn_Command (adminSyncSidecarContainer sample_console ''pgadmin:9'')))
        (secret_files (projr (generateAdminSyncMaterial sample_crypto)))
        = (SidecarListening l, secret_files (projr (generateAdminSyncMaterial sample_crypto)))
     \<and> ls_Addr l = '':9600''"
proof -
  obtain data where data: "generateAdminSyncMaterial sample_crypto = Inr data"
    by (simp add: generateAdminSyncMaterial_def sample_crypto_def or_fail_def Let_def)
  have cok: "crypto_ok sample_crypto" by (simp add: crypto_ok_def sample_crypto_def)
  have exe: "fl_Executable map_files operator_files = Some ''/manager''" by (simp add: map_files_def)
  have mounted: "ho_ReadFile map_host (secret_files data) (adminSyncTLSMountPath @ ''/'' @ k) = Some (at data k)" for k
    by (simp add: map_host_def secret_files_def)
  have target: "hd (cn_Command (adminSyncSidecarContainer sample_console ''pgadmin:9'')) = ''/run/pgadmin/admin-sync/manager''"
    by (simp add: adminSyncSidecarContainer_def adminSyncBinMountPath_def)
  have cmd: "tl (cn_Command (adminSyncInitContainer ''op:1'')) = ''admin-sync-init'' # tl (tl (cn_Command (adminSyncInitContainer ''op:1'')))"
    by (simp add: adminSyncInitContainer_def)
  obtain s' where run: "manager_main map_files map_host idle_lib [] (tl (cn_Command (adminSyncInitContainer ''op:1''))) operator_files = (Exited 0, s')"
    by (subst (asm) cmd, simp add: manager_main_def init_command[OF exe, of "''op:1''" sample_console "''pgadmin:9''"])
      (simp add: copyFile_def map_files_def operator_files_def)
  note T = rendered_admin_sync_starts[OF map_files_ok exe data cok mounted, where M = idle_lib and d = "[]"
      and op = "''op:1''" and console = sample_console and img = "''pgadmin:9''" and G = sync_lib]
  from T run target show ?thesis by (auto simp: data port_text SidecarPort_def operator_files_def)
qed

section \<open>Optional APIs\<close>

lemma manager_main_Managing:
  assumes "manager_main F H M d args s = (Managing R, s')"
  obtains R0 vals syncer where "R = wire R0 (discoverAPIs (ml_Discovery M)) vals d syncer"
    "ml_SidecarClient M = Some syncer" "s' = s"
proof -
  have "manage M d args = Managing R" "s' = s"
    using assms by (auto simp: manager_main_def split: list.splits if_splits prod.splits sum.splits)
  then obtain vals R0 syncer where "R = wire R0 (discoverAPIs (ml_Discovery M)) vals d syncer" "ml_SidecarClient M = Some syncer"
    by (auto simp: manage_def Let_def split: sum.splits option.splits if_splits)
  with that \<open>s' = s\<close> show thesis by blast
qed

lemma discovered:
  "aa_RouteAPI (discoverAPIs d) \<longleftrightarrow> (\<exists>f kinds. d = Some f \<and> f ''route.openshift.io/v1'' = Some kinds \<and> ''Route'' \<in> set kinds)"
  "aa_GatewayAPI (discoverAPIs d) \<longleftrightarrow>
     (\<exists>f kinds. d = Some f \<and> f ''gateway.networking.k8s.io/v1'' = Some kinds \<and> ''HTTPRoute'' \<in> set kinds)"
  by (auto simp: discoverAPIs_def apiServed_def split: option.splits)

text \<open>
  An API the cluster does not serve, or whose discovery fails, is never called: the running
  manager reports a console that asks for it as not exposed and only removes the other kinds.
  A running manager always synchronizes pgAdmin.
\<close>

theorem unserved_api_is_reported:
  assumes run: "manager_main F H M d args s = (Managing R, s')"
    and type: "ex_Type (con_exposure console) = ExposureTypeRoute"
    and unserved: "\<nexists>f kinds. ml_Discovery M = Some f \<and> f ''route.openshift.io/v1'' = Some kinds \<and> ''Route'' \<in> set kinds"
  shows "reconcileExposure G K (rn_platform R) console =
      and_then (deleteOtherExposures G K (rn_platform R) (published_url console) ''route'') (\<lambda>_. lift_result
        (route_condition K ConditionFalse ReasonNotAdmitted ''OpenShift Route API is not served'' (published_url console)))
    \<and> rn_AdminSync R \<noteq> None"
proof -
  obtain R0 vals syncer where R: "R = wire R0 (discoverAPIs (ml_Discovery M)) vals d syncer"
    by (rule manager_main_Managing[OF run])
  have "\<not> pl_RouteAPI (rn_platform R)" using unserved unfolding discovered(1)[symmetric] by (simp add: R wire_def)
  from exposure_branches(3)[OF type this] show ?thesis by (simp add: R wire_def)
qed

end
