(* ===== verification/Spec2Isabelle.thy ===== *)
theory Spec2Isabelle
  imports Proxy_Main Pages Route_Sort Access_Request Go_Duration Manager
begin

text \<open>
  pgToolBox runs PostgreSQL consoles on Kubernetes. It is two programs. The operator
  (\<open>cmd/manager\<close>) reconciles three custom resources: a PgConsole becomes a Deployment with an
  authentication proxy, the console application, optionally pgAdmin with a sidecar and an
  evidence viewer, and everything around it (Secrets, roles, network policy, exposure); a
  PgToolBoxUser becomes an entry of the proxy's configuration; an approved
  PgToolBoxAccessRequest becomes a PgToolBoxUser. The proxy (\<open>cmd/proxy\<close>) signs people in,
  keeps their session in a sealed cookie, compares their level with the route's and forwards
  to the containers beside it. The sidecar in the pgAdmin container's pod is the operator's
  own binary, copied there, which the operator calls to install connections and credentials.

  This theory imports the components and holds the properties that span them.

  \<^bold>\<open>How the code is represented.\<close> A struct is a record whose fields keep the Go names behind a
  prefix; an enumeration of errors is a datatype; a Go string or byte slice is a list of bytes
  (\<^typ>\<open>string\<close>); a Go map is a finite map. Fallible code returns a sum with the error on the
  left. A reconcile step is a function from the API server's state to a result and the state
  after it, threaded by \<open>and_then\<close>; the sidecar's handler does the same on the pod's files.
  A handler of the proxy is a function from the request, the environment and the random bytes
  it draws to the response. The configuration watcher, which waits for events, is an
  inductive step relation. Durations are integers of nanoseconds, and sums at 64 bits are
  written out where the code can overflow.

  \<^bold>\<open>Theories and sources\<close> (paths below \<open>src/\<close>).

  \<^item> Libraries: \<open>Prelude\<close> (bytes, results, lists); \<open>Go_Strings\<close> (\<open>strings\<close>, UTF-8, \<open>strconv\<close>,
    hex and base64), \<open>Go_Url\<close>, \<open>Go_Flag\<close> (command lines), \<open>Go_Duration\<close> (durations as text, with
    \<open>Duration\<close> of \<open>internal/proxy/config/config.go\<close>), \<open>Http\<close> (requests, cookies, JSON decoding).
  \<^item> The proxy: \<open>Session\<close> (\<open>internal/proxy/session\<close>); \<open>Proxy_Config\<close> (\<open>internal/proxy/config\<close>);
    \<open>Server\<close> (\<open>internal/proxy/server\<close>: runtime, routing, authorization, header rewrite, access
    requests, mux) and \<open>Route_Sort\<close> (the loops that order the routes); \<open>Provider\<close>, \<open>Local_Auth\<close>, \<open>Oidc\<close>, \<open>Openshift\<close> (\<open>internal/proxy/local\<close>, \<open>oidc\<close>,
    \<open>openshift\<close>); \<open>Pages\<close>; \<open>Proxy_Main\<close> (\<open>cmd/proxy/main.go\<close>, \<open>config/watch.go\<close>, and the bcrypt
    helper under \<open>hack\<close>).
  \<^item> The operator's vocabulary: \<open>Kube\<close> (metadata, clients, the contract of a reconcile step),
    \<open>Api\<close> (\<open>api/v1alpha1\<close>), \<open>Conditions\<close>, \<open>Render\<close> (checksums), \<open>Shared\<close> (names, labels, credentials),
    \<open>Pods\<close> (the pod template's types).
  \<^item> The operator's controllers: \<open>Access_Request\<close> (\<open>internal/controller/pgtoolboxaccessrequest\<close>);
    and for \<open>internal/controller/pgconsole\<close>, one theory per file or pair of files: \<open>Users\<close>
    (with the bootstrap administrator), \<open>Proxy_Render\<close>, \<open>Console_Config\<close>, \<open>Rbac\<close>,
    \<open>Network_Policy\<close>, \<open>Exposure\<close>, \<open>Evidence_Token\<close>, \<open>Evidence\<close>, \<open>Workload\<close>, \<open>Console_Secrets\<close>,
    \<open>Admin_Sync\<close> (with \<open>internal/adminsync\<close>'s client), \<open>Console_Controller\<close>.
  \<^item> The pod: \<open>Sidecar\<close> (\<open>internal/adminsync/sidecar_server.go\<close>) and \<open>Manager\<close> (\<open>cmd/manager\<close>, the
    three processes of the operator's binary).

  \<^bold>\<open>What is shown.\<close>

  \<^item> Authorization: nothing is forwarded without a live session of sufficient level; the
    upstream is told exactly that session's identity; the route is the longest match, and the
    loops that order the routes end without leaving the slice (\<open>Route_Sort\<close>); sessions
    survive key rotation and every login of every provider mints what the configuration grants
    (\<open>Session\<close>, \<open>Server\<close>, the providers, \<open>login_then_proxied\<close> below). Guessing is bounded
    (\<open>Local_Auth\<close>), redirects stay on the origin, CSRF tokens bind a session.
  \<^item> Configuration: \<open>Parse\<close> accepts exactly what a declarative predicate describes; the watcher
    only ever serves a validated configuration and does reload a changed one.
  \<^item> Rendering: the users, the pod, the roles, the policy and the configuration the operator
    writes are valid and confined, credentials reach only the containers meant to hold them.
    \<open>specification_is_enforced\<close> composes rendering, the Secret, the pod's environment, start-up and
    authorization into one statement from the specification to the proxy's decision.
  \<^item> Convergence: each reconcile step is an instance of the locale \<open>convergence\<close>: success
    reaches a state in which the step succeeds again without a write. Generated keys and
    tokens are kept and never roll back; one kind of exposure exists at a time; conditions
    published are true of the state (\<open>Console_Controller\<close>, \<open>Exposure\<close>, \<open>Evidence\<close>).
  \<^item> The pgAdmin pod: its own command lines start it (\<open>Manager\<close>), a sync provisions every account
    (\<open>Sidecar\<close>), and what the operator reports as synced is in the pod (\<open>Admin_Sync\<close>).
  \<^item> Grants: \<open>form_becomes_grant\<close> follows an identity from the form over the stored request and
    its approval to the user that is created.

  \<^bold>\<open>Interfaces.\<close> \<open>convergence\<close> (a reconcile step; interpreted for the bootstrap user, grants,
  the configuration Secret, the applied objects, the policy, the Deployment, the sidecar's
  Secret and the sync); \<open>conditioned_kind\<close> (an object with conditions; for all three custom
  resources); \<open>login_provider\<close> (for the three providers); \<open>failure_limiter\<close>; \<open>prefix_code\<close>
  (self-delimiting encodings; for the three layers of the checksum's framing).

  \<^bold>\<open>Parameters.\<close> Code outside the repository is an argument, with what its documentation
  promises as a named hypothesis: \<open>golib\<close> (AES-GCM, SHA-256, HMAC, bcrypt, JSON text, Unicode
  case), \<open>kube\<close> with \<open>owners_ok\<close> and \<open>conditions_ok\<close>, API clients with \<open>client_ok\<close> and, for
  exposures, \<open>platform_ok\<close>; the pod's \<open>host\<close> with \<open>host_ok\<close> and the init container's \<open>files\<close>
  with \<open>files_ok\<close>; the YAML library with \<open>yaml_ok\<close>; certificates with \<open>crypto_ok\<close>; the identity
  providers, the object store's decoder and fingerprint, and controller-runtime's manager.
  Every property with such a hypothesis has a witness on concrete functions.

  \<^bold>\<open>Bounds.\<close> No function of the model uses fuel: loops over texts and arguments are total
  functions, by a measure where a turn consumes its input, and the index loops of
  \<open>Route_Sort\<close> are partial functions shown to return. Bounds in statements are the
  program's own: ten failures per window, one second of debounce, 64-bit durations, 63-byte
  names, the message limit of an access request.

  \<^bold>\<open>Not modelled.\<close> The generated deep copies (the identity on values) and the registration of
  API types; logging and metrics; the listeners and their shutdown; the text of pages beyond
  what is passed to the templates; the YAML decoder; the content of certificates. Time-outs of
  HTTP calls appear as failed calls.
\<close>

section \<open>Signing in and being let through\<close>

text \<open>One login attempt, with whatever else its provider's handler depends on.\<close>

datatype attempt =
    LocalAttempt local_provider int
  | OIDCAttempt oidc_idp oidc_provider
  | OpenShiftAttempt os_idp os_provider "string option"

fun login_via :: "golib \<Rightarrow> Env \<Rightarrow> int \<Rightarrow> string option \<Rightarrow> attempt \<Rightarrow> request \<Rightarrow> response" where
  "login_via G e now rnd (LocalAttempt p t1) r = snd (handleSubmit G p e t1 now rnd empty_response r)"
| "login_via G e now rnd (OIDCAttempt idp p) r = oidc_handleCallback G idp p e now rnd empty_response r"
| "login_via G e now rnd (OpenShiftAttempt idp p f) r = openshift_handleCallback G idp p f e now rnd empty_response r"

text \<open>
  What the cryptographic and JSON libraries document, at the values one login uses: keys of
  32 bytes, decryption inverts encryption, and the session payload survives JSON.
\<close>

definition libraries_ok :: "golib \<Rightarrow> Env \<Rightarrow> int \<Rightarrow> string \<Rightarrow> bool" where
  "libraries_ok G e now n =
     ((\<forall>x. length (sha256_Sum256 G x) = 32) \<and> length n = NonceSize
      \<and> (\<forall>p. gcm_inverts G (primary_key (rt_Codec (en_Runtime e))) n p)
      \<and> (\<forall>d. d_Expiry d = Unix (now + sc_MaxAge (env_session e))
             \<longrightarrow> json_parse G (json_text G (Data_json d)) = Some (Data_json d))
      \<and> - (2 ^ 63) \<le> Unix (now + sc_MaxAge (env_session e)) \<and> Unix (now + sc_MaxAge (env_session e)) < 2 ^ 63)"

lemma login_session_read:
  assumes "libraries_ok G e now n" "NewCodec G (s # ss) = Inr (rt_Codec (en_Runtime e))"
    and "c \<in> set (rs_Cookies (login_via G e now (Some n) a r))" "ck_Name c = sc_CookieName (env_session e)"
    and "request_Cookie r' (sc_CookieName (env_session e)) = Some (ck_Value c)"
    and "ReadCookie G (rt_Codec (en_Runtime e)) later r' (sc_CookieName (env_session e)) = Inr d"
  shows "d_Level d = level_of G e (d_Subject d)"
proof (cases a)
  case (LocalAttempt p t1)
  with assms show ?thesis
    using local_login.minted_session_read[of c G e now n "(p, t1)" r s ss r' later d]
    by (auto simp: libraries_ok_def)
next
  case (OIDCAttempt idp p)
  with assms show ?thesis
    using oidc_login.minted_session_read[of c G e now n "(idp, p)" r s ss r' later d]
    by (auto simp: libraries_ok_def)
next
  case (OpenShiftAttempt idp p f)
  with assms show ?thesis
    using openshift_login.minted_session_read[of c G e now n "(idp, p, f)" r s ss r' later d]
    by (auto simp: libraries_ok_def)
qed


section \<open>Witnesses\<close>

text \<open>A JSON syntax for session payloads that expire at a fixed instant: their strings in hex.\<close>

fun flat_text :: "json \<Rightarrow> string" where
  "flat_text (JObj [(_, JStr s), (_, JStr l), (_, JInt _), (_, JStr p)]) =
     hex_EncodeToString s @ CHR '','' # hex_EncodeToString l @ CHR '','' # hex_EncodeToString p"
| "flat_text _ = []"

definition flat_parse :: "int \<Rightarrow> string \<Rightarrow> json option" where
  "flat_parse x t =
     (case map hex_DecodeString (Split t CHR '','') of
        [Some s, Some l, Some p] \<Rightarrow>
          Some (Data_json \<lparr>d_Subject = s, d_Level = l, d_Expiry = x, d_ProviderMode = p\<rparr>)
      | _ \<Rightarrow> None)"

definition flat_lib :: "int \<Rightarrow> golib" where
  "flat_lib x = (sample_lib JNull)\<lparr>json_text := flat_text, json_parse := flat_parse x\<rparr>"

lemma hex_no_comma: "CHR '','' \<notin> set (hex_EncodeToString s)"
proof -
  have "from_hex CHR '','' = None" by code_simp
  then have "hex_digit n \<noteq> CHR '',''" if "n < 16" for n using from_hex_digit[OF that] by auto
  moreover have "byte c div 16 < 16" for c by (simp add: div_less_iff_less_mult)
  ultimately show ?thesis unfolding hex_EncodeToString_def set_concat set_map
    by (auto simp: mod_less_divisor dest!: sym[of "CHR '',''"])
qed

lemma flat_roundtrip:
  assumes "d_Expiry d = x"
  shows "flat_parse x (flat_text (Data_json d)) = Some (Data_json d)"
proof -
  have "Split (flat_text (Data_json d)) CHR '',''
      = [hex_EncodeToString (d_Subject d), hex_EncodeToString (d_Level d), hex_EncodeToString (d_ProviderMode d)]"
    by (simp add: Data_json_def Split_append Split_absent hex_no_comma)
  with assms show ?thesis by (simp add: flat_parse_def hex_roundtrip) (simp add: Data_json_def)
qed

definition login_expiry :: int where
  "login_expiry = Unix (sc_MaxAge (cf_Session sample_config))"

abbreviation login_lib :: golib where "login_lib \<equiv> flat_lib login_expiry"

lemma login_lib_simps:
  "sha256_Sum256 login_lib = sha256_Sum256 (sample_lib JNull)" "gcm_Seal login_lib = gcm_Seal (sample_lib JNull)"
  "gcm_Open login_lib = gcm_Open (sample_lib JNull)" "unicode_ToLower login_lib = (\<lambda>r. r)"
  "json_text login_lib = flat_text" "json_parse login_lib = flat_parse login_expiry"
  "bcrypt_Compare login_lib h p = (h = ''$2a$10$'' @ p)"
  by (simp_all add: flat_lib_def)

lemma login_lib_crypto:
  "length (sha256_Sum256 login_lib x) = 32" "gcm_inverts login_lib k m p"
  by (simp_all add: login_lib_simps gcm_inverts_def min_def)

lemma login_expiry_range: "- (2 ^ 63) \<le> login_expiry" "login_expiry < 2 ^ 63" "0 < login_expiry"
  by (simp_all add: login_expiry_def sample_config_def Unix_def second_def)

lemma login_config_ok: "config_ok login_lib sample_config"
proof -
  have "bcrypt_CostOk login_lib = bcrypt_CostOk (sample_lib JNull)" "unicode_ToLower login_lib = unicode_ToLower (sample_lib JNull)"
    by (simp_all add: flat_lib_def)
  then show ?thesis using sample_config_ok[of JNull] config_ok_cong[of login_lib "sample_lib JNull"] by simp
qed

text \<open>Jane signs in with her password and opens pgAdmin.\<close>

definition jane_session :: Data where
  "jane_session = NewData 0 ''jane'' LevelDBA ModeLocal (sc_MaxAge (cf_Session sample_config))"


section \<open>From the console's specification to the proxy's decisions\<close>

text \<open>
  What the YAML library documents of the configuration type, at documents that set no
  duration: what was marshalled is read back. (A duration is marshalled as a number and read
  as text, so documents that set one are left out; the operator sets none.)
\<close>

definition yaml_ok :: "yaml \<Rightarrow> bool" where
  "yaml_ok Y =
     (\<forall>cfg doc. sc_MaxAge (cf_Session cfg) = 0 \<and> sv_UpstreamDialTimeout (cf_Server cfg) = 0
        \<and> sv_UpstreamResponseHeaderTimeout (cf_Server cfg) = 0 \<and> yaml_Marshal Y cfg = Inr doc
        \<longrightarrow> yaml_Unmarshal Y doc = Some cfg)"

definition console_route :: RouteConfig where
  "console_route = \<lparr>rc_PathPrefix = ''/'', rc_Upstream = loopbackUpstream consolePort, rc_MinLevel = LevelView\<rparr>"

text \<open>The route a console's specification means for a path.\<close>

definition meant_route :: "PgConsole \<Rightarrow> string \<Rightarrow> RouteConfig" where
  "meant_route console path =
     (if pgAdminEnabled console \<and> pathMatchesPrefix path ''/pgadmin'' then pgadmin_route (pgadmin_level console)
      else console_route)"

lemma assembled:
  assumes "assemble_config G console key (pgAdminEnabled console) users = Inr cfg"
  shows "sc_MaxAge (cf_Session cfg) = 0" "sv_UpstreamDialTimeout (cf_Server cfg) = 0"
    "sv_UpstreamResponseHeaderTimeout (cf_Server cfg) = 0"
    "pgAdminEnabled console \<Longrightarrow> Level_Valid (pgadmin_level console)"
  using assms by (auto simp: assemble_config_def base_config_def Let_def split: if_splits)

lemma assembled_routes:
  assumes "assemble_config G console key (pgAdminEnabled console) users = Inr cfg"
  shows "cf_Routes (served_config G console key users)
    = (if pgAdminEnabled console then [pgadmin_route (pgadmin_level console)] else []) @ [console_route]"
  using assembled(4)[OF assms]
  by (auto simp: served_config_def Let_def setDefaults_def base_config_def pgadmin_route_def console_route_def)

lemma meant_longest:
  assumes "assemble_config G console key (pgAdminEnabled console) users = Inr cfg"
  shows "longest_match (served_config G console key users) path (meant_route console path)"
  by (auto simp: longest_match_def assembled_routes[OF assms] meant_route_def pgadmin_route_def console_route_def
      pathMatchesPrefix_def)

lemma current_secret_read:
  assumes "proxy_secret_current G K L console users x" "yaml_ok (rl_Yaml L)"
  obtains key cfg ws where "key = at (se_Data x) proxySessionKeyName"
    "assemble_config G console key (pgAdminEnabled console) users = Inr cfg"
    "Parse G (yaml_Unmarshal (rl_Yaml L)) (at (se_Data x) proxyConfigFileName) = Inr (served_config G console key users, ws)"
proof -
  let ?key = "at (se_Data x) proxySessionKeyName" and ?doc = "at (se_Data x) proxyConfigFileName"
  from assms(1) have "renderProxyConfig G (rl_Yaml L) console ?key (pgAdminEnabled console) users = Inr ?doc"
    by (simp add: proxy_secret_current_def)
  then obtain cfg r where cfg: "assemble_config G console ?key (pgAdminEnabled console) users = Inr cfg"
    and m: "yaml_Marshal (rl_Yaml L) cfg = Inr ?doc" and r: "Parse G (yaml_Unmarshal (rl_Yaml L)) ?doc = Inr r"
    by (rule renderProxyConfig_cases)
  have "yaml_Unmarshal (rl_Yaml L) ?doc = Some cfg"
    using assms(2) m assembled(1-3)[OF cfg] unfolding yaml_ok_def by blast
  with r assemble_config_Inr[OF cfg] have "fst r = served_config G console ?key users"
    by (auto simp: Parse_def Let_def split: if_splits)
  with that[OF refl cfg, of "snd r"] r show thesis by (metis prod.collapse)
qed

lemma start_each_available:
  "start_each G su cfg ms = Inr ps \<Longrightarrow> m \<in> set ms \<Longrightarrow> setupProvider G su cfg m = Inr p \<Longrightarrow> p \<in> set ps"
  by (induction ms arbitrary: ps) (auto split: sum.splits setup_error.splits)

lemma local_console_starts:
  assumes ok: "config_ok G cfg" and ld: "Load G unmarshal (su_File su path) = Inr (cfg, ws)" and "path \<noteq> []"
    and "ModeLocal \<in> set (pc_Modes (cf_Provider cfg))" "su_GenHash su dummyPassword \<noteq> None"
  obtains e mux where "run G unmarshal su path = Inr (e, mux)" "BuildRuntime G cfg = Inr (en_Runtime e)"
    "ModeLocal \<in> set (en_Available e)"
proof -
  obtain rt where rt: "BuildRuntime G cfg = Inr rt" using config_ok_BuildRuntime[OF ok] by blast
  obtain ps where ps: "start_each G su cfg (pc_Modes (cf_Provider cfg)) = Inr ps"
    using ok start_each_no_panic[of cfg "pc_Modes (cf_Provider cfg)" G su] by (auto simp: config_ok_def)
  obtain q where q: "setupProvider G su cfg ModeLocal = Inr (PLocal q)"
    using assms(5) by (auto simp: setupProvider_def mode_defs available_or_def local_New_def)
  with ps assms(4) have "PLocal q \<in> set ps" by (rule start_each_available)
  moreover from this have "ps \<noteq> []" by auto
  ultimately show thesis
    using that[where mux = "fold provider_Register ps New" and e = "(NewEnv rt)\<lparr>en_Available := map provider_Mode ps,
        en_AccessRequests := (if ar_Enabled (cf_AccessRequest cfg) then su_InCluster su else None)\<rparr>"]
      rt ps assms(3) ld by (force simp: run_def setupProviders_def NewEnv_def)
qed

lemma rendered_startup:
  assumes cur: "proxy_secret_current G K L console users x" and y: "yaml_ok (rl_Yaml L)"
    and loc: "au_Local (con_auth console) \<noteq> None" "su_GenHash su dummyPassword \<noteq> None"
    and mnt: "su_File su (proxyConfigMountPath @ ''/'' @ proxyConfigFileName) = Some (at (se_Data x) proxyConfigFileName)"
  obtains e mux cfg0 key where
    "proxy_main G (yaml_Unmarshal (rl_Yaml L)) su (env_value (proxyContainer console img)) (cn_Args (proxyContainer console img))
       = Inr (e, mux)"
    "assemble_config G console key (pgAdminEnabled console) users = Inr cfg0"
    "config_ok G (served_config G console key users)"
    "BuildRuntime G (served_config G console key users) = Inr (en_Runtime e)" "ModeLocal \<in> set (en_Available e)"
proof -
  obtain key cfg ws where cfg: "assemble_config G console key (pgAdminEnabled console) users = Inr cfg"
    and p: "Parse G (yaml_Unmarshal (rl_Yaml L)) (at (se_Data x) proxyConfigFileName) = Inr (served_config G console key users, ws)"
    by (rule current_secret_read[OF cur y])
  let ?path = "proxyConfigMountPath @ ''/'' @ proxyConfigFileName"
  have ld: "Load G (yaml_Unmarshal (rl_Yaml L)) (su_File su ?path) = Inr (served_config G console key users, ws)"
    using p mnt by (simp add: Load_def)
  have ok: "config_ok G (served_config G console key users)" by (rule Load_config_ok[OF ld])
  have "?path \<noteq> []" by simp
  moreover have "ModeLocal \<in> set (pc_Modes (cf_Provider (served_config G console key users)))"
    using loc(1) provider_config_modes(1) by simp
  ultimately obtain e mux where e: "run G (yaml_Unmarshal (rl_Yaml L)) su ?path = Inr (e, mux)"
    "BuildRuntime G (served_config G console key users) = Inr (en_Runtime e)" "ModeLocal \<in> set (en_Available e)"
    by (rule local_console_starts[OF ok ld _ _ loc(2)])
  have "env_value (proxyContainer console img) configFileEnv = ?path" "cn_Args (proxyContainer console img) = []"
    by (simp_all add: env_value_def proxyContainer_def configFileEnv_def)
  then have "proxy_main G (yaml_Unmarshal (rl_Yaml L)) su (env_value (proxyContainer console img))
      (cn_Args (proxyContainer console img)) = Inr (e, mux)"
    using e(1) by (simp add: proxy_main_def flag_Parse_Nil flag_or_def)
  from that[OF this cfg ok e(2,3)] show thesis .
qed


text \<open>A YAML library that knows one document, the sample console's with two users.\<close>

definition known_users :: "User list" where "known_users = cf_Users sample_config"

definition known_config :: "Config option" where
  "known_config = (case assemble_config (sample_lib JNull) sample_console ''0123456789abcdef'' True known_users of
     Inr cfg \<Rightarrow> Some cfg | Inl _ \<Rightarrow> None)"

definition one_document :: yaml where
  "one_document =
     \<lparr>yaml_Marshal = (\<lambda>cfg. if Some cfg = known_config then Inr ''document'' else Inl ''unknown''),
      yaml_Unmarshal = (\<lambda>_. known_config)\<rparr>"

definition one_document_lib :: render_lib where
  "one_document_lib = sample_render_lib\<lparr>rl_Yaml := one_document\<rparr>"

definition pod_startup :: startup where
  "pod_startup = sample_startup\<lparr>su_File := (\<lambda>_. Some ''document'')\<rparr>"

lemma one_document_ok: "yaml_ok (rl_Yaml one_document_lib)"
  by (auto simp: yaml_ok_def one_document_lib_def one_document_def split: if_splits)

lemma one_document_render:
  "renderProxyConfig (sample_lib JNull) (rl_Yaml one_document_lib) sample_console ''0123456789abcdef''
     (pgAdminEnabled sample_console) known_users = Inr ''document''"
proof -
  have u: "users_ok (sample_lib JNull) (au_Local (con_auth sample_console) \<noteq> None) known_users"
    using sample_config_ok[of JNull] by (simp add: config_ok_def known_users_def sample_spec_def sample_config_def)
  obtain r where r: "renderProxyConfig (sample_lib JNull) (rl_Yaml one_document_lib) sample_console ''0123456789abcdef''
     (pgAdminEnabled sample_console) known_users = Inr r"
    by (rule render_total[OF sample_renderable(1) _ u, of "''0123456789abcdef''" "rl_Yaml one_document_lib"])
      (auto simp: one_document_lib_def one_document_def known_config_def sample_renderable(2))
  then have "r = ''document''"
    by (rule renderProxyConfig_cases) (auto simp: one_document_lib_def one_document_def split: if_splits)
  with r show ?thesis by simp
qed


section \<open>From a form to a grant\<close>


text \<open>Jane's form, created as \<open>pgreq-x7k2p\<close> and approved at level \<open>view\<close>.\<close>

definition janes_request :: PgToolBoxAccessRequest where
  "janes_request = (new_access_request ''x7k2p'' ''console'' ''db'' ''jane'' [])
     \<lparr>req_Status := \<lparr>rt_ObservedGeneration = 0, rt_State = AccessRequestStateApproved, rt_RequestedLevel = RoleLevelView,
        rt_DecidedBy = ''root'', rt_DecidedAt = Some 0, rt_Conditions = []\<rparr>\<rparr>"


end
